(* ===== verification/Prelude.thy ===== *)
theory Prelude
  imports Main "HOL-Library.Sublist"
begin

text \<open>
  What every component of the model shares.

  \<^item> Effects. The services are TypeScript \<open>async\<close> methods over injected clients. A method is a
    function from the state of the outside world to a thrown exception or a value, and the world
    after it. The type of the world is a parameter: nothing is known about it beyond what a
    client's documented laws say. \<open>await m k\<close> is \<open>const x = await m; k\<close>.
  \<^item> Strings of JavaScript as lists of characters: truthiness, \<open>startsWith\<close>, \<open>split\<close> and
    decimal integers with \<open>parseInt\<close>.
  \<^item> The facts about them, collected in \<open>io_defs\<close> (unfold the effects) and declared as simp rules.
\<close>

named_theorems io_defs \<open>definitions of the effect combinators\<close>

section \<open>Exceptions and effects\<close>

text \<open>\<open>Http status message\<close> is a Nest \<open>HttpException\<close>, \<open>JsError message\<close> any other \<open>Error\<close>.\<close>

datatype exn = Http nat string | JsError string

type_synonym ('w, 'a) io = "'w \<Rightarrow> (exn + 'a) \<times> 'w"

definition return :: "'a \<Rightarrow> ('w, 'a) io" where
  [io_defs]: "return a w = (Inr a, w)"

definition throw :: "exn \<Rightarrow> ('w, 'a) io" where
  [io_defs]: "throw e w = (Inl e, w)"

definition await :: "('w, 'a) io \<Rightarrow> ('a \<Rightarrow> ('w, 'b) io) \<Rightarrow> ('w, 'b) io" where
  [io_defs]: "await m k w = (case m w of (Inl e, w') \<Rightarrow> (Inl e, w') | (Inr a, w') \<Rightarrow> k a w')"

definition try_catch :: "('w, 'a) io \<Rightarrow> (exn \<Rightarrow> ('w, 'a) io) \<Rightarrow> ('w, 'a) io" where
  [io_defs]: "try_catch m h w = (case m w of (Inl e, w') \<Rightarrow> h e w' | (Inr a, w') \<Rightarrow> (Inr a, w'))"

text \<open>\<open>p.catch(() => {})\<close> on a promise whose value is not used.\<close>

definition swallow :: "('w, 'a) io \<Rightarrow> ('w, unit) io" where
  [io_defs]: "swallow m = try_catch (await m (\<lambda>_. return ())) (\<lambda>_. return ())"

definition io_when :: "bool \<Rightarrow> ('w, unit) io \<Rightarrow> ('w, unit) io" where
  [io_defs]: "io_when b m = (if b then m else return ())"

fun for_each :: "'a list \<Rightarrow> ('a \<Rightarrow> ('w, unit) io) \<Rightarrow> ('w, unit) io" where
  "for_each [] f = return ()"
| "for_each (x # xs) f = await (f x) (\<lambda>_. for_each xs f)"

lemma await_return [simp]: "await (return a) k = k a"
  by (rule ext) (simp add: io_defs)

lemma await_throw [simp]: "await (throw e) k = throw e"
  by (rule ext) (simp add: io_defs)

lemma await_return_right [simp]: "await m return = m"
  by (rule ext) (simp add: io_defs split: prod.splits sum.splits)

lemma await_assoc [simp]: "await (await m k) l = await m (\<lambda>x. await (k x) l)"
  by (rule ext) (simp add: io_defs split: prod.splits sum.splits)

lemma try_catch_return [simp]: "try_catch (return a) h = return a"
  by (rule ext) (simp add: io_defs)

lemma try_catch_throw [simp]: "try_catch (throw e) h = h e"
  by (rule ext) (simp add: io_defs)

lemma return_apply [simp]: "return a w = (Inr a, w)"
  by (simp add: return_def)

lemma throw_apply [simp]: "throw e w = (Inl e, w)"
  by (simp add: throw_def)

lemma await_Inr: "m w = (Inr a, w') \<Longrightarrow> await m k w = k a w'"
  by (simp add: await_def)

lemma await_Inl: "m w = (Inl e, w') \<Longrightarrow> await m k w = (Inl e, w')"
  by (simp add: await_def)

lemma try_catch_Inr: "m w = (Inr a, w') \<Longrightarrow> try_catch m h w = (Inr a, w')"
  by (simp add: try_catch_def)

lemma try_catch_Inl: "m w = (Inl e, w') \<Longrightarrow> try_catch m h w = h e w'"
  by (simp add: try_catch_def)

text \<open>A computation that returned went through its first step.\<close>

lemma await_eq_Inr_iff:
  "await m k w = (Inr b, w'') \<longleftrightarrow> (\<exists>a w'. m w = (Inr a, w') \<and> k a w' = (Inr b, w''))"
  by (auto simp: await_def split: prod.splits sum.splits)

lemma await_InrE:
  assumes "await m k w = (Inr b, w'')"
  obtains a w' where "m w = (Inr a, w')" and "k a w' = (Inr b, w'')"
  using assms by (auto simp: await_eq_Inr_iff)

text \<open>
  A frame: \<open>m\<close> leaves the view \<open>v\<close> of the world alone, whether it returns or throws. The lemmas
  let a component inherit the frames of the clients it calls.
\<close>

definition preserves :: "('w \<Rightarrow> 'v) \<Rightarrow> ('w, 'a) io \<Rightarrow> bool" where
  "preserves v m \<longleftrightarrow> (\<forall>w. v (snd (m w)) = v w)"

named_theorems frame \<open>rules for \<open>preserves\<close>\<close>

lemma preservesD: "preserves v m \<Longrightarrow> m w = (r, w') \<Longrightarrow> v w' = v w"
  unfolding preserves_def by (metis snd_conv)

lemma preserves_return [frame, simp]: "preserves v (return a)"
  by (simp add: preserves_def)

lemma preserves_throw [frame, simp]: "preserves v (throw e)"
  by (simp add: preserves_def)

lemma preserves_await [frame]:
  assumes "preserves v m" and "\<And>a. preserves v (k a)"
  shows "preserves v (await m k)"
  unfolding preserves_def
proof
  fix w
  show "v (snd (await m k w)) = v w"
    using assms unfolding preserves_def await_def
    by (cases "m w") (force split: sum.splits dest: spec [of _ w])
qed

lemma preserves_try_catch [frame]:
  assumes "preserves v m" and "\<And>e. preserves v (h e)"
  shows "preserves v (try_catch m h)"
  unfolding preserves_def
proof
  fix w
  show "v (snd (try_catch m h w)) = v w"
    using assms unfolding preserves_def try_catch_def
    by (cases "m w") (force split: sum.splits dest: spec [of _ w])
qed

lemma preserves_swallow [frame]: "preserves v m \<Longrightarrow> preserves v (swallow m)"
  unfolding swallow_def by (intro frame)

lemma preserves_io_when [frame]: "preserves v m \<Longrightarrow> preserves v (io_when b m)"
  by (simp add: io_when_def)

lemma preserves_if [frame]: "preserves v m \<Longrightarrow> preserves v n \<Longrightarrow> preserves v (if b then m else n)"
  by simp

lemma preserves_for_each [frame]: "(\<And>x. preserves v (f x)) \<Longrightarrow> preserves v (for_each xs f)"
  by (induction xs) (auto intro: frame)

text \<open>\<open>returns m\<close>: \<open>m\<close> never throws.\<close>

definition returns :: "('w, 'a) io \<Rightarrow> bool" where
  "returns m \<longleftrightarrow> (\<forall>w. \<exists>a w'. m w = (Inr a, w'))"

lemma returnsE:
  assumes "returns m"
  obtains a w' where "m w = (Inr a, w')"
  using assms unfolding returns_def by blast

lemma returns_return [simp]: "returns (return a)"
  by (simp add: returns_def)

lemma returns_await: "returns m \<Longrightarrow> (\<And>a. returns (k a)) \<Longrightarrow> returns (await m k)"
  unfolding returns_def await_def by (metis (no_types, lifting) old.sum.simps(6) split_conv)

lemma returns_swallow: "returns (swallow m)"
  unfolding returns_def swallow_def try_catch_def await_def return_def
  by (auto split: prod.splits sum.splits)

section \<open>Lists\<close>

lemma distinct_mapD: "distinct (map f xs) \<Longrightarrow> x \<in> set xs \<Longrightarrow> y \<in> set xs \<Longrightarrow> f x = f y \<Longrightarrow> x = y"
  by (simp add: distinct_map inj_on_def)

lemma length_filter_mono:
  "(\<And>x. x \<in> set xs \<Longrightarrow> P x \<Longrightarrow> Q x) \<Longrightarrow> length (filter P xs) \<le> length (filter Q xs)"
  by (induction xs) (auto simp: le_SucI)

section \<open>Bounded logs\<close>

text \<open>
  The histories of the services keep the newest entries first, and at most \<open>cap\<close> of them: what their
  users rely on is that an entry is pushed at the front and nothing but the end is lost.
\<close>

locale bounded_log =
  fixes push :: "'e \<Rightarrow> 'l \<Rightarrow> 'l" and entries :: "'l \<Rightarrow> 'e list" and cap :: nat
  assumes push: "length (entries l) \<le> cap \<Longrightarrow> entries (push e l) = take cap (e # entries l)"
begin

lemma bounded: "length (entries l) \<le> cap \<Longrightarrow> length (entries (push e l)) \<le> cap"
  by (simp add: push)

lemma newest: "length (entries l) \<le> cap \<Longrightarrow> 0 < cap \<Longrightarrow> hd (entries (push e l)) = e"
  by (simp add: push take_Cons')

lemma runs:
  assumes "length (entries l) \<le> cap"
  shows "entries (fold push es l) = take cap (rev es @ entries l)"
  using assms
proof (induction es arbitrary: l)
  case (Cons e es)
  have "entries (fold push es (push e l)) = take cap (rev es @ take cap (e # entries l))"
    using Cons.IH [OF bounded [OF Cons.prems]] push [OF Cons.prems] by simp
  also have "\<dots> = take cap (rev es @ e # entries l)"
    by (simp add: min_def)
  finally show ?case by simp
qed simp

end

end
