(* ===== verification/Js_Text.thy ===== *)
theory Js_Text
  imports Prelude "HOL-Library.Char_ord"
begin

text \<open>
  The string operations of JavaScript the services use, over lists of characters (code units
  below 256): truthiness and the \<open>||\<close> defaults, \<open>split\<close> on a one-character separator,
  \<open>includes\<close>, \<open>slice\<close> on arrays, and decimal integers: \<open>String(n)\<close> and \<open>parseInt(s, 10)\<close>, with
  their round trip. \<open>parseInt\<close> skips leading white space, takes an optional sign and the longest
  prefix of digits, and is \<open>NaN\<close> without digits: \<open>NaN\<close> is a value here, of the type \<open>'a js\<close>.
\<close>

section \<open>Truthiness and defaults\<close>

text \<open>\<open>s || d\<close> for a string \<open>s\<close> that may be missing: \<open>undefined\<close>, \<open>null\<close> and the empty string are falsy.\<close>

fun truthy :: "string option \<Rightarrow> bool" where
  "truthy None = False"
| "truthy (Some s) = (s \<noteq> [])"

definition or_str :: "string option \<Rightarrow> string \<Rightarrow> string" where
  "or_str o1 d = (if truthy o1 then the o1 else d)"

lemma or_str_simps [simp]:
  "or_str None d = d" "or_str (Some []) d = d" "or_str (Some (c # s)) d = c # s"
  by (simp_all add: or_str_def)

lemma truthy_iff: "truthy x \<longleftrightarrow> (\<exists>c s. x = Some (c # s))"
  by (cases x) (auto simp: neq_Nil_conv)

section \<open>Numbers that may be NaN\<close>

datatype 'a js = NaN | Num 'a

fun js_gt :: "'a::linorder \<Rightarrow> 'a js \<Rightarrow> bool" where
  "js_gt a NaN = False"
| "js_gt a (Num b) = (a > b)"

fun js_map :: "('a \<Rightarrow> 'b) \<Rightarrow> 'a js \<Rightarrow> 'b js" where
  "js_map f NaN = NaN"
| "js_map f (Num a) = Num (f a)"

section \<open>Splitting and searching\<close>

fun split_on :: "char \<Rightarrow> string \<Rightarrow> string list" where
  "split_on c [] = [[]]"
| "split_on c (x # xs) =
     (if x = c then [] # split_on c xs
      else (case split_on c xs of [] \<Rightarrow> [[x]] | p # ps \<Rightarrow> (x # p) # ps))"

definition str_includes :: "string \<Rightarrow> string \<Rightarrow> bool" where
  "str_includes s t = sublist t s"

text \<open>\<open>xs.slice(start, end)\<close> for \<open>0 <= start\<close> and \<open>xs.slice(start, start + n)\<close> on arrays.\<close>

definition slice :: "nat \<Rightarrow> nat \<Rightarrow> 'a list \<Rightarrow> 'a list" where
  "slice i n xs = take n (drop i xs)"

lemma split_on_nonempty [simp]: "split_on c s \<noteq> []"
  by (induction s) (auto split: list.splits)

lemma split_on_no_sep: "c \<notin> set s \<Longrightarrow> split_on c s = [s]"
  by (induction s) auto

lemma split_on_append:
  "c \<notin> set s \<Longrightarrow> split_on c (s @ c # t) = s # split_on c t"
  by (induction s) auto

lemma length_split_on: "length (split_on c s) = Suc (count_list s c)"
  by (induction s) (auto split: list.splits)

lemma split_on_parts: "p \<in> set (split_on c s) \<Longrightarrow> c \<notin> set p"
  by (induction s arbitrary: p) (auto split: list.splits if_splits)

section \<open>Decimal integers\<close>

definition digit_char :: "nat \<Rightarrow> char" where
  "digit_char d = char_of (48 + d)"

definition is_digit :: "char \<Rightarrow> bool" where
  "is_digit c \<longleftrightarrow> 48 \<le> (of_char c :: nat) \<and> (of_char c :: nat) \<le> 57"

definition digit_val :: "char \<Rightarrow> nat" where
  "digit_val c = of_char c - 48"

definition is_space :: "char \<Rightarrow> bool" where
  "is_space c \<longleftrightarrow> (of_char c :: nat) \<in> {9, 10, 11, 12, 13, 32, 160}"

fun show_nat :: "nat \<Rightarrow> string" where
  "show_nat n = (if n < 10 then [digit_char n] else show_nat (n div 10) @ [digit_char (n mod 10)])"

declare show_nat.simps [simp del]

definition show_int :: "int \<Rightarrow> string" where
  "show_int i = (if i < 0 then CHR ''-'' # show_nat (nat (- i)) else show_nat (nat i))"

definition digits_val :: "string \<Rightarrow> nat" where
  "digits_val s = foldl (\<lambda>n c. 10 * n + digit_val c) 0 s"

definition parse_nat :: "string \<Rightarrow> nat js" where
  "parse_nat s = (let ds = takeWhile is_digit s in if ds = [] then NaN else Num (digits_val ds))"

definition parse_int :: "string \<Rightarrow> int js" where
  "parse_int s =
     (case dropWhile is_space s of
        [] \<Rightarrow> NaN
      | c # t \<Rightarrow>
          (if c = CHR ''-'' then js_map (\<lambda>n. - int n) (parse_nat t)
           else if c = CHR ''+'' then js_map int (parse_nat t)
           else js_map int (parse_nat (c # t))))"

lemma is_digit_digit_char [simp]: "d < 10 \<Longrightarrow> is_digit (digit_char d)"
  by (simp add: is_digit_def digit_char_def)

lemma digit_val_digit_char [simp]: "d < 10 \<Longrightarrow> digit_val (digit_char d) = d"
  by (simp add: digit_val_def digit_char_def)

lemma show_nat_nonempty [simp]: "show_nat n \<noteq> []"
  by (subst show_nat.simps) simp

lemma show_nat_digits: "\<forall>c \<in> set (show_nat n). is_digit c"
proof (induction n rule: show_nat.induct)
  case (1 n)
  then show ?case by (subst show_nat.simps) (auto simp: show_nat.simps [of n])
qed

lemma digits_val_append_digit: "digits_val (s @ [c]) = 10 * digits_val s + digit_val c"
  by (simp add: digits_val_def)

lemma digits_val_show_nat: "digits_val (show_nat n) = n"
proof (induction n rule: show_nat.induct)
  case (1 n)
  show ?case
  proof (cases "n < 10")
    case True
    then show ?thesis by (subst show_nat.simps) (simp add: digits_val_def)
  next
    case False
    with 1 show ?thesis by (subst show_nat.simps) (simp add: digits_val_append_digit)
  qed
qed

lemma takeWhile_digits_show_nat:
  "t = [] \<or> \<not> is_digit (hd t) \<Longrightarrow> takeWhile is_digit (show_nat n @ t) = show_nat n"
  using show_nat_digits [of n] by (cases t) (auto simp: takeWhile_append2)

lemma parse_nat_show_nat:
  "t = [] \<or> \<not> is_digit (hd t) \<Longrightarrow> parse_nat (show_nat n @ t) = Num n"
  by (simp add: parse_nat_def takeWhile_digits_show_nat digits_val_show_nat)

lemma hd_show_nat: "is_digit (hd (show_nat n))"
  using show_nat_digits [of n] by (cases "show_nat n") auto

lemma is_digit_not_special: "is_digit c \<Longrightarrow> c \<noteq> CHR ''-'' \<and> c \<noteq> CHR ''+'' \<and> \<not> is_space c"
  by (auto simp: is_digit_def is_space_def)

text \<open>\<open>parseInt(String(n), 10) === n\<close>, whatever non-digit follows.\<close>

lemma parse_int_show_int:
  assumes "t = [] \<or> \<not> is_digit (hd t)"
  shows "parse_int (show_int i @ t) = Num i"
proof (cases "i < 0")
  case True
  then show ?thesis
    using parse_nat_show_nat [OF assms, of "nat (- i)"]
    by (simp add: parse_int_def show_int_def is_space_def)
next
  case False
  obtain c s where cs: "show_nat (nat i) = c # s" by (cases "show_nat (nat i)") auto
  have "is_digit c" using hd_show_nat [of "nat i"] cs by simp
  then show ?thesis
    using False cs parse_nat_show_nat [OF assms, of "nat i"] is_digit_not_special [of c]
    by (simp add: parse_int_def show_int_def)
qed

lemma parse_int_show_int_end [simp]: "parse_int (show_int i) = Num i"
  using parse_int_show_int [of "[]" i] by simp

lemma show_int_nonempty [simp]: "show_int i \<noteq> []"
  by (simp add: show_int_def)

lemma truthy_show_int [simp]: "truthy (Some (show_int i))"
  by simp

lemma show_int_chars: "c \<in> set (show_int i) \<Longrightarrow> is_digit c \<or> c = CHR ''-''"
  using show_nat_digits by (auto simp: show_int_def split: if_splits)

end
