(* ===== verification/Json.thy ===== *)
theory Json
  imports Js_Text
begin

text \<open>
  JSON values, \<open>JSON.stringify\<close> and \<open>JSON.parse\<close>, which the services use to keep structured
  values in Redis and to send them over Kafka and Redis channels. Numbers are integers (every
  number the services serialise is one: milliseconds, byte counts, statuses, attempts), in any notation;
  strings are lists of code units below 256. A text with a number that is no integer is no value here. \<open>json_parse\<close> is a recursive-descent parser on fuel, the
  length of the text; a text it does not accept is the \<open>SyntaxError\<close> of \<open>JSON.parse\<close>.

  \<open>json_parse_show\<close>: a stringified value parses back to itself.
\<close>

datatype json = JNull | JBool bool | JNum int | JStr string | JArr "json list" | JObj "(string \<times> json) list"

section \<open>Reading fields\<close>

text \<open>\<open>v.f\<close>: \<open>None\<close> is \<open>undefined\<close>. A later binding of a key overrides an earlier one.\<close>

fun jget :: "string \<Rightarrow> json \<Rightarrow> json option" where
  "jget f (JObj kvs) = map_of (rev kvs) f"
| "jget f _ = None"

text \<open>Truthiness, and the text of a value in a template literal.\<close>

fun jtruthy :: "json option \<Rightarrow> bool" where
  "jtruthy None = False"
| "jtruthy (Some JNull) = False"
| "jtruthy (Some (JBool b)) = b"
| "jtruthy (Some (JNum n)) = (n \<noteq> 0)"
| "jtruthy (Some (JStr s)) = (s \<noteq> [])"
| "jtruthy (Some (JArr xs)) = True"
| "jtruthy (Some (JObj kvs)) = True"

section \<open>Stringify\<close>

definition hex_char :: "nat \<Rightarrow> char" where
  "hex_char d = (if d < 10 then char_of (48 + d) else char_of (87 + d))"

fun esc_char :: "char \<Rightarrow> string" where
  "esc_char c =
     (if c = CHR 0x22 then [CHR 0x5C, CHR 0x22]
      else if c = CHR 0x5C then [CHR 0x5C, CHR 0x5C]
      else if c = CHR 0x08 then [CHR 0x5C, CHR ''b'']
      else if c = CHR 0x0C then [CHR 0x5C, CHR ''f'']
      else if c = CHR 0x0A then [CHR 0x5C, CHR ''n'']
      else if c = CHR 0x0D then [CHR 0x5C, CHR ''r'']
      else if c = CHR 0x09 then [CHR 0x5C, CHR ''t'']
      else if (of_char c :: nat) < 32
        then [CHR 0x5C, CHR ''u'', CHR ''0'', CHR ''0'', hex_char (of_char c div 16), hex_char (of_char c mod 16)]
      else [c])"

definition show_str :: "string \<Rightarrow> string" where
  "show_str s = CHR 0x22 # concat (map esc_char s) @ [CHR 0x22]"

fun show_json :: "json \<Rightarrow> string"
  and show_elems :: "json list \<Rightarrow> string"
  and show_members :: "(string \<times> json) list \<Rightarrow> string" where
  "show_json JNull = ''null''"
| "show_json (JBool b) = (if b then ''true'' else ''false'')"
| "show_json (JNum n) = show_int n"
| "show_json (JStr s) = show_str s"
| "show_json (JArr xs) = CHR ''['' # show_elems xs"
| "show_json (JObj kvs) = CHR ''{'' # show_members kvs"
| "show_elems [] = '']''"
| "show_elems [x] = show_json x @ '']''"
| "show_elems (x # y # ys) = show_json x @ CHR '','' # show_elems (y # ys)"
| "show_members [] = ''}''"
| "show_members [(k, v)] = show_str k @ CHR '':'' # show_json v @ ''}''"
| "show_members ((k, v) # m # ms) = show_str k @ CHR '':'' # show_json v @ CHR '','' # show_members (m # ms)"

section \<open>Parse\<close>

definition hex_val :: "char \<Rightarrow> nat option" where
  "hex_val c =
     (let n = of_char c :: nat
      in if 48 \<le> n \<and> n \<le> 57 then Some (n - 48)
         else if 97 \<le> n \<and> n \<le> 102 then Some (n - 87)
         else if 65 \<le> n \<and> n \<le> 70 then Some (n - 55)
         else None)"

definition unescape :: "char \<Rightarrow> char option" where
  "unescape c =
     (if c = CHR 0x22 \<or> c = CHR 0x5C \<or> c = CHR ''/'' then Some c
      else if c = CHR ''b'' then Some (CHR 0x08)
      else if c = CHR ''f'' then Some (CHR 0x0C)
      else if c = CHR ''n'' then Some (CHR 0x0A)
      else if c = CHR ''r'' then Some (CHR 0x0D)
      else if c = CHR ''t'' then Some (CHR 0x09)
      else None)"

definition unicode_escape :: "char \<Rightarrow> char \<Rightarrow> char \<Rightarrow> char \<Rightarrow> char option" where
  "unicode_escape a b c d =
     (case (hex_val a, hex_val b, hex_val c, hex_val d) of
        (Some 0, Some 0, Some h, Some l) \<Rightarrow> Some (char_of (16 * h + l))
      | _ \<Rightarrow> None)"

fun parse_chars :: "string \<Rightarrow> (string \<times> string) option" where
  "parse_chars [] = None"
| "parse_chars (c # cs) =
     (if c = CHR 0x22 then Some ([], cs)
      else if c = CHR 0x5C then
        (case cs of
           [] \<Rightarrow> None
         | e # r \<Rightarrow>
             (if e = CHR ''u'' then
                (case r of
                   h1 # h2 # h3 # h4 # r' \<Rightarrow>
                     (case unicode_escape h1 h2 h3 h4 of
                        None \<Rightarrow> None
                      | Some x \<Rightarrow> map_option (\<lambda>(t, q). (x # t, q)) (parse_chars r'))
                 | _ \<Rightarrow> None)
              else
                (case unescape e of
                   None \<Rightarrow> None
                 | Some x \<Rightarrow> map_option (\<lambda>(t, q). (x # t, q)) (parse_chars r))))
      else if (of_char c :: nat) < 32 then None
      else map_option (\<lambda>(t, q). (c # t, q)) (parse_chars cs))"

definition json_space :: "char \<Rightarrow> bool" where
  "json_space c \<longleftrightarrow> c = CHR 0x20 \<or> c = CHR 0x09 \<or> c = CHR 0x0A \<or> c = CHR 0x0D"

definition skip :: "string \<Rightarrow> string" where
  "skip s = dropWhile json_space s"

text \<open>
  A number: digits without a leading zero, then a fraction and an exponent if they are there (\<open>12.50e1\<close>).
  The value is \<open>m * 10 ^ k\<close>. One that is no integer is outside the values of \<open>json\<close>, and has no result.
\<close>

definition parse_fraction :: "string \<Rightarrow> (string \<times> string) option" where
  "parse_fraction s =
     (if s = [] \<or> hd s \<noteq> CHR ''.'' then Some ([], s)
      else (let ds = takeWhile is_digit (tl s) in if ds = [] then None else Some (ds, dropWhile is_digit (tl s))))"

definition parse_exponent :: "string \<Rightarrow> (int \<times> string) option" where
  "parse_exponent s =
     (if s = [] \<or> hd s \<notin> {CHR ''e'', CHR ''E''} then Some (0, s)
      else (let signed = tl s \<noteq> [] \<and> hd (tl s) \<in> {CHR ''+'', CHR ''-''};
                r = (if signed then tl (tl s) else tl s);
                ds = takeWhile is_digit r
            in if ds = [] then None
               else Some (if signed \<and> hd (tl s) = CHR ''-'' then - int (digits_val ds) else int (digits_val ds), dropWhile is_digit r)))"

definition scaled :: "nat \<Rightarrow> int \<Rightarrow> nat option" where
  "scaled m k =
     (if 0 \<le> k then Some (m * 10 ^ nat k)
      else if m mod 10 ^ nat (- k) = 0 then Some (m div 10 ^ nat (- k)) else None)"

definition parse_digits :: "string \<Rightarrow> (nat \<times> string) option" where
  "parse_digits s =
     (let ds = takeWhile is_digit s
      in if ds = [] \<or> (1 < length ds \<and> hd ds = CHR ''0'') then None
         else (case parse_fraction (dropWhile is_digit s) of
           None \<Rightarrow> None
         | Some (fs, r1) \<Rightarrow>
             (case parse_exponent r1 of
                None \<Rightarrow> None
              | Some (e, r2) \<Rightarrow> map_option (\<lambda>n. (n, r2)) (scaled (digits_val (ds @ fs)) (e - int (length fs))))))"

definition parse_num :: "string \<Rightarrow> (json \<times> string) option" where
  "parse_num s =
     (case s of
        [] \<Rightarrow> None
      | c # r \<Rightarrow>
          (if c = CHR ''-'' then map_option (\<lambda>(n, q). (JNum (- int n), q)) (parse_digits r)
           else map_option (\<lambda>(n, q). (JNum (int n), q)) (parse_digits s)))"

definition parse_lit :: "string \<Rightarrow> json \<Rightarrow> string \<Rightarrow> (json \<times> string) option" where
  "parse_lit w v s = (if prefix w s then Some (v, drop (length w) s) else None)"

fun parse_val :: "nat \<Rightarrow> string \<Rightarrow> (json \<times> string) option"
  and parse_elems :: "nat \<Rightarrow> string \<Rightarrow> (json list \<times> string) option"
  and parse_members :: "nat \<Rightarrow> string \<Rightarrow> ((string \<times> json) list \<times> string) option" where
  "parse_val 0 s = None"
| "parse_val (Suc n) s =
     (case skip s of
        [] \<Rightarrow> None
      | c # r \<Rightarrow>
          (if c = CHR 0x22 then map_option (\<lambda>(t, q). (JStr t, q)) (parse_chars r)
           else if c = CHR ''['' then
             (if skip r \<noteq> [] \<and> hd (skip r) = CHR '']'' then Some (JArr [], tl (skip r))
              else map_option (\<lambda>(xs, q). (JArr xs, q)) (parse_elems n r))
           else if c = CHR ''{'' then
             (if skip r \<noteq> [] \<and> hd (skip r) = CHR ''}'' then Some (JObj [], tl (skip r))
              else map_option (\<lambda>(ms, q). (JObj ms, q)) (parse_members n r))
           else if c = CHR ''n'' then parse_lit ''null'' JNull (c # r)
           else if c = CHR ''t'' then parse_lit ''true'' (JBool True) (c # r)
           else if c = CHR ''f'' then parse_lit ''false'' (JBool False) (c # r)
           else parse_num (c # r)))"
| "parse_elems 0 s = None"
| "parse_elems (Suc n) s =
     (case parse_val n s of
        None \<Rightarrow> None
      | Some (x, r) \<Rightarrow>
          (case skip r of
             [] \<Rightarrow> None
           | c # r' \<Rightarrow>
               (if c = CHR '']'' then Some ([x], r')
                else if c = CHR '','' then map_option (\<lambda>(xs, q). (x # xs, q)) (parse_elems n r')
                else None)))"
| "parse_members 0 s = None"
| "parse_members (Suc n) s =
     (case skip s of
        [] \<Rightarrow> None
      | q # s1 \<Rightarrow>
          (if q \<noteq> CHR 0x22 then None
           else (case parse_chars s1 of
             None \<Rightarrow> None
           | Some (k, s2) \<Rightarrow>
               (case skip s2 of
                  [] \<Rightarrow> None
                | p # s3 \<Rightarrow>
                    (if p \<noteq> CHR '':'' then None
                     else (case parse_val n s3 of
                       None \<Rightarrow> None
                     | Some (v, r) \<Rightarrow>
                         (case skip r of
                            [] \<Rightarrow> None
                          | c # r' \<Rightarrow>
                              (if c = CHR ''}'' then Some ([(k, v)], r')
                               else if c = CHR '','' then map_option (\<lambda>(ms, z). ((k, v) # ms, z)) (parse_members n r')
                               else None))))))))"

text \<open>\<open>JSON.parse\<close>: the whole text, white space around the value allowed; \<open>None\<close> is a \<open>SyntaxError\<close>.\<close>

definition json_parse :: "string \<Rightarrow> json option" where
  "json_parse s =
     (case parse_val (Suc (length s)) s of
        Some (v, r) \<Rightarrow> (if skip r = [] then Some v else None)
      | None \<Rightarrow> None)"

text \<open>The forms of a number that the services do not write themselves, but take.\<close>

lemma parse_num_forms:
  "json_parse ''1.0'' = Some (JNum 1)" "json_parse ''-12.50E1'' = Some (JNum (- 125))" "json_parse ''[2e+3]'' = Some (JArr [JNum 2000])"
  "json_parse ''1.'' = None" "json_parse ''01'' = None" "json_parse ''1e'' = None"
  by code_simp+

section \<open>Round trip\<close>

declare parse_chars.simps(2) [simp del] esc_char.simps [simp del]

lemma hex_val_hex_char: "d < 16 \<Longrightarrow> hex_val (hex_char d) = Some d"
  by (auto simp: hex_val_def hex_char_def Let_def)

lemma hex_val_0: "hex_val (CHR ''0'') = Some 0"
  by (simp add: hex_val_def)

lemma unicode_escape_hex:
  assumes "(of_char c :: nat) < 32"
  shows "unicode_escape (CHR ''0'') (CHR ''0'') (hex_char (of_char c div 16)) (hex_char (of_char c mod 16)) = Some c"
proof -
  have "(of_char c :: nat) div 16 < 16" "(of_char c :: nat) mod 16 < 16" using assms by simp_all
  then show ?thesis
    by (simp add: unicode_escape_def hex_val_0 hex_val_hex_char)
qed

lemma parse_chars_esc:
  "parse_chars (esc_char c @ t) = map_option (\<lambda>(s, q). (c # s, q)) (parse_chars t)"
proof -
  consider "c \<in> {CHR 0x22, CHR 0x5C, CHR 0x08, CHR 0x0C, CHR 0x0A, CHR 0x0D, CHR 0x09}"
    | "c \<notin> {CHR 0x22, CHR 0x5C, CHR 0x08, CHR 0x0C, CHR 0x0A, CHR 0x0D, CHR 0x09}" "(of_char c :: nat) < 32"
    | "c \<notin> {CHR 0x22, CHR 0x5C}" "\<not> (of_char c :: nat) < 32"
    by blast
  then show ?thesis
  proof cases
    case 1
    then show ?thesis
      by (elim insertE emptyE) (simp_all add: esc_char.simps parse_chars.simps(2) unescape_def)
  next
    case 2
    then show ?thesis
      using unicode_escape_hex [OF 2(2)] by (simp add: esc_char.simps parse_chars.simps(2))
  next
    case 3
    then have "esc_char c = [c]" by (auto simp: esc_char.simps)
    with 3 show ?thesis by (simp add: parse_chars.simps(2))
  qed
qed

lemma parse_chars_show: "parse_chars (concat (map esc_char s) @ CHR 0x22 # t) = Some (s, t)"
  by (induction s) (simp_all add: parse_chars_esc parse_chars.simps(2))

text \<open>What follows a value inside a larger text, or nothing.\<close>

definition closes :: "string \<Rightarrow> bool" where
  "closes t \<longleftrightarrow> t = [] \<or> hd t \<in> {CHR '','', CHR '']'', CHR ''}''}"

lemma closes_not_digit: "closes t \<Longrightarrow> t = [] \<or> \<not> is_digit (hd t)"
  by (auto simp: closes_def is_digit_def)

lemma show_nat_no_leading_zero: "1 < length (show_nat n) \<Longrightarrow> hd (show_nat n) \<noteq> CHR ''0''"
proof (induction n rule: show_nat.induct)
  case (1 n)
  show ?case
  proof (cases "n < 10")
    case True
    with "1.prems" show ?thesis by (simp add: show_nat.simps [of n])
  next
    case False
    then have n: "show_nat n = show_nat (n div 10) @ [digit_char (n mod 10)]"
      by (simp add: show_nat.simps [of n])
    show ?thesis
    proof (cases "n div 10 < 10")
      case True
      have "digit_char (n div 10) \<noteq> CHR ''0''"
      proof
        assume "digit_char (n div 10) = CHR ''0''"
        then have "digit_val (digit_char (n div 10)) = digit_val (CHR ''0'')" by simp
        then show False using True False by (simp add: digit_val_def digit_char_def)
      qed
      with True show ?thesis by (simp add: n show_nat.simps [of "n div 10"])
    next
      case False2: False
      then have "1 < length (show_nat (n div 10))"
        by (subst show_nat.simps) (simp add: Suc_lessI)
      with "1.IH" False show ?thesis by (simp add: n)
    qed
  qed
qed

lemma parse_digits_show:
  assumes "closes t"
  shows "parse_digits (show_nat n @ t) = Some (n, t)"
proof -
  have tw: "takeWhile is_digit (show_nat n @ t) = show_nat n"
    by (rule takeWhile_digits_show_nat [OF closes_not_digit [OF assms]])
  then have "show_nat n @ dropWhile is_digit (show_nat n @ t) = show_nat n @ t"
    by (metis takeWhile_dropWhile_id)
  then have dw: "dropWhile is_digit (show_nat n @ t) = t" by (rule same_append_eq [THEN iffD1])
  have "parse_fraction t = Some ([], t)" "parse_exponent t = Some (0, t)"
    using assms by (auto simp: closes_def parse_fraction_def parse_exponent_def)
  then show ?thesis
    using show_nat_no_leading_zero [of n]
    by (auto simp: parse_digits_def Let_def tw dw digits_val_show_nat scaled_def simp del: show_nat.simps)
qed

lemma parse_num_show:
  assumes "closes t"
  shows "parse_num (show_int i @ t) = Some (JNum i, t)"
proof (cases "i < 0")
  case True
  then show ?thesis
    using parse_digits_show [OF assms] by (simp add: parse_num_def show_int_def)
next
  case False
  obtain c s where cs: "show_nat (nat i) = c # s" by (cases "show_nat (nat i)") auto
  then have "is_digit c" using hd_show_nat [of "nat i"] by simp
  then have "c \<noteq> CHR ''-''" by (auto simp: is_digit_def)
  then show ?thesis
    using False cs parse_digits_show [OF assms, of "nat i"] by (simp add: parse_num_def show_int_def)
qed

lemma show_int_first:
  obtains c s where "show_int i = c # s" and "is_digit c \<or> c = CHR ''-''"
  using show_int_chars [of _ i] by (cases "show_int i") auto

lemma skip_Cons: "\<not> json_space c \<Longrightarrow> skip (c # s) = c # s"
  by (simp add: skip_def)

lemma skip_lits [simp]:
  "skip (CHR 0x22 # s) = CHR 0x22 # s" "skip (CHR ''['' # s) = CHR ''['' # s"
  "skip (CHR '']'' # s) = CHR '']'' # s" "skip (CHR ''{'' # s) = CHR ''{'' # s"
  "skip (CHR ''}'' # s) = CHR ''}'' # s" "skip (CHR '':'' # s) = CHR '':'' # s"
  "skip (CHR '','' # s) = CHR '','' # s" "skip (CHR ''n'' # s) = CHR ''n'' # s"
  "skip (CHR ''t'' # s) = CHR ''t'' # s" "skip (CHR ''f'' # s) = CHR ''f'' # s"
  "skip [] = []"
  by (simp_all add: skip_def json_space_def)

text \<open>No value and no member starts with a closing bracket, a comma or white space.\<close>

lemma show_json_first:
  obtains c s where "show_json j = c # s" and "c \<notin> {CHR '']'', CHR ''}'', CHR '',''}" and "\<not> json_space c"
proof (cases j)
  case (JNum n)
  obtain c s where "show_int n = c # s" "is_digit c \<or> c = CHR ''-''" by (rule show_int_first)
  then have "c \<notin> {CHR '']'', CHR ''}'', CHR '',''} \<and> \<not> json_space c"
    by (auto simp: is_digit_def json_space_def)
  with that JNum \<open>show_int n = c # s\<close> show ?thesis by simp
next
  case (JBool b)
  with that show ?thesis by (cases b) (simp_all add: json_space_def)
qed (use that in \<open>auto simp: show_str_def json_space_def\<close>)

lemma parse_val_num:
  assumes "closes t"
  shows "parse_val (Suc n) (show_int i @ t) = Some (JNum i, t)"
proof -
  obtain c s where cs: "show_int i = c # s" "is_digit c \<or> c = CHR ''-''" by (rule show_int_first)
  then have "skip (c # s @ t) = c # s @ t"
    and "c \<notin> {CHR 0x22, CHR ''['', CHR ''{'', CHR ''n'', CHR ''t'', CHR ''f''}"
    by (auto intro!: skip_Cons simp: is_digit_def json_space_def)
  with cs parse_num_show [OF assms, of i] show ?thesis by simp
qed

lemma skip_hd_elems:
  assumes "xs \<noteq> []"
  shows "\<not> (skip (show_elems xs @ t) \<noteq> [] \<and> hd (skip (show_elems xs @ t)) = CHR '']'')"
proof -
  obtain x ys where xs: "xs = x # ys" using assms by (cases xs) auto
  obtain c s where "show_json x = c # s" "c \<notin> {CHR '']'', CHR ''}'', CHR '',''}" "\<not> json_space c"
    by (rule show_json_first)
  then show ?thesis by (cases ys) (auto simp: xs skip_Cons)
qed

lemma skip_hd_members:
  assumes "ms \<noteq> []"
  shows "\<not> (skip (show_members ms @ t) \<noteq> [] \<and> hd (skip (show_members ms @ t)) = CHR ''}'')"
proof -
  obtain k v ns where ms: "ms = (k, v) # ns" using assms by (cases ms) auto
  show ?thesis by (cases ns) (auto simp: ms show_str_def)
qed

lemma closes_lits [simp]: "closes (CHR '']'' # t)" "closes (CHR ''}'' # t)" "closes (CHR '','' # t)" "closes []"
  by (simp_all add: closes_def)

lemma parse_show:
  "length (show_json j) \<le> n \<Longrightarrow> closes t \<Longrightarrow> parse_val n (show_json j @ t) = Some (j, t)"
  "xs \<noteq> [] \<Longrightarrow> length (show_elems xs) \<le> n \<Longrightarrow> parse_elems n (show_elems xs @ t) = Some (xs, t)"
  "ms \<noteq> [] \<Longrightarrow> length (show_members ms) \<le> n \<Longrightarrow> parse_members n (show_members ms @ t) = Some (ms, t)"
proof (induction j and xs and ms arbitrary: n t and n t and n t
    rule: show_json_show_elems_show_members.induct)
  case (3 i)
  obtain m where "n = Suc m" using 3 by (cases n) auto
  then show ?case using 3 by (simp add: parse_val_num del: parse_val.simps)
next
  case (4 s)
  obtain m where "n = Suc m" using 4 by (cases n) (auto simp: show_str_def)
  then show ?case by (simp add: show_str_def parse_chars_show)
next
  case (5 xs)
  obtain m where m: "n = Suc m" using 5 by (cases n) auto
  show ?case
  proof (cases "xs = []")
    case True
    then show ?thesis by (simp add: m)
  next
    case False
    then show ?thesis using 5 skip_hd_elems [OF False, of t] by (simp add: m del: show_elems.simps)
  qed
next
  case (6 ms)
  obtain m where m: "n = Suc m" using 6 by (cases n) auto
  show ?case
  proof (cases "ms = []")
    case True
    then show ?thesis by (simp add: m)
  next
    case False
    then show ?thesis using 6 skip_hd_members [OF False, of t] by (simp add: m del: show_members.simps)
  qed
next
  case (8 x)
  obtain m where m: "n = Suc m" using 8 by (cases n) auto
  then show ?case using 8 by simp
next
  case (9 x y ys)
  obtain m where m: "n = Suc m" using 9 by (cases n) auto
  then show ?case using 9 by simp
next
  case (11 k v)
  obtain m where m: "n = Suc m" using 11 by (cases n) auto
  then show ?case using 11 by (simp add: show_str_def parse_chars_show)
next
  case (12 k v m ms)
  obtain l where l: "n = Suc l" using 12 by (cases n) auto
  then show ?case using 12 by (simp add: show_str_def parse_chars_show)
next
  case 1
  then obtain m where "n = Suc m" by (cases n) auto
  then show ?case by (simp add: parse_lit_def)
next
  case (2 b)
  then obtain m where "n = Suc m" by (cases n) (auto split: if_splits)
  then show ?case by (simp add: parse_lit_def)
qed simp_all

theorem json_parse_show [simp]: "json_parse (show_json j) = Some j"
  using parse_show(1) [of j "Suc (length (show_json j))" "[]"]
  by (simp add: json_parse_def del: parse_val.simps)

lemma show_json_nonempty [simp]: "show_json j \<noteq> []"
  by (metis show_json_first list.distinct(1))

end
