(* ===== verification/Js_Number.thy ===== *)
theory Js_Number
  imports Js_Text Complex_Main "HOL-Library.Log_Nat"
begin

text \<open>
  Numbers of JavaScript. A finite double is a rational; every arithmetic operation rounds its
  exact result with \<open>js_fl\<close>: round to nearest, ties to even, 53 bits of significand, exponents
  down to \<open>-1074\<close>. Overflow to infinity is not modelled (no quantity of the services comes near
  \<open>2 ^ 1024\<close>) and \<open>-0\<close> is \<open>0\<close>. \<open>NaN\<close> is the constructor of \<open>'a js\<close>.

  The two facts clients need are that rounding is monotone and exact on the numbers a double can
  represent (integers up to \<open>2 ^ 53\<close>, and those scaled by a power of two); the locale
  \<open>js_rounding\<close> states them, derives the bounds on rounded quotients, and is interpreted on \<open>js_fl\<close>.
\<close>

section \<open>Rounding\<close>

text \<open>The exponent of the leading bit: \<open>2 powi flog2 x \<le> x < 2 powi (flog2 x + 1)\<close>.\<close>

definition flog2 :: "rat \<Rightarrow> int" where
  "flog2 x = (let (p, q) = quotient_of x; e = bitlen p - bitlen q
              in if 2 powi e \<le> x then e else e - 1)"

text \<open>The distance of neighbouring doubles around \<open>x\<close>.\<close>

definition ulp :: "rat \<Rightarrow> rat" where
  "ulp x = 2 powi (max (- 1074) (flog2 \<bar>x\<bar> - 52))"

definition round_half_even :: "rat \<Rightarrow> int" where
  "round_half_even x =
     (let f = \<lfloor>x\<rfloor>; d = x - of_int f
      in if d < 1 / 2 then f else if 1 / 2 < d then f + 1 else if even f then f else f + 1)"

definition js_fl :: "rat \<Rightarrow> rat" where
  "js_fl x = (if x = 0 then 0 else of_int (round_half_even (x / ulp x)) * ulp x)"

lemma powi_of_int_le:
  assumes "2 ^ nat e \<le> p" and "0 \<le> e"
  shows "(2::rat) powi e \<le> of_int p"
proof -
  have "(of_int (2 ^ nat e) :: rat) \<le> of_int p"
    using assms(1) by (rule of_int_le_iff [THEN iffD2])
  then show ?thesis using assms(2) by (simp add: power_int_def)
qed

lemma powi_of_int_less:
  assumes "p < 2 ^ nat e" and "0 \<le> e"
  shows "of_int p < (2::rat) powi e"
proof -
  have "(of_int p :: rat) < of_int (2 ^ nat e)"
    using assms(1) by (rule of_int_less_iff [THEN iffD2])
  then show ?thesis using assms(2) by (simp add: power_int_def)
qed

lemma flog2_bounds:
  assumes "0 < x"
  shows "2 powi flog2 x \<le> x" and "x < 2 powi (flog2 x + 1)"
proof -
  obtain p q where pq: "quotient_of x = (p, q)" by (cases "quotient_of x")
  have q: "0 < q" using quotient_of_denom_pos [OF pq] .
  have x: "x = of_int p / of_int q" using quotient_of_div [OF pq] .
  have p: "0 < p" using assms q x by (simp add: zero_less_divide_iff)
  let ?a = "bitlen p" and ?b = "bitlen q"
  have a: "(2::int) ^ nat (?a - 1) \<le> p" "p < 2 ^ nat ?a"
    using bitlen_bounds [OF p] by auto
  have b: "(2::int) ^ nat (?b - 1) \<le> q" "q < 2 ^ nat ?b"
    using bitlen_bounds [OF q] by auto
  have pos: "1 \<le> ?a" "1 \<le> ?b"
    using p q by (auto simp: bitlen_alt_def)
  have pw: "(2::rat) powi (?a - 1) \<le> of_int p" "of_int p < (2::rat) powi ?a"
    using a pos powi_of_int_le powi_of_int_less by auto
  have qw: "(2::rat) powi (?b - 1) \<le> of_int q" "of_int q < (2::rat) powi ?b"
    using b pos powi_of_int_le powi_of_int_less by auto
  have lo: "2 powi (?a - ?b - 1) < x"
  proof -
    have "(2::rat) powi (?a - ?b - 1) * of_int q < 2 powi (?a - ?b - 1) * 2 powi ?b"
      using qw by simp
    also have "\<dots> = 2 powi (?a - 1)"
      by (subst power_int_add [symmetric]) simp_all
    also have "\<dots> \<le> of_int p" by (rule pw)
    finally show ?thesis using q by (simp add: x field_simps)
  qed
  have hi: "x < 2 powi (?a - ?b + 1)"
  proof -
    have "of_int p < (2::rat) powi ?a" by (rule pw)
    also have "\<dots> = 2 powi (?a - ?b + 1) * 2 powi (?b - 1)"
      by (subst power_int_add [symmetric]) simp_all
    also have "\<dots> \<le> 2 powi (?a - ?b + 1) * of_int q"
      using qw by simp
    finally show ?thesis using q by (simp add: x field_simps)
  qed
  show "2 powi flog2 x \<le> x" and "x < 2 powi (flog2 x + 1)"
    using lo hi by (auto simp: flog2_def pq Let_def not_le)
qed

lemma flog2_unique:
  assumes "2 powi e \<le> x" and "x < 2 powi (e + 1)"
  shows "flog2 x = e"
proof -
  have x: "0 < x" using assms(1) by (rule less_le_trans [rotated]) simp
  have "(2::rat) powi e < 2 powi (flog2 x + 1)"
    using assms(1) flog2_bounds(2) [OF x] by (rule le_less_trans)
  moreover have "(2::rat) powi flog2 x < 2 powi (e + 1)"
    using flog2_bounds(1) [OF x] assms(2) by (rule le_less_trans)
  ultimately show ?thesis
    by (metis add1_zle_eq antisym_conv linorder_not_less one_less_numeral_iff order_less_imp_le
        power_int_increasing semiring_norm(76) zle_add1_eq_le)
qed

lemma flog2_mono:
  assumes "0 < x" and "x \<le> y"
  shows "flog2 x \<le> flog2 y"
proof (rule ccontr)
  assume "\<not> flog2 x \<le> flog2 y"
  then have "(2::rat) powi (flog2 y + 1) \<le> 2 powi flog2 x"
    by (intro power_int_increasing) auto
  also have "\<dots> \<le> x" using assms by (simp add: flog2_bounds)
  also have "\<dots> \<le> y" by (rule assms)
  also have "\<dots> < 2 powi (flog2 y + 1)" using assms by (simp add: flog2_bounds)
  finally show False by simp
qed

section \<open>Rounding is monotone and exact on the representable numbers\<close>

lemma round_half_even_ge: "of_int n \<le> x \<Longrightarrow> n \<le> round_half_even x"
  by (auto simp: round_half_even_def Let_def le_floor_iff intro: order_trans [OF _ less_imp_le])

lemma round_half_even_le:
  assumes "x \<le> of_int n"
  shows "round_half_even x \<le> n"
proof (cases "x = of_int n")
  case True
  then show ?thesis by (simp add: round_half_even_def)
next
  case False
  with assms have "\<lfloor>x\<rfloor> < n" by (simp add: floor_less_iff)
  then show ?thesis by (auto simp: round_half_even_def Let_def)
qed

lemma round_half_even_of_int [simp]: "round_half_even (of_int n) = n"
  by (simp add: round_half_even_def)

lemma round_half_even_mono:
  assumes "x \<le> y"
  shows "round_half_even x \<le> round_half_even y"
proof (cases "\<lfloor>x\<rfloor> = \<lfloor>y\<rfloor>")
  case True
  with assms show ?thesis by (auto simp: round_half_even_def Let_def)
next
  case False
  with assms have less: "\<lfloor>x\<rfloor> + 1 \<le> \<lfloor>y\<rfloor>" by (simp add: add1_zle_eq floor_mono order_less_le)
  have "round_half_even x \<le> \<lfloor>x\<rfloor> + 1" by (auto simp: round_half_even_def Let_def)
  also have "\<dots> \<le> \<lfloor>y\<rfloor>" by (rule less)
  also have "\<dots> \<le> round_half_even y" by (auto simp: round_half_even_def Let_def)
  finally show ?thesis .
qed

lemma round_half_even_minus: "round_half_even (- x) = - round_half_even x"
proof (cases "x = of_int \<lfloor>x\<rfloor>")
  case True
  then have "round_half_even (- of_int \<lfloor>x\<rfloor>) = - round_half_even (of_int \<lfloor>x\<rfloor>)"
    by (metis of_int_minus round_half_even_of_int)
  with True show ?thesis by simp
next
  case False
  then have fl: "\<lfloor>- x\<rfloor> = - \<lfloor>x\<rfloor> - 1"
    by (subst floor_minus) (simp add: ceiling_altdef)
  show ?thesis by (auto simp: round_half_even_def Let_def fl)
qed

lemma ulp_pos [simp]: "0 < ulp x"
  by (simp add: ulp_def)

lemma ulp_minus [simp]: "ulp (- x) = ulp x"
  by (simp add: ulp_def)

lemma js_fl_0 [simp]: "js_fl 0 = 0"
  by (simp add: js_fl_def)

lemma js_fl_minus: "js_fl (- x) = - js_fl x"
  by (simp add: js_fl_def round_half_even_minus)

definition representable :: "rat \<Rightarrow> bool" where
  "representable x \<longleftrightarrow> (\<exists>m e. x = of_int m * 2 powi e \<and> \<bar>m\<bar> \<le> 2 ^ 53 \<and> - 1074 \<le> e)"

lemma js_fl_multiple:
  assumes "x / ulp x = of_int n"
  shows "js_fl x = x"
proof -
  have "x = of_int n * ulp x"
    using assms ulp_pos [of x] by (metis less_irrefl nonzero_eq_divide_eq)
  then show ?thesis
    unfolding js_fl_def by (metis assms round_half_even_of_int)
qed

lemma js_fl_representable_pos:
  assumes "0 < x" and "representable x"
  shows "js_fl x = x"
proof -
  obtain m e where x: "x = of_int m * 2 powi e" and m: "\<bar>m\<bar> \<le> 2 ^ 53" and e: "- 1074 \<le> e"
    using assms(2) unfolding representable_def by blast
  define U where "U = max (- 1074) (flog2 x - 52)"
  have ulp: "ulp x = 2 powi U" using assms(1) by (simp add: ulp_def U_def)
  have quot: "x / ulp x = of_int m * 2 powi (e - U)"
    unfolding ulp by (simp add: x power_int_diff)
  show ?thesis
  proof (cases "U \<le> e")
    case True
    then have "x / ulp x = of_int (m * 2 ^ nat (e - U))"
      by (simp add: quot power_int_def)
    then show ?thesis by (rule js_fl_multiple)
  next
    case False
    with e have U: "U = flog2 x - 52" by (auto simp: U_def)
    have "(2::rat) powi (U + 52) \<le> of_int m * 2 powi e"
      using flog2_bounds(1) [OF assms(1)] by (simp add: U x)
    then have "(2::rat) powi (U + 52 - e) \<le> of_int m"
      by (simp add: power_int_diff field_simps)
    moreover have "(2::rat) powi 53 \<le> 2 powi (U + 52 - e)"
      using False by (intro power_int_increasing) auto
    moreover have "(of_int m :: rat) \<le> of_int (2 ^ 53)"
      using m by (intro of_int_le_iff [THEN iffD2]) simp
    ultimately have le: "(2::rat) powi (U + 52 - e) \<le> 2 powi 53" and m': "of_int m = (2::rat) ^ 53"
      by (simp_all add: power_int_def)
    have "U + 52 - e \<le> 53"
      by (rule ccontr) (use le power_int_strict_increasing [of 53 "U + 52 - e" "2::rat"] in auto)
    with False have "e - U = - 1" by simp
    then have "x / ulp x = of_int (2 ^ 52)"
      by (simp add: quot m' power_int_minus)
    then show ?thesis by (rule js_fl_multiple)
  qed
qed

lemma representable_minus: "representable x \<Longrightarrow> representable (- x)"
  unfolding representable_def
proof (elim exE conjE)
  fix m e
  assume "x = of_int m * 2 powi e" and "\<bar>m\<bar> \<le> 2 ^ 53" and "- 1074 \<le> e"
  then have "- x = of_int (- m) * 2 powi e \<and> \<bar>- m\<bar> \<le> 2 ^ 53 \<and> - 1074 \<le> e" by simp
  then show "\<exists>m e. - x = of_int m * 2 powi e \<and> \<bar>m\<bar> \<le> 2 ^ 53 \<and> - 1074 \<le> e" by blast
qed

lemma js_fl_representable:
  assumes "representable x"
  shows "js_fl x = x"
proof -
  consider "0 < x" | "x = 0" | "0 < - x" by linarith
  then show ?thesis
  proof cases
    case 3
    with assms have "js_fl (- x) = - x"
      by (intro js_fl_representable_pos representable_minus)
    then show ?thesis by (simp add: js_fl_minus)
  qed (simp_all add: assms js_fl_representable_pos)
qed

lemma js_fl_mono_pos:
  assumes "0 < x" and "x \<le> y"
  shows "js_fl x \<le> js_fl y"
proof -
  define k where "k = flog2 y"
  define U where "U = max (- 1074) (flog2 x - 52)"
  define V where "V = max (- 1074) (k - 52)"
  have ulps: "ulp x = 2 powi U" "ulp y = 2 powi V"
    using assms by (simp_all add: ulp_def U_def V_def k_def)
  have fl: "js_fl z = of_int (round_half_even (z / ulp z)) * ulp z" if "0 < z" for z
    using that by (simp add: js_fl_def)
  have UV: "U \<le> V" using flog2_mono [OF assms] by (auto simp: U_def V_def k_def)
  show ?thesis
  proof (cases "U = V")
    case True
    then have "round_half_even (x / ulp x) \<le> round_half_even (y / ulp y)"
      using assms by (intro round_half_even_mono) (simp add: ulps divide_right_mono)
    then show ?thesis using assms True by (simp add: fl ulps)
  next
    case False
    with UV have V: "V = k - 52" and Uk: "U \<le> k" and xk: "flog2 x + 1 \<le> k"
      by (auto simp: U_def V_def)
    have "x < 2 powi (flog2 x + 1)" using assms by (simp add: flog2_bounds)
    also have "\<dots> \<le> (2::rat) powi k" using xk by (intro power_int_increasing) auto
    finally have "x / ulp x \<le> of_int (2 ^ nat (k - U))"
      using Uk by (simp add: ulps power_int_diff field_simps flip: power_int_of_nat)
    then have "round_half_even (x / ulp x) \<le> 2 ^ nat (k - U)"
      by (rule round_half_even_le)
    then have "(of_int (round_half_even (x / ulp x)) :: rat) \<le> of_int (2 ^ nat (k - U))"
      by (rule of_int_le_iff [THEN iffD2])
    then have "of_int (round_half_even (x / ulp x)) \<le> (2::rat) powi (k - U)"
      using Uk by (simp add: power_int_def)
    then have lo: "js_fl x \<le> 2 powi k"
      using assms by (simp add: fl ulps power_int_diff field_simps)
    have k52: "(2::rat) powi k = 2 ^ 52 * 2 powi (k - 52)"
      using power_int_add [of "2::rat" 52 "k - 52"] by simp
    have "2 powi k \<le> y" using assms by (simp add: k_def flog2_bounds)
    then have "of_int (2 ^ 52) \<le> y / ulp y"
      by (simp add: ulps V k52 field_simps)
    then have "2 ^ 52 \<le> round_half_even (y / ulp y)"
      by (rule round_half_even_ge)
    then have "(2::rat) ^ 52 \<le> of_int (round_half_even (y / ulp y))"
      by (metis of_int_le_iff of_int_numeral of_int_power)
    then have "2 powi k \<le> js_fl y"
      using assms by (simp add: fl ulps V k52 field_simps)
    with lo show ?thesis by (rule order_trans)
  qed
qed

lemma js_fl_nonneg: "0 \<le> x \<Longrightarrow> 0 \<le> js_fl x"
proof (cases "x = 0")
  case False
  assume "0 \<le> x"
  then have "0 \<le> x / ulp x" by (rule divide_nonneg_pos) simp
  then have "0 \<le> round_half_even (x / ulp x)"
    using round_half_even_ge [of 0] by simp
  then have "0 \<le> of_int (round_half_even (x / ulp x)) * ulp x"
    by (intro mult_nonneg_nonneg) (simp_all add: less_imp_le)
  then show ?thesis by (simp add: js_fl_def)
qed simp

lemma js_fl_mono:
  assumes "x \<le> y"
  shows "js_fl x \<le> js_fl y"
proof -
  consider "0 < x" | "x \<le> 0" "0 \<le> y" | "0 < - y" using assms by linarith
  then show ?thesis
  proof cases
    case 1
    then show ?thesis using assms by (rule js_fl_mono_pos)
  next
    case 2
    then show ?thesis
      using js_fl_nonneg [of "- x"] js_fl_nonneg [of y] by (simp add: js_fl_minus)
  next
    case 3
    with assms js_fl_mono_pos [of "- y" "- x"] show ?thesis by (simp add: js_fl_minus)
  qed
qed

lemma representable_js_fl_pos:
  assumes "0 < x"
  shows "representable (js_fl x)"
proof -
  define U where "U = max (- 1074) (flog2 x - 52)"
  have ulp: "ulp x = 2 powi U" using assms by (simp add: ulp_def U_def)
  have "x < 2 powi (flog2 x + 1)" using assms by (rule flog2_bounds)
  also have "\<dots> \<le> (2::rat) powi (53 + U)" by (intro power_int_increasing) (auto simp: U_def)
  also have "\<dots> = 2 ^ 53 * 2 powi U" using power_int_add [of "2::rat" 53 U] by simp
  finally have "x / ulp x \<le> of_int (2 ^ 53)" by (simp add: ulp field_simps)
  then have "round_half_even (x / ulp x) \<le> 2 ^ 53" by (rule round_half_even_le)
  moreover have "0 \<le> round_half_even (x / ulp x)"
    using assms by (intro round_half_even_ge) (simp add: less_imp_le)
  moreover have "- 1074 \<le> U" by (simp add: U_def)
  ultimately show ?thesis
    unfolding representable_def using assms
    by (intro exI [of _ "round_half_even (x / ulp x)"] exI [of _ U]) (simp add: js_fl_def ulp)
qed

lemma js_fl_idem [simp]: "js_fl (js_fl x) = js_fl x"
proof -
  consider "0 < x" | "x = 0" | "0 < - x" by linarith
  then show ?thesis
  proof cases
    case 3
    then have "js_fl (js_fl (- x)) = js_fl (- x)"
      by (intro js_fl_representable representable_js_fl_pos)
    then show ?thesis by (simp add: js_fl_minus)
  qed (simp_all add: js_fl_representable representable_js_fl_pos)
qed

text \<open>The values a variable of the program can hold.\<close>

fun is_double :: "rat js \<Rightarrow> bool" where
  "is_double NaN = True"
| "is_double (Num x) = (js_fl x = x)"

section \<open>The interface of rounding\<close>

locale js_rounding =
  fixes fl :: "rat \<Rightarrow> rat"
  assumes mono: "x \<le> y \<Longrightarrow> fl x \<le> fl y"
    and exact: "representable x \<Longrightarrow> fl x = x"
begin

lemma fl_int: "\<bar>n\<bar> \<le> 2 ^ 53 \<Longrightarrow> fl (of_int n) = of_int n"
  by (rule exact, unfold representable_def, intro exI [of _ n] exI [of _ "0::int"]) simp

lemma fl_ge_int: "\<bar>n\<bar> \<le> 2 ^ 53 \<Longrightarrow> of_int n \<le> x \<Longrightarrow> of_int n \<le> fl x"
  using mono [of "of_int n" x] by (simp add: fl_int)

lemma fl_le_int: "\<bar>n\<bar> \<le> 2 ^ 53 \<Longrightarrow> x \<le> of_int n \<Longrightarrow> fl x \<le> of_int n"
  using mono [of x "of_int n"] by (simp add: fl_int)

lemma fl_zero: "fl 0 = 0"
  using fl_int [of 0] by simp

lemma fl_nonneg: "0 \<le> x \<Longrightarrow> 0 \<le> fl x"
  using fl_ge_int [of 0 x] by simp

lemma fl_ratio:
  assumes "0 \<le> a" and "a \<le> b"
  shows "0 \<le> fl (a / b)" and "fl (a / b) \<le> 1"
  using assms fl_nonneg [of "a / b"] fl_le_int [of 1 "a / b"]
  by (auto simp: divide_le_eq)

text \<open>
  Rounding a quotient up gives the exact ceiling as long as the quotient is small against the
  precision that the denominator needs: no double lies between a multiple of the denominator and
  the next integer that could be skipped.
\<close>

lemma ceiling_fl_div:
  fixes t P :: int
  assumes "0 \<le> t" and "0 < P" and "P \<le> 2 ^ 23" and "t < 2 ^ 30 * P"
  shows "\<lceil>fl (of_int t / of_int P)\<rceil> = \<lceil>(of_int t / of_int P :: rat)\<rceil>"
proof -
  define q where "q = (of_int t / of_int P :: rat)"
  define k where "k = \<lfloor>q\<rfloor>"
  have kdiv: "k = t div P" by (simp add: k_def q_def floor_divide_of_int_eq)
  have kt: "k * P \<le> t"
    unfolding kdiv using div_mult_mod_eq [of t P] pos_mod_sign [OF assms(2), of t] by linarith
  then have "k * P < 2 ^ 30 * P" using assms(4) by (rule le_less_trans)
  then have k: "0 \<le> k" "k < 2 ^ 30"
    using assms(1,2) by (simp_all add: kdiv pos_imp_zdiv_nonneg_iff)
  show ?thesis
  proof (cases "t = k * P")
    case True
    then have "q = of_int k" using assms by (simp add: q_def)
    then show ?thesis unfolding q_def [symmetric] using k fl_int [of k] by simp
  next
    case False
    with kt have "k * P + 1 \<le> t" by simp
    then have "of_int (k * P + 1) \<le> (of_int t :: rat)" by (rule of_int_le_iff [THEN iffD2])
    then have "of_int (k * P + 1) / of_int P \<le> (of_int t / of_int P :: rat)"
      by (rule divide_right_mono) (use assms in simp)
    then have "of_int k + 1 / of_int P \<le> q" using assms by (simp add: q_def add_divide_distrib)
    moreover have "1 / 2 ^ 23 \<le> (1 / of_int P :: rat)"
    proof -
      have "(of_int P :: rat) \<le> of_int (2 ^ 23)" using assms(3) by (rule of_int_le_iff [THEN iffD2])
      then show ?thesis using assms(2) by (simp add: field_simps)
    qed
    ultimately have lo: "of_int k + 1 / 2 ^ 23 \<le> q" by linarith
    have rep: "representable (of_int k + 1 / 2 ^ 23)"
      unfolding representable_def
      by (intro exI [of _ "k * 2 ^ 23 + 1"] exI [of _ "- 23"])
         (use k in \<open>simp add: power_int_minus field_simps\<close>)
    have "of_int k + 1 / 2 ^ 23 \<le> fl q" using mono [OF lo] unfolding exact [OF rep] .
    then have 1: "of_int k < fl q" by (rule less_le_trans [rotated]) simp
    have "q < of_int (k + 1)" unfolding k_def by linarith
    then have 2: "fl q \<le> of_int (k + 1)" using fl_le_int [of "k + 1" q] k by simp
    have "\<lceil>fl q\<rceil> = k + 1" using 1 2 by (simp add: ceiling_eq_iff)
    moreover have "\<lceil>q\<rceil> = k + 1"
      using lo \<open>q < of_int (k + 1)\<close> by (simp add: ceiling_eq_iff)
    ultimately show ?thesis by (simp add: q_def)
  qed
qed

end

interpretation dbl: js_rounding js_fl
  by unfold_locales (auto intro: js_fl_mono js_fl_representable)

section \<open>The operations of the source\<close>

definition fadd :: "rat \<Rightarrow> rat \<Rightarrow> rat" where "fadd a b = js_fl (a + b)"
definition fsub :: "rat \<Rightarrow> rat \<Rightarrow> rat" where "fsub a b = js_fl (a - b)"
definition fmul :: "rat \<Rightarrow> rat \<Rightarrow> rat" where "fmul a b = js_fl (a * b)"
definition fdiv :: "rat \<Rightarrow> rat \<Rightarrow> rat" where "fdiv a b = js_fl (a / b)"

text \<open>
  \<open>fdiv\<close> is for a divisor that is not zero: the model applies it to constants, and where a condition excludes zero. \<open>js_div\<close> is the
  operation of the language on any divisor. A quotient by zero is \<open>NaN\<close> or an infinity; \<open>NaN\<close> stands for both here,
  as neither is a finite number.
\<close>

definition js_div :: "rat \<Rightarrow> rat \<Rightarrow> rat js" where
  "js_div a b = (if b = 0 then NaN else Num (fdiv a b))"

lemma js_div_nonzero [simp]: "b \<noteq> 0 \<Longrightarrow> js_div a b = Num (fdiv a b)"
  by (simp add: js_div_def)

text \<open>\<open>Math.round\<close> goes to the nearest integer, ties up.\<close>

definition math_round :: "rat \<Rightarrow> int" where "math_round x = \<lfloor>x + 1 / 2\<rfloor>"

lemmas f_defs = fadd_def fsub_def fmul_def fdiv_def

end
