(* ===== verification/Clients.thy ===== *)
theory Clients
  imports Json Js_Number "HOL-Library.List_Lexorder" "HOL-Library.Product_Lexorder"
begin

text \<open>
  The clients the services are built on and whose code is not part of the repository: the process
  environment (clock, UUIDs), Redis, Prometheus counters, Kafka producers, the formatting of
  numbers. Each is a record of operations over the world, which the model takes as the parameter
  that the constructor injects. What the services rely on is stated by locales and predicates on
  those records; the model itself never assumes it.

  \<open>redis_server R rd wr\<close> says that the client \<open>R\<close> talks to a server that answers the data
  commands as the Redis manual documents: \<open>redis_step\<close> is the effect of a command on the keyspace
  \<open>rdb\<close>, of which \<open>rd\<close> is the current value in the world. Expiry of keys happens between
  commands, as a step of the environment. The last section gives a world in which all the laws
  hold, used to evaluate the operations at concrete inputs.
\<close>

section \<open>The process environment\<close>

record 'w sys =
  date_now :: "('w, int) io"
  uuid_v4 :: "('w, string) io"

text \<open>
  \<open>clk\<close> is the clock and \<open>gen\<close> the next UUID; drawing one leaves the view \<open>v\<close> of the other clients
  and the clock alone.
\<close>

definition sys_ok :: "'w sys \<Rightarrow> ('w \<Rightarrow> int) \<Rightarrow> ('w \<Rightarrow> string) \<Rightarrow> ('w \<Rightarrow> 'v) \<Rightarrow> bool" where
  "sys_ok S clk gen v \<longleftrightarrow>
     (\<forall>w. date_now S w = (Inr (clk w), w)) \<and>
     (\<forall>w. \<exists>w'. uuid_v4 S w = (Inr (gen w), w') \<and> v w' = v w \<and> clk w' = clk w)"

lemma sys_ok_now: "sys_ok S clk gen v \<Longrightarrow> date_now S w = (Inr (clk w), w)"
  by (simp add: sys_ok_def)

lemma sys_ok_uuid:
  assumes "sys_ok S clk gen v"
  obtains w' where "uuid_v4 S w = (Inr (gen w), w')" and "v w' = v w" and "clk w' = clk w"
  using assms unfolding sys_ok_def by blast

section \<open>Prometheus\<close>

record 'w prom =
  prom_inc :: "string \<Rightarrow> string list \<Rightarrow> int \<Rightarrow> ('w, unit) io"
  prom_observe :: "string \<Rightarrow> string list \<Rightarrow> rat \<Rightarrow> ('w, unit) io"

text \<open>\<open>quiet v m\<close>: \<open>m\<close> never throws and leaves the view \<open>v\<close> alone.\<close>

definition quiet :: "('w \<Rightarrow> 'v) \<Rightarrow> ('w, 'a) io \<Rightarrow> bool" where
  "quiet v m \<longleftrightarrow> (\<forall>w. \<exists>a w'. m w = (Inr a, w') \<and> v w' = v w)"

definition prom_ok :: "'w prom \<Rightarrow> ('w \<Rightarrow> 'v) \<Rightarrow> bool" where
  "prom_ok P v \<longleftrightarrow> (\<forall>n ls k. quiet v (prom_inc P n ls k)) \<and> (\<forall>n ls x. quiet v (prom_observe P n ls x))"

lemma quietE:
  assumes "quiet v m"
  obtains a w' where "m w = (Inr a, w')" and "v w' = v w"
  using assms unfolding quiet_def by blast

lemma quiet_unitE:
  assumes "quiet v (m :: ('w, unit) io)"
  obtains w' where "m w = (Inr (), w')" and "v w' = v w"
  using assms unfolding quiet_def by (metis (full_types) old.unit.exhaust)

lemma quiet_await: "quiet v m \<Longrightarrow> (\<And>a. quiet v (k a)) \<Longrightarrow> quiet v (await m k)"
  unfolding quiet_def by (metis await_Inr)

lemma quiet_return [simp]: "quiet v (return a)"
  by (simp add: quiet_def)

lemma quiet_preserves: "quiet v m \<Longrightarrow> preserves v m"
  unfolding quiet_def preserves_def by (metis snd_conv)

lemma quiet_swallow: "preserves v m \<Longrightarrow> quiet v (swallow m)"
  using returns_swallow [of m] preserves_swallow [of v m]
  unfolding quiet_def returns_def preserves_def by (metis snd_conv)

section \<open>Kafka\<close>

text \<open>\<open>producer.send({ topic, messages: [{ value }] })\<close>; it throws when the broker is unavailable.\<close>

record 'w kafka =
  kafka_send :: "string \<Rightarrow> string \<Rightarrow> ('w, unit) io"

section \<open>Numbers and dates as text\<close>

text \<open>
  \<open>String(x)\<close> on doubles, \<open>parseFloat\<close>, \<open>Number(s)\<close> on texts, and ISO dates. \<open>numfmt_ok\<close> is the
  guarantee of the language that a printed double or date reads back as itself.
\<close>

record numfmt =
  num_to_string :: "rat js \<Rightarrow> string"
  parse_float :: "string \<Rightarrow> rat js"
  number_of_string :: "string \<Rightarrow> rat js"
  iso_string :: "int \<Rightarrow> string"
  date_parse :: "string \<Rightarrow> int js"

definition numfmt_ok :: "numfmt \<Rightarrow> bool" where
  "numfmt_ok F \<longleftrightarrow>
     (\<forall>x. is_double x \<longrightarrow> parse_float F (num_to_string F x) = x \<and> num_to_string F x \<noteq> []) \<and>
     (\<forall>t. date_parse F (iso_string F t) = Num t)"

section \<open>Redis\<close>

datatype rcmd =
    GET string | SET string string | SETEX string int string | DEL "string list" | EXPIRE string int
  | HGET string string | HMGET string "string list" | HGETALL string | HSET string "(string \<times> string) list"
  | ZADD string int string | ZREM string string | ZCARD string | ZRANGE string nat nat
  | ZREMRANGEBYSCORE string int int
  | LPUSH string string | LTRIM string nat nat | LRANGE string nat nat
  | PUBLISH string string

datatype reply =
    RNil | ROk | RInt int | RBulk string | RBulks "string option list" | RHash "string \<Rightarrow> string option"
  | RList "string list"

record rdb =
  strs :: "string \<Rightarrow> string option"
  hashes :: "string \<Rightarrow> string \<Rightarrow> string option"
  zsets :: "string \<Rightarrow> (int \<times> string) list"
  lists :: "string \<Rightarrow> string list"
  published :: "(string \<times> string) list"

fun hset_all :: "(string \<times> string) list \<Rightarrow> (string \<Rightarrow> string option) \<Rightarrow> (string \<Rightarrow> string option)" where
  "hset_all [] h = h"
| "hset_all ((f, v) # fvs) h = hset_all fvs (h(f \<mapsto> v))"

text \<open>A sorted set is kept in the order of scores, members of equal score in byte order.\<close>

definition zremove :: "string \<Rightarrow> (int \<times> string) list \<Rightarrow> (int \<times> string) list" where
  "zremove m z = filter (\<lambda>(s, m'). m' \<noteq> m) z"

definition zinsert :: "int \<Rightarrow> string \<Rightarrow> (int \<times> string) list \<Rightarrow> (int \<times> string) list" where
  "zinsert s m z = insort (s, m) (zremove m z)"

definition range_of :: "nat \<Rightarrow> nat \<Rightarrow> 'a list \<Rightarrow> 'a list" where
  "range_of i j xs = take (Suc j - i) (drop i xs)"

definition bulk :: "string option \<Rightarrow> reply" where
  "bulk x = (case x of None \<Rightarrow> RNil | Some s \<Rightarrow> RBulk s)"

fun redis_step :: "rcmd \<Rightarrow> rdb \<Rightarrow> reply \<times> rdb" where
  "redis_step (GET k) d = (bulk (strs d k), d)"
| "redis_step (SET k v) d = (ROk, d\<lparr>strs := (strs d)(k \<mapsto> v)\<rparr>)"
| "redis_step (SETEX k t v) d = (ROk, d\<lparr>strs := (strs d)(k \<mapsto> v)\<rparr>)"
| "redis_step (DEL ks) d =
     (RInt (int (length (filter (\<lambda>k. strs d k \<noteq> None) ks))),
      d\<lparr>strs := (\<lambda>k. if k \<in> set ks then None else strs d k)\<rparr>)"
| "redis_step (EXPIRE k t) d = (RInt 1, d)"
| "redis_step (HGET k f) d = (bulk (hashes d k f), d)"
| "redis_step (HMGET k fs) d = (RBulks (map (hashes d k) fs), d)"
| "redis_step (HGETALL k) d = (RHash (hashes d k), d)"
| "redis_step (HSET k fvs) d = (ROk, d\<lparr>hashes := (hashes d)(k := hset_all fvs (hashes d k))\<rparr>)"
| "redis_step (ZADD k s m) d = (RInt 1, d\<lparr>zsets := (zsets d)(k := zinsert s m (zsets d k))\<rparr>)"
| "redis_step (ZREM k m) d = (RInt 1, d\<lparr>zsets := (zsets d)(k := zremove m (zsets d k))\<rparr>)"
| "redis_step (ZCARD k) d = (RInt (int (length (zsets d k))), d)"
| "redis_step (ZRANGE k i j) d = (RList (map snd (range_of i j (zsets d k))), d)"
| "redis_step (ZREMRANGEBYSCORE k lo hi) d =
     (RInt (int (length (filter (\<lambda>(s, m). lo \<le> s \<and> s \<le> hi) (zsets d k)))),
      d\<lparr>zsets := (zsets d)(k := filter (\<lambda>(s, m). \<not> (lo \<le> s \<and> s \<le> hi)) (zsets d k))\<rparr>)"
| "redis_step (LPUSH k v) d = (RInt (int (Suc (length (lists d k)))), d\<lparr>lists := (lists d)(k := v # lists d k)\<rparr>)"
| "redis_step (LTRIM k i j) d = (ROk, d\<lparr>lists := (lists d)(k := range_of i j (lists d k))\<rparr>)"
| "redis_step (LRANGE k i j) d = (RList (range_of i j (lists d k)), d)"
| "redis_step (PUBLISH c m) d = (RInt 1, d\<lparr>published := published d @ [(c, m)]\<rparr>)"

fun redis_steps :: "rcmd list \<Rightarrow> rdb \<Rightarrow> reply list \<times> rdb" where
  "redis_steps [] d = ([], d)"
| "redis_steps (c # cs) d =
     (let (r, d') = redis_step c d; (rs, d'') = redis_steps cs d' in (r # rs, d''))"

text \<open>
  The client: one command, a pipeline (an error or a reply for each command, or \<open>null\<close>), and one
  page of a \<open>SCAN\<close> (cursor, pattern, count; the next cursor and keys).
\<close>

record 'w redis =
  r_call :: "rcmd \<Rightarrow> ('w, reply) io"
  r_pipe :: "rcmd list \<Rightarrow> ('w, (string option \<times> reply) list option) io"
  r_scan :: "string \<Rightarrow> string \<Rightarrow> nat \<Rightarrow> ('w, string \<times> string list) io"

text \<open>The methods of the client, with the replies as the values they return.\<close>

definition bulk_value :: "reply \<Rightarrow> string option" where
  "bulk_value r = (case r of RBulk s \<Rightarrow> Some s | _ \<Rightarrow> None)"

definition reply_int :: "reply \<Rightarrow> int" where
  "reply_int r = (case r of RInt n \<Rightarrow> n | _ \<Rightarrow> 0)"

definition redis_do :: "'w redis \<Rightarrow> rcmd \<Rightarrow> ('w, unit) io" where
  "redis_do R c = await (r_call R c) (\<lambda>_. return ())"

definition redis_get :: "'w redis \<Rightarrow> string \<Rightarrow> ('w, string option) io" where
  "redis_get R k = await (r_call R (GET k)) (\<lambda>r. return (bulk_value r))"

definition redis_hget :: "'w redis \<Rightarrow> string \<Rightarrow> string \<Rightarrow> ('w, string option) io" where
  "redis_hget R k f = await (r_call R (HGET k f)) (\<lambda>r. return (bulk_value r))"

definition redis_hmget :: "'w redis \<Rightarrow> string \<Rightarrow> string list \<Rightarrow> ('w, string option list) io" where
  "redis_hmget R k fs =
     await (r_call R (HMGET k fs)) (\<lambda>r. return (case r of RBulks vs \<Rightarrow> vs | _ \<Rightarrow> []))"

definition redis_hgetall :: "'w redis \<Rightarrow> string \<Rightarrow> ('w, string \<Rightarrow> string option) io" where
  "redis_hgetall R k =
     await (r_call R (HGETALL k)) (\<lambda>r. return (case r of RHash h \<Rightarrow> h | _ \<Rightarrow> Map.empty))"

definition redis_int :: "'w redis \<Rightarrow> rcmd \<Rightarrow> ('w, int) io" where
  "redis_int R c = await (r_call R c) (\<lambda>r. return (reply_int r))"

definition redis_list :: "'w redis \<Rightarrow> rcmd \<Rightarrow> ('w, string list) io" where
  "redis_list R c = await (r_call R c) (\<lambda>r. return (case r of RList xs \<Rightarrow> xs | _ \<Rightarrow> []))"

section \<open>A server that behaves as documented\<close>

locale redis_server =
  fixes R :: "'w redis" and rd :: "'w \<Rightarrow> rdb" and wr :: "rdb \<Rightarrow> 'w \<Rightarrow> 'w"
  assumes call: "r_call R c w = (Inr (fst (redis_step c (rd w))), wr (snd (redis_step c (rd w))) w)"
    and pipe: "r_pipe R cs w =
      (Inr (Some (map (Pair None) (fst (redis_steps cs (rd w))))), wr (snd (redis_steps cs (rd w))) w)"
    and rd_wr [simp]: "rd (wr d w) = d"
    and wr_wr [simp]: "wr d (wr d' w) = wr d w"
    and wr_rd [simp]: "wr (rd w) w = w"
begin

lemma get: "redis_get R k w = (Inr (strs (rd w) k), w)"
  by (simp add: redis_get_def await_def call bulk_def bulk_value_def split: option.splits)

lemma hget: "redis_hget R k f w = (Inr (hashes (rd w) k f), w)"
  by (simp add: redis_hget_def await_def call bulk_def bulk_value_def split: option.splits)

lemma hmget: "redis_hmget R k fs w = (Inr (map (hashes (rd w) k) fs), w)"
  by (simp add: redis_hmget_def await_def call)

lemma hgetall: "redis_hgetall R k w = (Inr (hashes (rd w) k), w)"
  by (simp add: redis_hgetall_def await_def call)

lemma perform: "redis_do R c w = (Inr (), wr (snd (redis_step c (rd w))) w)"
  by (simp add: redis_do_def await_def call)

lemma zcard: "redis_int R (ZCARD k) w = (Inr (int (length (zsets (rd w) k))), w)"
  by (simp add: redis_int_def await_def call reply_int_def)

lemma zrange: "redis_list R (ZRANGE k i j) w = (Inr (map snd (range_of i j (zsets (rd w) k))), w)"
  by (simp add: redis_list_def await_def call)

lemma lrange: "redis_list R (LRANGE k i j) w = (Inr (range_of i j (lists (rd w) k)), w)"
  by (simp add: redis_list_def await_def call)

lemmas commands = get hget hmget hgetall perform zcard zrange lrange pipe

end

section \<open>Scanning keys\<close>

text \<open>
  \<open>scanStream\<close> and \<open>SCAN\<close> loops: pages of keys that match a pattern, from the cursor \<open>0\<close> until the
  server answers the cursor \<open>0\<close> again. The fuel bounds the number of pages; a server promises to
  come to an end. Of the patterns only what the services use is fixed: a pattern of ordinary
  characters and a star at the end matches the keys with that prefix, and one of ordinary
  characters only matches itself.
\<close>

fun scan_keys :: "'w redis \<Rightarrow> nat \<Rightarrow> string \<Rightarrow> string \<Rightarrow> nat \<Rightarrow> ('w, string list) io" where
  "scan_keys R 0 cursor pattern n = throw (JsError ''scan did not end'')"
| "scan_keys R (Suc fuel) cursor pattern n =
     await (r_scan R cursor pattern n) (\<lambda>(cursor', ks).
     if cursor' = ''0'' then return ks
     else await (scan_keys R fuel cursor' pattern n) (\<lambda>rest. return (ks @ rest)))"

text \<open>The loop of the purges: each page that is not empty is deleted by \<open>del\<close> and counted.\<close>

fun scan_loop :: "'w redis \<Rightarrow> (string list \<Rightarrow> ('w, unit) io) \<Rightarrow> nat \<Rightarrow> string \<Rightarrow> string \<Rightarrow> nat \<Rightarrow> ('w, nat) io" where
  "scan_loop R del 0 cursor pattern count = throw (JsError ''scan did not end'')"
| "scan_loop R del (Suc fuel) cursor pattern count =
     await (r_scan R cursor pattern 100) (\<lambda>(cursor', ks).
     await (if 0 < length ks then del ks else return ()) (\<lambda>_.
     (let count' = (if 0 < length ks then count + length ks else count)
      in if cursor' = ''0'' then return count' else scan_loop R del fuel cursor' pattern count')))"

lemma scan_loop_nothing:
  assumes "scan_keys R n c pattern 100 w = (Inr [], w)" and reads: "\<And>c p n w. \<exists>r. r_scan R c p n w = (r, w)"
  shows "scan_loop R del n c pattern k w = (Inr k, w)"
  using assms(1)
proof (induction n arbitrary: c k)
  case (Suc n)
  obtain r where r: "r_scan R c pattern 100 w = (r, w)" using reads by blast
  show ?case
  proof (cases r)
    case (Inl e)
    then show ?thesis using Suc.prems r by (simp add: await_def)
  next
    case (Inr p)
    then obtain c' ks where p: "r = Inr (c', ks)" by (cases p) auto
    show ?thesis
    proof (cases "c' = ''0''")
      case True
      then show ?thesis using Suc.prems r p by (simp add: await_def)
    next
      case False
      have "scan_keys R n c' pattern 100 w = (Inr [], w) \<and> ks = []"
        using Suc.prems r p False by (auto simp: await_def split: prod.splits sum.splits)
      then show ?thesis using Suc.IH [of c' k] r p False by (simp add: await_def)
    qed
  qed
qed simp

definition ordinary :: "string \<Rightarrow> bool" where
  "ordinary p \<longleftrightarrow> set p \<inter> {CHR ''*'', CHR ''?'', CHR ''['', CHR '']'', CHR 0x5C, CHR ''^''} = {}"

definition glob_ok :: "(string \<Rightarrow> string \<Rightarrow> bool) \<Rightarrow> bool" where
  "glob_ok glob \<longleftrightarrow>
     (\<forall>p k. ordinary p \<longrightarrow> glob (p @ ''*'') k = prefix p k) \<and> (\<forall>p k. ordinary p \<longrightarrow> glob p k = (p = k))"

text \<open>A full scan of a keyspace, which is finite, returns every key that was there, and only keys that match.\<close>

definition scan_ok :: "'w redis \<Rightarrow> ('w \<Rightarrow> rdb) \<Rightarrow> (string \<Rightarrow> string \<Rightarrow> bool) \<Rightarrow> nat \<Rightarrow> bool" where
  "scan_ok R rd glob pages \<longleftrightarrow> (\<forall>pattern n w. \<exists>ks.
     scan_keys R pages ''0'' pattern n w = (Inr ks, w) \<and> (\<forall>k \<in> set ks. glob pattern k) \<and>
     (finite (dom (strs (rd w))) \<longrightarrow> (\<forall>k. strs (rd w) k \<noteq> None \<and> glob pattern k \<longrightarrow> k \<in> set ks)))"

lemma scan_okE:
  assumes "scan_ok R rd glob pages"
  obtains ks where "scan_keys R pages ''0'' pattern n w = (Inr ks, w)" and "\<And>k. k \<in> set ks \<Longrightarrow> glob pattern k"
    and "\<And>k. finite (dom (strs (rd w))) \<Longrightarrow> strs (rd w) k \<noteq> None \<Longrightarrow> glob pattern k \<Longrightarrow> k \<in> set ks"
  using assms unfolding scan_ok_def by metis

text \<open>
  On a keyspace that nobody changes, a scan returns only keys that are there; a pattern that starts
  with ordinary characters matches only keys that start with them.
\<close>

definition scan_only :: "'w redis \<Rightarrow> ('w \<Rightarrow> rdb) \<Rightarrow> (string \<Rightarrow> string \<Rightarrow> bool) \<Rightarrow> nat \<Rightarrow> bool" where
  "scan_only R rd glob pages \<longleftrightarrow>
     (\<forall>pattern n w. \<exists>ks. scan_keys R pages ''0'' pattern n w = (Inr ks, w) \<and>
        (\<forall>k \<in> set ks. glob pattern k \<and> strs (rd w) k \<noteq> None)) \<and>
     (\<forall>c pattern n w. \<exists>r. r_scan R c pattern n w = (r, w))"

definition glob_literal :: "(string \<Rightarrow> string \<Rightarrow> bool) \<Rightarrow> bool" where
  "glob_literal glob \<longleftrightarrow> (\<forall>p q k. ordinary p \<and> glob (p @ q) k \<longrightarrow> prefix p k)"

lemma scan_nothing:
  assumes "scan_only R rd glob pages" and "glob_literal glob" and "ordinary p"
    and "\<And>k. strs (rd w) k \<noteq> None \<Longrightarrow> \<not> prefix p k"
  shows "scan_loop R del pages ''0'' (p @ q) 0 w = (Inr 0, w)"
proof (rule scan_loop_nothing)
  obtain ks where ks: "scan_keys R pages ''0'' (p @ q) 100 w = (Inr ks, w)"
    "\<And>k. k \<in> set ks \<Longrightarrow> glob (p @ q) k \<and> strs (rd w) k \<noteq> None"
    using assms(1) unfolding scan_only_def by metis
  have "ks = []"
  proof (rule ccontr)
    assume "ks \<noteq> []"
    then obtain k where "k \<in> set ks" by (cases ks) auto
    then have "glob (p @ q) k" "strs (rd w) k \<noteq> None" using ks(2) by blast+
    then show False using assms(2-4) unfolding glob_literal_def by blast
  qed
  with ks(1) show "scan_keys R pages ''0'' (p @ q) 100 w = (Inr [], w)" by simp
  show "\<exists>r. r_scan R c p' n w' = (r, w')" for c p' n w'
    using assms(1) unfolding scan_only_def by blast
qed

end
