(* ===== verification/World.thy ===== *)
theory World
  imports Clients
begin

text \<open>
  A world in which the laws of the clients hold: an in-memory keyspace, a clock, a supply of UUIDs,
  the log of a Kafka broker and of the counters. It is not part of the model of the program: the
  theorems about the operations are applied in it to concrete inputs, which shows that their
  hypotheses can hold together. A service with tables of its own extends the record with them.
\<close>

record world =
  w_db :: rdb
  w_now :: int
  w_uuid :: nat
  w_counts :: "(string \<times> string list \<times> int) list"
  w_topics :: "(string \<times> string) list"

definition empty_db :: rdb where
  "empty_db = \<lparr>strs = (\<lambda>_. None), hashes = (\<lambda>_ _. None), zsets = (\<lambda>_. []), lists = (\<lambda>_. []), published = []\<rparr>"

definition world_at :: "int \<Rightarrow> world" where
  "world_at t = \<lparr>w_db = empty_db, w_now = t, w_uuid = 0, w_counts = [], w_topics = []\<rparr>"

definition next_uuid :: "'a world_scheme \<Rightarrow> string" where
  "next_uuid w = ''uuid-'' @ show_nat (w_uuid w)"

definition world_sys :: "'a world_scheme sys" where
  "world_sys =
     \<lparr>date_now = (\<lambda>w. (Inr (w_now w), w)),
      uuid_v4 = (\<lambda>w. (Inr (next_uuid w), w\<lparr>w_uuid := Suc (w_uuid w)\<rparr>))\<rparr>"

definition world_prom :: "'a world_scheme prom" where
  "world_prom =
     \<lparr>prom_inc = (\<lambda>n ls k w. (Inr (), w\<lparr>w_counts := w_counts w @ [(n, ls, k)]\<rparr>)),
      prom_observe = (\<lambda>n ls x w. (Inr (), w))\<rparr>"

definition world_redis :: "'a world_scheme redis" where
  "world_redis =
     \<lparr>r_call = (\<lambda>c w. let (r, d) = redis_step c (w_db w) in (Inr r, w\<lparr>w_db := d\<rparr>)),
      r_pipe = (\<lambda>cs w. let (rs, d) = redis_steps cs (w_db w) in (Inr (Some (map (Pair None) rs)), w\<lparr>w_db := d\<rparr>)),
      r_scan = (\<lambda>c p n w. (Inr (''0'', []), w))\<rparr>"

definition world_kafka :: "'a world_scheme kafka" where
  "world_kafka = \<lparr>kafka_send = (\<lambda>t m w. (Inr (), w\<lparr>w_topics := w_topics w @ [(t, m)]\<rparr>))\<rparr>"

definition put_db :: "rdb \<Rightarrow> 'a world_scheme \<Rightarrow> 'a world_scheme" where
  "put_db d w = w\<lparr>w_db := d\<rparr>"

interpretation mem: redis_server world_redis w_db put_db
  by unfold_locales (simp_all add: world_redis_def put_db_def split: prod.splits)

lemma world_sys_ok [simp]: "sys_ok world_sys w_now next_uuid w_db"
  by (simp add: sys_ok_def world_sys_def)

lemma world_prom_ok [simp]: "prom_ok world_prom w_db"
  by (simp add: prom_ok_def quiet_def world_prom_def)

text \<open>Numbers printed as fractions: a printing that reads back, as the one of the language does.\<close>

definition world_numfmt :: numfmt where
  "world_numfmt =
     \<lparr>num_to_string = (\<lambda>x. case x of NaN \<Rightarrow> ''NaN''
        | Num r \<Rightarrow> show_int (fst (quotient_of r)) @ CHR ''/'' # show_int (snd (quotient_of r))),
      parse_float = (\<lambda>s. case split_on (CHR ''/'') s of
          [a, b] \<Rightarrow> (case (parse_int a, parse_int b) of (Num p, Num q) \<Rightarrow> Num (of_int p / of_int q) | _ \<Rightarrow> NaN)
        | _ \<Rightarrow> js_map of_int (parse_int s)),
      number_of_string = (\<lambda>s. js_map of_int (parse_int s)),
      iso_string = show_int,
      date_parse = parse_int\<rparr>"

lemma slash_not_in_show_int: "CHR ''/'' \<notin> set (show_int i)"
  using show_int_chars [of "CHR ''/''" i] by (auto simp: is_digit_def)

lemma world_numfmt_ok [simp]: "numfmt_ok world_numfmt"
proof -
  have "parse_float world_numfmt (num_to_string world_numfmt x) = x" for x
  proof (cases x)
    case NaN
    then show ?thesis
      by (simp add: world_numfmt_def parse_int_def parse_nat_def is_digit_def is_space_def)
  next
    case (Num r)
    obtain p q where pq: "quotient_of r = (p, q)" by (cases "quotient_of r")
    have r: "of_int p / of_int q = r" using quotient_of_div [OF pq] by simp
    show ?thesis
      by (simp add: Num pq r world_numfmt_def split_on_append split_on_no_sep slash_not_in_show_int)
  qed
  moreover have "num_to_string world_numfmt x \<noteq> []" for x
    by (cases x) (simp_all add: world_numfmt_def)
  moreover have "date_parse world_numfmt (iso_string world_numfmt t) = Num t" for t
    by (simp add: world_numfmt_def)
  ultimately show ?thesis by (simp add: numfmt_ok_def)
qed

text \<open>
  The same server with a \<open>SCAN\<close> that lists the keys: patterns are a prefix and a star, or the key
  itself.
\<close>

definition world_glob :: "string \<Rightarrow> string \<Rightarrow> bool" where
  "world_glob p k \<longleftrightarrow> (if p \<noteq> [] \<and> last p = CHR ''*'' then prefix (butlast p) k else p = k)"

definition scan_redis :: "'a world_scheme redis" where
  "scan_redis = world_redis\<lparr>r_scan := (\<lambda>c p n w.
     (Inr (''0'', sorted_list_of_set {k \<in> dom (strs (w_db w)). world_glob p k}), w))\<rparr>"

interpretation scan: redis_server scan_redis w_db put_db
  by unfold_locales (simp_all add: scan_redis_def world_redis_def put_db_def split: prod.splits)

lemma world_glob_ok: "glob_ok world_glob"
proof -
  have "last p \<noteq> CHR ''*''" if "ordinary p" and "p \<noteq> []" for p
    using that last_in_set [OF that(2)] by (metis IntI Int_empty_right disjoint_iff insertI1 ordinary_def)
  then show ?thesis by (auto simp: glob_ok_def world_glob_def)
qed

lemma scan_redis_ok: "scan_ok scan_redis w_db world_glob (Suc n)"
  unfolding scan_ok_def
proof (intro allI)
  fix p i and w :: "'a world_scheme"
  let ?ks = "sorted_list_of_set {k \<in> dom (strs (w_db w)). world_glob p k}"
  have "scan_keys scan_redis (Suc n) ''0'' p i w = (Inr ?ks, w)"
    by (simp add: scan_redis_def await_def)
  moreover have "\<forall>k \<in> set ?ks. world_glob p k"
    by (cases "finite {k \<in> dom (strs (w_db w)). world_glob p k}") auto
  moreover have "finite (dom (strs (w_db w))) \<longrightarrow> (\<forall>k. strs (w_db w) k \<noteq> None \<and> world_glob p k \<longrightarrow> k \<in> set ?ks)"
    by auto
  ultimately show "\<exists>ks. scan_keys scan_redis (Suc n) ''0'' p i w = (Inr ks, w) \<and> (\<forall>k \<in> set ks. world_glob p k) \<and>
      (finite (dom (strs (w_db w))) \<longrightarrow> (\<forall>k. strs (w_db w) k \<noteq> None \<and> world_glob p k \<longrightarrow> k \<in> set ks))"
    by blast
qed

lemma scan_redis_scan_only: "scan_only scan_redis w_db world_glob (Suc n)"
proof -
  have "\<exists>ks. scan_keys scan_redis (Suc n) ''0'' p i w = (Inr ks, w) \<and> (\<forall>k \<in> set ks. world_glob p k \<and> strs (w_db w) k \<noteq> None)"
    for p i and w :: "'a world_scheme"
  proof -
    let ?ks = "sorted_list_of_set {k \<in> dom (strs (w_db w)). world_glob p k}"
    have "scan_keys scan_redis (Suc n) ''0'' p i w = (Inr ?ks, w)"
      by (simp add: scan_redis_def await_def)
    moreover have "\<forall>k \<in> set ?ks. world_glob p k \<and> strs (w_db w) k \<noteq> None"
      by (cases "finite {k \<in> dom (strs (w_db w)). world_glob p k}") auto
    ultimately show ?thesis by blast
  qed
  moreover have "\<exists>r. r_scan scan_redis c p i w = (r, w)" for c p i and w :: "'a world_scheme"
    by (simp add: scan_redis_def)
  ultimately show ?thesis unfolding scan_only_def by blast
qed

lemma world_glob_literal: "glob_literal world_glob"
proof -
  have "prefix p k" if p: "ordinary p" and g: "world_glob (p @ q) k" for p q k
  proof (cases "q = []")
    case True
    then show ?thesis using p g world_glob_ok unfolding glob_ok_def by auto
  next
    case False
    then show ?thesis using g by (auto simp: world_glob_def butlast_append prefix_def split: if_splits)
  qed
  then show ?thesis unfolding glob_literal_def by blast
qed

text \<open>A key that no row of a table has: longer than all of them together.\<close>

definition fresh_id :: "string list \<Rightarrow> string" where
  "fresh_id ids = replicate (Suc (sum_list (map length ids))) (CHR ''i'')"

lemma fresh_id_notin: "fresh_id ids \<notin> set ids"
proof
  assume "fresh_id ids \<in> set ids"
  then have "length (fresh_id ids) \<le> sum_list (map length ids)"
    by (intro member_le_sum_list) auto
  then show False by (simp add: fresh_id_def)
qed

lemmas world_defs = world_at_def empty_db_def next_uuid_def world_sys_def world_prom_def
  world_redis_def world_kafka_def put_db_def

end
