(* ===== verification/Gateway_RateLimit.thy ===== *)
theory Gateway_RateLimit
  imports World "HOL-Library.Multiset"
begin

text \<open>
  \<open>apps/gateway/src/rate-limit/rate-limit.service.ts\<close>: the token bucket and the sliding window,
  both kept in Redis. \<open>tb_step\<close> and \<open>sw_step\<close> are what one call does to the stored state; the
  methods refine them on a server that answers as documented. The bounds of the bucket and the
  limit of the window over a run of calls are proved on the steps.
\<close>

section \<open>The service\<close>

record rate_limit =
  allowed :: bool
  remaining :: "int js"
  resetAt :: "int js"

definition recordRateLimitHit :: "'w prom \<Rightarrow> string \<Rightarrow> ('w, unit) io" where
  "recordRateLimitHit P algorithm = prom_inc P ''gateway_rate_limit_hits_total'' [algorithm] 1"

text \<open>\<open>vs[i]\<close> of a reply, \<open>undefined\<close> and \<open>null\<close> when it is missing.\<close>

definition field_at :: "'a option list \<Rightarrow> nat \<Rightarrow> 'a option" where
  "field_at vs i = (if i < length vs then vs ! i else None)"

fun js_num2 :: "('a \<Rightarrow> 'b \<Rightarrow> 'c) \<Rightarrow> 'a js \<Rightarrow> 'b js \<Rightarrow> 'c js" where
  "js_num2 f (Num a) (Num b) = Num (f a b)"
| "js_num2 f _ _ = NaN"

fun at_least_one :: "rat js \<Rightarrow> bool" where
  "at_least_one NaN = False"
| "at_least_one (Num t) = (1 \<le> t)"

text \<open>The tokens after the refill, from the two fields as they are stored.\<close>

definition refilled :: "numfmt \<Rightarrow> rat \<Rightarrow> rat \<Rightarrow> int \<Rightarrow> string option \<Rightarrow> string option \<Rightarrow> rat js" where
  "refilled F capacity rate now tokensStr lastRefillStr =
     (let tokens = (if truthy tokensStr then parse_float F (the tokensStr) else Num capacity);
          lastRefill = (if truthy lastRefillStr then parse_int (the lastRefillStr) else Num now)
      in if truthy tokensStr \<and> truthy lastRefillStr then
           (let deltaSec = js_map (\<lambda>l. fdiv (of_int (now - l)) 1000) lastRefill
            in js_num2 (\<lambda>t d. min capacity (fadd t (fmul d rate))) tokens deltaSec)
         else tokens)"

definition tb_key :: "string \<Rightarrow> string" where
  "tb_key identifier = ''ratelimit:tb:'' @ identifier"

definition sw_key :: "string \<Rightarrow> string" where
  "sw_key identifier = ''ratelimit:sw:'' @ identifier"

definition tokenBucket ::
  "numfmt \<Rightarrow> 'w redis \<Rightarrow> 'w sys \<Rightarrow> 'w prom \<Rightarrow> string \<Rightarrow> rat \<Rightarrow> rat \<Rightarrow> ('w, rate_limit) io" where
  "tokenBucket F R S P identifier capacity refillRatePerSec =
     (let key = tb_key identifier in
      await (date_now S) (\<lambda>now.
      await (redis_hmget R key [''tokens'', ''lastRefill'']) (\<lambda>vs.
      (let tokens = refilled F capacity refillRatePerSec now (field_at vs 0) (field_at vs 1);
           ok = at_least_one tokens;
           tokens' = (if ok then js_map (\<lambda>t. fsub t 1) tokens else tokens)
       in await (if ok then return () else recordRateLimitHit P ''token_bucket'') (\<lambda>_.
          await (redis_do R (HSET key [(''tokens'', num_to_string F tokens'), (''lastRefill'', show_int now)])) (\<lambda>_.
          await (redis_do R (EXPIRE key 60)) (\<lambda>_.
          return \<lparr>allowed = ok,
                  remaining = js_map floor tokens',
                  resetAt = (if refillRatePerSec = 0 then NaN
                    else js_map (\<lambda>t. now + 1000 * \<lceil>fdiv (fsub 1 t) refillRatePerSec\<rceil>) tokens')\<rparr>)))))))"

text \<open>
  The limit comes from the platform configuration and may be \<open>NaN\<close>. A pipeline that failed, or
  whose \<open>ZCARD\<close> failed, lets the request through with a count of \<open>0\<close>.
\<close>

definition slidingWindow ::
  "'w redis \<Rightarrow> 'w sys \<Rightarrow> 'w prom \<Rightarrow> string \<Rightarrow> int js \<Rightarrow> int \<Rightarrow> ('w, rate_limit) io" where
  "slidingWindow R S P identifier limit windowMs =
     (let key = sw_key identifier in
      await (date_now S) (\<lambda>now.
      await (uuid_v4 S) (\<lambda>requestId.
      await (r_pipe R [ZADD key now requestId,
                       ZREMRANGEBYSCORE key 0 (now - windowMs),
                       ZCARD key,
                       EXPIRE key (\<lceil>fdiv (of_int windowMs) 1000\<rceil>)]) (\<lambda>results.
      (let count = (case results of
                      Some rs \<Rightarrow> (if 2 < length rs \<and> fst (rs ! 2) = None then Some (reply_int (snd (rs ! 2))) else None)
                    | None \<Rightarrow> None);
           over = (case count of Some c \<Rightarrow> js_gt c limit | None \<Rightarrow> False)
       in await (if over then recordRateLimitHit P ''sliding_window'' else return ()) (\<lambda>_.
          return \<lparr>allowed = (\<not> over),
                  remaining = js_map (\<lambda>l. max 0 (l - (case count of Some c \<Rightarrow> c | None \<Rightarrow> 0))) limit,
                  resetAt = Num (now + windowMs)\<rparr>))))))"

section \<open>The steps on the stored state\<close>

text \<open>
  What is stored for a bucket: the tokens and the time of the last refill, or nothing.
\<close>

type_synonym bucket = "(rat \<times> int) option"

definition stored_bucket :: "numfmt \<Rightarrow> bucket \<Rightarrow> (string \<Rightarrow> string option) \<Rightarrow> bool" where
  "stored_bucket F b h \<longleftrightarrow>
     (case b of
        None \<Rightarrow> h ''tokens'' = None \<and> h ''lastRefill'' = None
      | Some (t, l) \<Rightarrow> h ''tokens'' = Some (num_to_string F (Num t)) \<and> h ''lastRefill'' = Some (show_int l)
          \<and> is_double (Num t))"

definition tb_tokens :: "rat \<Rightarrow> rat \<Rightarrow> int \<Rightarrow> bucket \<Rightarrow> rat" where
  "tb_tokens capacity rate now b =
     (case b of None \<Rightarrow> capacity
      | Some (t, l) \<Rightarrow> min capacity (fadd t (fmul (fdiv (of_int (now - l)) 1000) rate)))"

definition tb_step :: "rat \<Rightarrow> rat \<Rightarrow> int \<Rightarrow> bucket \<Rightarrow> bool \<times> rat" where
  "tb_step capacity rate now b =
     (let t = tb_tokens capacity rate now b in if 1 \<le> t then (True, fsub t 1) else (False, t))"

definition sw_step :: "int \<Rightarrow> int \<Rightarrow> string \<Rightarrow> (int \<times> string) list \<Rightarrow> (int \<times> string) list" where
  "sw_step windowMs now requestId z = filter (\<lambda>(s, m). \<not> (0 \<le> s \<and> s \<le> now - windowMs)) (zinsert now requestId z)"

section \<open>The token bucket\<close>

lemma num_to_string_ok:
  assumes "numfmt_ok F" and "is_double x"
  shows "parse_float F (num_to_string F x) = x" and "truthy (Some (num_to_string F x))"
  using assms by (simp_all add: numfmt_ok_def)

lemma refilled_stored:
  assumes "numfmt_ok F" and "stored_bucket F b h"
  shows "refilled F capacity rate now (h ''tokens'') (h ''lastRefill'') = Num (tb_tokens capacity rate now b)"
proof (cases b)
  case None
  then show ?thesis using assms by (simp add: stored_bucket_def refilled_def tb_tokens_def)
next
  case (Some tl)
  obtain t l where b: "b = Some (t, l)" using Some by (cases tl) simp
  with assms have h: "h ''tokens'' = Some (num_to_string F (Num t))" "h ''lastRefill'' = Some (show_int l)"
    and d: "is_double (Num t)"
    by (simp_all add: stored_bucket_def)
  show ?thesis
    using num_to_string_ok [OF assms(1) d] by (simp add: refilled_def h b tb_tokens_def)
qed

lemma is_double_min: "js_fl c = c \<Longrightarrow> js_fl (min c (js_fl x)) = min c (js_fl x)"
  by (simp add: min_def)

lemma is_double_tb_tokens:
  assumes "js_fl capacity = capacity"
  shows "js_fl (tb_tokens capacity rate now b) = tb_tokens capacity rate now b"
  using is_double_min [OF assms] assms by (simp add: tb_tokens_def fadd_def split: option.splits)

lemma is_double_tb_step:
  assumes "js_fl capacity = capacity"
  shows "is_double (Num (snd (tb_step capacity rate now b)))"
  using is_double_tb_tokens [OF assms] by (simp add: tb_step_def Let_def fsub_def)

lemma hit_quiet: "prom_ok P v \<Longrightarrow> quiet v (recordRateLimitHit P a)"
  by (simp add: recordRateLimitHit_def prom_ok_def)

text \<open>
  C8. On a server that answers as documented, a call of the token bucket admits the request exactly
  when the refilled bucket holds a token, takes it then, reports the whole tokens left, and stores
  the tokens and the time of the call under the key of the identifier, touching nothing else.
\<close>

theorem tokenBucket_refines:
  assumes R: "redis_server R rd wr" and S: "sys_ok S clk gen rd" and P: "prom_ok P rd"
    and F: "numfmt_ok F" and c: "js_fl capacity = capacity"
    and b: "stored_bucket F b (hashes (rd w) (tb_key identifier))"
  shows "\<exists>r w'. tokenBucket F R S P identifier capacity rate w = (Inr r, w')
    \<and> allowed r = fst (tb_step capacity rate (clk w) b)
    \<and> remaining r = Num \<lfloor>snd (tb_step capacity rate (clk w) b)\<rfloor>
    \<and> stored_bucket F (Some (snd (tb_step capacity rate (clk w) b), clk w))
        (hashes (rd w') (tb_key identifier))
    \<and> (\<forall>k. k \<noteq> tb_key identifier \<longrightarrow> hashes (rd w') k = hashes (rd w) k)
    \<and> strs (rd w') = strs (rd w) \<and> zsets (rd w') = zsets (rd w)"
proof -
  let ?key = "tb_key identifier"
  let ?t = "tb_tokens capacity rate (clk w) b"
  have t: "refilled F capacity rate (clk w) (hashes (rd w) ?key ''tokens'') (hashes (rd w) ?key ''lastRefill'') = Num ?t"
    using F b by (rule refilled_stored)
  define d where "d = snd (redis_step (HSET ?key [(''tokens'',
      num_to_string F (Num (snd (tb_step capacity rate (clk w) b)))), (''lastRefill'', show_int (clk w))]) (rd w))"
  note defs = tokenBucket_def Let_def await_def sys_ok_now [OF S] redis_server.commands [OF R]
    redis_server.rd_wr [OF R] redis_server.wr_wr [OF R] field_at_def t tb_step_def d_def
  have "\<exists>t w1. tokenBucket F R S P identifier capacity rate w =
      (Inr \<lparr>allowed = fst (tb_step capacity rate (clk w) b),
            remaining = Num \<lfloor>snd (tb_step capacity rate (clk w) b)\<rfloor>, resetAt = t\<rparr>, wr d w1)"
  proof (cases "1 \<le> ?t")
    case True
    then show ?thesis by (auto simp: defs)
  next
    case False
    obtain w1 where "recordRateLimitHit P ''token_bucket'' w = (Inr (), w1)" and "rd w1 = rd w"
      by (rule quiet_unitE [OF hit_quiet [OF P]])
    with False show ?thesis by (auto simp: defs)
  qed
  then show ?thesis
    using is_double_tb_step [OF c, of rate "clk w" b]
    by (auto simp: d_def stored_bucket_def redis_server.rd_wr [OF R])
qed

theorem tokenBucket_refines_witness:
  "\<exists>r w'. tokenBucket world_numfmt world_redis world_sys world_prom ''ip'' 2 1 (world_at 1000) = (Inr r, w')
    \<and> allowed r \<and> remaining r = Num 1"
  using tokenBucket_refines [OF mem.redis_server_axioms world_sys_ok world_prom_ok world_numfmt_ok,
      of 2 None "world_at 1000" "''ip''" 1]
  by (auto simp: stored_bucket_def world_at_def empty_db_def tb_step_def tb_tokens_def fsub_def dbl.fl_int [of 2, simplified] dbl.fl_int [of 1, simplified])

text \<open>
  The bucket never holds more than its capacity nor less than nothing: with a whole capacity,
  a rate that is not negative and a clock that does not run backwards, the tokens stay within
  \<open>[0, capacity]\<close>, although every step of the computation rounds to a double.
\<close>

theorem tb_step_bounds:
  assumes "0 \<le> n" and "n \<le> 2 ^ 53" and "0 \<le> rate"
    and "case b of None \<Rightarrow> True | Some (t, l) \<Rightarrow> 0 \<le> t \<and> t \<le> of_int n \<and> l \<le> now"
  shows "0 \<le> snd (tb_step (of_int n) rate now b) \<and> snd (tb_step (of_int n) rate now b) \<le> of_int n"
proof -
  let ?t = "tb_tokens (of_int n) rate now b"
  have le: "?t \<le> of_int n" by (auto simp: tb_tokens_def split: option.splits)
  have ge: "0 \<le> ?t"
    using assms
    by (auto simp: tb_tokens_def f_defs split: option.splits
        intro!: js_fl_nonneg add_nonneg_nonneg mult_nonneg_nonneg)
  have "js_fl (?t - 1) \<le> js_fl (of_int n)"
    using le by (intro js_fl_mono) simp
  then have "js_fl (?t - 1) \<le> of_int n" using assms dbl.fl_int [of n] by simp
  with le ge show ?thesis by (simp add: tb_step_def Let_def fsub_def js_fl_nonneg)
qed

theorem tb_step_bounds_witness:
  "0 \<le> snd (tb_step 3 (1/2) 2500 (Some (1, 1000))) \<and> snd (tb_step 3 (1/2) 2500 (Some (1, 1000))) \<le> 3"
  using tb_step_bounds [of 3 "1/2" 2500 "Some (1, 1000)"] by simp

text \<open>The bucket over a run of calls that no time passes between.\<close>

fun tb_burst :: "rat \<Rightarrow> rat \<Rightarrow> int \<Rightarrow> bucket \<Rightarrow> nat \<Rightarrow> bool list \<times> bucket" where
  "tb_burst capacity rate now b 0 = ([], b)"
| "tb_burst capacity rate now b (Suc k) =
     (let (ok, t) = tb_step capacity rate now b;
          (oks, b') = tb_burst capacity rate now (Some (t, now)) k
      in (ok # oks, b'))"

lemma tb_step_whole:
  assumes "0 \<le> m" and "m \<le> n" and "n \<le> 2 ^ 53"
  shows "tb_step (of_int n) rate now (Some (of_int m, now)) = (1 \<le> m, of_int (if 1 \<le> m then m - 1 else m))"
proof -
  have t: "tb_tokens (of_int n) rate now (Some (of_int m, now)) = of_int m"
    using assms by (simp add: tb_tokens_def f_defs dbl.fl_int)
  have "js_fl (of_int m - 1) = of_int m - (1::rat)" if "1 \<le> m"
    using dbl.fl_int [of "m - 1"] assms that by simp
  then show ?thesis
    using assms by (auto simp: tb_step_def t fsub_def Let_def)
qed

lemma tb_burst_whole:
  "0 \<le> m \<Longrightarrow> m \<le> n \<Longrightarrow> n \<le> 2 ^ 53 \<Longrightarrow>
   fst (tb_burst (of_int n) rate now (Some (of_int m, now)) k) =
     replicate (min (nat m) k) True @ replicate (k - nat m) False"
proof (induction k arbitrary: m)
  case (Suc k)
  show ?case
  proof (cases "1 \<le> m")
    case True
    then obtain j where j: "nat m = Suc j" "nat (m - 1) = j" by (metis Suc_nat_eq_nat_zadd1 add.commute diff_add_cancel diff_ge_0_iff_ge)
    have "fst (tb_burst (of_int n) rate now (Some (of_int (m - 1), now)) k) =
        replicate (min (nat (m - 1)) k) True @ replicate (k - nat (m - 1)) False"
      using Suc.prems True by (intro Suc.IH) auto
    with True Suc.prems j show ?thesis
      by (simp add: tb_step_whole split_beta)
  next
    case False
    with Suc.prems have "m = 0" by simp
    then show ?thesis
      using Suc.IH [of 0] Suc.prems by (simp add: tb_step_whole [of 0, simplified] split_beta)
  qed
qed simp

text \<open>
  A burst: an identifier seen for the first time that sends any number of requests at one
  instant gets exactly as many through as the bucket has capacity, the first ones.
\<close>

theorem tb_burst_admits_capacity:
  assumes "1 \<le> n" and "n \<le> 2 ^ 53"
  shows "fst (tb_burst (of_int n) rate now None k) = replicate (min (nat n) k) True @ replicate (k - nat n) False"
proof (cases k)
  case (Suc j)
  have first: "tb_step (of_int n) rate now None = (True, of_int (n - 1))"
    using assms dbl.fl_int [of "n - 1"] by (simp add: tb_step_def tb_tokens_def fsub_def)
  obtain i where i: "nat n = Suc i" "nat (n - 1) = i"
    using assms by (metis Suc_nat_eq_nat_zadd1 add.commute diff_add_cancel diff_ge_0_iff_ge)
  show ?thesis
    using tb_burst_whole [of "n - 1" n rate now j] assms i
    by (simp add: Suc first split_beta)
qed simp

theorem tb_burst_witness:
  "fst (tb_burst 2 10 7000 None 4) = [True, True, False, False]"
  using tb_burst_admits_capacity [of 2 10 7000 4] by (simp add: numeral_eq_Suc)

section \<open>The sliding window\<close>

definition sw_allows :: "int js \<Rightarrow> (int \<times> string) list \<Rightarrow> bool" where
  "sw_allows limit z \<longleftrightarrow> \<not> js_gt (int (length z)) limit"

text \<open>
  C7. On a server that answers as documented, a call of the sliding window records itself, drops
  the entries that left the window, and admits the request exactly when the entries that remain,
  itself included, do not exceed the limit. Every limit is exceeded by none when it is \<open>NaN\<close>.
\<close>

theorem slidingWindow_refines:
  assumes R: "redis_server R rd wr" and S: "sys_ok S clk gen rd" and P: "prom_ok P rd"
  shows "\<exists>r w'. slidingWindow R S P identifier limit windowMs w = (Inr r, w')
    \<and> allowed r = sw_allows limit (zsets (rd w') (sw_key identifier))
    \<and> remaining r = js_map (\<lambda>l. max 0 (l - int (length (zsets (rd w') (sw_key identifier))))) limit
    \<and> resetAt r = Num (clk w + windowMs)
    \<and> rd w' = rd w\<lparr>zsets := (zsets (rd w))(sw_key identifier :=
         sw_step windowMs (clk w) (gen w) (zsets (rd w) (sw_key identifier)))\<rparr>"
proof -
  obtain w1 where w1: "uuid_v4 S w = (Inr (gen w), w1)" and rd1: "rd w1 = rd w"
    by (rule sys_ok_uuid [OF S])
  let ?z = "sw_step windowMs (clk w) (gen w) (zsets (rd w) (sw_key identifier))"
  define d where "d = rd w\<lparr>zsets := (zsets (rd w))(sw_key identifier := ?z)\<rparr>"
  note defs = slidingWindow_def Let_def await_def sys_ok_now [OF S] w1 rd1 redis_server.commands [OF R]
    redis_server.rd_wr [OF R] sw_allows_def sw_step_def d_def reply_int_def
  show ?thesis
  proof (cases "sw_allows limit ?z")
    case True
    then show ?thesis by (auto simp: defs)
  next
    case False
    obtain w2 where "recordRateLimitHit P ''sliding_window'' (wr d w1) = (Inr (), w2)" and "rd w2 = rd (wr d w1)"
      by (rule quiet_unitE [OF hit_quiet [OF P]])
    with False show ?thesis by (auto simp: defs)
  qed
qed

theorem slidingWindow_refines_witness:
  "\<exists>r w'. slidingWindow world_redis world_sys world_prom ''u'' (Num 1) 60000 (world_at 1000) = (Inr r, w')
    \<and> allowed r \<and> remaining r = Num 0"
  using slidingWindow_refines [OF mem.redis_server_axioms world_sys_ok world_prom_ok,
      of "''u''" "Num 1" 60000 "world_at 1000"]
  by (auto simp: world_at_def empty_db_def sw_step_def zinsert_def zremove_def sw_allows_def)

text \<open>A run of calls, each with its time and identifier: the calls admitted, and the stored set.\<close>

fun sw_run :: "int \<Rightarrow> int js \<Rightarrow> (int \<times> string) list \<Rightarrow> (int \<times> string) list \<Rightarrow>
    (int \<times> string) list \<times> (int \<times> string) list" where
  "sw_run windowMs limit [] z = ([], z)"
| "sw_run windowMs limit ((now, i) # cs) z =
     (let z' = sw_step windowMs now i z;
          (ok, z'') = sw_run windowMs limit cs z'
      in (if sw_allows limit z' then (now, i) # ok else ok, z''))"

lemma sw_run_snoc:
  "sw_run W limit (cs @ [(t, i)]) z =
     (let (ok, z1) = sw_run W limit cs z; z' = sw_step W t i z1
      in (if sw_allows limit z' then ok @ [(t, i)] else ok, z'))"
  by (induction cs arbitrary: z) (auto simp: split_beta Let_def)

lemma length_sw_run_window:
  "length (filter P (fst (sw_run W limit cs z))) \<le> length (filter P cs)"
  by (induction cs arbitrary: z) (auto simp: split_beta Let_def le_SucI)

lemma zremove_fresh: "m \<notin> snd ` set z \<Longrightarrow> zremove m z = z"
  by (force simp: zremove_def intro: filter_True)

lemma sw_step_window:
  assumes "mset z = mset (filter (\<lambda>(s, m). t' - W < s) cs)" and "t' \<le> t" and "\<forall>(s, m) \<in> set cs. 0 \<le> s"
    and "0 \<le> t" and "i \<notin> snd ` set cs"
  shows "mset (sw_step W t i z) = mset (filter (\<lambda>(s, m). t - W < s) (cs @ [(t, i)]))"
proof -
  have z: "set z \<subseteq> set cs"
    using mset_eq_setD [OF assms(1)] by auto
  have "zremove i z = z"
    using z assms(5) by (intro zremove_fresh) auto
  then have "mset (sw_step W t i z) =
      filter_mset (\<lambda>(s, m). \<not> (0 \<le> s \<and> s \<le> t - W)) (add_mset (t, i) (mset z))"
    by (simp add: sw_step_def zinsert_def)
  also have "\<dots> = filter_mset (\<lambda>(s, m). t - W < s) (add_mset (t, i) (mset cs))"
    using assms by (auto simp: filter_filter_mset intro!: filter_mset_cong)
  finally show ?thesis by simp
qed

lemma sw_run_window:
  assumes "sorted (map fst cs)" and "distinct (map snd cs)" and "\<forall>(s, m) \<in> set cs. 0 \<le> s" and "cs \<noteq> []"
  shows "mset (snd (sw_run W limit cs [])) = mset (filter (\<lambda>(s, m). fst (last cs) - W < s) cs)"
  using assms
proof (induction cs rule: rev_induct)
  case (snoc c cs)
  obtain t i where c: "c = (t, i)" by (cases c)
  show ?case
  proof (cases "cs = []")
    case True
    then show ?thesis
      using snoc.prems c by (auto simp: Let_def sw_step_def zinsert_def zremove_def)
  next
    case False
    have "mset (snd (sw_run W limit cs [])) = mset (filter (\<lambda>(s, m). fst (last cs) - W < s) cs)"
      using snoc.prems False by (intro snoc.IH) (auto simp: sorted_append)
    moreover have "fst (last cs) \<le> t"
      using snoc.prems c False by (auto simp: sorted_append)
    ultimately have "mset (sw_step W t i (snd (sw_run W limit cs []))) =
        mset (filter (\<lambda>(s, m). t - W < s) (cs @ [(t, i)]))"
      using snoc.prems c by (intro sw_step_window) (auto simp: image_iff)
    then show ?thesis
      by (simp add: c sw_run_snoc split_beta Let_def)
  qed
qed simp

text \<open>
  C6. The limit holds over every window: in any run of calls, whatever the window of \<open>windowMs\<close>
  milliseconds one looks at, no more than \<open>limit\<close> calls in it were admitted.
\<close>

theorem sw_run_limit:
  assumes "sorted (map fst cs)" and "distinct (map snd cs)" and "\<forall>(s, m) \<in> set cs. 0 \<le> s" and "0 \<le> n"
  shows "int (length (filter (\<lambda>(s, m). T - W < s \<and> s \<le> T) (fst (sw_run W (Num n) cs [])))) \<le> n"
  using assms
proof (induction cs rule: rev_induct)
  case (snoc c cs)
  obtain t i where c: "c = (t, i)" by (cases c)
  let ?in = "\<lambda>(s, m). T - W < s \<and> s \<le> (T::int)"
  let ?z = "snd (sw_run W (Num n) (cs @ [c]) [])"
  have IH: "int (length (filter ?in (fst (sw_run W (Num n) cs [])))) \<le> n"
    using snoc.prems by (intro snoc.IH) (auto simp: sorted_append)
  show ?case
  proof (cases "sw_allows (Num n) ?z \<and> ?in c")
    case True
    have "length (filter ?in (fst (sw_run W (Num n) (cs @ [c]) []))) \<le> length (filter ?in (cs @ [c]))"
      by (rule length_sw_run_window)
    also have "\<dots> \<le> length (filter (\<lambda>(s, m). t - W < s) (cs @ [c]))"
      using True unfolding c by (intro length_filter_mono) auto
    also have "\<dots> = size (mset ?z)"
      using arg_cong [OF sw_run_window [OF snoc.prems(1-3), of W "Num n"], of size]
      by (simp add: c del: mset_filter filter_append)
    also have "int \<dots> \<le> n" using True by (simp add: sw_allows_def)
    finally show ?thesis by simp
  next
    case False
    then show ?thesis
      using IH by (cases "sw_run W (Num n) cs []") (auto simp: c sw_run_snoc Let_def)
  qed
qed simp

theorem sw_run_limit_witness:
  "int (length (filter (\<lambda>(s, m). 500 - 1000 < s \<and> s \<le> (500::int))
     (fst (sw_run 1000 (Num 1) [(100, ''a''), (200, ''b''), (1200, ''c'')] [])))) \<le> 1"
  using sw_run_limit [of "[(100, ''a''), (200, ''b''), (1200, ''c'')]" 1 500 1000] by simp

end
