(* ===== verification/Js_Value.thy ===== *)
theory Js_Value
  imports Clients
begin

text \<open>
  Dynamically typed values at the edges of the services (request bodies, token payloads, messages):
  the coercions of the language on JSON values, and the read of a property, which throws on
  \<open>null\<close>.
\<close>

section \<open>Coercions\<close>

text \<open>\<open>String(v)\<close>, also what a template literal inserts; \<open>join_comma\<close> is what an array prints.\<close>

fun js_text :: "json \<Rightarrow> string"
  and join_comma :: "json list \<Rightarrow> string" where
  "js_text JNull = ''null''"
| "js_text (JBool b) = (if b then ''true'' else ''false'')"
| "js_text (JNum n) = show_int n"
| "js_text (JStr s) = s"
| "js_text (JArr xs) = join_comma xs"
| "js_text (JObj kvs) = ''[object Object]''"
| "join_comma [] = []"
| "join_comma [x] = (if x = JNull then [] else js_text x)"
| "join_comma (x # y # ys) = (if x = JNull then [] else js_text x) @ CHR '','' # join_comma (y # ys)"

definition js_text_of :: "json option \<Rightarrow> string" where
  "js_text_of v = (case v of None \<Rightarrow> ''undefined'' | Some j \<Rightarrow> js_text j)"

text \<open>\<open>Number(v)\<close>, which the relational operators apply before they compare with a number.\<close>

fun js_number :: "numfmt \<Rightarrow> json \<Rightarrow> rat js" where
  "js_number F JNull = Num 0"
| "js_number F (JBool b) = Num (if b then 1 else 0)"
| "js_number F (JNum n) = Num (of_int n)"
| "js_number F (JStr s) = number_of_string F s"
| "js_number F j = number_of_string F (js_text j)"

text \<open>\<open>new Date(v).getTime()\<close>.\<close>

fun date_of :: "numfmt \<Rightarrow> json \<Rightarrow> int js" where
  "date_of F JNull = Num 0"
| "date_of F (JBool b) = Num (if b then 1 else 0)"
| "date_of F (JNum n) = Num n"
| "date_of F (JStr s) = date_parse F s"
| "date_of F j = date_parse F (js_text j)"

definition js_below :: "numfmt \<Rightarrow> json \<Rightarrow> rat \<Rightarrow> bool" where
  "js_below F j x = (case js_number F j of NaN \<Rightarrow> False | Num y \<Rightarrow> y < x)"

definition js_above :: "numfmt \<Rightarrow> json \<Rightarrow> rat \<Rightarrow> bool" where
  "js_above F j x = (case js_number F j of NaN \<Rightarrow> False | Num y \<Rightarrow> y > x)"

text \<open>\<open>a || b\<close> on values, and \<open>n.toString()\<close> on a number that may be \<open>NaN\<close>.\<close>

definition or_json :: "json option \<Rightarrow> json option \<Rightarrow> json option" where
  "or_json a b = (if jtruthy a then a else b)"

fun show_num :: "int js \<Rightarrow> string" where
  "show_num NaN = ''NaN''"
| "show_num (Num n) = show_int n"

section \<open>Properties of a value\<close>

definition read_of :: "string \<Rightarrow> json \<Rightarrow> ('w, json option) io" where
  "read_of f j = (if j = JNull then throw (JsError (''Cannot read properties of null (reading '' @ f @ '')''))
                  else return (jget f j))"

text \<open>An object literal in which a property whose value is \<open>undefined\<close> is not serialised.\<close>

fun jobject :: "(string \<times> json option) list \<Rightarrow> json" where
  "jobject kvs = JObj (map (\<lambda>(k, v). (k, the v)) (filter (\<lambda>(k, v). v \<noteq> None) kvs))"

lemma read_of_JObj [simp]: "read_of f (JObj kvs) = return (jget f (JObj kvs))"
  by (simp add: read_of_def)

lemma preserves_read_of [frame]: "preserves v (read_of f j)"
  by (simp add: read_of_def frame)

lemma read_of_cases:
  obtains v where "read_of f j w = (Inr v, w)" | e where "read_of f j w = (Inl e, w)"
  by (cases "j = JNull") (auto simp: read_of_def)

section \<open>The context of a request\<close>

text \<open>
  A middleware changes the request and the response objects as it runs, also when it then throws.
  They are a second component of the world: \<open>on_world\<close> runs a client, \<open>get_ctx\<close> and \<open>mod_ctx\<close>
  read and change the context.
\<close>

definition on_world :: "('w, 'a) io \<Rightarrow> ('w \<times> 'c, 'a) io" where
  "on_world m wc = (case wc of (w, c) \<Rightarrow> (case m w of (r, w') \<Rightarrow> (r, (w', c))))"

definition get_ctx :: "('w \<times> 'c, 'c) io" where
  "get_ctx wc = (Inr (snd wc), wc)"

definition mod_ctx :: "('c \<Rightarrow> 'c) \<Rightarrow> ('w \<times> 'c, unit) io" where
  "mod_ctx f wc = (case wc of (w, c) \<Rightarrow> (Inr (), (w, f c)))"

lemma on_world_eq_iff: "on_world m (w, c) = (r, (w', c')) \<longleftrightarrow> m w = (r, w') \<and> c' = c"
  by (auto simp: on_world_def split: prod.splits)

lemma get_ctx_apply [simp]: "get_ctx (w, c) = (Inr c, (w, c))"
  by (simp add: get_ctx_def)

lemma mod_ctx_apply [simp]: "mod_ctx f (w, c) = (Inr (), (w, f c))"
  by (simp add: mod_ctx_def)

lemma await_get_ctx [simp]: "await get_ctx k (w, c) = k c (w, c)"
  by (simp add: await_def)

lemma await_mod_ctx [simp]: "await (mod_ctx f) k (w, c) = k () (w, f c)"
  by (simp add: await_def)

lemma on_world_return [simp]: "on_world (return a) = return a"
  by (rule ext) (simp add: on_world_def io_defs split: prod.splits)

lemma on_world_throw [simp]: "on_world (throw e) = throw e"
  by (rule ext) (simp add: on_world_def io_defs split: prod.splits)

lemma preserves_on_world_ctx [frame]: "preserves snd (on_world m)"
  by (simp add: preserves_def on_world_def split: prod.splits)

text \<open>What a client that returned did, and what a computation on the context then did.\<close>

lemma await_on_world_InrE:
  assumes "await (on_world m) k (w, c) = (Inr b, (w'', c''))"
  obtains a w' where "m w = (Inr a, w')" and "k a (w', c) = (Inr b, (w'', c''))"
  using assms by (auto simp: await_def on_world_def split: prod.splits sum.splits)

text \<open>
  An invariant of the context: a computation that starts with the invariant ends with it, whether
  it returns or throws, and whatever the clients do.
\<close>

definition maintains :: "('c \<Rightarrow> bool) \<Rightarrow> ('w \<times> 'c, 'a) io \<Rightarrow> bool" where
  "maintains I m \<longleftrightarrow> (\<forall>w c. I c \<longrightarrow> I (snd (snd (m (w, c)))))"

named_theorems maintain \<open>rules for \<open>maintains\<close>\<close>

lemma maintainsD: "maintains I m \<Longrightarrow> m (w, c) = (r, (w', c')) \<Longrightarrow> I c \<Longrightarrow> I c'"
  unfolding maintains_def by (metis snd_conv)

lemma maintains_return [maintain]: "maintains I (return a)"
  by (simp add: maintains_def)

lemma maintains_Pair [maintain]: "maintains I (Pair r)"
  by (simp add: maintains_def)

lemma maintains_throw [maintain]: "maintains I (throw e)"
  by (simp add: maintains_def)

lemma maintains_on_world [maintain]: "maintains I (on_world m)"
  by (simp add: maintains_def on_world_def split: prod.splits)

lemma maintains_mod_ctx [maintain]: "(\<And>c. I c \<Longrightarrow> I (f c)) \<Longrightarrow> maintains I (mod_ctx f)"
  by (simp add: maintains_def)

lemma maintains_get_ctx: "(\<And>c. I c \<Longrightarrow> maintains I (k c)) \<Longrightarrow> maintains I (await get_ctx k)"
  by (simp add: maintains_def)

lemma maintains_await [maintain]:
  assumes "maintains I m" and "\<And>a. maintains I (k a)"
  shows "maintains I (await m k)"
  unfolding maintains_def
proof (intro allI impI)
  fix w c
  assume c: "I c"
  obtain r w1 c1 where m: "m (w, c) = (r, (w1, c1))" by (metis prod_cases3)
  have c1: "I c1" using maintainsD [OF assms(1) m c] .
  show "I (snd (snd (await m k (w, c))))"
  proof (cases r)
    case (Inl e)
    then show ?thesis using c1 by (simp add: await_def m)
  next
    case (Inr a)
    then show ?thesis using assms(2) [of a] c1 unfolding maintains_def by (simp add: await_def m)
  qed
qed

lemma maintains_try_catch [maintain]:
  assumes "maintains I m" and "\<And>e. maintains I (h e)"
  shows "maintains I (try_catch m h)"
  unfolding maintains_def
proof (intro allI impI)
  fix w c
  assume c: "I c"
  obtain r w1 c1 where m: "m (w, c) = (r, (w1, c1))" by (metis prod_cases3)
  have c1: "I c1" using maintainsD [OF assms(1) m c] .
  show "I (snd (snd (try_catch m h (w, c))))"
  proof (cases r)
    case (Inr a)
    then show ?thesis using c1 by (simp add: try_catch_def m)
  next
    case (Inl e)
    then show ?thesis using assms(2) [of e] c1 unfolding maintains_def by (simp add: try_catch_def m)
  qed
qed

lemma maintains_if [maintain]: "maintains I m \<Longrightarrow> maintains I n \<Longrightarrow> maintains I (if b then m else n)"
  by simp

lemma maintains_swallow [maintain]: "maintains I m \<Longrightarrow> maintains I (swallow m)"
  unfolding swallow_def by (intro maintain)

lemma maintains_for_each [maintain]: "(\<And>x. maintains I (f x)) \<Longrightarrow> maintains I (for_each xs f)"
  by (induction xs) (auto intro: maintain)

end
