(* ===== verification/Gateway_Config.thy ===== *)
theory Gateway_Config
  imports Gateway_RateLimit Js_Value
begin

text \<open>
  \<open>apps/gateway/src/config\<close>: the platform configuration, kept in one Redis hash that the gateway,
  the CDN service and the storage service share, and the route by which an administrator changes
  it. A field that is not stored has its default; a field that is stored is read with
  \<open>parseInt\<close>.
\<close>

section \<open>The service\<close>

record platform_config =
  cacheTtlSeconds :: "int js"
  maxFileSizeMb :: "int js"
  rateLimitPerIp :: "int js"

definition PLATFORM_CONFIG_KEY :: string where
  "PLATFORM_CONFIG_KEY = ''edgesphere:platform_config''"

definition config_field :: "(string \<Rightarrow> string option) \<Rightarrow> string \<Rightarrow> int \<Rightarrow> int js" where
  "config_field raw f d = (if truthy (raw f) then parse_int (the (raw f)) else Num d)"

definition config_of :: "(string \<Rightarrow> string option) \<Rightarrow> platform_config" where
  "config_of raw =
     \<lparr>cacheTtlSeconds = config_field raw ''cacheTtlSeconds'' 3600,
      maxFileSizeMb = config_field raw ''maxFileSizeMb'' 5120,
      rateLimitPerIp = config_field raw ''rateLimitPerIp'' 100\<rparr>"

definition getConfig :: "'w redis \<Rightarrow> ('w, platform_config) io" where
  "getConfig R = await (redis_hgetall R PLATFORM_CONFIG_KEY) (\<lambda>raw. return (config_of raw))"

definition field_update :: "json \<Rightarrow> string \<Rightarrow> (string \<times> string) list" where
  "field_update updates f = (case jget f updates of None \<Rightarrow> [] | Some v \<Rightarrow> [(f, js_text v)])"

definition config_updates :: "json \<Rightarrow> (string \<times> string) list" where
  "config_updates updates =
     field_update updates ''cacheTtlSeconds'' @ field_update updates ''maxFileSizeMb''
       @ field_update updates ''rateLimitPerIp''"

definition updateConfig :: "'w redis \<Rightarrow> json \<Rightarrow> ('w, platform_config) io" where
  "updateConfig R updates =
     (let fields = config_updates updates
      in await (if 0 < length fields then redis_do R (HSET PLATFORM_CONFIG_KEY fields) else return ())
           (\<lambda>_. getConfig R))"

definition getRateLimitPerIp :: "'w redis \<Rightarrow> ('w, int js) io" where
  "getRateLimitPerIp R =
     await (redis_hget R PLATFORM_CONFIG_KEY ''rateLimitPerIp'') (\<lambda>val.
     return (if truthy val then parse_int (the val) else Num 100))"

section \<open>The controller\<close>

definition out_of_range :: "numfmt \<Rightarrow> json option \<Rightarrow> int \<Rightarrow> bool" where
  "out_of_range F v hi =
     (case v of None \<Rightarrow> False | Some j \<Rightarrow> js_below F j 1 \<or> js_above F j (of_int hi))"

definition config_update_route :: "numfmt \<Rightarrow> 'w redis \<Rightarrow> json option \<Rightarrow> json \<Rightarrow> ('w, platform_config) io" where
  "config_update_route F R role updates =
     (if role \<noteq> Some (JStr ''admin'') then
        throw (Http 403 ''Only admins can update platform configuration'')
      else if out_of_range F (jget ''cacheTtlSeconds'' updates) 86400 then
        throw (Http 400 ''cacheTtlSeconds must be between 1 and 86400'')
      else if out_of_range F (jget ''maxFileSizeMb'' updates) 10240 then
        throw (Http 400 ''maxFileSizeMb must be between 1 and 10240'')
      else if out_of_range F (jget ''rateLimitPerIp'' updates) 100000 then
        throw (Http 400 ''rateLimitPerIp must be between 1 and 100000'')
      else updateConfig R updates)"

section \<open>What an update stores\<close>

lemma hset_all_append: "hset_all (xs @ ys) h = hset_all ys (hset_all xs h)"
  by (induction xs arbitrary: h) auto

text \<open>What the hash holds for a field of the configuration after an update.\<close>

lemma hset_field_update:
  "hset_all (field_update updates f) h g =
    (if f = g then (case jget f updates of None \<Rightarrow> h g | Some v \<Rightarrow> Some (js_text v)) else h g)"
  by (simp add: field_update_def split: option.splits)

lemma hset_config_updates:
  assumes "f \<in> {''cacheTtlSeconds'', ''maxFileSizeMb'', ''rateLimitPerIp''}"
  shows "hset_all (config_updates updates) h f =
    (case jget f updates of None \<Rightarrow> h f | Some v \<Rightarrow> Some (js_text v))"
  using assms by (elim insertE emptyE) (simp_all add: config_updates_def hset_all_append hset_field_update split: option.splits)

lemma updateConfig_eq:
  assumes "redis_server R rd wr"
  shows "\<exists>w'. updateConfig R updates w =
      (Inr (config_of (hset_all (config_updates updates) (hashes (rd w) PLATFORM_CONFIG_KEY))), w')
    \<and> hashes (rd w') PLATFORM_CONFIG_KEY = hset_all (config_updates updates) (hashes (rd w) PLATFORM_CONFIG_KEY)"
  by (simp add: updateConfig_def getConfig_def Let_def await_def redis_server.commands [OF assms]
      redis_server.rd_wr [OF assms])

text \<open>The new value of a field, when the update names it by a whole number, and the old one otherwise.\<close>

definition new_field :: "json \<Rightarrow> string \<Rightarrow> int js \<Rightarrow> int js" where
  "new_field updates f old = (case jget f updates of Some (JNum n) \<Rightarrow> Num n | _ \<Rightarrow> old)"

definition numeric_field :: "json \<Rightarrow> string \<Rightarrow> int \<Rightarrow> bool" where
  "numeric_field updates f hi = (case jget f updates of None \<Rightarrow> True | Some (JNum n) \<Rightarrow> 1 \<le> n \<and> n \<le> hi | _ \<Rightarrow> False)"

lemma numeric_field_in_range: "numeric_field updates f hi \<Longrightarrow> \<not> out_of_range F (jget f updates) hi"
  by (auto simp: numeric_field_def out_of_range_def js_below_def js_above_def split: option.splits json.splits)

lemma config_field_new:
  assumes "f \<in> {''cacheTtlSeconds'', ''maxFileSizeMb'', ''rateLimitPerIp''}" and "numeric_field updates f hi"
  shows "config_field (hset_all (config_updates updates) h) f d = new_field updates f (config_field h f d)"
  using assms(2) hset_config_updates [OF assms(1), of updates h]
  by (auto simp: config_field_def numeric_field_def new_field_def split: option.splits json.splits)

text \<open>
  An administrator's update with whole numbers in the documented ranges succeeds, answers the
  configuration it leaves behind, sets exactly the fields it names and keeps the others, and every
  later read of the configuration sees the same.
\<close>

theorem config_update_roundtrip:
  assumes R: "redis_server R rd wr"
    and "numeric_field updates ''cacheTtlSeconds'' 86400" and "numeric_field updates ''maxFileSizeMb'' 10240"
    and "numeric_field updates ''rateLimitPerIp'' 100000"
  shows "\<exists>old new w'. getConfig R w = (Inr old, w)
    \<and> config_update_route F R (Some (JStr ''admin'')) updates w = (Inr new, w')
    \<and> getConfig R w' = (Inr new, w')
    \<and> getRateLimitPerIp R w' = (Inr (rateLimitPerIp new), w')
    \<and> cacheTtlSeconds new = new_field updates ''cacheTtlSeconds'' (cacheTtlSeconds old)
    \<and> maxFileSizeMb new = new_field updates ''maxFileSizeMb'' (maxFileSizeMb old)
    \<and> rateLimitPerIp new = new_field updates ''rateLimitPerIp'' (rateLimitPerIp old)"
proof -
  let ?h = "hashes (rd w) PLATFORM_CONFIG_KEY"
  obtain w' where w': "updateConfig R updates w = (Inr (config_of (hset_all (config_updates updates) ?h)), w')"
    "hashes (rd w') PLATFORM_CONFIG_KEY = hset_all (config_updates updates) ?h"
    using updateConfig_eq [OF R, of updates w] by blast
  have "config_update_route F R (Some (JStr ''admin'')) updates w = updateConfig R updates w"
    using assms by (simp add: config_update_route_def numeric_field_in_range)
  moreover have "getConfig R w = (Inr (config_of ?h), w)"
    by (simp add: getConfig_def await_def redis_server.commands [OF R])
  moreover have "getConfig R w' = (Inr (config_of (hset_all (config_updates updates) ?h)), w')"
    by (simp add: getConfig_def await_def redis_server.commands [OF R] w')
  moreover have "getRateLimitPerIp R w' = (Inr (config_field (hset_all (config_updates updates) ?h) ''rateLimitPerIp'' 100), w')"
    by (simp add: getRateLimitPerIp_def await_def redis_server.commands [OF R] w' config_field_def)
  ultimately show ?thesis
    using w' assms by (auto simp: config_of_def intro!: config_field_new)
qed

theorem config_update_roundtrip_witness:
  "\<exists>new w'. config_update_route world_numfmt world_redis (Some (JStr ''admin''))
      (JObj [(''rateLimitPerIp'', JNum 7)]) (world_at 0) = (Inr new, w')
    \<and> getConfig world_redis w' = (Inr new, w') \<and> rateLimitPerIp new = Num 7"
  using config_update_roundtrip [OF mem.redis_server_axioms,
      of "JObj [(''rateLimitPerIp'', JNum 7)]" "world_at 0" world_numfmt]
  by (auto simp: numeric_field_def new_field_def)

text \<open>
  Without the administrator's role the update is refused with 403, and with a number out of
  range for a field it is refused with 400; nothing is written in either case, whatever the server.
\<close>

theorem config_update_refused:
  "(role \<noteq> Some (JStr ''admin'') \<longrightarrow>
      config_update_route F R role updates w =
        (Inl (Http 403 ''Only admins can update platform configuration''), w)) \<and>
   ((f, hi) \<in> {(''cacheTtlSeconds'', 86400), (''maxFileSizeMb'', 10240), (''rateLimitPerIp'', 100000)} \<and>
    jget f updates = Some (JNum n) \<and> (n < 1 \<or> hi < n) \<and> role = Some (JStr ''admin'') \<longrightarrow>
      (\<exists>msg. config_update_route F R role updates w = (Inl (Http 400 msg), w)))"
  by (auto simp: config_update_route_def out_of_range_def js_below_def js_above_def)

theorem config_update_refused_witness:
  "config_update_route world_numfmt world_redis None (JObj []) (world_at 0) =
     (Inl (Http 403 ''Only admins can update platform configuration''), world_at 0) \<and>
   (\<exists>msg. config_update_route world_numfmt world_redis (Some (JStr ''admin''))
     (JObj [(''rateLimitPerIp'', JNum 0)]) (world_at 0) = (Inl (Http 400 msg), world_at 0))"
  using config_update_refused [of None world_numfmt world_redis "JObj []" "world_at 0" "''x''" 0 0]
    config_update_refused [of "Some (JStr ''admin'')" world_numfmt world_redis
      "JObj [(''rateLimitPerIp'', JNum 0)]" "world_at 0" "''rateLimitPerIp''" 100000 0]
  by simp

text \<open>
  The range check does not hold for a field sent as text: a text that is no number passes it,
  is stored, and from then on the per-user limit reads as \<open>NaN\<close>, which no count exceeds, so that
  rate limiting is off.
\<close>

theorem config_text_disables_limit:
  assumes R: "redis_server R rd wr" and u: "updates = JObj [(''rateLimitPerIp'', JStr s)]"
    and s: "s \<noteq> []" "number_of_string F s = NaN" "parse_int s = NaN"
  shows "\<exists>new w'. config_update_route F R (Some (JStr ''admin'')) updates w = (Inr new, w')
    \<and> getRateLimitPerIp R w' = (Inr NaN, w') \<and> (\<forall>z. sw_allows NaN z)"
proof -
  obtain w' where w': "updateConfig R updates w =
      (Inr (config_of (hset_all (config_updates updates) (hashes (rd w) PLATFORM_CONFIG_KEY))), w')"
    "hashes (rd w') PLATFORM_CONFIG_KEY = hset_all (config_updates updates) (hashes (rd w) PLATFORM_CONFIG_KEY)"
    using updateConfig_eq [OF R, of updates w] by blast
  have "config_update_route F R (Some (JStr ''admin'')) updates w = updateConfig R updates w"
    using s by (simp add: u config_update_route_def out_of_range_def js_below_def js_above_def)
  moreover have "getRateLimitPerIp R w' = (Inr NaN, w')"
    using s hset_config_updates [of "''rateLimitPerIp''" updates "hashes (rd w) PLATFORM_CONFIG_KEY"]
    by (cases s) (auto simp: u getRateLimitPerIp_def await_def redis_server.commands [OF R] w')
  ultimately show ?thesis using w' by (simp add: sw_allows_def)
qed

lemma off_is_no_number:
  "''off'' \<noteq> []" "number_of_string world_numfmt ''off'' = NaN" "parse_int ''off'' = NaN"
  by (simp_all add: world_numfmt_def parse_int_def parse_nat_def is_digit_def is_space_def)

theorem config_text_disables_limit_witness:
  "\<exists>new w'. config_update_route world_numfmt world_redis (Some (JStr ''admin''))
      (JObj [(''rateLimitPerIp'', JStr ''off'')]) (world_at 0) = (Inr new, w')
    \<and> getRateLimitPerIp world_redis w' = (Inr NaN, w')"
  using config_text_disables_limit [OF mem.redis_server_axioms refl,
      of "''off''" world_numfmt "world_at 0"] off_is_no_number
  by blast

end
