(* ===== verification/Gateway_Auth.thy ===== *)
theory Gateway_Auth
  imports Gateway_Config
begin

text \<open>
  \<open>apps/gateway/src/middleware/auth.middleware.ts\<close>: every request that is not excluded passes
  here. An API key is checked by the auth service, over HTTP; a bearer token is verified locally.
  Both paths then meet the sliding window of the user. The theorems hold whatever the clients do:
  the middleware never throws, and passes nothing on that was not authenticated and admitted.
\<close>

section \<open>The request and the clients\<close>

record http =
  rq_method :: string
  rq_headers :: "string \<Rightarrow> string option"
  rq_user :: "json option"
  rs_headers :: "(string \<times> string) list"

datatype mw = Next | Reply nat string

text \<open>
  \<open>jwt.sign\<close> and \<open>jwt.verify\<close>, which throws on a token it does not accept; \<open>fetch\<close> of a POST with
  a body, with \<open>response.ok\<close> and what \<open>response.json()\<close> gives, nothing when the body is no JSON.
\<close>

record 'w jwt =
  jwt_sign :: "json \<Rightarrow> string \<Rightarrow> string \<Rightarrow> ('w, string) io"
  jwt_verify :: "string \<Rightarrow> string \<Rightarrow> ('w, json) io"

type_synonym 'w fetcher = "string \<Rightarrow> string \<Rightarrow> ('w, bool \<times> json option) io"

definition set_header :: "string \<Rightarrow> string \<Rightarrow> ('w \<times> http, unit) io" where
  "set_header n v = mod_ctx (\<lambda>c. c\<lparr>rs_headers := rs_headers c @ [(n, v)]\<rparr>)"

definition set_user :: "json \<Rightarrow> ('w \<times> http, unit) io" where
  "set_user p = mod_ctx (\<lambda>c. c\<lparr>rq_user := Some p\<rparr>)"

definition set_request_header :: "string \<Rightarrow> string \<Rightarrow> ('w \<times> http, unit) io" where
  "set_request_header n v = mod_ctx (\<lambda>c. c\<lparr>rq_headers := (rq_headers c)(n \<mapsto> v)\<rparr>)"

definition bearer :: "string \<Rightarrow> string" where
  "bearer token = ''Bearer '' @ token"

section \<open>The middleware\<close>

text \<open>The rate limit, the same on both paths.\<close>

definition limit_gate :: "'w redis \<Rightarrow> 'w sys \<Rightarrow> 'w prom \<Rightarrow> ('w, string) io \<Rightarrow> ('w \<times> http, mw) io" where
  "limit_gate R S P ident =
     await (on_world (getRateLimitPerIp R)) (\<lambda>limit.
     await (on_world ident) (\<lambda>userId.
     await (on_world (slidingWindow R S P userId limit 60000)) (\<lambda>res.
     await (set_header ''X-RateLimit-Limit'' (show_num limit)) (\<lambda>_.
     await (set_header ''X-RateLimit-Remaining'' (show_num (remaining res))) (\<lambda>_.
     await (set_header ''X-RateLimit-Reset''
       (show_num (js_map (\<lambda>t. \<lfloor>fdiv (of_int t) 1000\<rfloor>) (resetAt res)))) (\<lambda>_.
     if \<not> allowed res then
       await (on_world (date_now S)) (\<lambda>now.
       await (set_header ''Retry-After''
         (show_num (js_map (\<lambda>t. \<lceil>fdiv (of_int (t - now)) 1000\<rceil>) (resetAt res)))) (\<lambda>_.
       return (Reply 429 ''Too Many Requests'')))
     else return Next))))))"

definition internal_jwt :: "'w jwt \<Rightarrow> string \<Rightarrow> json \<Rightarrow> ('w, string) io" where
  "internal_jwt J secret payload =
     await (read_of ''sub'' payload) (\<lambda>sub.
     await (read_of ''email'' payload) (\<lambda>email.
     await (read_of ''role'' payload) (\<lambda>role.
     jwt_sign J (jobject [(''sub'', sub), (''email'', email), (''role'', role)]) secret ''5m'')))"

definition validate_url :: "(string \<Rightarrow> string option) \<Rightarrow> string" where
  "validate_url cfg = or_str (cfg ''AUTH_SERVICE_URL'') ''http://localhost:3001'' @ ''/auth/validate-key''"

definition sub_of :: "json \<Rightarrow> ('w, string) io" where
  "sub_of payload = await (read_of ''sub'' payload) (\<lambda>sub. return (js_text_of sub))"

definition api_key_path ::
  "(string \<Rightarrow> string option) \<Rightarrow> 'w fetcher \<Rightarrow> 'w jwt \<Rightarrow> 'w redis \<Rightarrow> 'w sys \<Rightarrow> 'w prom \<Rightarrow> string \<Rightarrow> ('w \<times> http, mw) io" where
  "api_key_path cfg fetch J R S P apiKey =
     await (on_world (fetch (validate_url cfg) (show_json (JObj [(''key'', JStr apiKey)])))) (\<lambda>(ok, body).
     if \<not> ok then return (Reply 401 ''Invalid or expired API key'')
     else (case body of
         None \<Rightarrow> throw (JsError ''Unexpected token'')
       | Some payload \<Rightarrow>
           await (set_user payload) (\<lambda>_.
           await (if truthy (cfg ''JWT_SECRET'')
                  then await (on_world (internal_jwt J (the (cfg ''JWT_SECRET'')) payload)) (\<lambda>internalJwt.
                       set_request_header ''authorization'' (bearer internalJwt))
                  else return ()) (\<lambda>_.
           limit_gate R S P (sub_of payload)))))"

definition bearer_path ::
  "(string \<Rightarrow> string option) \<Rightarrow> 'w jwt \<Rightarrow> 'w redis \<Rightarrow> 'w sys \<Rightarrow> 'w prom \<Rightarrow> string \<Rightarrow> ('w \<times> http, mw) io" where
  "bearer_path cfg J R S P token =
     (if \<not> truthy (cfg ''JWT_SECRET'') then return (Reply 500 ''Internal server error'')
      else await (on_world (jwt_verify J token (the (cfg ''JWT_SECRET'')))) (\<lambda>payload.
           await (set_user payload) (\<lambda>_.
           await (on_world (await (read_of ''sub'' payload) (\<lambda>sub.
              await (read_of ''id'' payload) (\<lambda>id.
              return (js_text_of (or_json sub (or_json id (Some (JStr ''anonymous'')))))))))
             (\<lambda>userId. limit_gate R S P (return userId)))))"

definition auth_use ::
  "(string \<Rightarrow> string option) \<Rightarrow> 'w fetcher \<Rightarrow> 'w jwt \<Rightarrow> 'w redis \<Rightarrow> 'w sys \<Rightarrow> 'w prom \<Rightarrow> ('w \<times> http, mw) io" where
  "auth_use cfg fetch J R S P =
     await get_ctx (\<lambda>req.
     if rq_method req = ''OPTIONS'' then return Next
     else
       (let apiKey = rq_headers req ''x-api-key''; authHeader = rq_headers req ''authorization''
        in if truthy apiKey then
             try_catch (api_key_path cfg fetch J R S P (the apiKey))
               (\<lambda>_. return (Reply 401 ''API key validation failed''))
           else if \<not> truthy authHeader \<or> \<not> prefix ''Bearer '' (the authHeader) then
             return (Reply 401 ''Unauthorized - Missing or invalid token'')
           else
             try_catch (bearer_path cfg J R S P (split_on (CHR '' '') (the authHeader) ! 1))
               (\<lambda>_. return (Reply 401 ''Unauthorized - Invalid token''))))"

section \<open>What passes and what is refused\<close>

definition limit_headers :: "int js \<Rightarrow> rate_limit \<Rightarrow> (string \<times> string) list" where
  "limit_headers limit r =
     [(''X-RateLimit-Limit'', show_num limit), (''X-RateLimit-Remaining'', show_num (remaining r)),
      (''X-RateLimit-Reset'', show_num (js_map (\<lambda>t. \<lfloor>fdiv (of_int t) 1000\<rfloor>) (resetAt r)))]"

text \<open>A gate that answered read the limit, consulted the window of the identifier under it, and did as it said.\<close>

lemma limit_gateE:
  assumes "limit_gate R S P ident (w, c) = (Inr m, (w', c'))"
  obtains limit uid r w1 w2 w3 extra where
    "getRateLimitPerIp R w = (Inr limit, w1)" and "ident w1 = (Inr uid, w2)"
    and "slidingWindow R S P uid limit 60000 w2 = (Inr r, w3)"
    and "m = (if allowed r then Next else Reply 429 ''Too Many Requests'')"
    and "c' = c\<lparr>rs_headers := rs_headers c @ limit_headers limit r @ extra\<rparr>"
    and "if allowed r then extra = [] \<and> w' = w3 else fst ` set extra = {''Retry-After''}"
proof -
  from assms obtain limit w1 uid w2 r w4 where 1: "getRateLimitPerIp R w = (Inr limit, w1)" "ident w1 = (Inr uid, w2)"
      "slidingWindow R S P uid limit 60000 w2 = (Inr r, w4)"
    and rest: "(if \<not> allowed r then
       await (on_world (date_now S)) (\<lambda>now.
       await (set_header ''Retry-After''
         (show_num (js_map (\<lambda>t. \<lceil>fdiv (of_int (t - now)) 1000\<rceil>) (resetAt r)))) (\<lambda>_.
       return (Reply 429 ''Too Many Requests'')))
     else return Next) (w4, c\<lparr>rs_headers := rs_headers c @ limit_headers limit r\<rparr>) = (Inr m, (w', c'))"
    unfolding limit_gate_def
    by (elim await_on_world_InrE) (simp add: set_header_def limit_headers_def)
  show thesis
  proof (cases "allowed r")
    case True
    with rest have "m = Next" "c' = c\<lparr>rs_headers := rs_headers c @ limit_headers limit r @ []\<rparr>" "w' = w4" by simp_all
    then show thesis by (intro that [OF 1]) (auto simp: True)
  next
    case False
    from rest obtain now where "m = Reply 429 ''Too Many Requests''" and
      "c' = c\<lparr>rs_headers := rs_headers c @ limit_headers limit r @
         [(''Retry-After'', show_num (js_map (\<lambda>t. \<lceil>fdiv (of_int (t - now)) 1000\<rceil>) (resetAt r)))]\<rparr>"
      by (auto simp: False set_header_def elim!: await_on_world_InrE)
    then show thesis by (intro that [OF 1]) (auto simp: False)
  qed
qed

text \<open>
  What vouches for a caller, and what lets a user in. Each is a run of the clients from one world to the next: \<open>key_vouches\<close> and
  \<open>token_vouches\<close> from \<open>w\<close> to \<open>w'\<close> with the payload they answer, \<open>admitted\<close> the read of the configured limit and the
  call of the window with that limit, which allowed the request.
\<close>

definition key_vouches ::
  "(string \<Rightarrow> string option) \<Rightarrow> 'w fetcher \<Rightarrow> 'w jwt \<Rightarrow> string \<Rightarrow> json \<Rightarrow> 'w \<Rightarrow> 'w \<Rightarrow> bool" where
  "key_vouches cfg fetch J key payload w w' \<longleftrightarrow>
     (\<exists>w1. fetch (validate_url cfg) (show_json (JObj [(''key'', JStr key)])) w = (Inr (True, Some payload), w1) \<and>
        (if truthy (cfg ''JWT_SECRET'') then \<exists>token. internal_jwt J (the (cfg ''JWT_SECRET'')) payload w1 = (Inr token, w') else w' = w1))"

definition token_vouches :: "(string \<Rightarrow> string option) \<Rightarrow> 'w jwt \<Rightarrow> string \<Rightarrow> json \<Rightarrow> 'w \<Rightarrow> 'w \<Rightarrow> bool" where
  "token_vouches cfg J token payload w w' \<longleftrightarrow>
     truthy (cfg ''JWT_SECRET'') \<and> jwt_verify J token (the (cfg ''JWT_SECRET'')) w = (Inr payload, w')"

definition admitted :: "'w redis \<Rightarrow> 'w sys \<Rightarrow> 'w prom \<Rightarrow> string \<Rightarrow> 'w \<Rightarrow> 'w \<Rightarrow> bool" where
  "admitted R S P uid w w' \<longleftrightarrow>
     (\<exists>limit w1 r. getRateLimitPerIp R w = (Inr limit, w1) \<and> slidingWindow R S P uid limit 60000 w1 = (Inr r, w') \<and> allowed r)"

definition bearer_user :: "json \<Rightarrow> string" where
  "bearer_user payload = js_text_of (or_json (jget ''sub'' payload) (or_json (jget ''id'' payload) (Some (JStr ''anonymous''))))"

lemma read_of_Inr: "read_of f j w = (Inr v, w') \<longleftrightarrow> j \<noteq> JNull \<and> v = jget f j \<and> w' = w"
  by (auto simp: read_of_def)

lemma sub_of_Inr: "sub_of payload w = (Inr uid, w') \<Longrightarrow> uid = js_text_of (jget ''sub'' payload) \<and> w' = w"
  by (auto simp: sub_of_def await_eq_Inr_iff read_of_Inr)

lemma limit_gate_Next:
  assumes "limit_gate R S P ident (w, c) = (Inr Next, (w', c'))" and "\<And>w1 uid w2. ident w1 = (Inr uid, w2) \<Longrightarrow> uid = u \<and> w2 = w1"
  shows "admitted R S P u w w' \<and> rq_user c' = rq_user c \<and> rq_headers c' = rq_headers c"
  using assms(1)
  by (rule limit_gateE) (auto simp: admitted_def dest!: assms(2) split: if_splits)

lemma api_key_path_run:
  assumes "api_key_path cfg fetch J R S P key (w :: 'w, c) = (Inr Next, (w', c'))"
  obtains payload w1 w2 where "rq_user c' = Some payload"
    and "fetch (validate_url cfg) (show_json (JObj [(''key'', JStr key)])) w = (Inr (True, Some payload), w1)"
    and "if truthy (cfg ''JWT_SECRET'')
         then \<exists>token. rq_headers c' ''authorization'' = Some (bearer token)
            \<and> internal_jwt J (the (cfg ''JWT_SECRET'')) payload w1 = (Inr token, w2)
         else rq_headers c' = rq_headers c \<and> w2 = w1"
    and "admitted R S P (js_text_of (jget ''sub'' payload)) w2 w'"
proof -
  from assms obtain payload w1 where f: "fetch (validate_url cfg) (show_json (JObj [(''key'', JStr key)])) w =
      (Inr (True, Some payload), w1)"
    and rest: "await (if truthy (cfg ''JWT_SECRET'')
        then await (on_world (internal_jwt J (the (cfg ''JWT_SECRET'')) payload)) (\<lambda>internalJwt.
             set_request_header ''authorization'' (bearer internalJwt))
        else return ()) (\<lambda>_. limit_gate R S P (sub_of payload)) (w1, c\<lparr>rq_user := Some payload\<rparr>) = (Inr Next, (w', c'))"
    unfolding api_key_path_def
    by (elim await_on_world_InrE) (auto simp: set_user_def split: if_splits option.splits prod.splits)
  obtain w2 c2 where gate: "limit_gate R S P (sub_of payload) (w2, c2) = (Inr Next, (w', c'))"
    and user: "rq_user c2 = Some payload"
    and tok: "if truthy (cfg ''JWT_SECRET'')
         then \<exists>token. rq_headers c2 ''authorization'' = Some (bearer token)
            \<and> internal_jwt J (the (cfg ''JWT_SECRET'')) payload w1 = (Inr token, w2)
         else rq_headers c2 = rq_headers c \<and> w2 = w1"
  proof (cases "truthy (cfg ''JWT_SECRET'')")
    case True
    with rest obtain token w2 where "internal_jwt J (the (cfg ''JWT_SECRET'')) payload w1 = (Inr token, w2)"
      and "limit_gate R S P (sub_of payload)
        (w2, c\<lparr>rq_user := Some payload, rq_headers := (rq_headers c)(''authorization'' \<mapsto> bearer token)\<rparr>) =
          (Inr Next, (w', c'))"
      by (auto simp: set_request_header_def elim!: await_on_world_InrE)
    then show thesis by (elim that) (use True in auto)
  next
    case False
    with rest show thesis by (intro that [of w1 "c\<lparr>rq_user := Some payload\<rparr>"]) auto
  qed
  have "admitted R S P (js_text_of (jget ''sub'' payload)) w2 w' \<and> rq_user c' = rq_user c2 \<and> rq_headers c' = rq_headers c2"
    by (rule limit_gate_Next [OF gate]) (rule sub_of_Inr)
  then show thesis using user tok f by (intro that [of payload w1 w2]) auto
qed

lemma api_key_path_Next:
  assumes "api_key_path cfg fetch J R S P key (w :: 'w, c) = (Inr Next, (w', c'))"
  obtains payload w1 where "rq_user c' = Some payload" and "key_vouches cfg fetch J key payload w w1"
    and "admitted R S P (js_text_of (jget ''sub'' payload)) w1 w'"
proof -
  obtain payload u w1 where p: "rq_user c' = Some payload"
      "fetch (validate_url cfg) (show_json (JObj [(''key'', JStr key)])) w = (Inr (True, Some payload), u)"
    and t: "if truthy (cfg ''JWT_SECRET'')
         then \<exists>token. rq_headers c' ''authorization'' = Some (bearer token)
            \<and> internal_jwt J (the (cfg ''JWT_SECRET'')) payload u = (Inr token, w1)
         else rq_headers c' = rq_headers c \<and> w1 = u"
    and a: "admitted R S P (js_text_of (jget ''sub'' payload)) w1 w'"
    using assms by (rule api_key_path_run)
  from p(2) t have "key_vouches cfg fetch J key payload w w1" by (auto simp: key_vouches_def split: if_splits)
  with p(1) show thesis using a by (rule that)
qed

lemma bearer_path_Next:
  assumes "bearer_path cfg J R S P token (w :: 'w, c) = (Inr Next, (w', c'))"
  obtains payload w1 where "rq_user c' = Some payload" and "token_vouches cfg J token payload w w1"
    and "admitted R S P (bearer_user payload) w1 w'"
proof -
  from assms have s: "truthy (cfg ''JWT_SECRET'')"
    by (auto simp: bearer_path_def split: if_splits)
  with assms obtain payload w1 where v: "jwt_verify J token (the (cfg ''JWT_SECRET'')) w = (Inr payload, w1)"
    and gate: "limit_gate R S P (return (bearer_user payload)) (w1, c\<lparr>rq_user := Some payload\<rparr>) = (Inr Next, (w', c'))"
    by (auto simp: bearer_path_def set_user_def bearer_user_def await_eq_Inr_iff read_of_Inr on_world_eq_iff
        elim!: await_on_world_InrE)
  have "admitted R S P (bearer_user payload) w1 w' \<and> rq_user c' = rq_user (c\<lparr>rq_user := Some payload\<rparr>) \<and>
      rq_headers c' = rq_headers (c\<lparr>rq_user := Some payload\<rparr>)"
    by (rule limit_gate_Next [OF gate]) simp
  then show thesis using s v by (intro that [of payload w1]) (auto simp: token_vouches_def)
qed

text \<open>The answers there are; 500 only without a secret.\<close>

definition auth_answer :: "(string \<Rightarrow> string option) \<Rightarrow> mw \<Rightarrow> bool" where
  "auth_answer cfg m \<longleftrightarrow>
     m = Next \<or> (\<exists>msg. m = Reply 401 msg) \<or> m = Reply 429 ''Too Many Requests'' \<or>
     m = Reply 500 ''Internal server error'' \<and> \<not> truthy (cfg ''JWT_SECRET'')"

lemma auth_answer_simps [simp]:
  "auth_answer cfg Next" "auth_answer cfg (Reply 401 msg)" "auth_answer cfg (Reply 429 ''Too Many Requests'')"
  by (simp_all add: auth_answer_def)

lemma limit_gate_answer: "limit_gate R S P ident (w, c) = (Inr m, (w', c')) \<Longrightarrow> auth_answer cfg m"
  by (erule limit_gateE) simp

lemma api_key_path_answer:
  assumes "api_key_path cfg fetch J R S P key (w, c) = (Inr m, (w', c'))"
  shows "auth_answer cfg m"
  using assms unfolding api_key_path_def
  by (elim await_on_world_InrE)
     (auto simp: set_user_def set_request_header_def split: if_splits option.splits prod.splits
        elim!: await_on_world_InrE dest: limit_gate_answer)

lemma bearer_path_answer:
  assumes "bearer_path cfg J R S P token (w, c) = (Inr m, (w', c'))"
  shows "auth_answer cfg m"
proof (cases "truthy (cfg ''JWT_SECRET'')")
  case True
  with assms show ?thesis
    by (auto simp: bearer_path_def set_user_def elim!: await_on_world_InrE dest: limit_gate_answer)
next
  case False
  with assms show ?thesis by (auto simp: bearer_path_def auth_answer_def)
qed

lemma try_catch_replyE:
  assumes "try_catch m (\<lambda>_. return (Reply n msg)) w = (Inr r, w')"
  obtains "m w = (Inr r, w')" | e where "m w = (Inl e, w')" and "r = Reply n msg"
  using assms by (auto simp: try_catch_def split: prod.splits sum.splits)

lemma try_catch_reply_total:
  "\<exists>r w' c'. try_catch m (\<lambda>_. return (Reply n msg)) (w, c) = (Inr r, (w', c'))"
  by (cases "m (w, c)") (auto simp: try_catch_def split: sum.splits)

lemma auth_use_cases:
  assumes "auth_use cfg fetch J R S P (w, c) = (Inr m, (w', c'))" and "rq_method c \<noteq> ''OPTIONS''"
  obtains key where "rq_headers c ''x-api-key'' = Some key" and "key \<noteq> []"
      and "api_key_path cfg fetch J R S P key (w, c) = (Inr m, (w', c')) \<or> m = Reply 401 ''API key validation failed''"
    | tok where "\<not> truthy (rq_headers c ''x-api-key'')" and "rq_headers c ''authorization'' = Some (bearer tok)"
      and "bearer_path cfg J R S P (hd (split_on (CHR '' '') tok)) (w, c) = (Inr m, (w', c'))
        \<or> m = Reply 401 ''Unauthorized - Invalid token''"
    | "m = Reply 401 ''Unauthorized - Missing or invalid token''"
proof (cases "truthy (rq_headers c ''x-api-key'')")
  case True
  then obtain key where key: "rq_headers c ''x-api-key'' = Some key" "key \<noteq> []"
    by (auto simp: truthy_iff)
  with assms show thesis
    by (intro that(1) [OF key]) (auto simp: auth_use_def Let_def elim!: try_catch_replyE)
next
  case False
  note nokey = False
  show thesis
  proof (cases "truthy (rq_headers c ''authorization'') \<and> prefix ''Bearer '' (the (rq_headers c ''authorization''))")
    case True
    then obtain tok where tok: "rq_headers c ''authorization'' = Some (''Bearer '' @ tok)"
      by (cases "rq_headers c ''authorization''") (auto elim!: prefixE)
    have "split_on (CHR '' '') (''Bearer'' @ CHR '' '' # tok) = ''Bearer'' # split_on (CHR '' '') tok"
      by (rule split_on_append) simp
    then have split: "split_on (CHR '' '') (''Bearer '' @ tok) ! 1 = hd (split_on (CHR '' '') tok)"
      using split_on_nonempty [of "CHR '' ''" tok] by (simp add: hd_conv_nth)
    have "bearer_path cfg J R S P (hd (split_on (CHR '' '') tok)) (w, c) = (Inr m, (w', c'))
        \<or> m = Reply 401 ''Unauthorized - Invalid token''"
      using assms nokey True split tok
      by (auto simp: auth_use_def Let_def elim!: try_catch_replyE)
    then show thesis
      using nokey tok by (intro that(2)) (simp_all add: bearer_def)
  next
    case False
    with assms nokey have "m = Reply 401 ''Unauthorized - Missing or invalid token''"
      by (simp add: auth_use_def Let_def)
    then show thesis by (rule that(3))
  qed
qed

text \<open>
  \<open>vouched\<close>: for the headers of a request, what the authentication met on its way from \<open>w\<close> to \<open>w'\<close> before it passed the request on.
  A key that is not empty goes first; the token is read only without one.
\<close>

definition vouched ::
  "(string \<Rightarrow> string option) \<Rightarrow> 'w fetcher \<Rightarrow> 'w jwt \<Rightarrow> 'w redis \<Rightarrow> 'w sys \<Rightarrow> 'w prom \<Rightarrow> (string \<Rightarrow> string option) \<Rightarrow> json \<Rightarrow> 'w \<Rightarrow> 'w \<Rightarrow> bool" where
  "vouched cfg fetch J R S P headers payload w w' \<longleftrightarrow>
     (if truthy (headers ''x-api-key'')
      then \<exists>w1. key_vouches cfg fetch J (the (headers ''x-api-key'')) payload w w1 \<and>
        admitted R S P (js_text_of (jget ''sub'' payload)) w1 w'
      else \<exists>tok w1. headers ''authorization'' = Some (bearer tok) \<and>
        token_vouches cfg J (hd (split_on (CHR '' '') tok)) payload w w1 \<and> admitted R S P (bearer_user payload) w1 w')"

lemma auth_use_vouched:
  assumes "auth_use cfg fetch J R S P (w, c) = (Inr Next, (w', c'))" and "rq_method c \<noteq> ''OPTIONS''"
  shows "\<exists>payload. rq_user c' = Some payload \<and> vouched cfg fetch J R S P (rq_headers c) payload w w'"
  using assms
proof (cases rule: auth_use_cases)
  case (1 key)
  then show ?thesis by (auto simp: vouched_def elim!: api_key_path_Next)
next
  case (2 tok)
  then show ?thesis by (auto simp: vouched_def elim!: bearer_path_Next)
qed simp

text \<open>
  C1. Nothing passes unauthenticated: a request that is passed on (and is no \<open>OPTIONS\<close> request) carries as its user the payload
  that the auth service answered for its API key or, without a key, the payload of its bearer token, verified with the configured
  secret. After that the middleware read the configured limit and asked the sliding window of that very user under that
  limit, and this call, the last thing that happened, allowed the request. All this holds of the run itself, from the world it
  starts in to the one it ends in, whatever the clients answer.
\<close>

theorem auth_next_sound:
  assumes "auth_use cfg fetch J R S P (w, c) = (Inr Next, (w', c'))" and "rq_method c \<noteq> ''OPTIONS''"
  shows "\<exists>payload. rq_user c' = Some payload \<and> vouched cfg fetch J R S P (rq_headers c) payload w w'"
  using assms by (rule auth_use_vouched)

text \<open>
  The middleware never throws, whatever its clients do: every request is passed on or answered
  with 401, 429 or 500, and 500 means that no secret is configured.
\<close>

theorem auth_total:
  "\<exists>m w' c'. auth_use cfg fetch J R S P (w, c) = (Inr m, (w', c')) \<and> auth_answer cfg m"
proof (cases "rq_method c = ''OPTIONS''")
  case True
  then show ?thesis by (simp add: auth_use_def)
next
  case False
  have "\<exists>m w' c'. auth_use cfg fetch J R S P (w, c) = (Inr m, (w', c'))"
    using False by (auto simp: auth_use_def Let_def intro: try_catch_reply_total)
  then obtain m w' c' where run: "auth_use cfg fetch J R S P (w, c) = (Inr m, (w', c'))" by blast
  then have "auth_answer cfg m"
    using False
  proof (cases rule: auth_use_cases)
    case (1 key)
    from 1(3) show ?thesis by (elim disjE) (erule api_key_path_answer, simp)
  next
    case (2 tok)
    from 2(3) show ?thesis by (elim disjE) (erule bearer_path_answer, simp)
  qed simp
  with run show ?thesis by blast
qed

text \<open>
  When a request with an API key passes and a secret is configured, the downstream services
  get a bearer token in place of whatever authorization header the client sent: one signed with
  that secret for five minutes over the subject, the email and the role the auth service answered.
\<close>

theorem api_key_forwards_internal_jwt:
  assumes "auth_use cfg fetch J R S P (w, c) = (Inr Next, (w', c'))" and "rq_method c \<noteq> ''OPTIONS''"
    and "rq_headers c ''x-api-key'' = Some (x # xs)" and "cfg ''JWT_SECRET'' = Some (s # ss)"
  shows "\<exists>payload token w1 w2. rq_user c' = Some payload
    \<and> jwt_sign J (jobject [(''sub'', jget ''sub'' payload), (''email'', jget ''email'' payload),
         (''role'', jget ''role'' payload)]) (s # ss) ''5m'' w1 = (Inr token, w2)
    \<and> rq_headers c' ''authorization'' = Some (bearer token)"
proof -
  have "api_key_path cfg fetch J R S P (x # xs) (w, c) = (Inr Next, (w', c'))"
    using assms by (cases rule: auth_use_cases) auto
  then obtain payload token w1 w2 where "rq_user c' = Some payload"
    and "rq_headers c' ''authorization'' = Some (bearer token)"
    and "internal_jwt J (s # ss) payload w1 = (Inr token, w2)"
    using assms(4) by (elim api_key_path_run) auto
  then show ?thesis
    by (auto simp: internal_jwt_def await_eq_Inr_iff read_of_Inr simp del: jobject.simps)
qed

text \<open>A JWT library and an auth service that answer, to run the middleware.\<close>

definition world_jwt :: "world jwt" where
  "world_jwt = \<lparr>jwt_sign = (\<lambda>p s e. return (show_json p)),
     jwt_verify = (\<lambda>t s. case json_parse t of None \<Rightarrow> throw (JsError ''jwt malformed'') | Some p \<Rightarrow> return p)\<rparr>"

definition world_fetch :: "world fetcher" where
  "world_fetch url body = return (True, Some (JObj [(''sub'', JStr ''u1''), (''role'', JStr ''user'')]))"

definition world_cfg :: "string \<Rightarrow> string option" where
  "world_cfg k = (if k = ''JWT_SECRET'' then Some ''s3cret'' else None)"

definition key_request :: http where
  "key_request = \<lparr>rq_method = ''GET'', rq_headers = [''x-api-key'' \<mapsto> ''k''], rq_user = None, rs_headers = []\<rparr>"

lemma key_request_passes:
  "fst (auth_use world_cfg world_fetch world_jwt world_redis world_sys world_prom (world_at 0, key_request)) = Inr Next"
  by code_simp

lemma key_request_run:
  obtains w' c' where
    "auth_use world_cfg world_fetch world_jwt world_redis world_sys world_prom (world_at 0, key_request) = (Inr Next, (w', c'))"
  using key_request_passes
  by (cases "auth_use world_cfg world_fetch world_jwt world_redis world_sys world_prom (world_at 0, key_request)") auto

theorem auth_next_sound_witness:
  "\<exists>payload w1 w' c'. auth_use world_cfg world_fetch world_jwt world_redis world_sys world_prom (world_at 0, key_request)
      = (Inr Next, (w', c')) \<and> rq_user c' = Some payload \<and> key_vouches world_cfg world_fetch world_jwt ''k'' payload (world_at 0) w1 \<and>
      admitted world_redis world_sys world_prom (js_text_of (jget ''sub'' payload)) w1 w'"
proof -
  obtain w' c' where run: "auth_use world_cfg world_fetch world_jwt world_redis world_sys world_prom
      (world_at 0, key_request) = (Inr Next, (w', c'))"
    by (rule key_request_run)
  show ?thesis
    using auth_next_sound [OF run] run by (auto simp: key_request_def vouched_def)
qed

theorem api_key_forwards_internal_jwt_witness:
  "\<exists>token w' c'. auth_use world_cfg world_fetch world_jwt world_redis world_sys world_prom (world_at 0, key_request)
      = (Inr Next, (w', c')) \<and> rq_headers c' ''authorization'' = Some (bearer token)"
proof -
  obtain w' c' where run: "auth_use world_cfg world_fetch world_jwt world_redis world_sys world_prom
      (world_at 0, key_request) = (Inr Next, (w', c'))"
    by (rule key_request_run)
  show ?thesis
    using api_key_forwards_internal_jwt [OF run, of "CHR ''k''" "[]" "CHR ''s''" "''3cret''"] run
    by (auto simp: key_request_def world_cfg_def)
qed

end
