(* ===== verification/Gateway_Resilience.thy ===== *)
theory Gateway_Resilience
  imports Gateway_Auth "HOL-Library.AList"
begin

text \<open>
  \<open>apps/gateway/src/resilience\<close> and \<open>apps/gateway/src/health\<close>: one circuit breaker per upstream
  service, kept by name in a map, the route that resets one, and the health report. The breaker
  itself is the library opossum, a parameter: \<open>cb_fire\<close> runs an action under the breaker,
  \<open>cb_opened\<close> and \<open>cb_half_open\<close> are its state, \<open>cb_code\<close> the \<open>code\<close> property of an error.
\<close>

section \<open>The breaker service\<close>

record circuit_stats =
  successes :: nat
  failures :: nat
  rejects :: nat
  fallbacks :: nat
  fires :: nat

record cb_options =
  timeout :: nat
  errorThresholdPercentage :: nat
  resetTimeout :: nat
  volumeThreshold :: nat

record 'w opossum =
  cb_new :: "cb_options \<Rightarrow> ('w, nat) io"
  cb_fire :: "nat \<Rightarrow> ('w, unit) io \<Rightarrow> ('w, unit) io"
  cb_close :: "nat \<Rightarrow> ('w, unit) io"
  cb_opened :: "nat \<Rightarrow> 'w \<Rightarrow> bool"
  cb_half_open :: "nat \<Rightarrow> 'w \<Rightarrow> bool"
  cb_stats :: "nat \<Rightarrow> 'w \<Rightarrow> circuit_stats"
  cb_code :: "exn \<Rightarrow> string option"

text \<open>The map of breakers, in insertion order as the entries of a \<open>Map\<close> are.\<close>

type_synonym breakers = "(string \<times> nat) list"

definition breaker_options :: cb_options where
  "breaker_options =
     \<lparr>timeout = 3000, errorThresholdPercentage = 50, resetTimeout = 30000, volumeThreshold = 5\<rparr>"

definition createBreaker :: "'w opossum \<Rightarrow> string \<Rightarrow> ('w \<times> breakers, nat) io" where
  "createBreaker CB serviceName =
     await (on_world (cb_new CB breaker_options)) (\<lambda>breaker.
     await (mod_ctx (AList.update serviceName breaker)) (\<lambda>_. return breaker))"

definition message_of :: "exn \<Rightarrow> string" where
  "message_of e = (case e of Http n m \<Rightarrow> m | JsError m \<Rightarrow> m)"

definition breaker_is_open :: "'w opossum \<Rightarrow> exn \<Rightarrow> bool" where
  "breaker_is_open CB e \<longleftrightarrow> cb_code CB e = Some ''EOPENBREAKER'' \<or> str_includes (message_of e) ''Breaker is open''"

definition unavailable :: "string \<Rightarrow> exn" where
  "unavailable serviceName = Http 503 (''Service '' @ serviceName @ '' is unavailable'')"

definition execute :: "'w opossum \<Rightarrow> string \<Rightarrow> ('w, unit) io \<Rightarrow> ('w \<times> breakers, unit) io" where
  "execute CB serviceName fn =
     await get_ctx (\<lambda>breakers.
     await (case map_of breakers serviceName of Some b \<Rightarrow> return b | None \<Rightarrow> createBreaker CB serviceName) (\<lambda>breaker.
     try_catch (on_world (cb_fire CB breaker fn))
       (\<lambda>e. if breaker_is_open CB e then throw (unavailable serviceName) else throw e)))"

datatype circuit = OPEN | HALF_OPEN | CLOSED

definition breaker_state :: "'w opossum \<Rightarrow> 'w \<Rightarrow> nat \<Rightarrow> circuit" where
  "breaker_state CB w b = (if cb_opened CB b w then OPEN else if cb_half_open CB b w then HALF_OPEN else CLOSED)"

definition getStatus :: "'w opossum \<Rightarrow> ('w \<times> breakers, (string \<times> circuit \<times> circuit_stats) list) io" where
  "getStatus CB wc = (case wc of (w, breakers) \<Rightarrow>
     (Inr (map (\<lambda>(service, b). (service, breaker_state CB w b, cb_stats CB b w)) breakers), wc))"

definition getBreakerState :: "'w opossum \<Rightarrow> string \<Rightarrow> ('w \<times> breakers, circuit) io" where
  "getBreakerState CB service wc = (case wc of (w, breakers) \<Rightarrow>
     (Inr (case map_of breakers service of None \<Rightarrow> CLOSED | Some b \<Rightarrow> breaker_state CB w b), wc))"

definition resetBreaker :: "'w opossum \<Rightarrow> string \<Rightarrow> ('w \<times> breakers, bool) io" where
  "resetBreaker CB service =
     await get_ctx (\<lambda>breakers.
     case map_of breakers service of
       Some b \<Rightarrow> await (on_world (cb_close CB b)) (\<lambda>_. return True)
     | None \<Rightarrow> return False)"

definition upstream_services :: "string list" where
  "upstream_services = [''auth-service'', ''storage-service'', ''analytics-service'', ''cdn-service'', ''cache-service'']"

definition breakers_init :: "'w opossum \<Rightarrow> ('w \<times> breakers, unit) io" where
  "breakers_init CB = for_each upstream_services (\<lambda>service. await (createBreaker CB service) (\<lambda>_. return ()))"

definition reset_route :: "'w opossum \<Rightarrow> string \<Rightarrow> ('w \<times> breakers, string) io" where
  "reset_route CB service =
     await (resetBreaker CB service) (\<lambda>success.
     if \<not> success then throw (Http 404 (''Circuit breaker for '' @ service @ '' not found''))
     else return (''Circuit breaker for '' @ service @ '' reset successfully''))"

section \<open>The health report\<close>

datatype service_status = Up | Down | Degraded_service
datatype health = Healthy | Degraded | Unhealthy

record service_info =
  si_status :: service_status
  si_circuit :: circuit
  si_latency :: int

text \<open>
  \<open>get url\<close> is the fetch with its timeout: whether the response was a success, or a thrown error.
  \<open>base_url_key\<close> is \<open>service.split('-')[0].toUpperCase() + '_SERVICE_URL'\<close> on the three names.
\<close>

definition to_upper :: "char \<Rightarrow> char" where
  "to_upper c = (if CHR ''a'' \<le> c \<and> c \<le> CHR ''z'' then char_of (of_char c - (32 :: nat)) else c)"

definition base_url_key :: "string \<Rightarrow> string" where
  "base_url_key service = map to_upper (hd (split_on (CHR ''-'') service)) @ ''_SERVICE_URL''"

definition health_services :: "string list" where
  "health_services = [''auth-service'', ''storage-service'', ''analytics-service'']"

definition health_url :: "(string \<Rightarrow> string option) \<Rightarrow> nat \<Rightarrow> string \<Rightarrow> string" where
  "health_url cfg i service =
     or_str (cfg (base_url_key service)) (''http://localhost:300'' @ show_nat (i + 1)) @ ''/health''"

definition probe :: "'w sys \<Rightarrow> (string \<Rightarrow> ('w, bool) io) \<Rightarrow> string \<Rightarrow> ('w, service_status \<times> int) io" where
  "probe S get url =
     await (date_now S) (\<lambda>start.
     try_catch
       (await (get url) (\<lambda>ok.
        await (date_now S) (\<lambda>now. return (if ok then Up else Down, now - start))))
       (\<lambda>_. await (date_now S) (\<lambda>now. return (Down, now - start))))"

definition check_service ::
  "'w opossum \<Rightarrow> 'w sys \<Rightarrow> (string \<Rightarrow> string option) \<Rightarrow> (string \<Rightarrow> ('w, bool) io) \<Rightarrow> nat \<Rightarrow> string \<Rightarrow>
    ('w \<times> breakers, service_info) io" where
  "check_service CB S cfg get i service =
     await (getBreakerState CB service) (\<lambda>state.
     await (on_world (probe S get (health_url cfg i service))) (\<lambda>(status, latency).
     return \<lparr>si_status = (if state = OPEN \<or> state = HALF_OPEN then Degraded_service else status),
             si_circuit = state, si_latency = latency\<rparr>))"

fun check_services ::
  "'w opossum \<Rightarrow> 'w sys \<Rightarrow> (string \<Rightarrow> string option) \<Rightarrow> (string \<Rightarrow> ('w, bool) io) \<Rightarrow> nat \<Rightarrow> string list \<Rightarrow>
    ('w \<times> breakers, (string \<times> service_info) list) io" where
  "check_services CB S cfg get i [] = return []"
| "check_services CB S cfg get i (service # rest) =
     await (check_service CB S cfg get i service) (\<lambda>info.
     await (check_services CB S cfg get (i + 1) rest) (\<lambda>infos. return ((service, info) # infos)))"

text \<open>
  \<open>isDegraded\<close> is set exactly where a status is set to something other than \<open>up\<close>; nothing sets
  \<open>isUnhealthy\<close>. The report always says that Kafka is connected.
\<close>

record health_report =
  hr_status :: health
  hr_uptime :: int
  hr_services :: "(string \<times> service_info) list"
  hr_kafka_connected :: bool
  hr_timestamp :: int

definition check_health ::
  "'w opossum \<Rightarrow> 'w sys \<Rightarrow> (string \<Rightarrow> string option) \<Rightarrow> (string \<Rightarrow> ('w, bool) io) \<Rightarrow> int \<Rightarrow>
    ('w \<times> breakers, health_report) io" where
  "check_health CB S cfg get startTime =
     await (check_services CB S cfg get 0 health_services) (\<lambda>infos.
     (let isDegraded = list_ex (\<lambda>(_, info). si_status info \<noteq> Up) infos;
          isUnhealthy = False;
          kafkaReady = True
      in await (on_world (date_now S)) (\<lambda>now.
         await (on_world (date_now S)) (\<lambda>now2.
         return \<lparr>hr_status = (if isUnhealthy then Unhealthy else if isDegraded then Degraded else Healthy),
                 hr_uptime = \<lfloor>fdiv (of_int (now - startTime)) 1000\<rfloor>, hr_services = infos,
                 hr_kafka_connected = kafkaReady, hr_timestamp = now2\<rparr>))))"

section \<open>What execute does\<close>

text \<open>
  A service that has a breaker keeps it: the action runs under that breaker, so that its
  failures add up there, the map of breakers stays, an open breaker turns into a 503 for the
  service, and every other error of the action is passed on unchanged. A service without one gets
  one, under which the action runs the same way.
\<close>

theorem execute_spec:
  assumes "case map_of bs service of
      Some b' \<Rightarrow> b' = b \<and> w1 = w \<and> bs' = bs
    | None \<Rightarrow> cb_new CB breaker_options w = (Inr b, w1) \<and> bs' = AList.update service b bs"
    and "cb_fire CB b fn w1 = (r, w')"
  shows "map_of bs' service = Some b \<and> execute CB service fn (w, bs) =
    (case r of Inr u \<Rightarrow> Inr u | Inl e \<Rightarrow> Inl (if breaker_is_open CB e then unavailable service else e), (w', bs'))"
proof -
  have run: "try_catch (on_world (cb_fire CB b fn))
       (\<lambda>e. if breaker_is_open CB e then throw (unavailable service) else throw e) (w1, bs') =
    (case r of Inr u \<Rightarrow> Inr u | Inl e \<Rightarrow> Inl (if breaker_is_open CB e then unavailable service else e), (w', bs'))"
    using assms(2) by (cases r) (simp_all add: try_catch_def on_world_def)
  show ?thesis
  proof (cases "map_of bs service")
    case None
    with assms(1) have new: "createBreaker CB service (w, bs) = (Inr b, (w1, bs'))"
      by (simp add: createBreaker_def await_def on_world_def)
    then show ?thesis
      using run None assms(1)
      by (simp add: execute_def await_Inr [where m = "createBreaker CB service", OF new] update_conv')
  next
    case (Some b')
    then show ?thesis using run assms(1) by (simp add: execute_def)
  qed
qed

section \<open>What the report says\<close>

definition service_up :: "'w opossum \<Rightarrow> (string \<Rightarrow> bool option) \<Rightarrow> (string \<Rightarrow> string option) \<Rightarrow> 'w \<times> breakers \<Rightarrow>
    nat \<Rightarrow> string \<Rightarrow> bool" where
  "service_up CB up cfg wc i service \<longleftrightarrow>
     up (health_url cfg i service) = Some True \<and> fst (getBreakerState CB service wc) = Inr CLOSED"

definition answers :: "(string \<Rightarrow> ('w, bool) io) \<Rightarrow> (string \<Rightarrow> bool option) \<Rightarrow> bool" where
  "answers get up \<longleftrightarrow>
     (\<forall>url w. get url w = (case up url of Some ok \<Rightarrow> (Inr ok, w) | None \<Rightarrow> (Inl (JsError ''fetch failed''), w)))"

lemma probe_run:
  assumes "sys_ok S clk gen (\<lambda>w. w)" and "answers get up"
  shows "probe S get url w = (Inr (if up url = Some True then Up else Down, 0), w)"
  using assms(2)
  by (cases "up url") (auto simp: probe_def await_def try_catch_def sys_ok_now [OF assms(1)] answers_def)

lemma not_open_iff_closed: "c \<noteq> OPEN \<and> c \<noteq> HALF_OPEN \<longleftrightarrow> c = CLOSED"
  by (cases c) simp_all

lemma check_service_run:
  assumes "sys_ok S clk gen (\<lambda>w. w)" and "answers get up"
  shows "\<exists>info. check_service CB S cfg get i service wc = (Inr info, wc) \<and>
    (si_status info = Up \<longleftrightarrow> service_up CB up cfg wc i service)"
  by (cases wc)
     (auto simp: check_service_def await_def on_world_def probe_run [OF assms] getBreakerState_def
        service_up_def not_open_iff_closed [symmetric] split: option.splits)

lemma check_services_run:
  assumes "sys_ok S clk gen (\<lambda>w. w)" and "answers get up"
  shows "\<exists>infos. check_services CB S cfg get i services wc = (Inr infos, wc) \<and> map fst infos = services \<and>
    (list_ex (\<lambda>(_, info). si_status info \<noteq> Up) infos \<longleftrightarrow>
      (\<exists>k < length services. \<not> service_up CB up cfg wc (i + k) (services ! k)))"
proof (induction services arbitrary: i)
  case (Cons service rest)
  obtain info where info: "check_service CB S cfg get i service wc = (Inr info, wc)"
    "si_status info = Up \<longleftrightarrow> service_up CB up cfg wc i service"
    using check_service_run [OF assms] by blast
  obtain infos where infos: "check_services CB S cfg get (i + 1) rest wc = (Inr infos, wc)" "map fst infos = rest"
    "list_ex (\<lambda>(_, info). si_status info \<noteq> Up) infos \<longleftrightarrow>
      (\<exists>k < length rest. \<not> service_up CB up cfg wc (i + 1 + k) (rest ! k))"
    using Cons.IH [of "i + 1"] by blast
  have "(\<exists>k < length (service # rest). \<not> service_up CB up cfg wc (i + k) ((service # rest) ! k)) \<longleftrightarrow>
      \<not> service_up CB up cfg wc i service \<or> (\<exists>k < length rest. \<not> service_up CB up cfg wc (i + 1 + k) (rest ! k))"
    by (simp only: length_Cons Ex_less_Suc2) simp
  then show ?case
    using info infos by (simp add: await_def)
qed simp

text \<open>
  With services that answer or fail as they do, the report always comes: it is \<open>healthy\<close>
  exactly when every probed service answers with success and its breaker is closed, and
  \<open>degraded\<close> otherwise. No outage, not even of all the services, makes it \<open>unhealthy\<close>.
\<close>

theorem check_health_spec:
  assumes "sys_ok S clk gen (\<lambda>w. w)" and "answers get up"
  shows "\<exists>rep. check_health CB S cfg get startTime wc = (Inr rep, wc)
    \<and> map fst (hr_services rep) = health_services
    \<and> hr_status rep = (if \<forall>k < 3. service_up CB up cfg wc k (health_services ! k) then Healthy else Degraded)"
proof -
  have "length health_services = 3" by (simp add: health_services_def)
  then obtain infos where infos: "check_services CB S cfg get 0 health_services wc = (Inr infos, wc)"
    "map fst infos = health_services"
    "list_ex (\<lambda>(_, info). si_status info \<noteq> Up) infos \<longleftrightarrow>
      (\<exists>k < 3. \<not> service_up CB up cfg wc k (health_services ! k))"
    using check_services_run [OF assms, of CB cfg 0 health_services wc] by auto
  show ?thesis
    using infos
    by (cases wc) (auto simp: check_health_def Let_def await_def on_world_def sys_ok_now [OF assms(1)])
qed

text \<open>A breaker that lets everything through, for evaluation.\<close>

definition world_breaker :: "world opossum" where
  "world_breaker = \<lparr>cb_new = (\<lambda>_. return 0), cb_fire = (\<lambda>_ m. m), cb_close = (\<lambda>_. return ()),
     cb_opened = (\<lambda>_ _. False), cb_half_open = (\<lambda>_ _. False), cb_stats = (\<lambda>_ _. \<lparr>successes = 0, failures = 0,
       rejects = 0, fallbacks = 0, fires = 0\<rparr>), cb_code = (\<lambda>_. None)\<rparr>"

theorem execute_spec_witness:
  "execute world_breaker ''auth-service'' (throw (JsError ''Breaker is open'')) (world_at 0, []) =
    (Inl (unavailable ''auth-service''), (world_at 0, [(''auth-service'', 0)]))"
  using execute_spec [where bs = "[]" and service = "''auth-service''" and b = 0 and w = "world_at 0" and ?w1.0 = "world_at 0"
      and bs' = "[(''auth-service'', 0)]" and CB = world_breaker and fn = "throw (JsError ''Breaker is open'')"
      and r = "Inl (JsError ''Breaker is open'')" and w' = "world_at 0"]
  by (simp add: world_breaker_def breaker_is_open_def message_of_def str_includes_def)

theorem check_health_spec_witness:
  "\<exists>rep. check_health world_breaker (world_sys\<lparr>uuid_v4 := return ''id''\<rparr>) (\<lambda>_. None) (\<lambda>_. return True) 0 (world_at 0, []) =
      (Inr rep, (world_at 0, [])) \<and> hr_status rep = Healthy"
proof -
  have sys: "sys_ok (world_sys\<lparr>uuid_v4 := return ''id''\<rparr>) w_now (\<lambda>_. ''id'') (\<lambda>w. w)"
    by (simp add: sys_ok_def world_sys_def)
  show ?thesis
    using check_health_spec [OF sys, of "\<lambda>_. return True" "\<lambda>_. Some True" world_breaker "\<lambda>_. None" 0 "(world_at 0, [])"]
    by (auto simp: answers_def service_up_def getBreakerState_def)
qed

end
