(* ===== verification/Codec.thy ===== *)
theory Codec
  imports Js_Text
begin

text \<open>
  Base64 as \<open>Buffer.toString('base64')\<close> and \<open>Buffer.from(s, 'base64')\<close>: the services keep bytes
  in Redis this way. Bytes are characters. The decoder accepts the alphabet of URLs too, skips
  characters outside the alphabets and stops at the padding. An interface \<open>codec\<close> says what the
  caches rely on; Base64 provides it.
\<close>

section \<open>Digits\<close>

definition byte :: "char \<Rightarrow> nat" where
  "byte c = of_char c"

definition b64_char :: "nat \<Rightarrow> char" where
  "b64_char n =
     (if n < 26 then char_of (65 + n) else if n < 52 then char_of (71 + n)
      else if n < 62 then char_of (n - 4) else if n = 62 then CHR ''+'' else CHR ''/'')"

definition b64_val :: "char \<Rightarrow> nat option" where
  "b64_val c =
     (let n = byte c
      in if 65 \<le> n \<and> n \<le> 90 then Some (n - 65)
         else if 97 \<le> n \<and> n \<le> 122 then Some (n - 71)
         else if 48 \<le> n \<and> n \<le> 57 then Some (n + 4)
         else if c = CHR ''+'' \<or> c = CHR ''-'' then Some 62
         else if c = CHR ''/'' \<or> c = CHR ''_'' then Some 63
         else None)"

section \<open>Encoding and decoding\<close>

fun b64_encode :: "string \<Rightarrow> string" where
  "b64_encode [] = []"
| "b64_encode [a] =
     [b64_char (byte a div 4), b64_char (byte a mod 4 * 16), CHR ''='', CHR ''='']"
| "b64_encode [a, b] =
     [b64_char (byte a div 4), b64_char (byte a mod 4 * 16 + byte b div 16), b64_char (byte b mod 16 * 4), CHR ''='']"
| "b64_encode (a # b # c # r) =
     b64_char (byte a div 4) # b64_char (byte a mod 4 * 16 + byte b div 16)
       # b64_char (byte b mod 16 * 4 + byte c div 64) # b64_char (byte c mod 64) # b64_encode r"

fun b64_bytes :: "nat list \<Rightarrow> string" where
  "b64_bytes (w # x # y # z # r) =
     char_of (w * 4 + x div 16) # char_of (x mod 16 * 16 + y div 4) # char_of (y mod 4 * 64 + z) # b64_bytes r"
| "b64_bytes [w, x, y] = [char_of (w * 4 + x div 16), char_of (x mod 16 * 16 + y div 4)]"
| "b64_bytes [w, x] = [char_of (w * 4 + x div 16)]"
| "b64_bytes _ = []"

definition b64_decode :: "string \<Rightarrow> string" where
  "b64_decode s = b64_bytes (List.map_filter b64_val (takeWhile (\<lambda>c. c \<noteq> CHR ''='') s))"

section \<open>Round trip\<close>

lemma byte_less: "byte c < 256"
  unfolding byte_def using nat_of_char_less_256 [of c] by simp

lemma char_of_byte: "char_of (byte c) = c"
  by (simp add: byte_def)

lemma byte_char_of: "n < 256 \<Longrightarrow> byte (char_of n) = n"
  by (simp add: byte_def)

lemma b64_val_char:
  assumes "n < 64"
  shows "b64_val (b64_char n) = Some n"
proof -
  consider "n < 26" | "26 \<le> n" "n < 52" | "52 \<le> n" "n < 62" | "n = 62" | "n = 63"
    using assms by linarith
  then show ?thesis
  proof cases
    case 3
    then obtain m where "n = m + 4" "48 \<le> m" "m \<le> 57"
      by (intro that [of "n - 4"]) linarith+
    then show ?thesis
      by (simp add: b64_char_def b64_val_def byte_char_of Let_def)
  qed (simp_all add: b64_char_def b64_val_def byte_char_of Let_def, simp_all add: byte_def)
qed

lemma b64_char_no_padding: "n < 64 \<Longrightarrow> b64_char n \<noteq> CHR ''=''"
  using b64_val_char [of n] by (auto simp: b64_val_def byte_def)

lemma b64_digits:
  "byte a div 4 < 64" "byte a mod 4 * 16 < 64" "byte a mod 4 * 16 + byte b div 16 < 64"
  "byte b mod 16 * 4 < 64" "byte b mod 16 * 4 + byte c div 64 < 64" "byte c mod 64 < 64"
  using byte_less [of a] byte_less [of b] byte_less [of c] by linarith+

lemma byte_parts [simp]:
  "byte a div 16 div 16 = 0" "byte a div 16 mod 16 = byte a div 16"
  "byte a div 64 div 4 = 0" "byte a div 64 mod 4 = byte a div 64"
  using byte_less [of a] by (simp_all add: less_mult_imp_div_less)

lemma b64_rejoin:
  "byte a div 16 * 16 + byte a mod 16 = byte a" "byte a div 64 * 64 + byte a mod 64 = byte a"
  by simp_all

lemma b64_decode_encode [simp]: "b64_decode (b64_encode s) = s"
proof (induction s rule: b64_encode.induct)
  case (4 a b c r)
  then show ?case
    by (simp add: b64_decode_def map_filter_simps b64_val_char b64_char_no_padding b64_digits b64_rejoin char_of_byte)
qed (simp_all add: b64_decode_def map_filter_simps b64_val_char b64_char_no_padding b64_digits b64_rejoin char_of_byte)

section \<open>The interface of the caches\<close>

text \<open>What a store of bytes as text relies on: nothing is lost, so different bytes are stored differently.\<close>

locale codec =
  fixes enc :: "'a \<Rightarrow> 'b" and dec :: "'b \<Rightarrow> 'a"
  assumes dec_enc: "dec (enc x) = x"
begin

lemma enc_inj: "enc x = enc y \<longleftrightarrow> x = y"
  by (metis dec_enc)

lemma map_dec_enc: "map dec (map enc xs) = xs"
  by (simp add: map_idI dec_enc)

end

interpretation base64: codec b64_encode b64_decode
  by unfold_locales simp

end
