(* ===== verification/Gateway_Proxy.thy ===== *)
theory Gateway_Proxy
  imports Gateway_Resilience Codec
begin

text \<open>
  \<open>apps/gateway/src/proxy\<close> and \<open>apps/gateway/src/middleware/cdn-cache.middleware.ts\<close>: how a request
  that passed the middleware reaches an upstream service. The controller applies the limits per
  address and per user, the service picks the proxy of the upstream and runs it under its circuit
  breaker, the CDN route forwards to the CDN service, and the CDN middleware keeps responses in
  Redis for a minute. The proxies (\<open>http-proxy-middleware\<close>), the HTTP client and MD5 are parameters.
\<close>

section \<open>Responses\<close>

text \<open>The headers of a response by lower-case name, in the order in which they were first set.\<close>

type_synonym headers = "(string \<times> string) list"

record response =
  status :: nat
  hdrs :: headers
  body :: string

definition to_lower :: "char \<Rightarrow> char" where
  "to_lower c = (if CHR ''A'' \<le> c \<and> c \<le> CHR ''Z'' then char_of (of_char c + (32 :: nat)) else c)"

definition setHeader :: "string \<Rightarrow> string \<Rightarrow> headers \<Rightarrow> headers" where
  "setHeader n v hs = AList.update (map to_lower n) v hs"

definition getHeader :: "string \<Rightarrow> headers \<Rightarrow> string option" where
  "getHeader n hs = map_of hs (map to_lower n)"

fun set_headers :: "(string \<times> string) list \<Rightarrow> headers \<Rightarrow> headers" where
  "set_headers [] hs = hs"
| "set_headers ((n, v) # nvs) hs = set_headers nvs (setHeader n v hs)"

section \<open>The CDN route\<close>

record axios_response =
  ax_status :: nat
  ax_headers :: "(string \<times> string option) list"
  ax_data :: string

type_synonym 'w axios = "string \<Rightarrow> string \<Rightarrow> (string \<Rightarrow> string option) \<Rightarrow> ('w, axios_response) io"

definition strip_cdn :: "string \<Rightarrow> string" where
  "strip_cdn originalUrl = (if prefix ''/cdn'' originalUrl then drop 4 originalUrl else originalUrl)"

text \<open>
  \<open>host\<close> is \<open>new URL(u).host\<close>, nothing when \<open>u\<close> is no URL. The response has the status 200 of a
  fresh response object: the route sets headers and pipes the body, and does not set the status.
  \<open>hs\<close> are the headers set before the route runs.
\<close>

definition cdn_handleRequest ::
  "(string \<Rightarrow> string option) \<Rightarrow> (string \<Rightarrow> string option) \<Rightarrow> 'w axios \<Rightarrow> string \<Rightarrow> string \<Rightarrow> (string \<Rightarrow> string option) \<Rightarrow>
    headers \<Rightarrow> ('w, response) io" where
  "cdn_handleRequest cfg host axios method originalUrl reqHeaders hs =
     (let cdnUrl = (case cfg ''CDN_SERVICE_URL'' of None \<Rightarrow> ''http://localhost:8080'' | Some u \<Rightarrow> u);
          targetUrl = cdnUrl @ strip_cdn originalUrl
      in try_catch
           (case host cdnUrl of
              None \<Rightarrow> throw (JsError ''Invalid URL'')
            | Some h \<Rightarrow>
                await (axios method targetUrl (reqHeaders(''host'' \<mapsto> h))) (\<lambda>response.
                (let truthy_headers = map (\<lambda>(k, v). (k, the v)) (filter (\<lambda>(k, v). truthy v) (ax_headers response));
                     hs' = setHeader ''X-Gateway-Region'' ''global'' (set_headers truthy_headers hs)
                 in return \<lparr>status = 200, hdrs = hs', body = ax_data response\<rparr>)))
           (\<lambda>_. return \<lparr>status = 502, hdrs = hs, body = ''Bad Gateway''\<rparr>))"

section \<open>The response cache of the gateway\<close>

definition gw_cache_key :: "(string \<Rightarrow> string) \<Rightarrow> string \<Rightarrow> string \<Rightarrow> string" where
  "gw_cache_key hash path queryString = ''gw:cdn:'' @ path @ '':'' @ hash queryString"

definition cache_entry :: "response \<Rightarrow> string" where
  "cache_entry r = show_json (JObj [(''headers'', JObj (map (\<lambda>(k, v). (k, JStr v)) (hdrs r))),
      (''data'', JStr (b64_encode (body r)))])"

definition header_entries :: "json \<Rightarrow> (string \<times> string) list option" where
  "header_entries j = (case j of JObj kvs \<Rightarrow> Some (map (\<lambda>(k, v). (k, js_text v)) kvs) | _ \<Rightarrow> None)"

text \<open>The response kept in an entry; nothing when the entry is not of the form the middleware writes.\<close>

definition cached_response :: "string \<Rightarrow> headers \<Rightarrow> response option" where
  "cached_response s hs =
     (case json_parse s of
        None \<Rightarrow> None
      | Some j \<Rightarrow>
          (case (jget ''headers'' j, jget ''data'' j) of
             (Some h, Some (JStr d)) \<Rightarrow>
               map_option (\<lambda>nvs. \<lparr>status = 200, hdrs = set_headers nvs hs, body = b64_decode d\<rparr>) (header_entries h)
           | _ \<Rightarrow> None))"

definition cdn_cache_use ::
  "'w redis \<Rightarrow> (string \<Rightarrow> string) \<Rightarrow> string \<Rightarrow> string \<Rightarrow> string \<Rightarrow> (headers \<Rightarrow> ('w, response) io) \<Rightarrow> ('w, response) io" where
  "cdn_cache_use R hash method path queryString downstream =
     (if \<not> prefix ''/cdn'' path then downstream []
      else if method \<noteq> ''GET'' then downstream []
      else
        (let cacheKey = gw_cache_key hash path queryString
         in await (try_catch (await (redis_get R cacheKey) (\<lambda>c. return (Some c))) (\<lambda>_. return None)) (\<lambda>found.
            case found of
              None \<Rightarrow> downstream []
            | Some cachedResponse \<Rightarrow>
                if truthy cachedResponse then
                  (let hs = setHeader ''X-GW-Cache'' ''HIT'' []
                   in case cached_response (the cachedResponse) hs of
                        Some r \<Rightarrow> return r
                      | None \<Rightarrow> downstream hs)
                else
                  await (downstream (setHeader ''X-GW-Cache'' ''MISS'' [])) (\<lambda>r.
                  await (if status r = 200 then swallow (redis_do R (SETEX cacheKey 60 (cache_entry r))) else return ())
                    (\<lambda>_. return r)))))"

section \<open>Headers\<close>

definition wf_headers :: "headers \<Rightarrow> bool" where
  "wf_headers hs \<longleftrightarrow> distinct (map fst hs) \<and> (\<forall>k \<in> fst ` set hs. map to_lower k = k)"

lemma to_lower_idem [simp]: "to_lower (to_lower c) = to_lower c"
proof (cases "CHR ''A'' \<le> c \<and> c \<le> CHR ''Z''")
  case True
  then have "65 \<le> (of_char c :: nat) \<and> of_char c \<le> (90 :: nat)" by (simp add: less_eq_char_def)
  then have "\<not> char_of (of_char c + (32 :: nat)) \<le> CHR ''Z''" by (simp add: less_eq_char_def)
  then show ?thesis by (simp add: to_lower_def)
next
  case False
  then show ?thesis by (auto simp: to_lower_def)
qed

lemma map_to_lower_idem [simp]: "map to_lower (map to_lower n) = map to_lower n"
  by (simp add: comp_def)

lemma wf_headers_Nil [simp]: "wf_headers []"
  by (simp add: wf_headers_def)

lemma wf_setHeader [simp]: "wf_headers hs \<Longrightarrow> wf_headers (setHeader n v hs)"
  by (auto simp: wf_headers_def setHeader_def distinct_update dom_update comp_def)

lemma wf_set_headers: "wf_headers hs \<Longrightarrow> wf_headers (set_headers nvs hs)"
  by (induction nvs hs rule: set_headers.induct) auto

lemma getHeader_setHeader:
  "getHeader n (setHeader m v hs) = (if map to_lower n = map to_lower m then Some v else getHeader n hs)"
  by (simp add: getHeader_def setHeader_def update_conv')

text \<open>Setting the headers of a response over others leaves each of them readable.\<close>

lemma getHeader_set_headers:
  assumes "wf_headers nvs"
  shows "getHeader n (set_headers nvs hs) =
    (case getHeader n nvs of Some v \<Rightarrow> Some v | None \<Rightarrow> getHeader n hs)"
  using assms
proof (induction nvs arbitrary: hs)
  case (Cons kv nvs)
  obtain k v where kv: "kv = (k, v)" by (cases kv)
  have wf: "wf_headers nvs" and k: "map to_lower k = k" "k \<notin> fst ` set nvs"
    using Cons.prems by (auto simp: wf_headers_def kv)
  have "map_of nvs k = None" using k by (simp add: map_of_eq_None_iff)
  then show ?case
    using Cons.IH [OF wf, of "setHeader k v hs"] k
    by (auto simp: kv getHeader_def setHeader_def update_conv' split: option.splits)
qed (simp add: getHeader_def)

section \<open>What the caching of responses does\<close>

lemma cached_response_entry:
  "cached_response (cache_entry r) hs = Some \<lparr>status = 200, hdrs = set_headers (hdrs r) hs, body = body r\<rparr>"
  by (simp add: cached_response_def cache_entry_def header_entries_def comp_def case_prod_unfold del: show_json.simps)

lemma cache_entry_truthy: "truthy (Some (cache_entry r))"
  using json_parse_show by (simp add: cache_entry_def)

text \<open>A response with status 200 is kept, and answers the next request whatever is downstream.\<close>

lemma cdn_cache_keeps:
  assumes R: "redis_server R rd wr" and path: "prefix ''/cdn'' path"
    and miss: "\<not> truthy (strs (rd w) (gw_cache_key hash path q))"
    and fetch: "downstream (setHeader ''X-GW-Cache'' ''MISS'' []) w = (Inr r, w1)" and ok: "status r = 200"
  obtains w2 where "cdn_cache_use R hash ''GET'' path q downstream w = (Inr r, w2)"
    and "\<And>onward. cdn_cache_use R hash ''GET'' path q onward w2 =
      (Inr \<lparr>status = 200, hdrs = set_headers (hdrs r) (setHeader ''X-GW-Cache'' ''HIT'' []), body = body r\<rparr>, w2)"
proof -
  let ?key = "gw_cache_key hash path q"
  let ?w2 = "wr (snd (redis_step (SETEX ?key 60 (cache_entry r)) (rd w1))) w1"
  have first: "cdn_cache_use R hash ''GET'' path q downstream w = (Inr r, ?w2)"
    using path miss ok
    by (simp add: cdn_cache_use_def Let_def await_def try_catch_def swallow_def fetch redis_server.commands [OF R])
  have stored: "strs (rd ?w2) ?key = Some (cache_entry r)"
    by (simp add: redis_server.rd_wr [OF R])
  have "cdn_cache_use R hash ''GET'' path q onward ?w2 =
      (Inr \<lparr>status = 200, hdrs = set_headers (hdrs r) (setHeader ''X-GW-Cache'' ''HIT'' []), body = body r\<rparr>, ?w2)" for onward
    using path cache_entry_truthy [of r]
    by (simp add: cdn_cache_use_def Let_def await_def try_catch_def redis_server.commands [OF R] stored
        cached_response_entry del: redis_step.simps)
  with first show thesis by (rule that)
qed

text \<open>
  An error of the CDN service becomes a success, and stays one: whatever status the service
  answers, the gateway answers 200 with its body, and answers the next request for the same path
  and query with that body and 200 from its store, without asking again.
\<close>

theorem cdn_error_served_as_success:
  assumes R: "redis_server R rd wr" and path: "prefix ''/cdn'' path"
    and miss: "\<not> truthy (strs (rd w) (gw_cache_key hash path q))"
    and cfg: "cfg ''CDN_SERVICE_URL'' = Some cdnUrl" "host cdnUrl = Some h"
    and answer: "axios ''GET'' (cdnUrl @ strip_cdn url) (reqHeaders(''host'' \<mapsto> h)) w =
      (Inr \<lparr>ax_status = st, ax_headers = ahs, ax_data = page\<rparr>, w1)"
  shows "\<exists>hs hs' w2. cdn_cache_use R hash ''GET'' path q (cdn_handleRequest cfg host axios ''GET'' url reqHeaders) w =
        (Inr \<lparr>status = 200, hdrs = hs, body = page\<rparr>, w2)
    \<and> (\<forall>onward. cdn_cache_use R hash ''GET'' path q onward w2 = (Inr \<lparr>status = 200, hdrs = hs', body = page\<rparr>, w2))"
proof -
  obtain hs where "cdn_handleRequest cfg host axios ''GET'' url reqHeaders (setHeader ''X-GW-Cache'' ''MISS'' []) w =
      (Inr \<lparr>status = 200, hdrs = hs, body = page\<rparr>, w1)"
    using cfg answer by (simp add: cdn_handleRequest_def Let_def try_catch_def await_def)
  from cdn_cache_keeps [OF R path miss, of "cdn_handleRequest cfg host axios ''GET'' url reqHeaders", OF this]
  obtain w2 where
    "cdn_cache_use R hash ''GET'' path q (cdn_handleRequest cfg host axios ''GET'' url reqHeaders) w =
      (Inr \<lparr>status = 200, hdrs = hs, body = page\<rparr>, w2)"
    and "\<And>onward. cdn_cache_use R hash ''GET'' path q onward w2 =
      (Inr \<lparr>status = 200, hdrs = set_headers hs (setHeader ''X-GW-Cache'' ''HIT'' []), body = page\<rparr>, w2)"
    by auto
  then show ?thesis by blast
qed

definition world_axios :: "world axios" where
  "world_axios method url reqHeaders = return \<lparr>ax_status = 404, ax_headers = [], ax_data = ''Not Found''\<rparr>"

theorem cdn_error_served_as_success_witness:
  "\<exists>hs w2. cdn_cache_use world_redis id ''GET'' ''/cdn/b/k'' []
      (cdn_handleRequest [''CDN_SERVICE_URL'' \<mapsto> ''http://cdn''] (\<lambda>_. Some ''cdn'') world_axios ''GET'' ''/cdn/b/k'' Map.empty)
      (world_at 0) = (Inr \<lparr>status = 200, hdrs = hs, body = ''Not Found''\<rparr>, w2)"
  using cdn_error_served_as_success [OF mem.redis_server_axioms, where w = "world_at 0" and hash = id and q = "[]"
      and path = "''/cdn/b/k''" and url = "''/cdn/b/k''" and cfg = "[''CDN_SERVICE_URL'' \<mapsto> ''http://cdn'']"
      and cdnUrl = "''http://cdn''" and host = "\<lambda>_. Some ''cdn''" and h = "''cdn''" and axios = world_axios
      and reqHeaders = Map.empty and st = 404 and ahs = "[]" and page = "''Not Found''" and ?w1.0 = "world_at 0"]
  by (auto simp: world_at_def empty_db_def world_axios_def)

text \<open>
  A CDN response that was fetched with status 200 answers the next request for the same path
  and query from the store, without going upstream: same status, same body, and every header the
  first response had. That includes \<open>X-GW-Cache\<close>, which was \<open>MISS\<close> then: the header of the stored
  response overrides the \<open>HIT\<close> the middleware sets, so that no hit ever reports itself as one.
\<close>

theorem cdn_cache_second_request:
  assumes R: "redis_server R rd wr" and path: "prefix ''/cdn'' path"
    and miss: "\<not> truthy (strs (rd w) (gw_cache_key hash path q))"
    and fetch: "downstream (setHeader ''X-GW-Cache'' ''MISS'' []) w = (Inr r, w1)"
    and ok: "status r = 200" "wf_headers (hdrs r)" "getHeader ''X-GW-Cache'' (hdrs r) = Some ''MISS''"
  shows "\<exists>w2 r'. cdn_cache_use R hash ''GET'' path q downstream w = (Inr r, w2)
    \<and> (\<forall>onward. cdn_cache_use R hash ''GET'' path q onward w2 = (Inr r', w2))
    \<and> status r' = 200 \<and> body r' = body r
    \<and> (\<forall>n v. getHeader n (hdrs r) = Some v \<longrightarrow> getHeader n (hdrs r') = Some v)
    \<and> getHeader ''X-GW-Cache'' (hdrs r') = Some ''MISS''"
proof -
  let ?hs = "set_headers (hdrs r) (setHeader ''X-GW-Cache'' ''HIT'' [])"
  obtain w2 where "cdn_cache_use R hash ''GET'' path q downstream w = (Inr r, w2)"
    and "\<And>onward. cdn_cache_use R hash ''GET'' path q onward w2 =
      (Inr \<lparr>status = 200, hdrs = ?hs, body = body r\<rparr>, w2)"
    using cdn_cache_keeps [OF R path miss, of downstream, OF fetch ok(1)] by blast
  moreover have "getHeader n ?hs = Some v" if "getHeader n (hdrs r) = Some v" for n v
    using that by (simp add: getHeader_set_headers [OF ok(2)])
  ultimately show ?thesis using ok(3) by fastforce
qed

theorem cdn_cache_second_request_witness:
  "\<exists>(w2 :: world) r'. (\<forall>onward. cdn_cache_use world_redis id ''GET'' ''/cdn/b/k'' [] onward w2 = (Inr r', w2)) \<and> body r' = ''page''"
  using cdn_cache_second_request [OF mem.redis_server_axioms, where w = "world_at 0" and hash = id and q = "[]"
      and path = "''/cdn/b/k''" and downstream = "\<lambda>hs. return \<lparr>status = 200, hdrs = hs, body = ''page''\<rparr>"
      and r = "\<lparr>status = 200, hdrs = setHeader ''X-GW-Cache'' ''MISS'' [], body = ''page''\<rparr>" and ?w1.0 = "world_at 0"]
  by (auto simp: world_at_def empty_db_def getHeader_setHeader)

text \<open>
  Different requests never share an entry: as long as the hash, whose digests have one length,
  does not collide on the two queries, the key determines the path and the query.
\<close>

theorem gw_cache_key_inj:
  assumes "gw_cache_key hash path q = gw_cache_key hash path' q'"
    and "length (hash q) = length (hash q')" and "hash q = hash q' \<longrightarrow> q = q'"
  shows "path = path' \<and> q = q'"
proof -
  have "path @ '':'' @ hash q = path' @ '':'' @ hash q'"
    using assms(1) by (simp add: gw_cache_key_def)
  then have "path @ '':'' = path' @ '':'' \<and> hash q = hash q'"
    using assms(2) append_eq_append_conv [of "path @ '':''" "path' @ '':''" "hash q" "hash q'"] by simp
  then show ?thesis using assms(3) by simp
qed

theorem gw_cache_key_inj_witness:
  "gw_cache_key (\<lambda>_. ''d41d'') ''/cdn/b/k:1'' [] \<noteq> gw_cache_key (\<lambda>_. ''d41d'') ''/cdn/b/k'' []"
  using gw_cache_key_inj [of "\<lambda>_. ''d41d''" "''/cdn/b/k:1''" "[]" "''/cdn/b/k''" "[]"] by auto

section \<open>The proxies\<close>

text \<open>
  \<open>this.proxies\<close> is an object literal: besides the five upstreams a lookup finds the members of
  \<open>Object.prototype\<close>. Called as a proxy, two of them return without touching the response, the
  others throw a \<open>TypeError\<close>.
\<close>

datatype proxy =
    Upstream string string string   \<comment> \<open>target, and the path prefix with what replaces it\<close>
  | Inert
  | Not_callable

definition upstream_of :: "(string \<Rightarrow> string option) \<Rightarrow> string \<Rightarrow> string \<Rightarrow> string \<Rightarrow> proxy" where
  "upstream_of cfg key dflt service =
     Upstream (or_str (cfg key) dflt) (''/v1/'' @ service) (''/'' @ service)"

definition proxies :: "(string \<Rightarrow> string option) \<Rightarrow> string \<Rightarrow> proxy option" where
  "proxies cfg service =
     (if service = ''auth'' then Some (upstream_of cfg ''AUTH_SERVICE_URL'' ''http://localhost:3001'' service)
      else if service = ''storage'' then Some (upstream_of cfg ''STORAGE_SERVICE_URL'' ''http://localhost:3002'' service)
      else if service = ''analytics'' then Some (upstream_of cfg ''ANALYTICS_SERVICE_URL'' ''http://localhost:3003'' service)
      else if service = ''notifications'' then Some (upstream_of cfg ''NOTIFICATIONS_SERVICE_URL'' ''http://localhost:3005'' service)
      else if service = ''cache'' then Some (upstream_of cfg ''CACHE_SERVICE_URL'' ''http://localhost:3004'' service)
      else if service \<in> {''constructor'', ''toString''} then Some Inert
      else if service \<in> {''valueOf'', ''toLocaleString'', ''hasOwnProperty'', ''isPrototypeOf'', ''propertyIsEnumerable'',
          ''__proto__'', ''__defineGetter__'', ''__defineSetter__'', ''__lookupGetter__'', ''__lookupSetter__''}
        then Some Not_callable
      else None)"

text \<open>
  The answer to a request: a response of the gateway with its message, a proxy that took the
  request over, an error given to the error handler, the response of the CDN route, or none.
\<close>

datatype answer =
    Answered nat string headers
  | Proxied
  | Failed exn
  | Cdn response
  | Unanswered

text \<open>
  \<open>forward target prefx repl\<close> is the proxy middleware run on the request; it throws when it fails
  before it is under way. Later failures are its own to answer: the promise is already resolved.
\<close>

type_synonym 'w forwarder = "string \<Rightarrow> string \<Rightarrow> string \<Rightarrow> ('w, unit) io"

definition run_proxy :: "'w forwarder \<Rightarrow> proxy \<Rightarrow> ('w, unit) io" where
  "run_proxy forward p =
     (case p of
        Upstream target prefx repl \<Rightarrow> forward target prefx repl
      | Inert \<Rightarrow> return ()
      | Not_callable \<Rightarrow> throw (JsError ''proxy is not a function''))"

definition proxy_handle ::
  "'w opossum \<Rightarrow> (string \<Rightarrow> string option) \<Rightarrow> 'w forwarder \<Rightarrow> ('w, response) io \<Rightarrow> string \<Rightarrow> ('w \<times> breakers, answer) io" where
  "proxy_handle CB cfg forward cdn service =
     (if service = ''cdn'' then await (on_world cdn) (\<lambda>r. return (Cdn r))
      else
        (case proxies cfg service of
           Some p \<Rightarrow>
             try_catch
               (await (execute CB (service @ ''-service'') (run_proxy forward p)) (\<lambda>_.
                return (if p = Inert then Unanswered else Proxied)))
               (\<lambda>e. case e of
                    Http n m \<Rightarrow> if n = 503 then return (Answered 503 m [(''retry-after'', ''30'')]) else return (Failed e)
                  | JsError m \<Rightarrow> return (Failed e))
         | None \<Rightarrow> return (Answered 404 ''Service not found'' [])))"

section \<open>The controller\<close>

definition proxyCdn ::
  "'w opossum \<Rightarrow> (string \<Rightarrow> string option) \<Rightarrow> 'w forwarder \<Rightarrow> ('w, response) io \<Rightarrow> 'w redis \<Rightarrow> 'w sys \<Rightarrow> 'w prom \<Rightarrow>
    string option \<Rightarrow> ('w \<times> breakers, answer) io" where
  "proxyCdn CB cfg forward cdn R S P reqIp =
     (let ip = or_str reqIp ''unknown''
      in await (on_world (slidingWindow R S P ip (Num 100) 60000)) (\<lambda>swLimit.
         if \<not> allowed swLimit then return (Answered 429 ''Too Many Requests'' [])
         else proxy_handle CB cfg forward cdn ''cdn''))"

definition user_sub :: "json option \<Rightarrow> json option" where
  "user_sub user = (if jtruthy user then jget ''sub'' (the user) else None)"

definition proxyAll ::
  "numfmt \<Rightarrow> 'w opossum \<Rightarrow> (string \<Rightarrow> string option) \<Rightarrow> 'w forwarder \<Rightarrow> ('w, response) io \<Rightarrow> 'w redis \<Rightarrow> 'w sys \<Rightarrow>
    'w prom \<Rightarrow> string \<Rightarrow> string option \<Rightarrow> json option \<Rightarrow> ('w \<times> breakers, answer) io" where
  "proxyAll F CB cfg forward cdn R S P service reqIp user =
     (let ip = or_str reqIp ''unknown''
      in await (on_world (slidingWindow R S P ip (Num 100) 60000)) (\<lambda>swLimit.
         if \<not> allowed swLimit then return (Answered 429 ''Too Many Requests (IP)'' [])
         else
           await (if jtruthy (user_sub user)
                  then await (on_world (tokenBucket F R S P (js_text (the (user_sub user))) 100 10)) (\<lambda>tbLimit.
                       return (allowed tbLimit))
                  else return True) (\<lambda>ok.
           if \<not> ok then return (Answered 429 ''Too Many Requests (User)'' [])
           else proxy_handle CB cfg forward cdn service)))"

section \<open>Where a request goes\<close>

text \<open>
  What opossum documents: an open breaker rejects with its error without running the action; any
  other runs it and settles as it does, whatever it records.
\<close>

definition breaker_law :: "'w opossum \<Rightarrow> exn \<Rightarrow> ('w \<Rightarrow> 'w) \<Rightarrow> (exn + unit \<Rightarrow> 'w \<Rightarrow> 'w) \<Rightarrow> bool" where
  "breaker_law CB open_error reject note \<longleftrightarrow> breaker_is_open CB open_error \<and>
     (\<forall>b m w. cb_fire CB b m w =
        (if cb_opened CB b w then (Inl open_error, reject w) else (case m w of (r, w') \<Rightarrow> (r, note r w'))))"

text \<open>
  \<open>breaker_for\<close>: the breaker an execution runs under, which is the registered one, or a new one that it registers.
\<close>

definition breaker_for :: "'w opossum \<Rightarrow> string \<Rightarrow> 'w \<times> breakers \<Rightarrow> nat \<Rightarrow> 'w \<times> breakers \<Rightarrow> bool" where
  "breaker_for CB name wb b wb' \<longleftrightarrow>
     (case map_of (snd wb) name of
        Some b' \<Rightarrow> b = b' \<and> wb' = wb
      | None \<Rightarrow> \<exists>w1. cb_new CB breaker_options (fst wb) = (Inr b, w1) \<and> wb' = (w1, AList.update name b (snd wb)))"

lemma breaker_for_known: "map_of bs name = Some b \<Longrightarrow> breaker_for CB name (w, bs) b (w, bs)"
  by (simp add: breaker_for_def)

lemma execute_under_law:
  assumes "breaker_law CB open_error reject note" and "breaker_for CB service (w, bs) b (w1, bs1)"
  shows "execute CB service fn (w, bs) =
    (if cb_opened CB b w1 then (Inl (unavailable service), (reject w1, bs1))
     else (case fn w1 of
        (Inr u, w') \<Rightarrow> (Inr u, (note (Inr u) w', bs1))
      | (Inl e, w') \<Rightarrow> (Inl (if breaker_is_open CB e then unavailable service else e), (note (Inl e) w', bs1))))"
proof -
  have found: "await (case map_of bs service of Some b \<Rightarrow> return b | None \<Rightarrow> createBreaker CB service) k (w, bs) = k b (w1, bs1)" for k
    using assms(2)
    by (auto simp: breaker_for_def createBreaker_def await_def on_world_def mod_ctx_def return_def split: option.splits)
  have "execute CB service fn (w, bs) = try_catch (on_world (cb_fire CB b fn))
       (\<lambda>e. if breaker_is_open CB e then throw (unavailable service) else throw e) (w1, bs1)"
    unfolding execute_def await_get_ctx found ..
  then show ?thesis
    using assms(1) by (cases "fn w1"; cases "fst (fn w1)") (auto simp: try_catch_def on_world_def breaker_law_def)
qed

lemma run_proxy_simps:
  "run_proxy forward (Upstream target prefx repl) = forward target prefx repl"
  "run_proxy forward Inert = return ()"
  "run_proxy forward Not_callable = throw (JsError ''proxy is not a function'')"
  by (simp_all add: run_proxy_def)

lemma proxies_not_cdn: "proxies cfg ''cdn'' = None"
  by (simp add: proxies_def)

text \<open>The answer of a proxy that was found, under the breaker of its service.\<close>

lemma proxy_handle_found:
  assumes law: "breaker_law CB open_error reject note" and b: "breaker_for CB (service @ ''-service'') (w, bs) b (w1, bs1)"
    and p: "proxies cfg service = Some p"
    and e: "\<And>e w'. run_proxy forward p w1 = (Inl e, w') \<Longrightarrow> (\<exists>m. e = JsError m) \<and> \<not> breaker_is_open CB e"
  shows "proxy_handle CB cfg forward cdn service (w, bs) =
    (if cb_opened CB b w1 then
       (Inr (Answered 503 (message_of (unavailable (service @ ''-service''))) [(''retry-after'', ''30'')]), (reject w1, bs1))
     else (case run_proxy forward p w1 of
         (Inr u, w') \<Rightarrow> (Inr (if p = Inert then Unanswered else Proxied), (note (Inr u) w', bs1))
       | (Inl e, w') \<Rightarrow> (Inr (Failed e), (note (Inl e) w', bs1))))"
proof -
  have cdn: "service \<noteq> ''cdn''" using p by (auto simp: proxies_not_cdn)
  note ex = execute_under_law [OF law b, where fn = "run_proxy forward p"]
  obtain r w' where run: "run_proxy forward p w1 = (r, w')" by fastforce
  show ?thesis
  proof (cases r)
    case (Inl err)
    with e run obtain m where "err = JsError m" "\<not> breaker_is_open CB err" by blast
    then show ?thesis
      using Inl run by (simp add: proxy_handle_def cdn p try_catch_def await_def ex unavailable_def message_of_def)
  next
    case (Inr u)
    then show ?thesis
      using run by (simp add: proxy_handle_def cdn p try_catch_def await_def ex unavailable_def message_of_def)
  qed
qed

text \<open>The upstreams by name, with the setting for the URL and its default; and the members that every object has.\<close>

definition upstreams :: "(string \<times> string \<times> string) list" where
  "upstreams =
     [(''auth'', ''AUTH_SERVICE_URL'', ''http://localhost:3001''), (''storage'', ''STORAGE_SERVICE_URL'', ''http://localhost:3002''),
      (''analytics'', ''ANALYTICS_SERVICE_URL'', ''http://localhost:3003''),
      (''notifications'', ''NOTIFICATIONS_SERVICE_URL'', ''http://localhost:3005''), (''cache'', ''CACHE_SERVICE_URL'', ''http://localhost:3004'')]"

definition callable_members :: "string set" where
  "callable_members = {''constructor'', ''toString''}"

definition other_members :: "string set" where
  "other_members = {''valueOf'', ''toLocaleString'', ''hasOwnProperty'', ''isPrototypeOf'', ''propertyIsEnumerable'',
     ''__proto__'', ''__defineGetter__'', ''__defineSetter__'', ''__lookupGetter__'', ''__lookupSetter__''}"

lemma proxies_upstream:
  "(service, key, dflt) \<in> set upstreams \<Longrightarrow>
    proxies cfg service = Some (Upstream (or_str (cfg key) dflt) (''/v1/'' @ service) (''/'' @ service))"
  unfolding upstreams_def list.set by (elim insertE emptyE Pair_inject) (simp_all add: proxies_def upstream_of_def)

lemma proxies_inert: "service \<in> callable_members \<Longrightarrow> proxies cfg service = Some Inert"
  unfolding callable_members_def by (elim insertE emptyE) (simp_all add: proxies_def)

lemma proxies_not_callable: "service \<in> other_members \<Longrightarrow> proxies cfg service = Some Not_callable"
  unfolding other_members_def by (elim insertE emptyE) (simp_all add: proxies_def)

lemma proxies_None:
  "service \<notin> fst ` set upstreams \<union> callable_members \<union> other_members \<Longrightarrow> proxies cfg service = None"
  by (simp add: upstreams_def callable_members_def other_members_def proxies_def)

text \<open>
  C9. A request for one of the five upstream services goes to the URL configured for it, under the breaker of that service, which
  is registered on the first request: with the breaker open the gateway answers 503 with \<open>Retry-After: 30\<close> and never contacts the
  upstream; otherwise the upstream's proxy takes the request over, and an error it throws goes to the error handler.
  A name that is neither an upstream, nor the CDN, nor a member of every object is answered 404, and that touches nothing, no breaker
  either. The members of \<open>Object.prototype\<close> are found as if they were proxies, and get a breaker: behind one that is not open,
  \<open>constructor\<close> and \<open>toString\<close> leave the request without any answer, the others give the error handler a \<open>TypeError\<close>.
\<close>

theorem proxy_handle_spec:
  assumes law: "breaker_law CB open_error reject note"
    and e: "\<And>t p r w w' e. forward t p r w = (Inl e, w') \<Longrightarrow> (\<exists>m. e = JsError m) \<and> \<not> breaker_is_open CB e"
    and call: "\<not> breaker_is_open CB (JsError ''proxy is not a function'')"
  shows "(\<forall>key dflt b w1 bs1. (service, key, dflt) \<in> set upstreams \<and> breaker_for CB (service @ ''-service'') (w, bs) b (w1, bs1) \<longrightarrow>
      proxy_handle CB cfg forward cdn service (w, bs) =
        (if cb_opened CB b w1 then
           (Inr (Answered 503 (''Service '' @ service @ ''-service is unavailable'') [(''retry-after'', ''30'')]), (reject w1, bs1))
         else (case forward (or_str (cfg key) dflt) (''/v1/'' @ service) (''/'' @ service) w1 of
             (Inr u, w') \<Rightarrow> (Inr Proxied, (note (Inr u) w', bs1))
           | (Inl e, w') \<Rightarrow> (Inr (Failed e), (note (Inl e) w', bs1)))))
    \<and> (service \<notin> {''cdn''} \<union> fst ` set upstreams \<union> callable_members \<union> other_members \<longrightarrow>
      proxy_handle CB cfg forward cdn service (w, bs) = (Inr (Answered 404 ''Service not found'' []), (w, bs)))
    \<and> (\<forall>b w1 bs1. breaker_for CB (service @ ''-service'') (w, bs) b (w1, bs1) \<and> \<not> cb_opened CB b w1 \<longrightarrow>
      (service \<in> callable_members \<longrightarrow> proxy_handle CB cfg forward cdn service (w, bs) = (Inr Unanswered, (note (Inr ()) w1, bs1))) \<and>
      (service \<in> other_members \<longrightarrow>
         (let thrown = JsError ''proxy is not a function''
          in proxy_handle CB cfg forward cdn service (w, bs) = (Inr (Failed thrown), (note (Inl thrown) w1, bs1)))))"
proof (intro conjI allI impI; (elim conjE)?)
  fix key dflt b w1 bs1
  assume up: "(service, key, dflt) \<in> set upstreams" and b: "breaker_for CB (service @ ''-service'') (w, bs) b (w1, bs1)"
  show "proxy_handle CB cfg forward cdn service (w, bs) =
        (if cb_opened CB b w1 then
           (Inr (Answered 503 (''Service '' @ service @ ''-service is unavailable'') [(''retry-after'', ''30'')]), (reject w1, bs1))
         else (case forward (or_str (cfg key) dflt) (''/v1/'' @ service) (''/'' @ service) w1 of
             (Inr u, w') \<Rightarrow> (Inr Proxied, (note (Inr u) w', bs1))
           | (Inl e, w') \<Rightarrow> (Inr (Failed e), (note (Inl e) w', bs1))))"
    using proxy_handle_found [OF law b proxies_upstream [OF up, of cfg], of forward cdn] e
    by (simp add: run_proxy_simps unavailable_def message_of_def)
next
  assume "service \<notin> {''cdn''} \<union> fst ` set upstreams \<union> callable_members \<union> other_members"
  then show "proxy_handle CB cfg forward cdn service (w, bs) = (Inr (Answered 404 ''Service not found'' []), (w, bs))"
    using proxies_None [of service cfg] by (simp add: proxy_handle_def)
next
  fix b w1 bs1
  assume b: "breaker_for CB (service @ ''-service'') (w, bs) b (w1, bs1)" and up: "\<not> cb_opened CB b w1"
  show "proxy_handle CB cfg forward cdn service (w, bs) = (Inr Unanswered, (note (Inr ()) w1, bs1))" if "service \<in> callable_members"
    using proxy_handle_found [OF law b proxies_inert [OF that, of cfg], of forward cdn] up by (simp add: run_proxy_simps)
  show "let thrown = JsError ''proxy is not a function''
      in proxy_handle CB cfg forward cdn service (w, bs) = (Inr (Failed thrown), (note (Inl thrown) w1, bs1))" if "service \<in> other_members"
    using proxy_handle_found [OF law b proxies_not_callable [OF that, of cfg], of forward cdn] up call
    by (simp add: run_proxy_simps throw_def)
qed

text \<open>
  Nothing passes the controller unlimited: a request it hands to a proxy was admitted by the
  window of its address, at 100 a minute, and, when it carries a user, by the token bucket of the
  user; every other request is answered 429.
\<close>

theorem proxyAll_limited:
  assumes "proxyAll F CB cfg forward cdn R S P service reqIp user (w, bs) = (Inr a, wc')"
  shows "a = Answered 429 ''Too Many Requests (IP)'' [] \<or> a = Answered 429 ''Too Many Requests (User)'' [] \<or>
    (\<exists>r w1. slidingWindow R S P (or_str reqIp ''unknown'') (Num 100) 60000 w = (Inr r, w1) \<and> allowed r
      \<and> (\<exists>w2. proxy_handle CB cfg forward cdn service (w2, bs) = (Inr a, wc')
         \<and> (if jtruthy (user_sub user)
             then \<exists>r2. tokenBucket F R S P (js_text (the (user_sub user))) 100 10 w1 = (Inr r2, w2) \<and> allowed r2
             else w2 = w1)))"
proof -
  from assms obtain r w1 where sw: "slidingWindow R S P (or_str reqIp ''unknown'') (Num 100) 60000 w = (Inr r, w1)"
    and rest: "(if \<not> allowed r then return (Answered 429 ''Too Many Requests (IP)'' [])
       else await (if jtruthy (user_sub user)
             then await (on_world (tokenBucket F R S P (js_text (the (user_sub user))) 100 10)) (\<lambda>tbLimit.
                  return (allowed tbLimit))
             else return True) (\<lambda>ok.
         if \<not> ok then return (Answered 429 ''Too Many Requests (User)'' [])
         else proxy_handle CB cfg forward cdn service)) (w1, bs) = (Inr a, wc')"
    unfolding proxyAll_def Let_def by (cases wc') (auto elim!: await_on_world_InrE)
  show ?thesis
  proof (cases "allowed r")
    case False
    with rest show ?thesis by simp
  next
    case True
    show ?thesis
    proof (cases "jtruthy (user_sub user)")
      case user: True
      with rest True obtain r2 w2 where tb: "tokenBucket F R S P (js_text (the (user_sub user))) 100 10 w1 = (Inr r2, w2)"
        and "(if \<not> allowed r2 then return (Answered 429 ''Too Many Requests (User)'' [])
          else proxy_handle CB cfg forward cdn service) (w2, bs) = (Inr a, wc')"
        by (cases wc') (auto elim!: await_on_world_InrE)
      with sw True user show ?thesis by (cases "allowed r2") auto
    next
      case False
      with rest sw True show ?thesis by simp
    qed
  qed
qed

lemma world_breaker_law: "breaker_law world_breaker (JsError ''Breaker is open'') (\<lambda>w. w) (\<lambda>_ w. w)"
  by (simp add: breaker_law_def world_breaker_def breaker_is_open_def message_of_def str_includes_def)

theorem proxy_handle_spec_witness:
  "proxy_handle world_breaker Map.empty (\<lambda>_ _ _. return ()) (throw (JsError ''no'')) ''auth'' (world_at 0, [(''auth-service'', 7)]) =
      (Inr Proxied, (world_at 0, [(''auth-service'', 7)])) \<and>
   proxy_handle world_breaker Map.empty (\<lambda>_ _ _. return ()) (throw (JsError ''no'')) ''mail'' (world_at 0, []) =
      (Inr (Answered 404 ''Service not found'' []), (world_at 0, [])) \<and>
   proxy_handle world_breaker Map.empty (\<lambda>_ _ _. return ()) (throw (JsError ''no'')) ''toString'' (world_at 0, [(''toString-service'', 7)]) =
      (Inr Unanswered, (world_at 0, [(''toString-service'', 7)]))"
proof -
  have call: "\<not> breaker_is_open world_breaker (JsError ''proxy is not a function'')" by code_simp
  have quiet: "(\<exists>m. e = JsError m) \<and> \<not> breaker_is_open world_breaker e" if "return () w = (Inl e, w')" for e and w w' :: world
    using that by simp
  note auth = conjunct1 [OF proxy_handle_spec [where forward = "\<lambda>_ _ _. return ()" and cfg = Map.empty and w = "world_at 0"
      and cdn = "throw (JsError ''no'')" and service = "''auth''" and bs = "[(''auth-service'', 7)]", OF world_breaker_law quiet call], rule_format]
    and mail = conjunct1 [OF conjunct2 [OF proxy_handle_spec [where forward = "\<lambda>_ _ _. return ()" and cfg = Map.empty and w = "world_at 0"
      and cdn = "throw (JsError ''no'')" and service = "''mail''" and bs = "[]", OF world_breaker_law quiet call]], rule_format]
    and member = conjunct2 [OF conjunct2 [OF proxy_handle_spec [where forward = "\<lambda>_ _ _. return ()" and cfg = Map.empty and w = "world_at 0"
      and cdn = "throw (JsError ''no'')" and service = "''toString''" and bs = "[(''toString-service'', 7)]", OF world_breaker_law quiet call]], rule_format]
  have "breaker_for world_breaker ''auth-service'' (world_at 0, [(''auth-service'', 7)]) 7 (world_at 0, [(''auth-service'', 7)])"
    "breaker_for world_breaker ''toString-service'' (world_at 0, [(''toString-service'', 7)]) 7 (world_at 0, [(''toString-service'', 7)])"
    by (simp_all add: breaker_for_def)
  moreover have "''mail'' \<notin> {''cdn''} \<union> fst ` set upstreams \<union> callable_members \<union> other_members"
    by (simp add: upstreams_def callable_members_def other_members_def)
  moreover have "(''auth'', ''AUTH_SERVICE_URL'', ''http://localhost:3001'') \<in> set upstreams" "''toString'' \<in> callable_members"
    by (simp_all add: upstreams_def callable_members_def)
  moreover have "\<not> cb_opened world_breaker 7 (world_at 0)" by (simp add: world_breaker_def)
  ultimately show ?thesis
    using auth mail member by (simp add: world_breaker_def)
qed

theorem proxyAll_limited_witness:
  "\<exists>a wc'. proxyAll world_numfmt world_breaker Map.empty (\<lambda>_ _ _. return ()) (throw (JsError ''no'')) world_redis world_sys
      world_prom ''auth'' None None (world_at 0, [(''auth-service'', 7)]) = (Inr a, wc') \<and>
    (\<exists>r w1. slidingWindow world_redis world_sys world_prom ''unknown'' (Num 100) 60000 (world_at 0) = (Inr r, w1) \<and> allowed r)"
proof -
  let ?run = "proxyAll world_numfmt world_breaker Map.empty (\<lambda>_ _ _. return ()) (throw (JsError ''no'')) world_redis world_sys
      world_prom ''auth'' None None (world_at 0, [(''auth-service'', 7)])"
  have "fst ?run = Inr Proxied" by code_simp
  then obtain wc' where run: "?run = (Inr Proxied, wc')" by (cases ?run) auto
  show ?thesis using proxyAll_limited [OF run] run by auto
qed

end
