(* ===== verification/Gateway_Events.thy ===== *)
theory Gateway_Events
  imports Gateway_Proxy
begin

text \<open>
  \<open>apps/gateway/src/events\<close> and \<open>apps/gateway/src/middleware/logging.middleware.ts\<close>: the event of a
  finished request, its publication to Kafka, and the dead-letter queue: a message that could not
  be sent goes to \<open><topic>.dlq\<close> with a count of attempts, from where a consumer sends it again.
  The broker may fail at any send.
\<close>

section \<open>The dead-letter queue\<close>

definition recordDlqMessage :: "'w prom \<Rightarrow> string \<Rightarrow> string \<Rightarrow> ('w, unit) io" where
  "recordDlqMessage P topic reason = prom_inc P ''gateway_dlq_messages_total'' [topic, reason] 1"

definition recordDlqRetrySuccess :: "'w prom \<Rightarrow> ('w, unit) io" where
  "recordDlqRetrySuccess P = prom_inc P ''gateway_dlq_retry_success_total'' [] 1"

definition recordDlqPermanentFailure :: "'w prom \<Rightarrow> ('w, unit) io" where
  "recordDlqPermanentFailure P = prom_inc P ''gateway_dlq_permanent_failure_total'' [] 1"

fun getRetryAfterMs :: "int js \<Rightarrow> int" where
  "getRetryAfterMs NaN = - 1"
| "getRetryAfterMs (Num attempt) =
     (if attempt = 0 then 30 * 1000 else if attempt = 1 then 5 * 60 * 1000
      else if attempt = 2 then 30 * 60 * 1000 else - 1)"

fun json_of_num :: "int js \<Rightarrow> json" where
  "json_of_num NaN = JNull"
| "json_of_num (Num n) = JNum n"

definition dlq_message :: "string \<Rightarrow> json \<Rightarrow> string \<Rightarrow> int js \<Rightarrow> string \<Rightarrow> json" where
  "dlq_message originalTopic message err attempt timestamp =
     JObj [(''originalTopic'', JStr originalTopic), (''originalMessage'', message), (''error'', JStr err),
       (''attempt'', json_of_num attempt), (''timestamp'', JStr timestamp),
       (''retryAfter'', JNum (getRetryAfterMs attempt))]"

definition dlq_topic :: "string \<Rightarrow> string" where
  "dlq_topic topic = topic @ ''.dlq''"

definition publishToDlq ::
  "numfmt \<Rightarrow> 'w kafka \<Rightarrow> 'w sys \<Rightarrow> 'w prom \<Rightarrow> string \<Rightarrow> json \<Rightarrow> string \<Rightarrow> int js \<Rightarrow> ('w, unit) io" where
  "publishToDlq F K S P originalTopic message err attempt =
     await (date_now S) (\<lambda>now.
     try_catch
       (await (kafka_send K (dlq_topic originalTopic)
          (show_json (dlq_message originalTopic message err attempt (iso_string F now)))) (\<lambda>_.
        recordDlqMessage P originalTopic (take 50 err)))
       (\<lambda>_. return ()))"

text \<open>
  The message handler. \<open>t + v\<close> and \<open>attempt + 1\<close> are on values out of a parsed message; \<open>t + v\<close>
  joins texts when \<open>v\<close> is one; an attempt that is missing, a text or an object counts as \<open>NaN\<close>.
\<close>

fun plus_value :: "numfmt \<Rightarrow> int js \<Rightarrow> json option \<Rightarrow> rat js" where
  "plus_value F t None = NaN"
| "plus_value F t (Some (JNum n)) = js_map (\<lambda>m. of_int (m + n)) t"
| "plus_value F t (Some (JBool b)) = js_map (\<lambda>m. of_int (m + (if b then 1 else 0))) t"
| "plus_value F t (Some JNull) = js_map of_int t"
| "plus_value F t (Some j) = number_of_string F (show_num t @ js_text j)"

definition attempt_of :: "json option \<Rightarrow> int js" where
  "attempt_of v = (case v of Some (JNum n) \<Rightarrow> Num n | Some JNull \<Rightarrow> Num 0 | Some (JBool b) \<Rightarrow> Num (if b then 1 else 0) | _ \<Rightarrow> NaN)"

definition given_up :: "numfmt \<Rightarrow> json \<Rightarrow> bool" where
  "given_up F dlqMsg \<longleftrightarrow> jget ''retryAfter'' dlqMsg = Some (JNum (- 1)) \<or>
     (case jget ''attempt'' dlqMsg of None \<Rightarrow> False | Some a \<Rightarrow> \<not> js_below F a 3 \<and> js_number F a \<noteq> NaN)"

definition dlq_wait :: "numfmt \<Rightarrow> json \<Rightarrow> int \<Rightarrow> rat option" where
  "dlq_wait F dlqMsg now =
     (let msgTime = (case jget ''timestamp'' dlqMsg of None \<Rightarrow> NaN | Some t \<Rightarrow> date_of F t)
      in case plus_value F msgTime (jget ''retryAfter'' dlqMsg) of
           NaN \<Rightarrow> None
         | Num t \<Rightarrow> (let waitTime = t - of_int now in if 0 < waitTime then Some (min waitTime 10000) else None))"

text \<open>Every message the service writes has an \<open>originalMessage\<close>; one without is taken as \<open>null\<close>.\<close>

definition original_message :: "json \<Rightarrow> json" where
  "original_message dlqMsg = (case jget ''originalMessage'' dlqMsg of Some j \<Rightarrow> j | None \<Rightarrow> JNull)"

definition original_value :: "json \<Rightarrow> string" where
  "original_value j = (case j of JStr s \<Rightarrow> s | _ \<Rightarrow> show_json j)"

definition error_text :: "string \<Rightarrow> exn \<Rightarrow> string" where
  "error_text dflt e = (if message_of e = [] then dflt else message_of e)"

definition dlq_handle ::
  "numfmt \<Rightarrow> 'w kafka \<Rightarrow> 'w sys \<Rightarrow> 'w prom \<Rightarrow> (rat \<Rightarrow> ('w, unit) io) \<Rightarrow> json \<Rightarrow> ('w, unit) io" where
  "dlq_handle F K S P sleep dlqMsg =
     await (date_now S) (\<lambda>now.
     if dlqMsg = JNull then throw (JsError ''Cannot read properties of null'')
     else if given_up F dlqMsg then recordDlqPermanentFailure P
     else
       await (case dlq_wait F dlqMsg now of None \<Rightarrow> return () | Some t \<Rightarrow> sleep t) (\<lambda>_.
       (let topic = js_text_of (jget ''originalTopic'' dlqMsg)
        in try_catch
             (await (kafka_send K topic (original_value (original_message dlqMsg))) (\<lambda>_. recordDlqRetrySuccess P))
             (\<lambda>retryError. publishToDlq F K S P topic (original_message dlqMsg)
                (error_text ''Retry failed'' retryError)
                (js_map (\<lambda>n. n + 1) (attempt_of (jget ''attempt'' dlqMsg)))))))"

definition eachMessage ::
  "numfmt \<Rightarrow> 'w kafka \<Rightarrow> 'w sys \<Rightarrow> 'w prom \<Rightarrow> (rat \<Rightarrow> ('w, unit) io) \<Rightarrow> string option \<Rightarrow> ('w, unit) io" where
  "eachMessage F K S P sleep value =
     (if \<not> truthy value then return ()
      else try_catch
        (case json_parse (the value) of
           None \<Rightarrow> throw (JsError ''Unexpected token'')
         | Some dlqMsg \<Rightarrow> dlq_handle F K S P sleep dlqMsg)
        (\<lambda>_. return ()))"

section \<open>The publisher\<close>

definition publishRequestEvent :: "numfmt \<Rightarrow> 'w kafka \<Rightarrow> 'w sys \<Rightarrow> 'w prom \<Rightarrow> json \<Rightarrow> ('w, unit) io" where
  "publishRequestEvent F K S P data =
     try_catch
       (kafka_send K ''request.events'' (show_json data))
       (\<lambda>e. publishToDlq F K S P ''request.events'' data
          (error_text ''Unknown error'' e) (Num 0))"

section \<open>The events of finished requests\<close>

definition SKIP_PREFIXES :: "string list" where
  "SKIP_PREFIXES = [''/metrics'', ''/health'', ''/favicon.ico'', ''/v1/analytics'',
     ''/v1/notifications/alerts/history'', ''/v1/notifications/history'']"

definition shouldSkip :: "string \<Rightarrow> bool" where
  "shouldSkip originalUrl =
     list_ex (\<lambda>p. originalUrl = p \<or> prefix (p @ ''?'') originalUrl \<or> prefix (p @ ''/'') originalUrl) SKIP_PREFIXES"

definition nth_str :: "string list \<Rightarrow> nat \<Rightarrow> string option" where
  "nth_str xs i = (if i < length xs then Some (xs ! i) else None)"

definition service_of_path :: "string \<Rightarrow> string" where
  "service_of_path originalUrl =
     (let pathParts = split_on (CHR ''/'') originalUrl
      in if nth_str pathParts 1 = Some ''v1'' then or_str (nth_str pathParts 2) ''gateway''
         else or_str (nth_str pathParts 1) ''gateway'')"

definition recordRequest :: "'w prom \<Rightarrow> string \<Rightarrow> string \<Rightarrow> string \<Rightarrow> string \<Rightarrow> ('w, unit) io" where
  "recordRequest P method path st service =
     await (prom_inc P ''gateway_requests_total'' [method, path, st, service] 1) (\<lambda>_.
     if prefix ''5'' st then prom_inc P ''gateway_upstream_errors_total'' [service] 1 else return ())"

definition recordLatency :: "'w prom \<Rightarrow> rat \<Rightarrow> ('w, unit) io" where
  "recordLatency P seconds = prom_observe P ''gateway_request_duration_seconds'' [] seconds"

record finished =
  fin_method :: string
  fin_url :: string
  fin_ip :: "string option"
  fin_user :: "json option"
  fin_status :: nat
  fin_headers :: headers

definition request_event :: "numfmt \<Rightarrow> finished \<Rightarrow> int \<Rightarrow> int \<Rightarrow> string option \<Rightarrow> json" where
  "request_event F r time latency edgeRegion =
     (let cacheHeader = (if truthy (getHeader ''X-Cache'' (fin_headers r)) then getHeader ''X-Cache'' (fin_headers r)
                         else getHeader ''x-cache-hit'' (fin_headers r));
          userId = or_json (if fin_user r = None then None else jget ''sub'' (the (fin_user r))) None;
          contentLength = getHeader ''content-length'' (fin_headers r);
          bytes = (if truthy contentLength then parse_int (the contentLength) else Num 0)
      in jobject [(''time'', Some (JStr (iso_string F time))), (''service'', Some (JStr (service_of_path (fin_url r)))),
           (''method'', Some (JStr (fin_method r))), (''path'', Some (JStr (fin_url r))),
           (''status'', Some (JNum (int (fin_status r)))), (''latencyMs'', Some (JNum latency)), (''userId'', userId),
           (''ip'', Some (JStr (or_str (fin_ip r) ''unknown''))), (''cacheHit'', Some (JBool (cacheHeader = Some ''HIT''))),
           (''bytes'', Some (json_of_num bytes)), (''edgeRegion'', Some (JStr (or_str edgeRegion ''global'')))])"

definition on_finish ::
  "numfmt \<Rightarrow> 'w kafka \<Rightarrow> 'w sys \<Rightarrow> 'w prom \<Rightarrow> string option \<Rightarrow> int \<Rightarrow> finished \<Rightarrow> ('w, unit) io" where
  "on_finish F K S P edgeRegion startTime r =
     await (date_now S) (\<lambda>now.
     await (recordRequest P (fin_method r) (fin_url r) (show_nat (fin_status r)) (service_of_path (fin_url r))) (\<lambda>_.
     await (recordLatency P (fdiv (of_int (now - startTime)) 1000)) (\<lambda>_.
     if shouldSkip (fin_url r) then return ()
     else await (date_now S) (\<lambda>time.
          publishRequestEvent F K S P (request_event F r time (now - startTime) edgeRegion)))))"

section \<open>What the queue does\<close>

lemma dlq_message_fields [simp]:
  "jget ''originalTopic'' (dlq_message topic data err n ts) = Some (JStr topic)"
  "jget ''originalMessage'' (dlq_message topic data err n ts) = Some data"
  "jget ''attempt'' (dlq_message topic data err n ts) = Some (json_of_num n)"
  "jget ''timestamp'' (dlq_message topic data err n ts) = Some (JStr ts)"
  "jget ''retryAfter'' (dlq_message topic data err n ts) = Some (JNum (getRetryAfterMs n))"
  "dlq_message topic data err n ts \<noteq> JNull"
  by (simp_all add: dlq_message_def)

lemma given_up_iff: "0 \<le> a \<Longrightarrow> given_up F (dlq_message topic data err (Num a) ts) \<longleftrightarrow> 3 \<le> a"
  by (auto simp: given_up_def js_below_def)

lemma dlq_metrics_quiet:
  "prom_ok P v \<Longrightarrow> quiet v (recordDlqRetrySuccess P)" "prom_ok P v \<Longrightarrow> quiet v (recordDlqPermanentFailure P)"
  "prom_ok P v \<Longrightarrow> quiet v (recordDlqMessage P topic reason)"
  by (simp_all add: recordDlqRetrySuccess_def recordDlqPermanentFailure_def recordDlqMessage_def prom_ok_def)

lemma publishToDlq_run:
  assumes "sys_ok S clk gen v" and "prom_ok P v"
  shows "\<exists>w'. publishToDlq F K S P topic data err a w = (Inr (), w') \<and>
    v w' = v (snd (kafka_send K (dlq_topic topic)
      (show_json (dlq_message topic data err a (iso_string F (clk w)))) w))"
proof -
  obtain r w1 where send: "kafka_send K (dlq_topic topic)
      (show_json (dlq_message topic data err a (iso_string F (clk w)))) w = (r, w1)" by fastforce
  obtain w2 where "recordDlqMessage P topic (take 50 err) w1 = (Inr (), w2)" "v w2 = v w1"
    by (rule quiet_unitE [OF dlq_metrics_quiet(3) [OF assms(2)]])
  then show ?thesis
    using send by (cases r) (auto simp: publishToDlq_def await_def try_catch_def sys_ok_now [OF assms(1)])
qed

text \<open>What the consumer does with a dead letter of the service.\<close>

lemma dead_letter_run:
  assumes S: "sys_ok S clk gen v" and P: "prom_ok P v" and sleep: "\<And>t. quiet v (sleep t)" and a: "0 \<le> a"
  shows "\<exists>w'. eachMessage F K S P sleep (Some (show_json (dlq_message topic data err (Num a) ts))) w = (Inr (), w')
    \<and> (3 \<le> a \<longrightarrow> v w' = v w)
    \<and> (a < 3 \<longrightarrow> (\<exists>w1. v w1 = v w \<and>
        (case kafka_send K topic (original_value data) w1 of
           (Inr u, w2) \<Rightarrow> v w' = v w2
         | (Inl e, w2) \<Rightarrow> v w' = v (snd (kafka_send K (dlq_topic topic) (show_json
             (dlq_message topic data (error_text ''Retry failed'' e) (Num (a + 1)) (iso_string F (clk w2)))) w2)))))"
proof -
  let ?m = "dlq_message topic data err (Num a) ts"
  have parse: "eachMessage F K S P sleep (Some (show_json ?m)) =
      try_catch (dlq_handle F K S P sleep ?m) (\<lambda>_. return ())"
    using json_parse_show [of ?m] by (auto simp: eachMessage_def json_parse_def split: if_splits)
  show ?thesis
  proof (cases "3 \<le> a")
    case True
    obtain w1 where "recordDlqPermanentFailure P w = (Inr (), w1)" "v w1 = v w"
      by (rule quiet_unitE [OF dlq_metrics_quiet(2) [OF P]])
    with True a show ?thesis
      by (simp add: parse dlq_handle_def given_up_iff await_def try_catch_def sys_ok_now [OF S])
  next
    case False
    have "quiet v (case dlq_wait F ?m (clk w) of None \<Rightarrow> return () | Some t \<Rightarrow> sleep t)"
      by (simp add: sleep split: option.splits)
    then obtain w1 where w1: "(case dlq_wait F ?m (clk w) of None \<Rightarrow> return () | Some t \<Rightarrow> sleep t) w = (Inr (), w1)"
        and v1: "v w1 = v w"
      by (rule quiet_unitE)
    obtain r w2 where send: "kafka_send K topic (original_value data) w1 = (r, w2)" by fastforce
    note run = dlq_handle_def given_up_iff await_def try_catch_def sys_ok_now [OF S] Let_def
      original_message_def js_text_of_def attempt_of_def parse w1 send
    show ?thesis
    proof (cases r)
      case (Inl e)
      obtain w' where "publishToDlq F K S P topic data (error_text ''Retry failed'' e) (Num (a + 1)) w2 = (Inr (), w')"
        and "v w' = v (snd (kafka_send K (dlq_topic topic) (show_json
          (dlq_message topic data (error_text ''Retry failed'' e) (Num (a + 1)) (iso_string F (clk w2)))) w2))"
        using publishToDlq_run [OF S P] by blast
      with False a v1 send Inl show ?thesis
        by (auto simp: run intro!: exI [of _ w1])
    next
      case (Inr u)
      obtain w' where "recordDlqRetrySuccess P w2 = (Inr (), w')" "v w' = v w2"
        by (rule quiet_unitE [OF dlq_metrics_quiet(1) [OF P]])
      with False a v1 send Inr show ?thesis
        by (auto simp: run intro!: exI [of _ w1])
    qed
  qed
qed

text \<open>
  C10. A dead letter is retried at most three times. The consumer never fails on a message the
  service wrote. Up to the third attempt it sends the original message, as it was first sent, to its
  topic once; when that fails it writes one dead letter, with the next attempt; and on a message
  whose attempts are used up it sends nothing.
\<close>

theorem dlq_retry_spec:
  assumes S: "sys_ok S clk gen v" and P: "prom_ok P v" and sleep: "\<And>t. quiet v (sleep t)" and a: "0 \<le> a"
  shows "\<exists>w'. eachMessage F K S P sleep (Some (show_json (dlq_message topic data err (Num a) ts))) w = (Inr (), w')
    \<and> (3 \<le> a \<longrightarrow> v w' = v w)
    \<and> (a < 3 \<longrightarrow> (\<exists>w1. v w1 = v w \<and>
        (case kafka_send K topic (original_value data) w1 of
           (Inr u, w2) \<Rightarrow> v w' = v w2
         | (Inl e, w2) \<Rightarrow> v w' = v (snd (kafka_send K (dlq_topic topic) (show_json
             (dlq_message topic data (error_text ''Retry failed'' e) (Num (a + 1)) (iso_string F (clk w2)))) w2)))))"
  by (rule dead_letter_run [OF assms])

text \<open>A world in which the topic is down and its dead-letter topic is not, with the topics in view.\<close>

definition half_kafka :: "world kafka" where
  "half_kafka = \<lparr>kafka_send = (\<lambda>t m w. if t = ''request.events'' then (Inl (JsError ''down''), w)
     else (Inr (), w\<lparr>w_topics := w_topics w @ [(t, m)]\<rparr>))\<rparr>"

lemma world_topics_ok: "sys_ok world_sys w_now next_uuid w_topics" "prom_ok world_prom w_topics"
  by (simp_all add: sys_ok_def world_sys_def prom_ok_def quiet_def world_prom_def)

theorem dlq_retry_spec_witness:
  "\<exists>w' t. eachMessage world_numfmt half_kafka world_sys world_prom (\<lambda>_. return ())
      (Some (show_json (dlq_message ''request.events'' (JNum 1) ''x'' (Num 0) ''0''))) (world_at 5) = (Inr (), w')
    \<and> w_topics w' = [(dlq_topic ''request.events'', show_json (dlq_message ''request.events'' (JNum 1) ''down'' (Num 1) t))]"
  using dlq_retry_spec [OF world_topics_ok, where sleep = "\<lambda>_. return ()" and a = 0 and F = world_numfmt
      and K = half_kafka and topic = "''request.events''" and data = "JNum 1" and err = "''x''" and ts = "''0''"
      and w = "world_at 5"]
  by (auto simp: half_kafka_def error_text_def message_of_def dlq_topic_def world_at_def)


text \<open>
  The wait before a retry is cut off at ten seconds: a dead letter handled as soon as it is
  written is retried after ten seconds, whatever its attempt, and not after the thirty seconds,
  five and thirty minutes that its \<open>retryAfter\<close> says.
\<close>

theorem dlq_wait_cap:
  assumes F: "numfmt_ok F" and a: "a = 0 \<or> a = 1 \<or> a = 2" and d: "0 \<le> d"
  shows "dlq_wait F (dlq_message topic data err (Num a) (iso_string F t)) (t + d) =
    (if getRetryAfterMs (Num a) \<le> d then None else Some (of_int (min (getRetryAfterMs (Num a) - d) 10000)))
   \<and> getRetryAfterMs (Num a) = (if a = 0 then 30000 else if a = 1 then 300000 else 1800000)"
proof -
  have "date_parse F (iso_string F t) = Num t" using F by (simp add: numfmt_ok_def)
  then have "dlq_wait F (dlq_message topic data err (Num a) (iso_string F t)) (t + d) =
      (let waitTime = of_int (t + getRetryAfterMs (Num a)) - of_int (t + d)
       in if 0 < waitTime then Some (min waitTime 10000) else None)"
    by (simp add: dlq_wait_def)
  also have "\<dots> = (if getRetryAfterMs (Num a) \<le> d then None else Some (of_int (min (getRetryAfterMs (Num a) - d) 10000)))"
    by (simp add: Let_def min_def del: getRetryAfterMs.simps)
  finally show ?thesis using a by auto
qed

theorem dlq_wait_cap_witness:
  "dlq_wait world_numfmt (dlq_message ''t'' JNull ''e'' (Num 2) (iso_string world_numfmt 7)) 7 = Some 10000"
  using dlq_wait_cap [OF world_numfmt_ok, of 2 0 "''t''" JNull "''e''" 7] by simp

lemma record_quiet:
  assumes "prom_ok P v"
  shows "quiet v (recordRequest P m p st s)" "quiet v (recordLatency P x)"
  using assms by (auto simp: recordRequest_def recordLatency_def prom_ok_def intro!: quiet_await)

text \<open>
  Every finished request that is not one of the platform's own polls leaves one event: the
  handler never throws, sends the event to the topic, and when that fails leaves it with the
  dead-letter queue at attempt 0. For a request to an internal path nothing is sent.
\<close>

theorem on_finish_spec:
  assumes S: "sys_ok S clk gen v" and P: "prom_ok P v"
  shows "\<exists>w'. on_finish F K S P edgeRegion startTime r w = (Inr (), w')
    \<and> (shouldSkip (fin_url r) \<longrightarrow> v w' = v w)
    \<and> (\<not> shouldSkip (fin_url r) \<longrightarrow> (\<exists>w1. v w1 = v w \<and>
         (let event = request_event F r (clk w1) (clk w - startTime) edgeRegion
          in case kafka_send K ''request.events'' (show_json event) w1 of
               (Inr u, w2) \<Rightarrow> v w' = v w2
             | (Inl e, w2) \<Rightarrow> v w' = v (snd (kafka_send K (dlq_topic ''request.events'') (show_json
                 (dlq_message ''request.events'' event (error_text ''Unknown error'' e) (Num 0) (iso_string F (clk w2)))) w2)))))"
proof -
  obtain wa where a: "recordRequest P (fin_method r) (fin_url r) (show_nat (fin_status r)) (service_of_path (fin_url r)) w = (Inr (), wa)"
    and va: "v wa = v w" by (rule quiet_unitE [OF record_quiet(1) [OF P]])
  obtain w1 where b: "recordLatency P (fdiv (of_int (clk w - startTime)) 1000) wa = (Inr (), w1)"
    and v1: "v w1 = v wa" by (rule quiet_unitE [OF record_quiet(2) [OF P]])
  note run = on_finish_def await_def sys_ok_now [OF S] a b [unfolded of_int_diff]
  show ?thesis
  proof (cases "shouldSkip (fin_url r)")
    case True
    then show ?thesis using va v1 by (simp add: run)
  next
    case False
    define event where "event = request_event F r (clk w1) (clk w - startTime) edgeRegion"
    obtain s w2 where send: "kafka_send K ''request.events'' (show_json event) w1 = (s, w2)" by fastforce
    show ?thesis
    proof (cases s)
      case (Inr u)
      then show ?thesis using False va v1 send
        by (auto simp: run publishRequestEvent_def try_catch_def event_def [symmetric] intro!: exI [of _ w1])
    next
      case (Inl e)
      obtain w' where "publishToDlq F K S P ''request.events'' event (error_text ''Unknown error'' e) (Num 0) w2 = (Inr (), w')"
        and "v w' = v (snd (kafka_send K (dlq_topic ''request.events'') (show_json
          (dlq_message ''request.events'' event (error_text ''Unknown error'' e) (Num 0) (iso_string F (clk w2)))) w2))"
        using publishToDlq_run [OF S P] by blast
      then show ?thesis using False va v1 send Inl
        by (auto simp: run publishRequestEvent_def try_catch_def event_def [symmetric] intro!: exI [of _ w1])
    qed
  qed
qed

theorem on_finish_spec_witness:
  "\<exists>w'. on_finish world_numfmt world_kafka world_sys world_prom None 0
      \<lparr>fin_method = ''GET'', fin_url = ''/health'', fin_ip = None, fin_user = None, fin_status = 200, fin_headers = []\<rparr>
      (world_at 5) = (Inr (), w') \<and> w_topics w' = []"
  using on_finish_spec [OF world_topics_ok, where F = world_numfmt and K = world_kafka and edgeRegion = None
      and startTime = 0 and r = "\<lparr>fin_method = ''GET'', fin_url = ''/health'', fin_ip = None, fin_user = None,
        fin_status = 200, fin_headers = []\<rparr>" and w = "world_at 5"]
  by (auto simp: shouldSkip_def SKIP_PREFIXES_def world_at_def)

end
