(* ===== verification/Repo.thy ===== *)
theory Repo
  imports Clients "HOL-Library.Multiset"
begin

text \<open>
  Repositories of TypeORM: a table of rows behind an asynchronous client. A \<open>where\<close> clause is a
  predicate on rows; \<open>find_and_count P ord skip take\<close> is a page of the rows that match, by \<open>ord\<close>
  descending, with the number of them all. \<open>insert_row\<close> is \<open>save\<close> on an entity that \<open>create\<close> made, \<open>save_row\<close> is \<open>save\<close>
  on a loaded one. The locale says what a database guarantees: a search returns some row that
  matches, an insert gives the row a fresh key, and every write changes exactly the rows it names.
\<close>

record ('w, 'a) repo =
  find_one :: "('a \<Rightarrow> bool) \<Rightarrow> ('w, 'a option) io"
  find_all :: "('a \<Rightarrow> bool) \<Rightarrow> ('w, 'a list) io"
  find_and_count :: "('a \<Rightarrow> bool) \<Rightarrow> ('a \<Rightarrow> int) \<Rightarrow> nat \<Rightarrow> nat \<Rightarrow> ('w, 'a list \<times> nat) io"
  insert_row :: "'a \<Rightarrow> ('w, 'a) io"
  save_row :: "'a \<Rightarrow> ('w, 'a) io"
  update_rows :: "('a \<Rightarrow> bool) \<Rightarrow> ('a \<Rightarrow> 'a) \<Rightarrow> ('w, unit) io"
  remove_row :: "'a \<Rightarrow> ('w, unit) io"

locale repository =
  fixes T :: "('w, 'a) repo" and rows :: "'w \<Rightarrow> 'a list" and put :: "'a list \<Rightarrow> 'w \<Rightarrow> 'w"
    and key :: "'a \<Rightarrow> string" and fill :: "'w \<Rightarrow> 'a \<Rightarrow> 'a"
  assumes find: "\<exists>r. find_one T P w = (Inr r, w) \<and>
      (case r of None \<Rightarrow> \<forall>x \<in> set (rows w). \<not> P x | Some x \<Rightarrow> x \<in> set (rows w) \<and> P x)"
    and all: "\<exists>xs. find_all T P w = (Inr xs, w) \<and> mset xs = mset (filter P (rows w))"
    and count: "\<exists>xs. find_and_count T P ord i n w = (Inr (take n (drop i xs), length xs), w) \<and>
      mset xs = mset (filter P (rows w)) \<and> sorted_wrt (\<lambda>a b. ord b \<le> ord a) xs"
    and insert: "insert_row T x w = (Inr (fill w x), put (rows w @ [fill w x]) w)"
    and fresh: "key (fill w x) \<notin> key ` set (rows w)"
    and save: "save_row T x w = (Inr x, put (map (\<lambda>r. if key r = key x then x else r) (rows w)) w)"
    and update: "update_rows T P f w = (Inr (), put (map (\<lambda>r. if P r then f r else r) (rows w)) w)"
    and remove: "remove_row T x w = (Inr (), put (filter (\<lambda>r. key r \<noteq> key x) (rows w)) w)"
    and rows_put [simp]: "rows (put xs w) = xs"
begin

lemma find_cases:
  obtains (none) "find_one T P w = (Inr None, w)" and "\<And>x. x \<in> set (rows w) \<Longrightarrow> \<not> P x"
    | (some) x where "find_one T P w = (Inr (Some x), w)" and "x \<in> set (rows w)" and "P x"
proof -
  obtain r where r: "find_one T P w = (Inr r, w)"
      "case r of None \<Rightarrow> \<forall>x \<in> set (rows w). \<not> P x | Some x \<Rightarrow> x \<in> set (rows w) \<and> P x"
    using find [of P w] by blast
  then show thesis by (cases r) (auto intro: that)
qed

text \<open>A search for a key finds the row of that key.\<close>

lemma find_key:
  assumes "distinct (map key (rows w))" and "x \<in> set (rows w)"
  shows "find_one T (\<lambda>y. key y = key x) w = (Inr (Some x), w)"
proof (cases rule: find_cases [of "\<lambda>y. key y = key x" w])
  case none
  then show ?thesis using assms by blast
next
  case (some y)
  then have "y = x" using assms by (auto simp: distinct_map inj_on_def)
  with some show ?thesis by simp
qed

lemma find_none: "(\<And>x. x \<in> set (rows w) \<Longrightarrow> \<not> P x) \<Longrightarrow> find_one T P w = (Inr None, w)"
  by (rule find_cases [of P w]) auto

text \<open>No write makes two rows share a key.\<close>

lemma distinct_insert:
  "distinct (map key (rows w)) \<Longrightarrow> distinct (map key (rows (snd (insert_row T x w))))"
  using fresh by (simp add: insert)

lemma keys_save: "map key (rows (snd (save_row T x w))) = map key (rows w)"
  by (simp add: save)

lemma keys_update: "(\<And>r. key (f r) = key r) \<Longrightarrow> map key (rows (snd (update_rows T P f w))) = map key (rows w)"
  by (simp add: update)

lemma distinct_remove:
  "distinct (map key (rows w)) \<Longrightarrow> distinct (map key (rows (snd (remove_row T x w))))"
  by (simp add: remove distinct_map_filter)

end

section \<open>A table in a world\<close>

text \<open>
  A table kept in a component of a world: the repository that the theorems are evaluated with.
  \<open>new\<close> is the next key and \<open>bump\<close> draws it.
\<close>

definition table_repo :: "('w \<Rightarrow> 'a list) \<Rightarrow> ('a list \<Rightarrow> 'w \<Rightarrow> 'w) \<Rightarrow> ('a \<Rightarrow> string) \<Rightarrow> ('w \<Rightarrow> 'a \<Rightarrow> 'a) \<Rightarrow> ('w, 'a) repo" where
  "table_repo rows put key fill =
     \<lparr>find_one = (\<lambda>P w. (Inr (List.find P (rows w)), w)),
      find_all = (\<lambda>P w. (Inr (filter P (rows w)), w)),
      find_and_count = (\<lambda>P ord i n w.
        let xs = rev (sort_key ord (filter P (rows w))) in (Inr (take n (drop i xs), length xs), w)),
      insert_row = (\<lambda>x w. (Inr (fill w x), put (rows w @ [fill w x]) w)),
      save_row = (\<lambda>x w. (Inr x, put (map (\<lambda>r. if key r = key x then x else r) (rows w)) w)),
      update_rows = (\<lambda>P f w. (Inr (), put (map (\<lambda>r. if P r then f r else r) (rows w)) w)),
      remove_row = (\<lambda>x w. (Inr (), put (filter (\<lambda>r. key r \<noteq> key x) (rows w)) w))\<rparr>"

lemma table_repository:
  assumes "\<And>xs w. rows (put xs w) = xs" and "\<And>w x. key (fill w x) \<notin> key ` set (rows w)"
  shows "repository (table_repo rows put key fill) rows put key fill"
proof
  fix P w
  show "\<exists>r. find_one (table_repo rows put key fill) P w = (Inr r, w) \<and>
      (case r of None \<Rightarrow> \<forall>x \<in> set (rows w). \<not> P x | Some x \<Rightarrow> x \<in> set (rows w) \<and> P x)"
    by (auto simp: table_repo_def find_None_iff find_Some_iff split: option.splits)
  fix ord :: "'a \<Rightarrow> int" and i n
  have "sorted_wrt (\<lambda>a b. ord b \<le> ord a) (rev (sort_key ord (filter P (rows w))))"
    using sorted_sort_key [of ord "filter P (rows w)"] by (simp add: sorted_wrt_rev sorted_wrt_map [symmetric])
  then show "\<exists>xs. find_and_count (table_repo rows put key fill) P ord i n w = (Inr (take n (drop i xs), length xs), w) \<and>
      mset xs = mset (filter P (rows w)) \<and> sorted_wrt (\<lambda>a b. ord b \<le> ord a) xs"
    by (intro exI [of _ "rev (sort_key ord (filter P (rows w)))"]) (simp add: table_repo_def Let_def)
qed (auto simp: table_repo_def assms)

end
