(* ===== verification/Auth_Service.thy ===== *)
theory Auth_Service
  imports Repo Codec Js_Value
begin

text \<open>
  \<open>apps/auth-service/src/auth/auth.service.ts\<close> and \<open>users/users.service.ts\<close>: accounts, sessions and
  API keys. Accounts and key records are rows of the database; a session is a refresh token in
  Redis, under the user and the device, and an entry of the user's sorted set of devices. bcrypt,
  SHA-256, the signing of tokens, Redis and the repositories are the fields of \<open>auth_deps\<close>.
\<close>

section \<open>Entities and dependencies\<close>

record user =
  u_id :: string
  u_email :: string
  u_passwordHash :: "string option"
  u_role :: string
  u_displayName :: "string option"
  u_avatar :: "string option"
  u_provider :: "string option"
  u_providerId :: "string option"
  u_emailVerified :: bool
  u_isActive :: bool
  u_lastLoginAt :: "int option"
  u_lastLoginIp :: "string option"

record api_key =
  k_id :: string
  k_userId :: string
  k_name :: string
  k_keyHash :: string
  k_keyPrefix :: string
  k_createdAt :: int
  k_lastUsedAt :: "int option"
  k_expiresAt :: "int option"

record token_pair =
  accessToken :: string
  refreshToken :: string
  expiresIn :: nat

record 'w auth_deps =
  ad_users :: "('w, user) repo"
  ad_keys :: "('w, api_key) repo"
  ad_redis :: "'w redis"
  ad_sys :: "'w sys"
  ad_sign :: "json \<Rightarrow> ('w, string) io"
  ad_hash :: "string \<Rightarrow> nat \<Rightarrow> ('w, string) io"
  ad_compare :: "string \<Rightarrow> string \<Rightarrow> ('w, bool) io"
  ad_sha256 :: "string \<Rightarrow> string"
  ad_config :: "string \<Rightarrow> string option"

text \<open>What \<open>create\<close> and the defaults of the columns make of a new account.\<close>

definition new_user :: user where
  "new_user = \<lparr>u_id = [], u_email = [], u_passwordHash = None, u_role = ''user'', u_displayName = None, u_avatar = None,
     u_provider = Some ''local'', u_providerId = None, u_emailVerified = False, u_isActive = True,
     u_lastLoginAt = None, u_lastLoginIp = None\<rparr>"

section \<open>Tokens and sessions\<close>

definition refresh_key :: "string \<Rightarrow> string \<Rightarrow> string" where
  "refresh_key userId deviceId = ''refresh:'' @ userId @ '':'' @ deviceId"

definition sessions_key :: "string \<Rightarrow> string" where
  "sessions_key userId = ''user_sessions:'' @ userId"

definition raw_refresh :: "string \<Rightarrow> string \<Rightarrow> string \<Rightarrow> string" where
  "raw_refresh userId deviceId nonce = userId @ '':'' @ deviceId @ '':'' @ nonce"

definition REFRESH_TOKEN_TTL :: int where "REFRESH_TOKEN_TTL = 7 * 24 * 60 * 60"
definition MAX_SESSIONS :: int where "MAX_SESSIONS = 5"

text \<open>\<open>^(\d+)([mhd])$\<close>: digits and one unit, and 15 minutes for anything else.\<close>

definition parseExpiry :: "string \<Rightarrow> nat" where
  "parseExpiry str =
     (let digits = takeWhile is_digit str; rest = dropWhile is_digit str
      in if digits = [] then 900
         else if rest = ''m'' then digits_val digits * 60
         else if rest = ''h'' then digits_val digits * 3600
         else if rest = ''d'' then digits_val digits * 86400
         else 900)"

definition jwt_payload :: "user \<Rightarrow> json" where
  "jwt_payload user = JObj [(''sub'', JStr (u_id user)), (''email'', JStr (u_email user)), (''role'', JStr (u_role user))]"

definition device_of :: "'w auth_deps \<Rightarrow> string option \<Rightarrow> string \<Rightarrow> string" where
  "device_of D existing userAgent =
     (if truthy existing then the existing
      else ad_sha256 D (if userAgent = [] then ''unknown'' else userAgent))"

definition evict_oldest :: "'w auth_deps \<Rightarrow> string \<Rightarrow> ('w, unit) io" where
  "evict_oldest D userId =
     await (redis_list (ad_redis D) (ZRANGE (sessions_key userId) 0 0)) (\<lambda>oldest.
     case oldest of
       [] \<Rightarrow> return ()
     | d # _ \<Rightarrow> await (redis_do (ad_redis D) (DEL [refresh_key userId d])) (\<lambda>_.
                redis_do (ad_redis D) (ZREM (sessions_key userId) d)))"

definition generateTokenPair :: "'w auth_deps \<Rightarrow> user \<Rightarrow> string option \<Rightarrow> string \<Rightarrow> ('w, token_pair) io" where
  "generateTokenPair D user existingDeviceId userAgent =
     await (ad_sign D (jwt_payload user)) (\<lambda>access.
     (let deviceId = device_of D existingDeviceId userAgent
      in await (uuid_v4 (ad_sys D)) (\<lambda>nonce.
         (let token = b64_encode (raw_refresh (u_id user) deviceId nonce)
          in await (date_now (ad_sys D)) (\<lambda>now.
             await (redis_do (ad_redis D) (ZADD (sessions_key (u_id user)) now deviceId)) (\<lambda>_.
             await (redis_int (ad_redis D) (ZCARD (sessions_key (u_id user)))) (\<lambda>sessionCount.
             await (if sessionCount > MAX_SESSIONS then evict_oldest D (u_id user) else return ()) (\<lambda>_.
             await (redis_do (ad_redis D) (SETEX (refresh_key (u_id user) deviceId) REFRESH_TOKEN_TTL token)) (\<lambda>_.
             return \<lparr>accessToken = access, refreshToken = token,
                     expiresIn = parseExpiry (case ad_config D ''JWT_EXPIRES_IN'' of None \<Rightarrow> ''15m'' | Some s \<Rightarrow> s)\<rparr>)))))))))"

section \<open>Accounts\<close>

definition register :: "'w auth_deps \<Rightarrow> string \<Rightarrow> string \<Rightarrow> ('w, token_pair) io" where
  "register D email password =
     await (find_one (ad_users D) (\<lambda>u. u_email u = email)) (\<lambda>existing.
     if existing \<noteq> None then throw (Http 409 ''Email already registered'')
     else
       await (ad_hash D password 12) (\<lambda>passwordHash.
       await (insert_row (ad_users D) (new_user\<lparr>u_email := email, u_passwordHash := Some passwordHash\<rparr>)) (\<lambda>user.
       generateTokenPair D user None [])))"

definition mark_login :: "'w auth_deps \<Rightarrow> string \<Rightarrow> string \<Rightarrow> ('w, unit) io" where
  "mark_login D userId ip =
     await (date_now (ad_sys D)) (\<lambda>now.
     update_rows (ad_users D) (\<lambda>u. u_id u = userId) (\<lambda>u. u\<lparr>u_lastLoginAt := Some now, u_lastLoginIp := Some ip\<rparr>))"

definition login :: "'w auth_deps \<Rightarrow> string \<Rightarrow> string \<Rightarrow> string \<Rightarrow> string \<Rightarrow> ('w, token_pair) io" where
  "login D email password ip userAgent =
     await (find_one (ad_users D) (\<lambda>u. u_email u = email)) (\<lambda>found.
     case found of
       None \<Rightarrow> throw (Http 401 ''Invalid credentials'')
     | Some user \<Rightarrow>
         if \<not> truthy (u_passwordHash user) then throw (Http 401 ''Invalid credentials'')
         else
           await (ad_compare D password (the (u_passwordHash user))) (\<lambda>passwordValid.
           if \<not> passwordValid then throw (Http 401 ''Invalid credentials'')
           else if \<not> u_isActive user then throw (Http 401 ''Account disabled'')
           else await (mark_login D (u_id user) ip) (\<lambda>_. generateTokenPair D user None userAgent)))"

definition loginOAuth :: "'w auth_deps \<Rightarrow> user \<Rightarrow> string \<Rightarrow> string \<Rightarrow> ('w, token_pair) io" where
  "loginOAuth D user ip userAgent =
     (if \<not> u_isActive user then throw (Http 401 ''Account disabled'')
      else await (mark_login D (u_id user) ip) (\<lambda>_. generateTokenPair D user None userAgent))"

text \<open>
  The \<open>catch\<close> covers what is awaited inside the \<open>try\<close>; the promise of the new token pair is
  returned without being awaited, so that its errors are not caught.
\<close>

definition refresh_parts :: "string \<Rightarrow> string list" where
  "refresh_parts token = split_on (CHR '':'') (b64_decode token)"

definition redeem_refresh :: "'w auth_deps \<Rightarrow> string \<Rightarrow> ('w, user \<times> string) io" where
  "redeem_refresh D token =
     (case refresh_parts token of
        [userId, deviceId, nonce] \<Rightarrow>
          await (redis_get (ad_redis D) (refresh_key userId deviceId)) (\<lambda>storedToken.
          if storedToken \<noteq> Some token then throw (Http 401 ''Invalid or expired refresh token'')
          else
            await (redis_do (ad_redis D) (DEL [refresh_key userId deviceId])) (\<lambda>_.
            await (find_one (ad_users D) (\<lambda>u. u_id u = userId)) (\<lambda>found.
            case found of
              None \<Rightarrow> throw (Http 401 ''User not found or disabled'')
            | Some user \<Rightarrow>
                if \<not> u_isActive user then throw (Http 401 ''User not found or disabled'')
                else return (user, deviceId))))
      | _ \<Rightarrow> throw (Http 401 ''Invalid refresh token format''))"

definition refreshTokens :: "'w auth_deps \<Rightarrow> string \<Rightarrow> string \<Rightarrow> ('w, token_pair) io" where
  "refreshTokens D token userAgent =
     await (try_catch (redeem_refresh D token)
       (\<lambda>_. throw (Http 401 ''Invalid or expired refresh token''))) (\<lambda>(user, deviceId).
     generateTokenPair D user (Some deviceId) userAgent)"

definition logout :: "'w auth_deps \<Rightarrow> string \<Rightarrow> string \<Rightarrow> ('w, unit) io" where
  "logout D userId token =
     swallow
       (case refresh_parts token of
          [_, deviceId, _] \<Rightarrow>
            await (redis_do (ad_redis D) (DEL [refresh_key userId deviceId])) (\<lambda>_.
            redis_do (ad_redis D) (ZREM (sessions_key userId) deviceId))
        | _ \<Rightarrow> return ())"

text \<open>A profile is the row without the hash of the password.\<close>

definition without_hash :: "user \<Rightarrow> user" where
  "without_hash u = u\<lparr>u_passwordHash := None\<rparr>"

definition getProfile :: "'w auth_deps \<Rightarrow> string \<Rightarrow> ('w, user) io" where
  "getProfile D userId =
     await (find_one (ad_users D) (\<lambda>u. u_id u = userId)) (\<lambda>found.
     case found of None \<Rightarrow> throw (Http 404 ''User not found'') | Some user \<Rightarrow> return (without_hash user))"

definition updateProfile :: "'w auth_deps \<Rightarrow> string \<Rightarrow> string option \<Rightarrow> ('w, user) io" where
  "updateProfile D userId displayName =
     await (find_one (ad_users D) (\<lambda>u. u_id u = userId)) (\<lambda>found.
     case found of
       None \<Rightarrow> throw (Http 404 ''User not found'')
     | Some user \<Rightarrow>
         (let user' = (if displayName \<noteq> None then user\<lparr>u_displayName := displayName\<rparr> else user)
          in await (save_row (ad_users D) user') (\<lambda>_. return (without_hash user'))))"

definition or_else :: "string option \<Rightarrow> string option \<Rightarrow> string option" where
  "or_else a b = (if truthy a then a else b)"

text \<open>An existing account is linked to the provider.\<close>

definition link_account :: "string option \<Rightarrow> string option \<Rightarrow> string \<Rightarrow> string \<Rightarrow> user \<Rightarrow> user" where
  "link_account displayName avatar provider providerId user =
     user\<lparr>u_provider := Some provider, u_providerId := Some providerId,
       u_displayName := or_else (u_displayName user) displayName, u_avatar := or_else (u_avatar user) avatar,
       u_emailVerified := True\<rparr>"

definition findOrCreateByOAuth ::
  "'w auth_deps \<Rightarrow> string \<Rightarrow> string option \<Rightarrow> string option \<Rightarrow> string \<Rightarrow> string \<Rightarrow> ('w, user) io" where
  "findOrCreateByOAuth D email displayName avatar provider providerId =
     await (find_one (ad_users D) (\<lambda>u. u_email u = email)) (\<lambda>found.
     case found of
       None \<Rightarrow>
         insert_row (ad_users D) (new_user\<lparr>u_email := email, u_displayName := displayName, u_avatar := avatar,
           u_provider := Some provider, u_providerId := Some providerId, u_emailVerified := True\<rparr>)
     | Some user \<Rightarrow>
         if \<not> truthy (u_providerId user) then
           (let user' = link_account displayName avatar provider providerId user
            in await (save_row (ad_users D) user') (\<lambda>_. return user'))
         else return user)"

section \<open>API keys\<close>

definition lookup_key :: "string \<Rightarrow> string" where
  "lookup_key sha = ''apikey:lookup:'' @ sha"

definition hash_key :: "string \<Rightarrow> string" where
  "hash_key keyHash = ''apikey:'' @ keyHash"

definition lookup_pattern :: string where
  "lookup_pattern = ''apikey:lookup:*''"

definition lookup_entry :: "string \<Rightarrow> string \<Rightarrow> json" where
  "lookup_entry userId keyId = JObj [(''userId'', JStr userId), (''keyId'', JStr keyId)]"

text \<open>What the creation answers, without its fields of a constant value.\<close>

record created_key =
  ck_id :: string
  ck_key :: string
  ck_keyPrefix :: string
  ck_name :: string
  ck_createdAt :: int

definition createApiKey :: "'w auth_deps \<Rightarrow> string \<Rightarrow> string \<Rightarrow> ('w, created_key) io" where
  "createApiKey D userId name =
     await (uuid_v4 (ad_sys D)) (\<lambda>uuid.
     (let rawKey = ''esk_'' @ filter (\<lambda>c. c \<noteq> CHR ''-'') uuid
      in await (ad_hash D rawKey 10) (\<lambda>keyHash.
         await (insert_row (ad_keys D) \<lparr>k_id = [], k_userId = userId, k_name = name, k_keyHash = keyHash,
            k_keyPrefix = take 12 rawKey, k_createdAt = 0, k_lastUsedAt = None, k_expiresAt = None\<rparr>) (\<lambda>saved.
         await (redis_do (ad_redis D) (SETEX (lookup_key (ad_sha256 D rawKey)) (60 * 60 * 24 * 365)
            (show_json (lookup_entry userId (k_id saved))))) (\<lambda>_.
         return \<lparr>ck_id = k_id saved, ck_key = rawKey, ck_keyPrefix = take 12 rawKey, ck_name = name,
                 ck_createdAt = k_createdAt saved\<rparr>)))))"

text \<open>A listed key is the row without the hash; the answer repeats the page it was asked for, which is left out.\<close>

definition without_key_hash :: "api_key \<Rightarrow> api_key" where
  "without_key_hash k = k\<lparr>k_keyHash := []\<rparr>"

definition listApiKeys :: "'w auth_deps \<Rightarrow> string \<Rightarrow> nat \<Rightarrow> nat \<Rightarrow> ('w, api_key list \<times> nat) io" where
  "listApiKeys D userId page pageSize =
     await (find_and_count (ad_keys D) (\<lambda>k. k_userId k = userId) k_createdAt ((page - 1) * pageSize) pageSize) (\<lambda>(keys, total).
     return (map without_key_hash keys, total))"

text \<open>
  Revocation. The stream hands over pages of keys to an asynchronous handler, which reads each
  entry, while its end resolves the promise at once, without waiting for the handler. \<open>seen\<close> is
  how many of the keys the handler has read by then; the others are not in \<open>toDelete\<close>.
\<close>

definition names_key :: "string option \<Rightarrow> string \<Rightarrow> bool" where
  "names_key val keyId \<longleftrightarrow> truthy val \<and>
     (case json_parse (the val) of None \<Rightarrow> False | Some parsed \<Rightarrow> jget ''keyId'' parsed = Some (JStr keyId))"

fun entries_of_key :: "'w redis \<Rightarrow> string \<Rightarrow> string list \<Rightarrow> ('w, string list) io" where
  "entries_of_key R keyId [] = return []"
| "entries_of_key R keyId (k # ks) =
     await (redis_get R k) (\<lambda>val.
     await (entries_of_key R keyId ks) (\<lambda>rest.
     return (if names_key val keyId then k # rest else rest)))"

definition delete_all :: "'w redis \<Rightarrow> string list \<Rightarrow> ('w, unit) io" where
  "delete_all R ks = (if 0 < length ks then redis_do R (DEL ks) else return ())"

definition revokeApiKey :: "'w auth_deps \<Rightarrow> nat \<Rightarrow> nat \<Rightarrow> string \<Rightarrow> string \<Rightarrow> ('w, unit) io" where
  "revokeApiKey D pages seen userId keyId =
     await (find_one (ad_keys D) (\<lambda>k. k_id k = keyId \<and> k_userId k = userId)) (\<lambda>found.
     case found of
       None \<Rightarrow> throw (Http 404 ''API key not found'')
     | Some key \<Rightarrow>
         await (redis_do (ad_redis D) (DEL [hash_key (k_keyHash key)])) (\<lambda>_.
         await (scan_keys (ad_redis D) pages ''0'' lookup_pattern 100) (\<lambda>ks.
         await (entries_of_key (ad_redis D) keyId (take seen ks)) (\<lambda>toDelete.
         await (delete_all (ad_redis D) toDelete) (\<lambda>_.
         remove_row (ad_keys D) key)))))"

record key_identity =
  ki_sub :: string
  ki_email :: string
  ki_role :: string
  ki_keyId :: "json option"

text \<open>A \<open>where\<close> clause with an \<open>undefined\<close> value does not restrict the search.\<close>

definition matches_id :: "json option \<Rightarrow> string \<Rightarrow> bool" where
  "matches_id v i = (case v of None \<Rightarrow> True | Some j \<Rightarrow> js_text j = i)"

definition validateApiKey :: "'w auth_deps \<Rightarrow> string \<Rightarrow> ('w, key_identity) io" where
  "validateApiKey D rawKey =
     (if \<not> prefix ''esk_'' rawKey then throw (Http 401 ''Invalid API key format'')
      else
        await (redis_get (ad_redis D) (lookup_key (ad_sha256 D rawKey))) (\<lambda>cached.
        if \<not> truthy cached then throw (Http 401 ''API key not found or expired'')
        else
          (case json_parse (the cached) of
             None \<Rightarrow> throw (JsError ''Unexpected token'')
           | Some entry \<Rightarrow>
               await (read_of ''userId'' entry) (\<lambda>userId.
               await (read_of ''keyId'' entry) (\<lambda>keyId.
               await (find_one (ad_users D) (\<lambda>u. matches_id userId (u_id u) \<and> u_isActive u)) (\<lambda>found.
               case found of
                 None \<Rightarrow> throw (Http 401 ''User account is inactive or deleted'')
               | Some user \<Rightarrow>
                   await (date_now (ad_sys D)) (\<lambda>now.
                   await (swallow (update_rows (ad_keys D) (\<lambda>k. matches_id keyId (k_id k))
                     (\<lambda>k. k\<lparr>k_lastUsedAt := Some now\<rparr>))) (\<lambda>_.
                   return \<lparr>ki_sub = u_id user, ki_email = u_email user, ki_role = u_role user, ki_keyId = keyId\<rparr>))))))))"

section \<open>The callback of a provider\<close>

text \<open>
  \<open>auth/oauth.controller.ts\<close> behind the strategies of \<open>auth/strategies\<close>: the account that the
  strategy made of the profile, a login, and the redirect to the dashboard with both tokens.
\<close>

definition oauth_redirect :: "string option \<Rightarrow> token_pair \<Rightarrow> string" where
  "oauth_redirect frontendUrl tokens =
     or_str frontendUrl ''http://localhost:3100'' @ ''/auth/callback?token='' @ accessToken tokens @ ''&refresh='' @ refreshToken tokens"

definition oauth_callback ::
  "'w auth_deps \<Rightarrow> string option \<Rightarrow> ('w, user) io \<Rightarrow> string option \<Rightarrow> string \<Rightarrow> ('w, string) io" where
  "oauth_callback D frontendUrl strategy reqIp userAgent =
     await strategy (\<lambda>user.
     await (loginOAuth D user (or_str reqIp ''127.0.0.1'') userAgent) (\<lambda>tokens.
     return (oauth_redirect frontendUrl tokens)))"

text \<open>The email a GitHub profile stands for, and the checks of the bearer token and of roles.\<close>

definition github_email :: "string list \<Rightarrow> string \<Rightarrow> string" where
  "github_email emails username = (case emails of e # _ \<Rightarrow> e | [] \<Rightarrow> username @ ''@github.com'')"

definition jwt_validate :: "json \<Rightarrow> exn + json" where
  "jwt_validate payload =
     (if \<not> jtruthy (jget ''sub'' payload) \<or> \<not> jtruthy (jget ''email'' payload) \<or> \<not> jtruthy (jget ''role'' payload)
      then Inl (Http 401 ''Invalid token payload'')
      else Inr (JObj [(''sub'', the (jget ''sub'' payload)), (''email'', the (jget ''email'' payload)),
        (''role'', the (jget ''role'' payload))]))"

definition jwt_handleRequest :: "exn option \<Rightarrow> json option \<Rightarrow> exn + json option" where
  "jwt_handleRequest err user =
     (if err \<noteq> None \<or> \<not> jtruthy user
      then Inl (case err of Some e \<Rightarrow> e | None \<Rightarrow> Http 401 ''Authentication failed or missing token'')
      else Inr user)"

definition roles_canActivate :: "string list option \<Rightarrow> json option \<Rightarrow> bool" where
  "roles_canActivate requiredRoles user =
     (case requiredRoles of
        None \<Rightarrow> True
      | Some roles \<Rightarrow>
          if \<not> jtruthy user \<or> \<not> jtruthy (jget ''role'' (the user)) then False
          else list_ex (\<lambda>r. jget ''role'' (the user) = Some (JStr r)) roles)"

end
