(* ===== verification/Auth_Sessions.thy ===== *)
theory Auth_Sessions
  imports Auth_Service World
begin

text \<open>
  What the operations of the authentication service guarantee, on a platform whose clients keep
  their promises: the interface \<open>auth_platform\<close>. Accounts, the rotation of refresh tokens and the
  invariant of sessions: a user has at most five, and a refresh token that the service would
  accept belongs to one of them.
\<close>

section \<open>The platform\<close>

text \<open>The row of an account after a login: \<open>last_login uid t ip\<close> is the table's row with the time and the address, for that account only.\<close>

definition last_login :: "string \<Rightarrow> int \<Rightarrow> string \<Rightarrow> user \<Rightarrow> user" where
  "last_login uid t ip u = (if u_id u = uid then u\<lparr>u_lastLoginAt := Some t, u_lastLoginIp := Some ip\<rparr> else u)"

lemma last_login_id [simp]: "u_id (last_login uid t ip u) = u_id u"
  by (simp add: last_login_def)

locale auth_platform =
  fixes D :: "'w auth_deps" and rd :: "'w \<Rightarrow> rdb" and wr :: "rdb \<Rightarrow> 'w \<Rightarrow> 'w"
    and users :: "'w \<Rightarrow> user list" and put_users :: "user list \<Rightarrow> 'w \<Rightarrow> 'w"
    and keys :: "'w \<Rightarrow> api_key list" and put_keys :: "api_key list \<Rightarrow> 'w \<Rightarrow> 'w"
    and clk :: "'w \<Rightarrow> int" and gen :: "'w \<Rightarrow> string" and new_id :: "'w \<Rightarrow> string" and verify :: "string \<Rightarrow> string \<Rightarrow> bool"
  assumes redis: "redis_server (ad_redis D) rd wr"
    and users_repo: "repository (ad_users D) users put_users u_id (\<lambda>w x. x\<lparr>u_id := new_id w\<rparr>)"
    and keys_repo: "repository (ad_keys D) keys put_keys k_id (\<lambda>w x. x\<lparr>k_id := new_id w, k_createdAt := clk w\<rparr>)"
    and sys: "sys_ok (ad_sys D) clk gen (\<lambda>w. (rd w, users w, keys w))"
    and sign: "quiet (\<lambda>w. (rd w, users w, keys w, clk w)) (ad_sign D p)"
    and hash: "\<exists>h w'. ad_hash D pw n w = (Inr h, w') \<and> h \<noteq> [] \<and> verify pw h \<and>
      rd w' = rd w \<and> users w' = users w \<and> keys w' = keys w \<and> clk w' = clk w"
    and compare: "ad_compare D pw h w = (Inr (verify pw h), w)"
    and frames [simp]: "users (wr d w) = users w" "keys (wr d w) = keys w" "clk (wr d w) = clk w"
      "rd (put_users us w) = rd w" "keys (put_users us w) = keys w" "clk (put_users us w) = clk w"
      "rd (put_keys ks w) = rd w" "users (put_keys ks w) = users w" "clk (put_keys ks w) = clk w"
begin

lemmas redis_commands = redis_server.commands [OF redis]

lemmas rd_wr = redis_server.rd_wr [OF redis] redis_server.wr_wr [OF redis]

lemmas now = sys_ok_now [OF sys]

lemmas users_put = repository.rows_put [OF users_repo]

lemmas keys_put = repository.rows_put [OF keys_repo]

lemma uuid:
  obtains w' where "uuid_v4 (ad_sys D) w = (Inr (gen w), w')"
    and "rd w' = rd w" and "users w' = users w" and "keys w' = keys w" and "clk w' = clk w"
  using sys_ok_uuid [OF sys, of w] by auto

lemma signed:
  obtains t w' where "ad_sign D p w = (Inr t, w')"
    and "rd w' = rd w" and "users w' = users w" and "keys w' = keys w" and "clk w' = clk w"
proof -
  obtain t w' where "ad_sign D p w = (Inr t, w')"
    and "(rd w', users w', keys w', clk w') = (rd w, users w, keys w, clk w)"
    by (rule quietE [OF sign])
  then show thesis by (intro that [of t w']) simp_all
qed

lemma hashed:
  obtains h w' where "ad_hash D pw n w = (Inr h, w')" and "h \<noteq> []" and "verify pw h"
    and "rd w' = rd w" and "users w' = users w" and "keys w' = keys w" and "clk w' = clk w"
  using hash [of pw n w] by auto

end

section \<open>Opening a session\<close>

text \<open>What a new token pair does to the keyspace.\<close>

definition open_session :: "string \<Rightarrow> string \<Rightarrow> int \<Rightarrow> string \<Rightarrow> rdb \<Rightarrow> rdb" where
  "open_session userId deviceId now token d =
     (let z = zinsert now deviceId (zsets d (sessions_key userId));
          oldest = snd (hd z);
          d' = (if 5 < length z
                then d\<lparr>strs := (strs d)(refresh_key userId oldest := None),
                       zsets := (zsets d)(sessions_key userId := zremove oldest z)\<rparr>
                else d\<lparr>zsets := (zsets d)(sessions_key userId := z)\<rparr>)
      in d'\<lparr>strs := (strs d')(refresh_key userId deviceId \<mapsto> token)\<rparr>)"

context auth_platform
begin

lemma evict_oldest_run:
  assumes "zsets (rd w) (sessions_key uid) = (s, d) # z"
  shows "evict_oldest D uid w = (Inr (), wr ((rd w)\<lparr>strs := (strs (rd w))(refresh_key uid d := None),
     zsets := (zsets (rd w))(sessions_key uid := zremove d ((s, d) # z))\<rparr>) w)"
proof -
  have "(\<lambda>k. if k = refresh_key uid d then None else strs (rd w) k) = (strs (rd w))(refresh_key uid d := None)"
    by auto
  then show ?thesis
    using assms by (simp add: evict_oldest_def await_def redis_commands rd_wr range_of_def)
qed

lemma generate_run:
  obtains p w' nonce where "generateTokenPair D user existing ua w = (Inr p, w')"
    and "refreshToken p = b64_encode (raw_refresh (u_id user) (device_of D existing ua) nonce)"
    and "rd w' = open_session (u_id user) (device_of D existing ua) (clk w) (refreshToken p) (rd w)"
    and "users w' = users w" and "keys w' = keys w" and "clk w' = clk w" and "\<exists>w1. nonce = gen w1"
proof -
  let ?uid = "u_id user" and ?dev = "device_of D existing ua"
  obtain access w1 where s: "ad_sign D (jwt_payload user) w = (Inr access, w1)"
    and 1: "rd w1 = rd w" "users w1 = users w" "keys w1 = keys w" "clk w1 = clk w" by (rule signed)
  obtain w2 where u: "uuid_v4 (ad_sys D) w1 = (Inr (gen w1), w2)"
    and 2: "rd w2 = rd w1" "users w2 = users w1" "keys w2 = keys w1" "clk w2 = clk w1" by (rule uuid)
  let ?token = "b64_encode (raw_refresh ?uid ?dev (gen w1))"
  let ?z = "zinsert (clk w) ?dev (zsets (rd w) (sessions_key ?uid))"
  let ?p = "\<lparr>accessToken = access, refreshToken = ?token,
      expiresIn = parseExpiry (case ad_config D ''JWT_EXPIRES_IN'' of None \<Rightarrow> ''15m'' | Some s \<Rightarrow> s)\<rparr>"
  obtain s d z where z: "?z = (s, d) # z"
    by (cases ?z) (auto simp: zinsert_def)
  let ?w3 = "wr ((rd w)\<lparr>zsets := (zsets (rd w))(sessions_key ?uid := ?z)\<rparr>) w2"
  let ?w' = "wr (open_session ?uid ?dev (clk w) ?token (rd w)) w2"
  note run = generateTokenPair_def Let_def await_def s u now redis_commands rd_wr 1 2 reply_int_def MAX_SESSIONS_def
  show thesis
  proof (cases "5 < length ?z")
    case True
    have "evict_oldest D ?uid ?w3 = (Inr (), wr ((rd w)\<lparr>strs := (strs (rd w))(refresh_key ?uid d := None),
       zsets := (zsets (rd w))(sessions_key ?uid := zremove d ?z)\<rparr>) w2)"
      using evict_oldest_run [of ?w3 ?uid s d z] by (simp add: rd_wr z)
    with True show thesis
      by (intro that [of ?p ?w' "gen w1"]) (auto simp: run open_session_def z)
  next
    case False
    then show thesis
      by (intro that [of ?p ?w' "gen w1"]) (auto simp: run open_session_def)
  qed
qed

end

section \<open>The invariant of sessions\<close>

text \<open>
  For one user: at most five sessions of distinct devices, all opened before the time \<open>t\<close>, and a
  refresh token only for a device among them.
\<close>

definition sessions_ok :: "rdb \<Rightarrow> int \<Rightarrow> string \<Rightarrow> bool" where
  "sessions_ok d t uid \<longleftrightarrow>
     (let z = zsets d (sessions_key uid)
      in length z \<le> 5 \<and> distinct (map snd z) \<and> (\<forall>(s, m) \<in> set z. s < t) \<and>
         (\<forall>dev. strs d (refresh_key uid dev) \<noteq> None \<longrightarrow> dev \<in> snd ` set z))"

definition plain_id :: "string \<Rightarrow> bool" where
  "plain_id uid \<longleftrightarrow> CHR '':'' \<notin> set uid"

definition all_sessions_ok :: "rdb \<Rightarrow> int \<Rightarrow> bool" where
  "all_sessions_ok d t \<longleftrightarrow> (\<forall>uid. plain_id uid \<longrightarrow> sessions_ok d t uid)"

lemma sessions_key_eq [simp]: "sessions_key u = sessions_key v \<longleftrightarrow> u = v"
  by (simp add: sessions_key_def)

lemma refresh_key_same [simp]: "refresh_key u d = refresh_key u d' \<longleftrightarrow> d = d'"
  by (simp add: refresh_key_def)

lemma refresh_key_eq:
  assumes "plain_id u" and "plain_id v"
  shows "refresh_key u d = refresh_key v d' \<longleftrightarrow> u = v \<and> d = d'"
  using assms split_on_append [of "CHR '':''" u d] split_on_append [of "CHR '':''" v d']
  by (auto simp: refresh_key_def plain_id_def)

lemma insort_last: "\<forall>x \<in> set xs. x < y \<Longrightarrow> insort y xs = xs @ [y :: 'a :: linorder]"
  by (induction xs) auto

lemma zinsert_last:
  assumes "\<forall>(s, m) \<in> set z. s < t"
  shows "zinsert t dev z = zremove dev z @ [(t, dev)]"
  using assms by (auto simp: zinsert_def zremove_def less_prod_def intro!: insort_last)

lemma zremove_props:
  "set (zremove m z) \<subseteq> set z" "m \<notin> snd ` set (zremove m z)" "length (zremove m z) \<le> length z"
  "snd ` set (zremove m z) = snd ` set z - {m}"
  "distinct (map snd z) \<Longrightarrow> distinct (map snd (zremove m z))"
  by (auto simp: zremove_def distinct_map_filter)

lemma zremove_absent: "m \<notin> snd ` set z \<Longrightarrow> zremove m z = z"
  by (force simp: zremove_def intro: filter_True)

lemma zremove_hd: "distinct (map snd (x # z)) \<Longrightarrow> zremove (snd x) (x # z) = z"
  using zremove_absent [where m = "snd x" and z = z] by (auto simp: zremove_def)

text \<open>Opening a session keeps the invariant: a sixth session costs the oldest one its place and its token.\<close>

lemma open_session_ok:
  assumes ok: "sessions_ok d t uid" and later: "t < t'"
  shows "sessions_ok (open_session uid dev t token d) t' uid"
proof -
  define z0 where "z0 = zsets d (sessions_key uid)"
  define y where "y = zremove dev z0"
  have z0: "length z0 \<le> 5" "distinct (map snd z0)" "\<forall>(s, m) \<in> set z0. s < t"
    "\<And>m. strs d (refresh_key uid m) \<noteq> None \<Longrightarrow> m \<in> snd ` set z0"
    using ok by (auto simp: sessions_ok_def z0_def Let_def)
  have y: "length y \<le> 5" "distinct (map snd y)" "dev \<notin> snd ` set y" "set y \<subseteq> set z0" "snd ` set y = snd ` set z0 - {dev}"
    using z0 zremove_props [where m = dev and z = z0] by (auto simp: y_def)
  have times: "\<forall>(s, m) \<in> set y. s < t'" using z0(3) y(4) later by force
  have z: "zinsert t dev z0 = y @ [(t, dev)]"
    using z0(3) by (simp add: zinsert_last y_def)
  show ?thesis
  proof (cases "5 < length (y @ [(t, dev)])")
    case True
    then obtain x ys where ys: "y = x # ys" by (cases y) auto
    have "distinct (map snd (y @ [(t, dev)]))" using y by auto
    then have rest: "zremove (snd x) (y @ [(t, dev)]) = ys @ [(t, dev)]"
      using zremove_hd [where x = x and z = "ys @ [(t, dev)]"] by (simp add: ys)
    have "snd x \<notin> snd ` set ys" "snd x \<noteq> dev" using y(2,3) by (auto simp: ys)
    with True show ?thesis
      using y z0(4) later rest times
      by (auto simp: sessions_ok_def open_session_def z0_def [symmetric] z Let_def ys image_iff split: if_splits)
  next
    case False
    then show ?thesis
      using y z0(4) later times
      by (auto simp: sessions_ok_def open_session_def z0_def [symmetric] z Let_def split: if_splits)
  qed
qed

text \<open>Whatever only deletes tokens, of any user, keeps the invariant of all.\<close>

lemma sessions_ok_fewer:
  assumes "sessions_ok d t uid" and "zsets d' (sessions_key uid) = zsets d (sessions_key uid)" and "t \<le> t'"
    and "\<And>dev. strs d' (refresh_key uid dev) \<noteq> None \<Longrightarrow> strs d (refresh_key uid dev) \<noteq> None"
  shows "sessions_ok d' t' uid"
  using assms by (fastforce simp: sessions_ok_def Let_def)

lemma open_session_other:
  assumes "sessions_ok d t v" and "t \<le> t'" and "u \<noteq> v" and "plain_id u" and "plain_id v"
  shows "sessions_ok (open_session u dev now token d) t' v"
  using assms(1) _ assms(2)
proof (rule sessions_ok_fewer)
  show "zsets (open_session u dev now token d) (sessions_key v) = zsets d (sessions_key v)"
    using assms by (simp add: open_session_def Let_def)
  show "strs d (refresh_key v m) \<noteq> None" if "strs (open_session u dev now token d) (refresh_key v m) \<noteq> None" for m
    using that assms by (auto simp: open_session_def Let_def refresh_key_eq split: if_splits)
qed

lemma all_sessions_ok_open:
  assumes "all_sessions_ok d t" and "plain_id u" and "t < t'"
  shows "all_sessions_ok (open_session u dev t token d) t'"
  unfolding all_sessions_ok_def
proof (intro allI impI)
  fix v assume v: "plain_id v"
  then have "sessions_ok d t v" using assms by (simp add: all_sessions_ok_def)
  then show "sessions_ok (open_session u dev t token d) t' v"
    using assms v open_session_ok [of d t v t'] open_session_other [of d t v t' u] by (cases "u = v") auto
qed

lemma all_sessions_ok_fewer:
  assumes "all_sessions_ok d t" and "zsets d' = zsets d" and "t \<le> t'"
    and "\<And>k. prefix ''refresh:'' k \<Longrightarrow> strs d' k \<noteq> None \<Longrightarrow> strs d k \<noteq> None"
  shows "all_sessions_ok d' t'"
  unfolding all_sessions_ok_def
proof (intro allI impI)
  fix v assume "plain_id v"
  with assms(1) have "sessions_ok d t v" by (simp add: all_sessions_ok_def)
  then show "sessions_ok d' t' v"
    by (rule sessions_ok_fewer) (use assms in \<open>auto simp: refresh_key_def\<close>)
qed

lemma all_sessions_ok_later: "all_sessions_ok d t \<Longrightarrow> t \<le> t' \<Longrightarrow> all_sessions_ok d t'"
  by (rule all_sessions_ok_fewer) auto

text \<open>What a logout does: the token and the place of the device go together.\<close>

definition close_session :: "string \<Rightarrow> string \<Rightarrow> rdb \<Rightarrow> rdb" where
  "close_session uid dev d =
     d\<lparr>strs := (strs d)(refresh_key uid dev := None),
       zsets := (zsets d)(sessions_key uid := zremove dev (zsets d (sessions_key uid)))\<rparr>"

definition drop_token :: "string \<Rightarrow> string \<Rightarrow> rdb \<Rightarrow> rdb" where
  "drop_token uid dev d = d\<lparr>strs := (\<lambda>k. if k = refresh_key uid dev then None else strs d k)\<rparr>"

text \<open>What a revocation deletes, when the handler has read the keys \<open>ks\<close> by the end of the scan.\<close>

definition revoked_entries :: "rdb \<Rightarrow> string \<Rightarrow> string list \<Rightarrow> string list" where
  "revoked_entries d keyId ks = filter (\<lambda>k. names_key (strs d k) keyId) ks"

definition without_strs :: "string list \<Rightarrow> rdb \<Rightarrow> rdb" where
  "without_strs ks d = d\<lparr>strs := (\<lambda>k. if k \<in> set ks then None else strs d k)\<rparr>"

lemma all_sessions_ok_close:
  assumes "all_sessions_ok d t" and "t \<le> t'"
  shows "all_sessions_ok (close_session uid dev d) t'"
  unfolding all_sessions_ok_def
proof (intro allI impI)
  fix v assume "plain_id v"
  then have v: "sessions_ok d t v" using assms by (simp add: all_sessions_ok_def)
  show "sessions_ok (close_session uid dev d) t' v"
  proof (cases "uid = v")
    case False
    then show ?thesis
      using v assms(2) by (intro sessions_ok_fewer [OF v]) (auto simp: close_session_def split: if_splits)
  next
    case True
    define z where "z = zsets d (sessions_key v)"
    have z: "length z \<le> 5" "distinct (map snd z)" "\<forall>(s, m) \<in> set z. s < t'"
      "\<And>m. strs d (refresh_key v m) \<noteq> None \<Longrightarrow> m \<in> snd ` set z"
      using v assms(2) by (fastforce simp: sessions_ok_def z_def Let_def)+
    have "length (zremove dev z) \<le> 5" "\<forall>(s, m) \<in> set (zremove dev z). s < t'"
      using z zremove_props(1,3) [where m = dev and z = z] by (auto intro: le_trans)
    then show ?thesis
      using z zremove_props(4,5) [where m = dev and z = z] True
      by (auto simp: sessions_ok_def close_session_def z_def [symmetric] Let_def split: if_splits)
  qed
qed

section \<open>Operations under the invariant\<close>

definition users_plain :: "user list \<Rightarrow> bool" where
  "users_plain us \<longleftrightarrow> (\<forall>u \<in> set us. plain_id (u_id u))"

text \<open>\<open>good\<close> holds before an operation at the time of the clock, \<open>kept\<close> after it at any later time.\<close>

definition good :: "('w \<Rightarrow> rdb) \<Rightarrow> ('w \<Rightarrow> user list) \<Rightarrow> ('w \<Rightarrow> int) \<Rightarrow> 'w \<Rightarrow> bool" where
  "good rd users clk w \<longleftrightarrow> all_sessions_ok (rd w) (clk w) \<and> users_plain (users w)"

definition kept :: "('w \<Rightarrow> rdb) \<Rightarrow> ('w \<Rightarrow> user list) \<Rightarrow> ('w \<Rightarrow> int) \<Rightarrow> 'w \<Rightarrow> 'w \<Rightarrow> bool" where
  "kept rd users clk w w' \<longleftrightarrow> clk w' = clk w \<and> users_plain (users w') \<and> (\<forall>t > clk w. all_sessions_ok (rd w') t)"

lemma good_kept: "good rd users clk w \<Longrightarrow> rd w' = rd w \<Longrightarrow> users w' = users w \<Longrightarrow> clk w' = clk w \<Longrightarrow> kept rd users clk w w'"
  by (auto simp: good_def kept_def intro: all_sessions_ok_later)

context auth_platform
begin

lemma good_refl: "good rd users clk w \<Longrightarrow> kept rd users clk w w"
  by (rule good_kept) auto

lemma generate_kept:
  assumes "good rd users clk w" and "plain_id (u_id user)" and "generateTokenPair D user ex ua w = (r, w')"
  shows "kept rd users clk w w'"
proof -
  obtain p w1 nonce where "generateTokenPair D user ex ua w = (Inr p, w1)"
    "rd w1 = open_session (u_id user) (device_of D ex ua) (clk w) (refreshToken p) (rd w)"
    "users w1 = users w" "clk w1 = clk w"
    by (rule generate_run)
  then show ?thesis
    using assms by (auto simp: kept_def good_def intro: all_sessions_ok_open)
qed

lemma mark_login_run:
  obtains us where "mark_login D uid ip w = (Inr (), put_users us w)" and "map u_id us = map u_id (users w)"
    and "us = map (last_login uid (clk w) ip) (users w)"
proof -
  have upd: "update_rows (ad_users D) P f w = (Inr (), put_users (map (\<lambda>r. if P r then f r else r) (users w)) w)" for P f
    by (rule repository.update [OF users_repo])
  show thesis
    by (rule that [of "map (last_login uid (clk w) ip) (users w)"])
       (simp_all add: mark_login_def await_def now upd last_login_def [abs_def])
qed

lemma users_plain_ids: "map u_id us = map u_id us' \<Longrightarrow> users_plain us = users_plain us'"
proof -
  have alt: "users_plain xs = list_all plain_id (map u_id xs)" for xs
    by (simp add: users_plain_def list_all_iff)
  show "map u_id us = map u_id us' \<Longrightarrow> users_plain us = users_plain us'"
    by (simp only: alt)
qed

lemma marked_kept:
  assumes "good rd users clk w" and "plain_id (u_id user)" 
    and "await (mark_login D uid ip) (\<lambda>_. generateTokenPair D user ex ua) w = (r, w')"
  shows "kept rd users clk w w'"
proof -
  obtain us where us: "mark_login D uid ip w = (Inr (), put_users us w)" "map u_id us = map u_id (users w)"
    by (rule mark_login_run)
  then have g: "good rd users clk (put_users us w)"
    using assms(1) users_plain_ids [OF us(2)] by (simp add: good_def users_put)
  have "generateTokenPair D user ex ua (put_users us w) = (r, w')"
    using assms(3) us by (simp add: await_def)
  from generate_kept [OF g assms(2) this] show ?thesis
    by (simp add: kept_def)
qed

lemma find_user_cases:
  obtains (none) "find_one (ad_users D) P w = (Inr None, w)" and "\<And>u. u \<in> set (users w) \<Longrightarrow> \<not> P u"
    | (some) u where "find_one (ad_users D) P w = (Inr (Some u), w)" and "u \<in> set (users w)" and "P u"
  by (rule repository.find_cases [OF users_repo, of P w]) (blast intro: none some)+

lemma login_kept:
  assumes "good rd users clk w" and "login D email pw ip ua w = (r, w')"
  shows "kept rd users clk w w'"
proof (cases rule: find_user_cases [of "\<lambda>u. u_email u = email" w])
  case none
  with assms show ?thesis by (simp add: login_def await_def good_refl)
next
  case (some u)
  show ?thesis
  proof (cases "truthy (u_passwordHash u) \<and> verify pw (the (u_passwordHash u)) \<and> u_isActive u")
    case True
    with assms some have "await (mark_login D (u_id u) ip) (\<lambda>_. generateTokenPair D u None ua) w = (r, w')"
      by (simp add: login_def await_def compare)
    moreover have "plain_id (u_id u)" using assms(1) some by (simp add: good_def users_plain_def)
    ultimately show ?thesis using assms(1) by (intro marked_kept)
  next
    case False
    with assms some have "w' = w" by (auto simp: login_def await_def compare split: if_splits)
    then show ?thesis using assms by (simp add: good_refl)
  qed
qed

lemma oauth_kept:
  assumes "good rd users clk w" and "plain_id (u_id user)" and "loginOAuth D user ip ua w = (r, w')"
  shows "kept rd users clk w w'"
  using assms marked_kept [of w user "u_id user" ip None ua r w'] good_refl
  by (auto simp: loginOAuth_def split: if_splits)

lemma register_kept:
  assumes g: "good rd users clk w" and ids: "\<And>w. plain_id (new_id w)" and run: "register D email pw w = (r, w')"
  shows "kept rd users clk w w'"
proof (cases rule: find_user_cases [of "\<lambda>u. u_email u = email" w])
  case (some u)
  with run g show ?thesis by (simp add: register_def await_def good_refl)
next
  case none
  obtain h w1 where h: "ad_hash D pw 12 w = (Inr h, w1)" "rd w1 = rd w" "users w1 = users w" "clk w1 = clk w"
    by (rule hashed)
  let ?u = "new_user\<lparr>u_email := email, u_passwordHash := Some h, u_id := new_id w1\<rparr>"
  let ?w2 = "put_users (users w1 @ [?u]) w1"
  have "insert_row (ad_users D) (new_user\<lparr>u_email := email, u_passwordHash := Some h\<rparr>) w1 = (Inr ?u, ?w2)"
    using repository.insert [OF users_repo] by simp
  with none run h have gen: "generateTokenPair D ?u None [] ?w2 = (r, w')"
    by (simp add: register_def await_def)
  have g2: "good rd users clk ?w2"
    using g h ids by (simp add: good_def users_plain_def users_put)
  have "kept rd users clk ?w2 w'"
    by (rule generate_kept [OF g2 _ gen]) (simp add: ids)
  then show ?thesis using h by (simp add: kept_def)
qed

lemma parts_plain: "refresh_parts token = [a, b, c] \<Longrightarrow> plain_id a"
  using split_on_parts [of a "CHR '':''" "b64_decode token"] by (auto simp: refresh_parts_def plain_id_def)

text \<open>What redeeming a token does: it is refused without a trace, or it is gone from the store.\<close>

lemma redeem_cases:
  assumes "redeem_refresh D token w = (r, w')"
  obtains (refused) "w' = w" and "\<exists>m. r = Inl (Http 401 m)"
      and "\<And>uid dev n. refresh_parts token = [uid, dev, n] \<Longrightarrow> strs (rd w) (refresh_key uid dev) \<noteq> Some token"
    | (gone) uid dev n where "refresh_parts token = [uid, dev, n]" and "strs (rd w) (refresh_key uid dev) = Some token"
      and "w' = wr (drop_token uid dev (rd w)) w" and "\<exists>m. r = Inl (Http 401 m)"
    | (redeemed) uid dev n user where "refresh_parts token = [uid, dev, n]"
      and "strs (rd w) (refresh_key uid dev) = Some token"
      and "w' = wr (drop_token uid dev (rd w)) w" and "r = Inr (user, dev)"
      and "user \<in> set (users w)" and "u_id user = uid" and "u_isActive user"
proof (cases "\<exists>uid dev n. refresh_parts token = [uid, dev, n] \<and> strs (rd w) (refresh_key uid dev) = Some token")
  case False
  then show thesis
    using assms
    by (intro refused) (auto simp: redeem_refresh_def await_def redis_commands split: list.splits)
next
  case True
  then obtain uid dev n where p: "refresh_parts token = [uid, dev, n]" "strs (rd w) (refresh_key uid dev) = Some token"
    by blast
  let ?w1 = "wr (drop_token uid dev (rd w)) w"
  have del: "redis_do (ad_redis D) (DEL [refresh_key uid dev]) w = (Inr (), ?w1)"
    by (simp add: redis_commands drop_token_def)
  show thesis
  proof (cases rule: find_user_cases [of "\<lambda>u. u_id u = uid" ?w1])
    case none
    with assms p del show thesis
      by (intro gone [of uid dev n]) (auto simp: redeem_refresh_def await_def redis_commands)
  next
    case (some u)
    show thesis
    proof (cases "u_isActive u")
      case True
      with assms p del some show thesis
        by (intro redeemed [of uid dev n u]) (auto simp: redeem_refresh_def await_def redis_commands)
    next
      case False
      with assms p del some show thesis
        by (intro gone [of uid dev n]) (auto simp: redeem_refresh_def await_def redis_commands)
    qed
  qed
qed

lemma good_drop:
  assumes "good rd users clk w"
  shows "good rd users clk (wr (drop_token uid dev (rd w)) w)"
proof -
  have "all_sessions_ok (drop_token uid dev (rd w)) (clk w)"
  proof (rule all_sessions_ok_fewer)
    show "all_sessions_ok (rd w) (clk w)" using assms by (simp add: good_def)
    show "strs (rd w) k \<noteq> None" if "strs (drop_token uid dev (rd w)) k \<noteq> None" for k
      using that by (simp add: drop_token_def split: if_splits)
  qed (simp_all add: drop_token_def)
  then show ?thesis using assms by (simp add: good_def rd_wr)
qed

lemma refresh_kept:
  assumes g: "good rd users clk w" and run: "refreshTokens D token ua w = (r, w')"
  shows "kept rd users clk w w'"
proof -
  obtain q w1 where red: "redeem_refresh D token w = (q, w1)" by fastforce
  from red show ?thesis
  proof (cases rule: redeem_cases)
    case refused
    then have "w' = w" using run red by (auto simp: refreshTokens_def await_def try_catch_def)
    then show ?thesis using g by (simp add: good_refl)
  next
    case (gone uid dev n)
    then have "w' = w1" using run red by (auto simp: refreshTokens_def await_def try_catch_def)
    then show ?thesis
      using good_refl [OF good_drop [OF g, of uid dev]] gone by (simp add: kept_def)
  next
    case (redeemed uid dev n user)
    then have gen: "generateTokenPair D user (Some dev) ua (wr (drop_token uid dev (rd w)) w) = (r, w')"
      using run red by (simp add: refreshTokens_def await_def try_catch_def)
    have "plain_id (u_id user)" using redeemed(1,6) parts_plain by simp
    from generate_kept [OF good_drop [OF g] this gen] show ?thesis
      by (simp add: kept_def)
  qed
qed

lemma logout_run:
  obtains d where "logout D uid token w = (Inr (), wr d w)"
    and "d = rd w \<or> (\<exists>dev. d = close_session uid dev (rd w))"
proof (cases "\<exists>a dev c. refresh_parts token = [a, dev, c]")
  case True
  then obtain a dev c where p: "refresh_parts token = [a, dev, c]" by blast
  have "(\<lambda>k. if k = refresh_key uid dev then None else strs (rd w) k) = (strs (rd w))(refresh_key uid dev := None)"
    by auto
  then have "logout D uid token w = (Inr (), wr (close_session uid dev (rd w)) w)"
    by (simp add: logout_def p swallow_def try_catch_def await_def redis_commands rd_wr close_session_def)
  then show thesis by (rule that) blast
next
  case False
  then have "logout D uid token w = (Inr (), w)"
    by (auto simp: logout_def swallow_def split: list.splits)
  then show thesis by (intro that [of "rd w"]) (simp_all add: redis_server.wr_rd [OF redis])
qed

lemma logout_kept:
  assumes g: "good rd users clk w" and run: "logout D uid token w = (r, w')"
  shows "kept rd users clk w w'"
proof -
  obtain d where d: "logout D uid token w = (Inr (), wr d w)"
    and "d = rd w \<or> (\<exists>dev. d = close_session uid dev (rd w))" by (rule logout_run)
  then have "\<forall>t > clk w. all_sessions_ok d t"
    using g by (auto simp: good_def intro: all_sessions_ok_later all_sessions_ok_close)
  then show ?thesis using g run d by (auto simp: kept_def good_def rd_wr)
qed

lemma all_sessions_ok_strs:
  assumes "all_sessions_ok d t" and "t \<le> t'" and "\<And>k. prefix ''refresh:'' k \<Longrightarrow> f k \<noteq> None \<Longrightarrow> strs d k \<noteq> None"
  shows "all_sessions_ok (d\<lparr>strs := f\<rparr>) t'"
  by (rule all_sessions_ok_fewer [OF assms(1)]) (simp_all add: assms)

lemma create_key_run:
  obtains c w' nid h where "createApiKey D uid name w = (Inr c, w')"
    and "ck_id c = nid" and "nid \<notin> k_id ` set (keys w)" and "prefix ''esk_'' (ck_key c)"
    and "h \<noteq> []" and "verify (ck_key c) h"
    and "rd w' = (rd w)\<lparr>strs := (strs (rd w))(lookup_key (ad_sha256 D (ck_key c)) \<mapsto> show_json (lookup_entry uid nid))\<rparr>"
    and "users w' = users w" and "clk w' = clk w"
    and "keys w' = keys w @ [\<lparr>k_id = nid, k_userId = uid, k_name = name, k_keyHash = h, k_keyPrefix = take 12 (ck_key c),
       k_createdAt = clk w, k_lastUsedAt = None, k_expiresAt = None\<rparr>]"
proof -
  obtain w1 where u: "uuid_v4 (ad_sys D) w = (Inr (gen w), w1)" "rd w1 = rd w" "users w1 = users w" "keys w1 = keys w"
    "clk w1 = clk w" by (rule uuid)
  let ?raw = "''esk_'' @ filter (\<lambda>c. c \<noteq> CHR ''-'') (gen w)"
  obtain h w2 where h: "ad_hash D ?raw 10 w1 = (Inr h, w2)" "h \<noteq> []" "verify ?raw h" "rd w2 = rd w1" "users w2 = users w1"
    "keys w2 = keys w1" "clk w2 = clk w1" by (rule hashed)
  let ?row = "\<lparr>k_id = new_id w2, k_userId = uid, k_name = name, k_keyHash = h, k_keyPrefix = take 12 ?raw,
       k_createdAt = clk w, k_lastUsedAt = None, k_expiresAt = None\<rparr>"
  have ins: "insert_row (ad_keys D) \<lparr>k_id = [], k_userId = uid, k_name = name, k_keyHash = h, k_keyPrefix = take 12 ?raw,
      k_createdAt = 0, k_lastUsedAt = None, k_expiresAt = None\<rparr> w2 = (Inr ?row, put_keys (keys w @ [?row]) w2)"
    using repository.insert [OF keys_repo] u h by simp
  have fresh: "new_id w2 \<notin> k_id ` set (keys w)"
    using repository.fresh [OF keys_repo, of w2 ?row] u h by simp
  let ?c = "\<lparr>ck_id = new_id w2, ck_key = ?raw, ck_keyPrefix = take 12 ?raw, ck_name = name, ck_createdAt = clk w\<rparr>"
  let ?w' = "wr ((rd w)\<lparr>strs := (strs (rd w))(lookup_key (ad_sha256 D ?raw) \<mapsto> show_json (lookup_entry uid (new_id w2)))\<rparr>)
    (put_keys (keys w @ [?row]) w2)"
  have run: "createApiKey D uid name w = (Inr ?c, ?w')"
    using u h ins by (simp add: createApiKey_def await_def Let_def redis_commands)
  show thesis
    by (rule that [of ?c ?w' "new_id w2" h]) (use run fresh u h in \<open>simp_all add: rd_wr keys_put\<close>)
qed

lemma entries_run: "entries_of_key (ad_redis D) keyId ks w = (Inr (revoked_entries (rd w) keyId ks), w)"
  by (induction ks) (simp_all add: await_def redis_commands revoked_entries_def)

lemma delete_all_run: "delete_all (ad_redis D) ks w = (Inr (), wr (without_strs ks (rd w)) w)"
  by (cases ks) (simp_all add: delete_all_def redis_commands without_strs_def redis_server.wr_rd [OF redis])

lemma find_key_row:
  assumes "row \<in> set (keys w)" and "distinct (map k_id (keys w))"
  shows "find_one (ad_keys D) (\<lambda>k. k_id k = k_id row \<and> k_userId k = k_userId row) w = (Inr (Some row), w)"
proof (rule repository.find_cases [OF keys_repo, of "\<lambda>k. k_id k = k_id row \<and> k_userId k = k_userId row" w])
  assume "\<And>x. x \<in> set (keys w) \<Longrightarrow> \<not> (k_id x = k_id row \<and> k_userId x = k_userId row)"
  with assms show ?thesis by blast
next
  fix x assume "find_one (ad_keys D) (\<lambda>k. k_id k = k_id row \<and> k_userId k = k_userId row) w = (Inr (Some x), w)"
    and "x \<in> set (keys w)" "k_id x = k_id row \<and> k_userId x = k_userId row"
  then show ?thesis using assms by (auto simp: distinct_map inj_on_def)
qed

lemma revoke_run:
  assumes scan: "scan_ok (ad_redis D) rd glob pages"
    and found: "find_one (ad_keys D) (\<lambda>k. k_id k = k_id row \<and> k_userId k = k_userId row) w = (Inr (Some row), w)"
  obtains ks where "\<And>k. k \<in> set ks \<Longrightarrow> glob lookup_pattern k"
    and "\<And>k. finite (dom (strs (rd w))) \<Longrightarrow> strs (rd w) k \<noteq> None \<Longrightarrow> k \<noteq> hash_key (k_keyHash row) \<Longrightarrow>
      glob lookup_pattern k \<Longrightarrow> k \<in> set ks"
    and "\<And>seen. \<exists>w'. revokeApiKey D pages seen (k_userId row) (k_id row) w = (Inr (), w')
      \<and> rd w' = without_strs (revoked_entries (without_strs [hash_key (k_keyHash row)] (rd w)) (k_id row) (take seen ks))
          (without_strs [hash_key (k_keyHash row)] (rd w))
      \<and> keys w' = filter (\<lambda>k. k_id k \<noteq> k_id row) (keys w) \<and> users w' = users w \<and> clk w' = clk w"
proof -
  let ?d1 = "without_strs [hash_key (k_keyHash row)] (rd w)"
  let ?w1 = "wr ?d1 w"
  have del: "redis_do (ad_redis D) (DEL [hash_key (k_keyHash row)]) w = (Inr (), ?w1)"
    by (simp add: redis_commands without_strs_def)
  obtain ks where ks: "scan_keys (ad_redis D) pages ''0'' lookup_pattern 100 ?w1 = (Inr ks, ?w1)"
    "\<And>k. k \<in> set ks \<Longrightarrow> glob lookup_pattern k"
    "\<And>k. finite (dom (strs (rd ?w1))) \<Longrightarrow> strs (rd ?w1) k \<noteq> None \<Longrightarrow> glob lookup_pattern k \<Longrightarrow> k \<in> set ks"
    using scan_okE [OF scan] by blast
  have fin: "finite (dom (strs (rd ?w1)))" if "finite (dom (strs (rd w)))"
    by (rule finite_subset [OF _ that]) (auto simp: rd_wr without_strs_def split: if_splits)
  have "\<exists>w'. revokeApiKey D pages seen (k_userId row) (k_id row) w = (Inr (), w')
      \<and> rd w' = without_strs (revoked_entries ?d1 (k_id row) (take seen ks)) ?d1
      \<and> keys w' = filter (\<lambda>k. k_id k \<noteq> k_id row) (keys w) \<and> users w' = users w \<and> clk w' = clk w" for seen
    by (simp add: revokeApiKey_def await_def found del ks(1) entries_run delete_all_run rd_wr
        repository.remove [OF keys_repo] keys_put)
  then show thesis
    using ks(2,3) fin by (intro that [of ks]) (auto simp: rd_wr without_strs_def split: if_splits)
qed

lemma all_sessions_ok_without:
  assumes "all_sessions_ok d t" and "t \<le> t'"
  shows "all_sessions_ok (without_strs ks d) t'"
proof (rule all_sessions_ok_fewer [OF assms(1) _ assms(2)])
  show "strs d k \<noteq> None" if "strs (without_strs ks d) k \<noteq> None" for k
    using that by (simp add: without_strs_def split: if_splits)
qed (simp add: without_strs_def)

text \<open>The other operations leave the sessions alone, or end in a login.\<close>

lemma users_plain_insert:
  assumes "users_plain (users w)" and "plain_id (new_id w)"
  shows "users_plain (users w @ [x\<lparr>u_id := new_id w\<rparr>])"
  using assms by (simp add: users_plain_def)

lemma find_or_create_good:
  assumes g: "good rd users clk w" and ids: "\<And>w. plain_id (new_id w)"
    and run: "findOrCreateByOAuth D email dn av pr pid w = (r, w')"
  obtains user where "r = Inr user" and "plain_id (u_id user)" and "good rd users clk w'" and "clk w' = clk w"
proof (cases rule: find_user_cases [of "\<lambda>u. u_email u = email" w])
  case none
  let ?new = "new_user\<lparr>u_email := email, u_displayName := dn, u_avatar := av, u_provider := Some pr,
      u_providerId := Some pid, u_emailVerified := True\<rparr>"
  have id: "u_id (?new\<lparr>u_id := new_id w\<rparr>) = new_id w" by simp
  have "r = Inr (?new\<lparr>u_id := new_id w\<rparr>)" "w' = put_users (users w @ [?new\<lparr>u_id := new_id w\<rparr>]) w"
    using none run repository.insert [OF users_repo, of ?new w] by (simp_all add: findOrCreateByOAuth_def await_def)
  then show thesis
    using g ids users_plain_insert [of w ?new]
    by (intro that [of "?new\<lparr>u_id := new_id w\<rparr>"]) (simp_all only: id, simp_all add: good_def users_put)
next
  case (some u)
  then have u: "plain_id (u_id u)" using g by (simp add: good_def users_plain_def)
  show thesis
  proof (cases "truthy (u_providerId u)")
    case True
    then have "r = Inr u" "w' = w" using some run by (simp_all add: findOrCreateByOAuth_def await_def)
    then show thesis using g u by (intro that) simp_all
  next
    case False
    let ?u' = "link_account dn av pr pid u"
    have id: "u_id ?u' = u_id u" by (simp add: link_account_def)
    let ?us = "map (\<lambda>r. if u_id r = u_id ?u' then ?u' else r) (users w)"
    have "r = Inr ?u'" "w' = put_users ?us w"
      using some run False by (simp_all add: findOrCreateByOAuth_def await_def repository.save [OF users_repo] Let_def)
    moreover have "users_plain ?us"
      using g u by (auto simp: good_def users_plain_def id)
    ultimately show thesis
      using g u by (intro that [of ?u']) (simp_all add: good_def users_put id)
  qed
qed

lemma oauth_callback_kept:
  assumes g: "good rd users clk w" and ids: "\<And>w. plain_id (new_id w)"
    and run: "oauth_callback D front (findOrCreateByOAuth D email dn av pr pid) ip ua w = (r, w')"
  shows "kept rd users clk w w'"
proof -
  obtain q w1 where q: "findOrCreateByOAuth D email dn av pr pid w = (q, w1)" by fastforce
  obtain user where user: "q = Inr user" "plain_id (u_id user)" "good rd users clk w1" "clk w1 = clk w"
    by (rule find_or_create_good [OF g ids q])
  obtain q2 w2 where l: "loginOAuth D user (or_str ip ''127.0.0.1'') ua w1 = (q2, w2)" by fastforce
  have "w' = w2"
    using run q user l by (cases q2) (simp_all add: oauth_callback_def await_def)
  then show ?thesis
    using oauth_kept [OF user(3,2) l] user(4) by (simp add: kept_def)
qed

lemma create_key_kept:
  assumes g: "good rd users clk w" and run: "createApiKey D uid name w = (r, w')"
  shows "kept rd users clk w w'"
proof -
  obtain c w1 nid h where c: "createApiKey D uid name w = (Inr c, w1)"
    "rd w1 = (rd w)\<lparr>strs := (strs (rd w))(lookup_key (ad_sha256 D (ck_key c)) \<mapsto> show_json (lookup_entry uid nid))\<rparr>"
    "users w1 = users w" "clk w1 = clk w"
    by (rule create_key_run)
  have "\<not> prefix ''refresh:'' (lookup_key x)" for x by (simp add: lookup_key_def)
  then have "all_sessions_ok (rd w1) t" if "clk w < t" for t
    using g that unfolding c(2) good_def by (intro all_sessions_ok_strs [of _ "clk w"]) (auto split: if_splits)
  then show ?thesis using g run c by (simp add: kept_def good_def)
qed

lemma revoke_kept:
  assumes g: "good rd users clk w" and scan: "scan_ok (ad_redis D) rd glob pages"
    and run: "revokeApiKey D pages seen uid keyId w = (r, w')"
  shows "kept rd users clk w w'"
proof (rule repository.find_cases [OF keys_repo, of "\<lambda>k. k_id k = keyId \<and> k_userId k = uid" w])
  assume "find_one (ad_keys D) (\<lambda>k. k_id k = keyId \<and> k_userId k = uid) w = (Inr None, w)"
  with run g show ?thesis by (simp add: revokeApiKey_def await_def good_refl)
next
  fix row assume found: "find_one (ad_keys D) (\<lambda>k. k_id k = keyId \<and> k_userId k = uid) w = (Inr (Some row), w)"
    and row: "row \<in> set (keys w)" "k_id row = keyId \<and> k_userId row = uid"
  obtain ks where "\<And>seen. \<exists>w'. revokeApiKey D pages seen (k_userId row) (k_id row) w = (Inr (), w')
      \<and> rd w' = without_strs (revoked_entries (without_strs [hash_key (k_keyHash row)] (rd w)) (k_id row) (take seen ks))
          (without_strs [hash_key (k_keyHash row)] (rd w))
      \<and> keys w' = filter (\<lambda>k. k_id k \<noteq> k_id row) (keys w) \<and> users w' = users w \<and> clk w' = clk w"
    using found row(2) by (auto intro: revoke_run [OF scan, of row w])
  from this [of seen] have w': "rd w' = without_strs (revoked_entries (without_strs [hash_key (k_keyHash row)] (rd w)) keyId (take seen ks))
          (without_strs [hash_key (k_keyHash row)] (rd w))" "users w' = users w" "clk w' = clk w"
    using run row(2) by auto
  have "all_sessions_ok (rd w') t" if "clk w < t" for t
    using g that unfolding w'(1) good_def
    by (auto intro!: all_sessions_ok_without [where t = t] all_sessions_ok_without [where t = "clk w"])
  then show ?thesis using g w' by (simp add: kept_def good_def)
qed

lemma validate_run:
  obtains r w' where "validateApiKey D key w = (r, w')"
    and "rd w' = rd w" and "users w' = users w" and "clk w' = clk w"
proof -
  obtain r w' where run: "validateApiKey D key w = (r, w')" by fastforce
  have upd: "update_rows (ad_keys D) P f w = (Inr (), put_keys (map (\<lambda>r. if P r then f r else r) (keys w)) w)" for P f
    by (rule repository.update [OF keys_repo])
  have found: "\<exists>x. find_one (ad_users D) P w = (Inr x, w)" for P
    using find_user_cases [of P w] by metis
  have "rd w' = rd w \<and> users w' = users w \<and> clk w' = clk w"
  proof (cases "json_parse (the (strs (rd w) (lookup_key (ad_sha256 D key))))")
    case None
    then show ?thesis using run by (auto simp: validateApiKey_def await_def redis_commands split: if_splits)
  next
    case (Some entry)
    obtain x where "find_one (ad_users D) (\<lambda>u. matches_id (jget ''userId'' entry) (u_id u) \<and> u_isActive u) w = (Inr x, w)"
      using found by blast
    then show ?thesis
      using run Some
      by (cases x) (auto simp: validateApiKey_def await_def redis_commands read_of_def now swallow_def try_catch_def upd
          split: if_splits)
  qed
  then show thesis using run by (intro that [of r w']) simp_all
qed

lemma validate_ok:
  assumes entry: "strs (rd w) (lookup_key (ad_sha256 D key)) = Some (show_json (lookup_entry (u_id user) kid))"
    and key: "prefix ''esk_'' key"
    and user: "user \<in> set (users w)" "u_isActive user" "distinct (map u_id (users w))"
  shows "\<exists>w'. validateApiKey D key w =
    (Inr \<lparr>ki_sub = u_id user, ki_email = u_email user, ki_role = u_role user, ki_keyId = Some (JStr kid)\<rparr>, w')"
proof -
  have "find_one (ad_users D) (\<lambda>u. u_id user = u_id u \<and> u_isActive u) w = (Inr (Some user), w)"
  proof (cases rule: find_user_cases [of "\<lambda>u. u_id user = u_id u \<and> u_isActive u" w])
    case none
    then show ?thesis using user by blast
  next
    case (some u)
    have "u = user" by (rule distinct_mapD [OF user(3) some(2) user(1)]) (use some(3) in metis)
    with some(1) show ?thesis by simp
  qed
  moreover have "update_rows (ad_keys D) P f w = (Inr (), put_keys (map (\<lambda>r. if P r then f r else r) (keys w)) w)" for P f
    by (rule repository.update [OF keys_repo])
  moreover have "lookup_entry (u_id user) kid \<noteq> JNull" "jget ''userId'' (lookup_entry (u_id user) kid) = Some (JStr (u_id user))"
    "jget ''keyId'' (lookup_entry (u_id user) kid) = Some (JStr kid)"
    by (simp_all add: lookup_entry_def)
  moreover have "truthy (Some (show_json (lookup_entry (u_id user) kid)))"
    by simp
  ultimately show ?thesis
    using key
    by (simp add: validateApiKey_def await_def redis_commands entry read_of_def matches_id_def now swallow_def try_catch_def
        del: truthy.simps)
qed

lemma login_run:
  assumes "user \<in> set (users w)" and "\<And>u. u \<in> set (users w) \<Longrightarrow> u_email u = u_email user \<Longrightarrow> u = user"
    and "truthy (u_passwordHash user)" and "verify pw (the (u_passwordHash user))" and "u_isActive user"
  obtains p w' nonce where "login D (u_email user) pw ip ua w = (Inr p, w')"
    and "refreshToken p = b64_encode (raw_refresh (u_id user) (device_of D None ua) nonce)"
    and "rd w' = open_session (u_id user) (device_of D None ua) (clk w) (refreshToken p) (rd w)"
    and "users w' = map (last_login (u_id user) (clk w) ip) (users w)" and "keys w' = keys w"
proof (cases rule: find_user_cases [of "\<lambda>u. u_email u = u_email user" w])
  case none
  then show thesis using assms by blast
next
  case (some u)
  then have u: "u = user" using assms by blast
  obtain us where us: "mark_login D (u_id user) ip w = (Inr (), put_users us w)"
      "us = map (last_login (u_id user) (clk w) ip) (users w)"
    by (rule mark_login_run)
  obtain p w' nonce where gen: "generateTokenPair D user None ua (put_users us w) = (Inr p, w')"
    "refreshToken p = b64_encode (raw_refresh (u_id user) (device_of D None ua) nonce)"
    "rd w' = open_session (u_id user) (device_of D None ua) (clk (put_users us w)) (refreshToken p) (rd (put_users us w))"
    "users w' = users (put_users us w)" "keys w' = keys (put_users us w)"
    by (rule generate_run)
  have "login D (u_email user) pw ip ua w = (Inr p, w')"
    using some u assms us gen by (simp add: login_def await_def compare)
  then show thesis
    using gen us by (intro that [of p w' nonce]) (simp_all add: users_put)
qed

end

end
