(* ===== verification/Auth_Properties.thy ===== *)
theory Auth_Properties
  imports Auth_Sessions
begin

text \<open>
  The properties of the authentication service, over the lemmas of \<open>auth_platform\<close>, and a world in
  which the platform keeps its promises.
\<close>

section \<open>A world with accounts\<close>

record auth_world = world +
  aw_users :: "user list"
  aw_keys :: "api_key list"

definition aw_fresh :: "'a auth_world_scheme \<Rightarrow> string" where
  "aw_fresh w = fresh_id (map u_id (aw_users w) @ map k_id (aw_keys w))"

definition aw_put_users :: "user list \<Rightarrow> 'a auth_world_scheme \<Rightarrow> 'a auth_world_scheme" where
  "aw_put_users us w = w\<lparr>aw_users := us\<rparr>"

definition aw_put_keys :: "api_key list \<Rightarrow> 'a auth_world_scheme \<Rightarrow> 'a auth_world_scheme" where
  "aw_put_keys ks w = w\<lparr>aw_keys := ks\<rparr>"

definition world_hash :: "string \<Rightarrow> string" where
  "world_hash pw = ''h:'' @ pw"

definition world_deps :: "'a auth_world_scheme auth_deps" where
  "world_deps =
     \<lparr>ad_users = table_repo aw_users aw_put_users u_id (\<lambda>w x. x\<lparr>u_id := aw_fresh w\<rparr>),
      ad_keys = table_repo aw_keys aw_put_keys k_id (\<lambda>w x. x\<lparr>k_id := aw_fresh w, k_createdAt := w_now w\<rparr>),
      ad_redis = scan_redis, ad_sys = world_sys, ad_sign = (\<lambda>p. return (show_json p)),
      ad_hash = (\<lambda>pw n. return (world_hash pw)), ad_compare = (\<lambda>pw h. return (h = world_hash pw)),
      ad_sha256 = (\<lambda>s. s), ad_config = Map.empty\<rparr>"

lemma fresh_id_plain: "plain_id (fresh_id ids)"
  by (simp add: plain_id_def fresh_id_def)

interpretation accounts: auth_platform world_deps w_db put_db aw_users aw_put_users aw_keys aw_put_keys w_now next_uuid
  aw_fresh "\<lambda>pw h. h = world_hash pw"
proof (rule auth_platform.intro)
  show "redis_server (ad_redis world_deps) w_db put_db"
    by (simp add: world_deps_def scan.redis_server_axioms)
  show "repository (ad_users world_deps) aw_users aw_put_users u_id (\<lambda>w x. x\<lparr>u_id := aw_fresh w\<rparr>)"
    using fresh_id_notin unfolding world_deps_def
    by (auto intro!: table_repository simp: aw_put_users_def aw_fresh_def) (metis UnI1 image_eqI set_append set_map)
  show "repository (ad_keys world_deps) aw_keys aw_put_keys k_id (\<lambda>w x. x\<lparr>k_id := aw_fresh w, k_createdAt := w_now w\<rparr>)"
    using fresh_id_notin unfolding world_deps_def
    by (auto intro!: table_repository simp: aw_put_keys_def aw_fresh_def) (metis UnI2 image_eqI set_append set_map)
qed (auto simp: world_deps_def sys_ok_def world_sys_def quiet_def put_db_def aw_put_users_def aw_put_keys_def world_hash_def)

section \<open>Sessions\<close>

text \<open>One operation of the service, with its arguments, whatever its result.\<close>

inductive auth_op :: "'w auth_deps \<Rightarrow> nat \<Rightarrow> 'w \<Rightarrow> 'w \<Rightarrow> bool" for D pages where
  op_register: "register D email pw w = (r, w') \<Longrightarrow> auth_op D pages w w'"
| op_login: "login D email pw ip ua w = (r, w') \<Longrightarrow> auth_op D pages w w'"
| op_oauth: "oauth_callback D front (findOrCreateByOAuth D email dn av pr pid) reqIp ua w = (r, w') \<Longrightarrow> auth_op D pages w w'"
| op_refresh: "refreshTokens D token ua w = (r, w') \<Longrightarrow> auth_op D pages w w'"
| op_logout: "logout D uid token w = (r, w') \<Longrightarrow> auth_op D pages w w'"
| op_create_key: "createApiKey D uid name w = (r, w') \<Longrightarrow> auth_op D pages w w'"
| op_revoke_key: "revokeApiKey D pages seen uid kid w = (r, w') \<Longrightarrow> auth_op D pages w w'"
| op_validate_key: "validateApiKey D key w = (r, w') \<Longrightarrow> auth_op D pages w w'"

text \<open>Runs: operations, between which the clock moves on.\<close>

inductive auth_run :: "'w auth_deps \<Rightarrow> nat \<Rightarrow> ('w \<Rightarrow> rdb) \<Rightarrow> ('w \<Rightarrow> user list) \<Rightarrow> ('w \<Rightarrow> int) \<Rightarrow> 'w \<Rightarrow> 'w \<Rightarrow> bool"
  for D pages rd users clk where
  run_refl: "auth_run D pages rd users clk w w"
| run_step: "auth_run D pages rd users clk w w1 \<Longrightarrow> auth_op D pages w1 w2 \<Longrightarrow>
    rd w3 = rd w2 \<Longrightarrow> users w3 = users w2 \<Longrightarrow> clk w2 < clk w3 \<Longrightarrow> auth_run D pages rd users clk w w3"

lemma auth_op_kept:
  assumes P: "auth_platform D rd wr users put_users keys put_keys clk gen new_id verify"
    and scan: "scan_ok (ad_redis D) rd glob pages" and ids: "\<And>w. plain_id (new_id w)"
    and g: "good rd users clk w" and op: "auth_op D pages w w'"
  shows "kept rd users clk w w'"
  using op
proof cases
  case (op_validate_key key r)
  obtain r2 w2 where "validateApiKey D key w = (r2, w2)" "rd w2 = rd w" "users w2 = users w" "clk w2 = clk w"
    by (rule auth_platform.validate_run [OF P])
  with op_validate_key g show ?thesis by (auto intro: good_kept)
qed (auto intro: auth_platform.register_kept [OF P g ids] auth_platform.login_kept [OF P g]
    auth_platform.oauth_callback_kept [OF P g ids] auth_platform.refresh_kept [OF P g]
    auth_platform.logout_kept [OF P g] auth_platform.create_key_kept [OF P g] auth_platform.revoke_kept [OF P g scan])

lemma auth_run_good:
  assumes "auth_run D pages rd users clk w w'" and "good rd users clk w"
    and P: "auth_platform D rd wr users put_users keys put_keys clk gen new_id verify"
    and scan: "scan_ok (ad_redis D) rd glob pages" and ids: "\<And>w. plain_id (new_id w)"
  shows "good rd users clk w'"
  using assms(1,2)
proof induction
  case (run_step w w1 w2 w3)
  then have "kept rd users clk w1 w2"
    using auth_op_kept [OF P scan ids] by blast
  with run_step show ?case by (simp add: kept_def good_def)
qed

text \<open>
  C12. At most five sessions, and no token without a session: in every state the service reaches
  by any sequence of registrations, logins, refreshes, logouts and API key operations, each user
  has at most five devices, and every refresh token the service would accept belongs to one of them.
\<close>

theorem sessions_invariant:
  assumes P: "auth_platform D rd wr users put_users keys put_keys clk gen new_id verify"
    and scan: "scan_ok (ad_redis D) rd glob pages" and ids: "\<forall>w. plain_id (new_id w)"
    and start: "zsets (rd w) = (\<lambda>_. [])" "strs (rd w) = (\<lambda>_. None)" "users w = []"
    and run: "auth_run D pages rd users clk w w'" and uid: "plain_id uid"
  shows "length (zsets (rd w') (sessions_key uid)) \<le> 5 \<and>
    (\<forall>dev. strs (rd w') (refresh_key uid dev) \<noteq> None \<longrightarrow> dev \<in> snd ` set (zsets (rd w') (sessions_key uid)))"
proof -
  have "good rd users clk w"
    using start by (simp add: good_def all_sessions_ok_def sessions_ok_def users_plain_def)
  then have "good rd users clk w'"
    using auth_run_good [OF run _ P scan] ids by blast
  then show ?thesis using uid by (simp add: good_def all_sessions_ok_def sessions_ok_def Let_def)
qed

text \<open>An account the world starts with, and the start itself.\<close>

definition alice :: user where
  "alice = new_user\<lparr>u_id := ''u1'', u_email := ''a@x'', u_passwordHash := Some (world_hash ''pw'')\<rparr>"

definition accounts_at :: "user list \<Rightarrow> int \<Rightarrow> auth_world" where
  "accounts_at us t = \<lparr>w_db = empty_db, w_now = t, w_uuid = 0, w_counts = [], w_topics = [], aw_users = us, aw_keys = []\<rparr>"

lemma world_scan: "scan_ok (ad_redis world_deps) w_db world_glob (Suc n)"
  by (simp add: world_deps_def scan_redis_ok)

lemma aw_fresh_plain: "plain_id (aw_fresh w)"
  by (simp add: aw_fresh_def fresh_id_plain)

theorem sessions_invariant_witness:
  "length (zsets (w_db (snd (register world_deps ''a@x'' ''pw'' (accounts_at [] 5))\<lparr>w_now := 6\<rparr>)) (sessions_key ''iii'')) \<le> 5"
proof -
  let ?w = "accounts_at [] 5" and ?r = "register world_deps ''a@x'' ''pw'' (accounts_at [] 5)"
  have kept: "kept w_db aw_users w_now ?w (snd ?r)"
    using accounts.register_kept [of ?w "''a@x''" "''pw''" "fst ?r" "snd ?r"] aw_fresh_plain
    by (auto simp: good_def all_sessions_ok_def sessions_ok_def users_plain_def accounts_at_def empty_db_def)
  have "auth_run world_deps (Suc 0) w_db aw_users w_now ?w ((snd ?r)\<lparr>w_now := 6\<rparr>)"
    using kept
    by (intro run_step [OF run_refl op_register [of _ _ _ _ "fst ?r" "snd ?r"]])
       (simp_all add: kept_def accounts_at_def)
  moreover have "zsets (w_db ?w) = (\<lambda>_. [])" "strs (w_db ?w) = (\<lambda>_. None)" "aw_users ?w = []" "plain_id ''iii''"
    by (simp_all add: accounts_at_def empty_db_def plain_id_def)
  ultimately show ?thesis
    using sessions_invariant [OF accounts.auth_platform_axioms world_scan [of 0], of ?w _ "''iii''"] aw_fresh_plain by blast
qed

section \<open>Accounts\<close>

lemma find_email:
  assumes "distinct (map u_email us)"
  shows "List.find (\<lambda>u. u_email u = email) us = Some u \<longleftrightarrow> u \<in> set us \<and> u_email u = email"
proof
  assume "List.find (\<lambda>u. u_email u = email) us = Some u"
  then show "u \<in> set us \<and> u_email u = email" by (auto simp: find_Some_iff)
next
  assume u: "u \<in> set us \<and> u_email u = email"
  then obtain v where v: "List.find (\<lambda>u. u_email u = email) us = Some v"
    by (cases "List.find (\<lambda>u. u_email u = email) us") (auto simp: find_None_iff)
  then have "v \<in> set us" "u_email v = email" by (auto simp: find_Some_iff)
  with u have "v = u" by (intro distinct_mapD [OF assms]) auto
  with v show "List.find (\<lambda>u. u_email u = email) us = Some u" by simp
qed



lemma email_unused: "\<not> (\<exists>u \<in> set us. u_email u = email) \<Longrightarrow> u \<in> set us \<Longrightarrow> u_email u \<noteq> email"
  by blast

lemma register_run:
  assumes P: "auth_platform D rd wr users put_users keys put_keys clk gen new_id verify"
    and free: "\<And>u. u \<in> set (users w) \<Longrightarrow> u_email u \<noteq> email"
  obtains p w' u h where "register D email pw w = (Inr p, w')" and "users w' = users w @ [u]"
    and "u = new_user\<lparr>u_email := email, u_passwordHash := Some h, u_id := u_id u\<rparr>"
    and "u_id u \<notin> u_id ` set (users w)" and "h \<noteq> []" and "verify pw h" and "keys w' = keys w"
    and "rd w' = open_session (u_id u) (device_of D None []) (clk w) (refreshToken p) (rd w)"
proof -
  obtain h w1 where h: "ad_hash D pw 12 w = (Inr h, w1)" "h \<noteq> []" "verify pw h"
    "rd w1 = rd w" "users w1 = users w" "keys w1 = keys w" "clk w1 = clk w"
    by (rule auth_platform.hashed [OF P])
  let ?u = "new_user\<lparr>u_email := email, u_passwordHash := Some h, u_id := new_id w1\<rparr>"
  let ?w2 = "put_users (users w1 @ [?u]) w1"
  have ins: "insert_row (ad_users D) (new_user\<lparr>u_email := email, u_passwordHash := Some h\<rparr>) w1 = (Inr ?u, ?w2)"
    using repository.insert [OF auth_platform.users_repo [OF P]] by simp
  have fresh: "new_id w1 \<notin> u_id ` set (users w)"
    using repository.fresh [OF auth_platform.users_repo [OF P], of w1 ?u] h by simp
  obtain p w' nonce where gen: "generateTokenPair D ?u None [] ?w2 = (Inr p, w')"
    "rd w' = open_session (u_id ?u) (device_of D None []) (clk ?w2) (refreshToken p) (rd ?w2)"
    "users w' = users ?w2" "keys w' = keys ?w2"
    by (rule auth_platform.generate_run [OF P])
  have "find_one (ad_users D) (\<lambda>u. u_email u = email) w = (Inr None, w)"
    by (rule repository.find_none [OF auth_platform.users_repo [OF P]]) (rule free)
  then have "register D email pw w = (Inr p, w')"
    using h(1) ins gen(1) by (simp add: register_def await_def)
  then show thesis
    using gen(2-4) fresh h
    by (intro that [of p w' ?u h]) (simp_all add: auth_platform.users_put [OF P] auth_platform.frames [OF P])
qed

text \<open>
  Registration: a taken email is refused with 409 and changes nothing. Otherwise exactly one
  account is added, with a fresh id, the role of a user and a hash its password verifies against; a
  session is open, and a login with that email and password then answers tokens.
\<close>

theorem register_spec:
  assumes P: "auth_platform D rd wr users put_users keys put_keys clk gen new_id verify"
  shows "if \<exists>u \<in> set (users w). u_email u = email
    then register D email pw w = (Inl (Http 409 ''Email already registered''), w)
    else \<exists>p w' u. register D email pw w = (Inr p, w') \<and> users w' = users w @ [u] \<and> keys w' = keys w
      \<and> u_email u = email \<and> u_role u = ''user'' \<and> u_id u \<notin> u_id ` set (users w)
      \<and> (\<exists>h. u_passwordHash u = Some h \<and> verify pw h)
      \<and> rd w' = open_session (u_id u) (device_of D None []) (clk w) (refreshToken p) (rd w)
      \<and> (\<exists>q w2. login D email pw ip ua w' = (Inr q, w2))"
proof (cases "\<exists>u \<in> set (users w). u_email u = email")
  case True
  obtain u where "find_one (ad_users D) (\<lambda>u. u_email u = email) w = (Inr (Some u), w)"
    by (rule auth_platform.find_user_cases [OF P, of "\<lambda>u. u_email u = email" w]) (use True in blast)+
  then show ?thesis using True by (simp add: register_def await_def)
next
  case False
  obtain p w' u h where r: "register D email pw w = (Inr p, w')" "users w' = users w @ [u]"
    "u = new_user\<lparr>u_email := email, u_passwordHash := Some h, u_id := u_id u\<rparr>"
    "u_id u \<notin> u_id ` set (users w)" "h \<noteq> []" "verify pw h" "keys w' = keys w"
    "rd w' = open_session (u_id u) (device_of D None []) (clk w) (refreshToken p) (rd w)"
    by (rule register_run [OF P, of w email pw]) (use False in blast)
  have fields: "u_email u = email" "u_role u = ''user''" "u_passwordHash u = Some h" "u_isActive u"
    by (subst r(3), simp add: new_user_def)+
  have only: "v = u" if "v \<in> set (users w')" "u_email v = u_email u" for v
    using that r(2) fields(1) False by auto
  obtain q w2 where "login D (u_email u) pw ip ua w' = (Inr q, w2)"
    by (rule auth_platform.login_run [OF P, of u w' pw ip ua]) (use r(2,5,6) fields only in simp_all)
  then have "\<exists>q w2. login D email pw ip ua w' = (Inr q, w2)" by (simp add: fields)
  then show ?thesis using False r(1,2,4,6-8) fields by auto
qed

theorem register_spec_witness:
  "register world_deps ''a@x'' ''no'' (accounts_at [alice] 5) = (Inl (Http 409 ''Email already registered''), accounts_at [alice] 5) \<and>
   (\<exists>q (w :: auth_world) w2. login world_deps ''b@x'' ''pb'' ''ip'' ''ua'' w = (Inr q, w2))"
  using register_spec [OF accounts.auth_platform_axioms, of "accounts_at [alice] 5" "''a@x''" "''no''" "''ip''" "''ua''"]
    register_spec [OF accounts.auth_platform_axioms, of "accounts_at [alice] 5" "''b@x''" "''pb''" "''ip''" "''ua''"]
  by (auto simp: accounts_at_def alice_def new_user_def)

section \<open>Rotation of refresh tokens\<close>

lemma refused_token:
  assumes P: "auth_platform D rd wr users put_users keys put_keys clk gen new_id verify"
    and parts: "refresh_parts token = [uid, dev, n]" and no: "strs (rd w) (refresh_key uid dev) \<noteq> Some token"
  shows "refreshTokens D token ua w = (Inl (Http 401 ''Invalid or expired refresh token''), w)"
  using no by (simp add: refreshTokens_def redeem_refresh_def parts await_def try_catch_def auth_platform.redis_commands [OF P])

lemma open_session_token: "strs (open_session uid dev t token d) (refresh_key uid dev) = Some token"
  by (simp add: open_session_def Let_def)

text \<open>What a refresh with a stored token does.\<close>

lemma rotation_run:
  assumes P: "auth_platform D rd wr users put_users keys put_keys clk gen new_id verify"
    and parts: "refresh_parts token = [uid, dev, n]" and dev: "dev \<noteq> []"
    and stored: "strs (rd w) (refresh_key uid dev) = Some token"
    and user: "user \<in> set (users w)" "u_id user = uid" "u_isActive user" "distinct (map u_id (users w))"
  obtains p w' nonce where "refreshTokens D token ua w = (Inr p, w')"
    and "refreshToken p = b64_encode (raw_refresh uid dev nonce)"
    and "rd w' = open_session uid dev (clk w) (refreshToken p) (drop_token uid dev (rd w))"
proof -
  let ?w1 = "wr (drop_token uid dev (rd w)) w"
  have redeem: "redeem_refresh D token w = (Inr (user, dev), ?w1)"
  proof -
    have "find_one (ad_users D) (\<lambda>u. u_id u = u_id user) ?w1 = (Inr (Some user), ?w1)"
      using user by (intro repository.find_key [OF auth_platform.users_repo [OF P]]) (simp_all add: auth_platform.frames [OF P])
    then show ?thesis
      using user(2,3)
      by (simp add: redeem_refresh_def parts stored await_def auth_platform.redis_commands [OF P] drop_token_def)
  qed
  obtain p w' nonce where gen: "generateTokenPair D user (Some dev) ua ?w1 = (Inr p, w')"
    "refreshToken p = b64_encode (raw_refresh (u_id user) (device_of D (Some dev) ua) nonce)"
    "rd w' = open_session (u_id user) (device_of D (Some dev) ua) (clk ?w1) (refreshToken p) (rd ?w1)"
    by (rule auth_platform.generate_run [OF P])
  have device: "device_of D (Some dev) ua = dev"
    using dev by (simp add: device_of_def)
  have run: "refreshTokens D token ua w = (Inr p, w')"
    using gen(1) by (simp add: refreshTokens_def await_def try_catch_def redeem)
  have rd': "rd w' = open_session uid dev (clk w) (refreshToken p) (drop_token uid dev (rd w))"
    using gen(3) by (simp add: device user(2) auth_platform.rd_wr [OF P] auth_platform.frames [OF P])
  show thesis
    using run gen(2) rd' user(2) by (intro that [of p w' nonce]) (simp_all add: device)
qed

text \<open>
  Rotation: a stored refresh token of an active account answers a new pair for the same user and
  device. The spent token is removed before the new one is stored, and afterwards every token of
  that device but the new one is refused without an effect.
\<close>

theorem refresh_rotation:
  assumes P: "auth_platform D rd wr users put_users keys put_keys clk gen new_id verify"
    and parts: "refresh_parts token = [uid, dev, n]" and dev: "dev \<noteq> []"
    and stored: "strs (rd w) (refresh_key uid dev) = Some token"
    and user: "user \<in> set (users w)" "u_id user = uid" "u_isActive user" "distinct (map u_id (users w))"
  shows "\<exists>p w' nonce. refreshTokens D token ua w = (Inr p, w')
    \<and> refreshToken p = b64_encode (raw_refresh uid dev nonce)
    \<and> rd w' = open_session uid dev (clk w) (refreshToken p) (drop_token uid dev (rd w))
    \<and> (\<forall>old m. refresh_parts old = [uid, dev, m] \<and> old \<noteq> refreshToken p \<longrightarrow>
        refreshTokens D old ua w' = (Inl (Http 401 ''Invalid or expired refresh token''), w'))"
proof -
  obtain p w' nonce where p: "refreshTokens D token ua w = (Inr p, w')"
    "refreshToken p = b64_encode (raw_refresh uid dev nonce)"
    "rd w' = open_session uid dev (clk w) (refreshToken p) (drop_token uid dev (rd w))"
    by (rule rotation_run [OF assms])
  then show ?thesis
    using refused_token [OF P, of _ uid dev _ w' ua]
    by (intro exI [of _ p] exI [of _ w'] exI [of _ nonce]) (auto simp: open_session_token)
qed

definition alice_token :: string where
  "alice_token = b64_encode (raw_refresh ''u1'' ''dev'' ''n0'')"

definition signed_in :: auth_world where
  "signed_in = put_db (open_session ''u1'' ''dev'' 4 alice_token empty_db) (accounts_at [alice] 5)"

lemma alice_token_parts: "refresh_parts alice_token = [''u1'', ''dev'', ''n0'']"
  unfolding refresh_parts_def alice_token_def b64_decode_encode by (simp add: raw_refresh_def)

theorem refresh_rotation_witness:
  "\<exists>p w' nonce. refreshTokens world_deps alice_token ''ua'' signed_in = (Inr p, w') \<and>
    refreshToken p = b64_encode (raw_refresh ''u1'' ''dev'' nonce)"
proof -
  have "strs (w_db signed_in) (refresh_key ''u1'' ''dev'') = Some alice_token"
    by (simp add: signed_in_def put_db_def open_session_token)
  moreover have "alice \<in> set (aw_users signed_in)" "distinct (map u_id (aw_users signed_in))"
    by (simp_all add: signed_in_def put_db_def accounts_at_def)
  moreover have "u_id alice = ''u1''" "u_isActive alice"
    by (simp_all add: alice_def new_user_def)
  ultimately show ?thesis
    using refresh_rotation [OF accounts.auth_platform_axioms alice_token_parts] by blast
qed

section \<open>API keys\<close>

text \<open>
  A created API key works: it answers the identity of its owner, with the id of the new row,
  from the moment it is created, as long as the owner's account is active.
\<close>

theorem api_key_created_valid:
  assumes P: "auth_platform D rd wr users put_users keys put_keys clk gen new_id verify"
    and user: "user \<in> set (users w)" "u_isActive user" "distinct (map u_id (users w))"
  shows "\<exists>c w' w2. createApiKey D (u_id user) name w = (Inr c, w')
    \<and> map k_id (keys w') = map k_id (keys w) @ [ck_id c] \<and> ck_id c \<notin> k_id ` set (keys w)
    \<and> validateApiKey D (ck_key c) w' =
        (Inr \<lparr>ki_sub = u_id user, ki_email = u_email user, ki_role = u_role user, ki_keyId = Some (JStr (ck_id c))\<rparr>, w2)"
proof -
  obtain c w' nid h where c: "createApiKey D (u_id user) name w = (Inr c, w')" "ck_id c = nid"
    "nid \<notin> k_id ` set (keys w)" "prefix ''esk_'' (ck_key c)"
    "rd w' = (rd w)\<lparr>strs := (strs (rd w))(lookup_key (ad_sha256 D (ck_key c)) \<mapsto> show_json (lookup_entry (u_id user) nid))\<rparr>"
    "users w' = users w"
    "keys w' = keys w @ [\<lparr>k_id = nid, k_userId = u_id user, k_name = name, k_keyHash = h, k_keyPrefix = take 12 (ck_key c),
       k_createdAt = clk w, k_lastUsedAt = None, k_expiresAt = None\<rparr>]"
    by (rule auth_platform.create_key_run [OF P])
  have "strs (rd w') (lookup_key (ad_sha256 D (ck_key c))) = Some (show_json (lookup_entry (u_id user) nid))"
    by (simp add: c(5))
  then obtain w2 where "validateApiKey D (ck_key c) w' =
      (Inr \<lparr>ki_sub = u_id user, ki_email = u_email user, ki_role = u_role user, ki_keyId = Some (JStr nid)\<rparr>, w2)"
    using auth_platform.validate_ok [OF P _ c(4)] user c(6) by metis
  then show ?thesis
    using c(1-3,7) by (intro exI [of _ c] exI [of _ w'] exI [of _ w2]) simp
qed

theorem api_key_created_valid_witness:
  "\<exists>c w' w2 r. createApiKey world_deps ''u1'' ''ci'' (accounts_at [alice] 5) = (Inr c, w') \<and>
    validateApiKey world_deps (ck_key c) w' = (Inr r, w2) \<and> ki_email r = ''a@x''"
proof -
  have "alice \<in> set (aw_users (accounts_at [alice] 5))" "distinct (map u_id (aw_users (accounts_at [alice] 5)))"
    by (simp_all add: accounts_at_def)
  moreover have "u_id alice = ''u1''" "u_isActive alice" "u_email alice = ''a@x''"
    by (simp_all add: alice_def new_user_def)
  ultimately show ?thesis
    using api_key_created_valid [OF accounts.auth_platform_axioms, of alice "accounts_at [alice] 5" "''ci''"] by auto
qed

lemma names_key_entry: "names_key (Some (show_json (lookup_entry uid kid))) kid' \<longleftrightarrow> kid = kid'"
proof -
  have "lookup_entry uid kid \<noteq> JNull" "jget ''keyId'' (lookup_entry uid kid) = Some (JStr kid)"
    by (simp_all add: lookup_entry_def)
  moreover have "truthy (Some (show_json (lookup_entry uid kid)))" by simp
  ultimately show ?thesis by (simp add: names_key_def del: truthy.simps)
qed

lemma key_entry_kept:
  "k \<noteq> hash_key h \<Longrightarrow> strs (without_strs [hash_key h] d) k = strs d k"
  by (simp add: without_strs_def)

lemma gone_strs: "k \<in> set ks \<Longrightarrow> strs (without_strs ks d) k = None"
  by (simp add: without_strs_def)

text \<open>
  C14. Revocation: the row of the key goes, and once the handler of the scan has read enough of the
  keys, the lookup entry is gone with it and the key is refused. When the scan ends before the
  handler has read the entry, the revocation answers success all the same and the key still works.
\<close>

theorem revoke_api_key:
  assumes P: "auth_platform D rd wr users put_users keys put_keys clk gen new_id verify"
    and scan: "scan_ok (ad_redis D) rd glob pages"
    and row: "row \<in> set (keys w)" "distinct (map k_id (keys w))"
    and key: "prefix ''esk_'' key" "strs (rd w) (lookup_key (ad_sha256 D key)) = Some (show_json (lookup_entry (u_id user) (k_id row)))"
    and seen: "glob lookup_pattern (lookup_key (ad_sha256 D key))" "finite (dom (strs (rd w)))"
      "lookup_key (ad_sha256 D key) \<noteq> hash_key (k_keyHash row)"
    and user: "user \<in> set (users w)" "u_isActive user" "distinct (map u_id (users w))"
  shows "(\<exists>N. \<forall>n \<ge> N. \<exists>w'. revokeApiKey D pages n (k_userId row) (k_id row) w = (Inr (), w')
      \<and> keys w' = filter (\<lambda>k. k_id k \<noteq> k_id row) (keys w)
      \<and> validateApiKey D key w' = (Inl (Http 401 ''API key not found or expired''), w'))
    \<and> (\<exists>w' w2. revokeApiKey D pages 0 (k_userId row) (k_id row) w = (Inr (), w')
      \<and> keys w' = filter (\<lambda>k. k_id k \<noteq> k_id row) (keys w)
      \<and> validateApiKey D key w' =
          (Inr \<lparr>ki_sub = u_id user, ki_email = u_email user, ki_role = u_role user, ki_keyId = Some (JStr (k_id row))\<rparr>, w2))"
proof -
  let ?k = "lookup_key (ad_sha256 D key)" and ?d = "without_strs [hash_key (k_keyHash row)] (rd w)"
  have found: "find_one (ad_keys D) (\<lambda>k. k_id k = k_id row \<and> k_userId k = k_userId row) w = (Inr (Some row), w)"
    by (rule auth_platform.find_key_row [OF P row])
  obtain ks where ks: "\<And>k. finite (dom (strs (rd w))) \<Longrightarrow> strs (rd w) k \<noteq> None \<Longrightarrow> k \<noteq> hash_key (k_keyHash row) \<Longrightarrow>
      glob lookup_pattern k \<Longrightarrow> k \<in> set ks"
    and run: "\<And>n. \<exists>w'. revokeApiKey D pages n (k_userId row) (k_id row) w = (Inr (), w')
      \<and> rd w' = without_strs (revoked_entries ?d (k_id row) (take n ks)) ?d
      \<and> keys w' = filter (\<lambda>k. k_id k \<noteq> k_id row) (keys w) \<and> users w' = users w \<and> clk w' = clk w"
    by (rule auth_platform.revoke_run [OF P scan found]) blast
  have k: "?k \<in> set ks" using ks seen key(2) by blast
  have entry: "strs ?d ?k = Some (show_json (lookup_entry (u_id user) (k_id row)))"
    using key(2) seen(3) by (simp add: key_entry_kept)
  have all: "\<exists>w'. revokeApiKey D pages n (k_userId row) (k_id row) w = (Inr (), w')
      \<and> keys w' = filter (\<lambda>k. k_id k \<noteq> k_id row) (keys w)
      \<and> validateApiKey D key w' = (Inl (Http 401 ''API key not found or expired''), w')" if "length ks \<le> n" for n
  proof -
    have few: "take n ks = ks" using that by simp
    obtain w' where w': "revokeApiKey D pages n (k_userId row) (k_id row) w = (Inr (), w')"
      "rd w' = without_strs (revoked_entries ?d (k_id row) ks) ?d" "keys w' = filter (\<lambda>k. k_id k \<noteq> k_id row) (keys w)"
      using run [of n] unfolding few by blast
    have "strs (rd w') ?k = None"
      unfolding w'(2) by (rule gone_strs) (simp add: k entry revoked_entries_def names_key_entry)
    then show ?thesis using w' key(1) by (auto simp: validateApiKey_def await_def auth_platform.redis_commands [OF P])
  qed
  obtain w0 where w0: "revokeApiKey D pages 0 (k_userId row) (k_id row) w = (Inr (), w0)"
    "rd w0 = without_strs [] ?d" "keys w0 = filter (\<lambda>k. k_id k \<noteq> k_id row) (keys w)" "users w0 = users w"
    using run [of 0] by (auto simp: revoked_entries_def)
  have "strs (rd w0) ?k = Some (show_json (lookup_entry (u_id user) (k_id row)))"
    using entry by (simp add: w0(2) without_strs_def [of "[]"])
  then obtain w2 where "validateApiKey D key w0 =
      (Inr \<lparr>ki_sub = u_id user, ki_email = u_email user, ki_role = u_role user, ki_keyId = Some (JStr (k_id row))\<rparr>, w2)"
    using auth_platform.validate_ok [OF P _ key(1), of w0 user "k_id row"] user w0(4) by auto
  with all w0 show ?thesis by blast
qed

definition a_key :: api_key where
  "a_key = \<lparr>k_id = ''k1'', k_userId = ''u1'', k_name = ''ci'', k_keyHash = ''h:esk_1'', k_keyPrefix = ''esk_1'',
     k_createdAt = 4, k_lastUsedAt = None, k_expiresAt = None\<rparr>"

definition keyed :: auth_world where
  "keyed = (accounts_at [alice] 5)\<lparr>aw_keys := [a_key],
     w_db := empty_db\<lparr>strs := [lookup_key ''esk_1'' \<mapsto> show_json (lookup_entry ''u1'' ''k1'')]\<rparr>\<rparr>"

theorem revoke_api_key_witness:
  "\<exists>N w'. revokeApiKey world_deps (Suc 0) N ''u1'' ''k1'' keyed = (Inr (), w') \<and>
    validateApiKey world_deps ''esk_1'' w' = (Inl (Http 401 ''API key not found or expired''), w')"
proof -
  have k: "k_userId a_key = ''u1''" "k_id a_key = ''k1''" "k_keyHash a_key = ''h:esk_1''"
    and u: "u_id alice = ''u1''" "u_isActive alice"
    by (simp_all add: a_key_def alice_def new_user_def)
  have rows: "a_key \<in> set (aw_keys keyed)" "distinct (map k_id (aw_keys keyed))" "alice \<in> set (aw_users keyed)"
    "distinct (map u_id (aw_users keyed))"
    by (simp_all add: keyed_def accounts_at_def)
  have sha: "ad_sha256 world_deps ''esk_1'' = ''esk_1''" by (simp add: world_deps_def)
  have entry: "strs (w_db keyed) (lookup_key ''esk_1'') = Some (show_json (lookup_entry ''u1'' ''k1''))"
    "finite (dom (strs (w_db keyed)))" "prefix ''esk_'' ''esk_1''"
    by (simp_all add: keyed_def)
  have keys: "world_glob lookup_pattern (lookup_key ''esk_1'')" "lookup_key ''esk_1'' \<noteq> hash_key ''h:esk_1''"
    by (simp_all add: world_glob_def lookup_pattern_def lookup_key_def hash_key_def)
  show ?thesis
    using revoke_api_key [OF accounts.auth_platform_axioms world_scan [of 0] rows(1,2) entry(3), unfolded sha k, of alice, unfolded u(1)]
      rows u entry keys by blast
qed

end
