(* ===== verification/Auth_Routes.thy ===== *)
theory Auth_Routes
  imports Auth_Service
begin

text \<open>
  The edge of the authentication service: the checks of \<open>auth/dto/auth.dto.ts\<close>, the guard of the
  bearer token (\<open>auth/guards\<close>, \<open>auth/strategies/jwt.strategy.ts\<close>), the routes of
  \<open>auth/auth.controller.ts\<close> and \<open>auth/oauth.controller.ts\<close> and what the strategies of the two
  providers make of a profile. Whether a text is an email is decided by the validator, the
  parameter \<open>isEmail\<close>; passport hands the guard the payload of a token it has verified.
\<close>

section \<open>Bodies of requests\<close>

record register_dto = r_email :: string  r_password :: string
record login_dto = l_email :: string  l_password :: string
record refresh_dto = rt_refreshToken :: string
record api_key_dto = ak_name :: string
record profile_dto = pd_displayName :: "string option"

definition register_dto_ok :: "(string \<Rightarrow> bool) \<Rightarrow> register_dto \<Rightarrow> bool" where
  "register_dto_ok isEmail d \<longleftrightarrow> isEmail (r_email d) \<and> 8 \<le> length (r_password d) \<and> length (r_password d) \<le> 72"

definition login_dto_ok :: "(string \<Rightarrow> bool) \<Rightarrow> login_dto \<Rightarrow> bool" where
  "login_dto_ok isEmail d \<longleftrightarrow> isEmail (l_email d)"

definition api_key_dto_ok :: "api_key_dto \<Rightarrow> bool" where
  "api_key_dto_ok d \<longleftrightarrow> length (ak_name d) \<le> 100"

definition profile_dto_ok :: "profile_dto \<Rightarrow> bool" where
  "profile_dto_ok d \<longleftrightarrow> (case pd_displayName d of None \<Rightarrow> True | Some s \<Rightarrow> length s \<le> 100)"

definition bad_request :: exn where
  "bad_request = Http 400 ''Bad Request''"

section \<open>The guard of the bearer token\<close>

text \<open>The payload is \<open>None\<close> when there is no token, or none that verifies.\<close>

definition jwt_guard :: "json option \<Rightarrow> exn + json" where
  "jwt_guard payload =
     (case (case payload of
              None \<Rightarrow> jwt_handleRequest None None
            | Some p \<Rightarrow> (case jwt_validate p of
                Inl e \<Rightarrow> jwt_handleRequest (Some e) None
              | Inr user \<Rightarrow> jwt_handleRequest None (Some user))) of
        Inl e \<Rightarrow> Inl e
      | Inr user \<Rightarrow> Inr (the user))"

definition guarded :: "json option \<Rightarrow> (string \<Rightarrow> ('w, 'a) io) \<Rightarrow> ('w, 'a) io" where
  "guarded payload handler =
     (case jwt_guard payload of Inl e \<Rightarrow> throw e | Inr user \<Rightarrow> handler (js_text_of (jget ''sub'' user)))"

section \<open>The routes of accounts\<close>

definition register_route :: "'w auth_deps \<Rightarrow> (string \<Rightarrow> bool) \<Rightarrow> register_dto \<Rightarrow> ('w, token_pair) io" where
  "register_route D isEmail dto =
     (if \<not> register_dto_ok isEmail dto then throw bad_request else register D (r_email dto) (r_password dto))"

definition login_route ::
  "'w auth_deps \<Rightarrow> (string \<Rightarrow> bool) \<Rightarrow> login_dto \<Rightarrow> string option \<Rightarrow> string option \<Rightarrow> ('w, token_pair) io" where
  "login_route D isEmail dto reqIp userAgent =
     (if \<not> login_dto_ok isEmail dto then throw bad_request
      else login D (l_email dto) (l_password dto) (or_str reqIp ''127.0.0.1'')
             (case userAgent of None \<Rightarrow> [] | Some ua \<Rightarrow> ua))"

definition refresh_route :: "'w auth_deps \<Rightarrow> refresh_dto \<Rightarrow> string option \<Rightarrow> ('w, token_pair) io" where
  "refresh_route D dto userAgent =
     refreshTokens D (rt_refreshToken dto) (case userAgent of None \<Rightarrow> [] | Some ua \<Rightarrow> ua)"

definition logout_route :: "'w auth_deps \<Rightarrow> json option \<Rightarrow> refresh_dto \<Rightarrow> ('w, unit) io" where
  "logout_route D payload dto = guarded payload (\<lambda>sub. logout D sub (rt_refreshToken dto))"

definition getProfile_route :: "'w auth_deps \<Rightarrow> json option \<Rightarrow> ('w, user) io" where
  "getProfile_route D payload = guarded payload (\<lambda>sub. getProfile D sub)"

definition updateProfile_route :: "'w auth_deps \<Rightarrow> json option \<Rightarrow> profile_dto \<Rightarrow> ('w, user) io" where
  "updateProfile_route D payload dto =
     guarded payload (\<lambda>sub. if \<not> profile_dto_ok dto then throw bad_request else updateProfile D sub (pd_displayName dto))"

section \<open>The routes of API keys\<close>

definition createApiKey_route :: "'w auth_deps \<Rightarrow> json option \<Rightarrow> api_key_dto \<Rightarrow> ('w, created_key) io" where
  "createApiKey_route D payload dto =
     guarded payload (\<lambda>sub. if \<not> api_key_dto_ok dto then throw bad_request else createApiKey D sub (ak_name dto))"

text \<open>\<open>page || 1\<close> on a query parameter that is missing, \<open>NaN\<close> or a number.\<close>

definition or_nat :: "nat option \<Rightarrow> nat \<Rightarrow> nat" where
  "or_nat n d = (case n of Some m \<Rightarrow> if m = 0 then d else m | None \<Rightarrow> d)"

definition listApiKeys_route :: "'w auth_deps \<Rightarrow> json option \<Rightarrow> nat option \<Rightarrow> nat option \<Rightarrow> ('w, api_key list \<times> nat) io" where
  "listApiKeys_route D payload page pageSize =
     guarded payload (\<lambda>sub. listApiKeys D sub (or_nat page 1) (or_nat pageSize 20))"

definition revokeApiKey_route :: "'w auth_deps \<Rightarrow> nat \<Rightarrow> nat \<Rightarrow> json option \<Rightarrow> string \<Rightarrow> ('w, unit) io" where
  "revokeApiKey_route D pages seen payload keyId = guarded payload (\<lambda>sub. revokeApiKey D pages seen sub keyId)"

definition validateApiKey_route :: "'w auth_deps \<Rightarrow> string option \<Rightarrow> ('w, key_identity) io" where
  "validateApiKey_route D key =
     (case key of None \<Rightarrow> throw (Http 401 ''Invalid API key format'') | Some k \<Rightarrow> validateApiKey D k)"

definition auth_health :: "numfmt \<Rightarrow> 'w sys \<Rightarrow> ('w, json) io" where
  "auth_health F S =
     await (date_now S) (\<lambda>now.
     return (JObj [(''status'', JStr ''ok''), (''service'', JStr ''auth-service''), (''timestamp'', JStr (iso_string F now))]))"

section \<open>The providers\<close>

record oauth_profile =
  op_id :: string
  op_displayName :: "string option"
  op_username :: "string option"
  op_emails :: "string list option"
  op_photos :: "string list option"

definition first_of :: "string list option \<Rightarrow> string option" where
  "first_of xs = (case xs of Some (x # _) \<Rightarrow> Some x | _ \<Rightarrow> None)"

definition github_validate :: "'w auth_deps \<Rightarrow> oauth_profile \<Rightarrow> ('w, user) io" where
  "github_validate D p =
     findOrCreateByOAuth D (github_email (case op_emails p of None \<Rightarrow> [] | Some es \<Rightarrow> es)
         (case op_username p of None \<Rightarrow> ''undefined'' | Some u \<Rightarrow> u))
       (or_else (op_displayName p) (op_username p)) (first_of (op_photos p)) ''github'' (op_id p)"

definition google_validate :: "'w auth_deps \<Rightarrow> oauth_profile \<Rightarrow> ('w, user) io" where
  "google_validate D p =
     (case first_of (op_emails p) of
        None \<Rightarrow> throw (JsError ''Cannot read properties of undefined'')
      | Some email \<Rightarrow>
          (case first_of (op_photos p) of
             None \<Rightarrow> throw (JsError ''Cannot read properties of undefined'')
           | Some avatar \<Rightarrow> findOrCreateByOAuth D email (op_displayName p) (Some avatar) ''google'' (op_id p)))"

text \<open>The guard of a provider runs its strategy, and the route then signs the account in.\<close>

definition googleAuthCallback :: "'w auth_deps \<Rightarrow> string option \<Rightarrow> oauth_profile \<Rightarrow> string option \<Rightarrow> string \<Rightarrow> ('w, string) io" where
  "googleAuthCallback D frontendUrl p = oauth_callback D frontendUrl (google_validate D p)"

definition githubAuthCallback :: "'w auth_deps \<Rightarrow> string option \<Rightarrow> oauth_profile \<Rightarrow> string option \<Rightarrow> string \<Rightarrow> ('w, string) io" where
  "githubAuthCallback D frontendUrl p = oauth_callback D frontendUrl (github_validate D p)"

definition getProviders :: "(string \<Rightarrow> string option) \<Rightarrow> json" where
  "getProviders env =
     JObj [(''providers'', JArr [JStr ''google'', JStr ''github'']),
           (''googleEnabled'', JBool (truthy (env ''GOOGLE_CLIENT_ID''))),
           (''githubEnabled'', JBool (truthy (env ''GITHUB_CLIENT_ID'')))]"

section \<open>What the guard lets through\<close>

lemma jwt_guard_cases:
  obtains (refused) m where "jwt_guard payload = Inl (Http 401 m)"
    | (user) p where "payload = Some p" and "jtruthy (jget ''sub'' p)" and "jtruthy (jget ''email'' p)" and "jtruthy (jget ''role'' p)"
        and "jwt_guard payload = Inr (JObj [(''sub'', the (jget ''sub'' p)), (''email'', the (jget ''email'' p)), (''role'', the (jget ''role'' p))])"
proof (cases payload)
  case None
  then show thesis by (intro refused) (simp add: jwt_guard_def jwt_handleRequest_def)
next
  case (Some p)
  show thesis
  proof (cases "jtruthy (jget ''sub'' p) \<and> jtruthy (jget ''email'' p) \<and> jtruthy (jget ''role'' p)")
    case True
    then show thesis using Some by (intro user [of p]) (simp_all add: jwt_guard_def jwt_validate_def jwt_handleRequest_def)
  next
    case False
    then show thesis using Some
      by (intro refused [of "''Invalid token payload''"]) (auto simp: jwt_guard_def jwt_validate_def jwt_handleRequest_def)
  qed
qed

text \<open>
  A guarded route answers 401 and does nothing, or runs for the subject of a verified token
  that names a subject, an email and a role; no other input reaches the handler.
\<close>

lemma guarded_cases:
  "(\<exists>m. \<forall>w. guarded payload handler w = (Inl (Http 401 m), w)) \<or>
   (\<exists>p sub. payload = Some p \<and> jget ''sub'' p = Some sub \<and> jtruthy (jget ''sub'' p) \<and> jtruthy (jget ''email'' p)
      \<and> jtruthy (jget ''role'' p) \<and> guarded payload handler = handler (js_text sub))"
proof (cases rule: jwt_guard_cases [of payload])
  case (refused m)
  then show ?thesis by (auto simp: guarded_def)
next
  case (user p)
  then obtain sub where sub: "jget ''sub'' p = Some sub" by (cases "jget ''sub'' p") auto
  have "guarded payload handler = handler (js_text sub)"
    by (simp add: guarded_def user(5) sub js_text_of_def)
  with user sub show ?thesis by blast
qed

end
