(* ===== verification/Storage_Service.thy ===== *)
theory Storage_Service
  imports Repo Js_Value
begin

text \<open>
  \<open>apps/storage-service/src\<close>: buckets and files. A file is a row of the database, with a version
  and a mark on the latest one, and an object of MinIO under the name of its bucket and its key.
  The MinIO client, the repositories, Redis and the clock are the fields of \<open>store_deps\<close>; the bytes of an
  object are a string.
\<close>

section \<open>Entities and dependencies\<close>

record bucket_row =
  b_id :: string
  b_userId :: string
  b_name :: string
  b_region :: string
  b_isPublic :: bool
  b_createdAt :: int

record file_row =
  fe_id :: string
  fe_bucketId :: string
  fe_key :: string
  fe_size :: int
  fe_contentType :: string
  fe_etag :: "string option"
  fe_version :: int
  fe_isLatest :: bool
  fe_metadata :: json
  fe_createdAt :: int

text \<open>The defaults of the columns.\<close>

definition new_file :: file_row where
  "new_file = \<lparr>fe_id = [], fe_bucketId = [], fe_key = [], fe_size = 0, fe_contentType = [], fe_etag = None,
     fe_version = 1, fe_isLatest = True, fe_metadata = JObj [], fe_createdAt = 0\<rparr>"

text \<open>The client of MinIO; the stream of an object is the list of its chunks.\<close>

record 'w minio =
  mc_bucketExists :: "string \<Rightarrow> ('w, bool) io"
  mc_makeBucket :: "string \<Rightarrow> string \<Rightarrow> ('w, unit) io"
  mc_removeBucket :: "string \<Rightarrow> ('w, unit) io"
  mc_putObject :: "string \<Rightarrow> string \<Rightarrow> string \<Rightarrow> nat \<Rightarrow> (string \<times> string) list \<Rightarrow> ('w, string) io"
  mc_getObject :: "string \<Rightarrow> string \<Rightarrow> ('w, string list) io"
  mc_statObject :: "string \<Rightarrow> string \<Rightarrow> ('w, json) io"
  mc_removeObject :: "string \<Rightarrow> string \<Rightarrow> ('w, unit) io"
  mc_listObjects :: "string \<Rightarrow> string \<Rightarrow> bool \<Rightarrow> ('w, string list) io"
  mc_presignedGetObject :: "string \<Rightarrow> string \<Rightarrow> int \<Rightarrow> ('w, string) io"
  mc_presignedPutObject :: "string \<Rightarrow> string \<Rightarrow> int \<Rightarrow> ('w, string) io"
  mc_initiateMultipart :: "string \<Rightarrow> string \<Rightarrow> string \<Rightarrow> ('w, string) io"
  mc_uploadPart :: "string \<Rightarrow> string \<Rightarrow> int js \<Rightarrow> string \<Rightarrow> nat \<Rightarrow> string \<Rightarrow> ('w, string) io"
  mc_completeMultipart :: "string \<Rightarrow> string \<Rightarrow> string \<Rightarrow> (int js \<times> string) list \<Rightarrow> ('w, unit) io"
  mc_abortMultipart :: "string \<Rightarrow> string \<Rightarrow> string \<Rightarrow> ('w, unit) io"

record 'w store_deps =
  sd_files :: "('w, file_row) repo"
  sd_buckets :: "('w, bucket_row) repo"
  sd_minio :: "'w minio"
  sd_redis :: "'w redis"
  sd_sys :: "'w sys"
  sd_kafka :: "'w kafka"

section \<open>MinIO\<close>

definition default_region :: string where
  "default_region = ''us-east-1''"

definition minio_createBucket :: "'w minio \<Rightarrow> string \<Rightarrow> string \<Rightarrow> ('w, unit) io" where
  "minio_createBucket M name region = mc_makeBucket M name region"

definition minio_bucketExists :: "'w minio \<Rightarrow> string \<Rightarrow> ('w, bool) io" where
  "minio_bucketExists M name = mc_bucketExists M name"

definition ensureSystemBucket :: "'w minio \<Rightarrow> ('w, unit) io" where
  "ensureSystemBucket M =
     (let systemBucket = ''edgesphere-system''
      in await (mc_bucketExists M systemBucket) (\<lambda>there.
         if \<not> there then mc_makeBucket M systemBucket ''us-east-1'' else return ()))"

definition minio_deleteBucket :: "'w minio \<Rightarrow> string \<Rightarrow> ('w, unit) io" where
  "minio_deleteBucket M name = mc_removeBucket M name"

definition minio_uploadFile ::
  "'w minio \<Rightarrow> string \<Rightarrow> string \<Rightarrow> string \<Rightarrow> string \<Rightarrow> (string \<times> string) list \<Rightarrow> ('w, string) io" where
  "minio_uploadFile M bucket key data contentType metadata =
     mc_putObject M bucket key data (length data) ((''Content-Type'', contentType) # metadata)"

definition getFileStream :: "'w minio \<Rightarrow> string \<Rightarrow> string \<Rightarrow> ('w, string list) io" where
  "getFileStream M bucket key = mc_getObject M bucket key"

definition getFile :: "'w minio \<Rightarrow> string \<Rightarrow> string \<Rightarrow> ('w, string) io" where
  "getFile M bucket key = await (mc_getObject M bucket key) (\<lambda>chunks. return (concat chunks))"

definition getFileStat :: "'w minio \<Rightarrow> string \<Rightarrow> string \<Rightarrow> ('w, json) io" where
  "getFileStat M bucket key = mc_statObject M bucket key"

definition minio_deleteFile :: "'w minio \<Rightarrow> string \<Rightarrow> string \<Rightarrow> ('w, unit) io" where
  "minio_deleteFile M bucket key = mc_removeObject M bucket key"

definition minio_listFiles :: "'w minio \<Rightarrow> string \<Rightarrow> string \<Rightarrow> bool \<Rightarrow> ('w, string list) io" where
  "minio_listFiles M bucket pre recursive = mc_listObjects M bucket pre recursive"

definition generatePresignedGetUrl :: "'w minio \<Rightarrow> string \<Rightarrow> string \<Rightarrow> int \<Rightarrow> ('w, string) io" where
  "generatePresignedGetUrl M bucket key expirySeconds = mc_presignedGetObject M bucket key expirySeconds"

definition generatePresignedPutUrl :: "'w minio \<Rightarrow> string \<Rightarrow> string \<Rightarrow> int \<Rightarrow> ('w, string) io" where
  "generatePresignedPutUrl M bucket key expirySeconds = mc_presignedPutObject M bucket key expirySeconds"

section \<open>Buckets\<close>

record bucket_dto =
  bd_name :: string
  bd_region :: "string option"
  bd_isPublic :: "bool option"

text \<open>\<open>^[a-z0-9][a-z0-9.-]{1,61}[a-z0-9]$\<close>\<close>

definition is_bucket_alnum :: "char \<Rightarrow> bool" where
  "is_bucket_alnum c \<longleftrightarrow> c \<in> set ''abcdefghijklmnopqrstuvwxyz0123456789''"

definition bucket_name_ok :: "string \<Rightarrow> bool" where
  "bucket_name_ok s \<longleftrightarrow> 3 \<le> length s \<and> length s \<le> 63 \<and> is_bucket_alnum (hd s) \<and> is_bucket_alnum (last s) \<and>
     list_all (\<lambda>c. is_bucket_alnum c \<or> c = CHR ''.'' \<or> c = CHR ''-'') s"

record 'a paged =
  pg_data :: "'a list"
  pg_total :: nat
  pg_page :: nat
  pg_pageSize :: nat

definition createBucket :: "'w store_deps \<Rightarrow> string \<Rightarrow> bucket_dto \<Rightarrow> ('w, bucket_row) io" where
  "createBucket D userId dto =
     await (find_one (sd_buckets D) (\<lambda>b. b_name b = bd_name dto)) (\<lambda>existing.
     if existing \<noteq> None then throw (Http 409 ''Bucket name already exists'')
     else
       await (minio_bucketExists (sd_minio D) (bd_name dto)) (\<lambda>existsInMinio.
       await (if \<not> existsInMinio
              then minio_createBucket (sd_minio D) (bd_name dto) (or_str (bd_region dto) default_region)
              else return ()) (\<lambda>_.
       insert_row (sd_buckets D)
         \<lparr>b_id = [], b_userId = userId, b_name = bd_name dto, b_region = or_str (bd_region dto) default_region,
          b_isPublic = (bd_isPublic dto = Some True), b_createdAt = 0\<rparr>)))"

definition listBuckets :: "'w store_deps \<Rightarrow> string \<Rightarrow> nat \<Rightarrow> nat \<Rightarrow> ('w, bucket_row paged) io" where
  "listBuckets D userId page pageSize =
     await (find_and_count (sd_buckets D) (\<lambda>b. b_userId b = userId) b_createdAt ((page - 1) * pageSize) pageSize) (\<lambda>(data, total).
     return \<lparr>pg_data = data, pg_total = total, pg_page = page, pg_pageSize = pageSize\<rparr>)"

definition getBucket :: "'w store_deps \<Rightarrow> string \<Rightarrow> string \<Rightarrow> ('w, bucket_row) io" where
  "getBucket D userId name =
     await (find_one (sd_buckets D) (\<lambda>b. b_userId b = userId \<and> b_name b = name)) (\<lambda>found.
     case found of None \<Rightarrow> throw (Http 404 ''Bucket not found'') | Some bucket \<Rightarrow> return bucket)"

definition deleteBucket :: "'w store_deps \<Rightarrow> string \<Rightarrow> string \<Rightarrow> ('w, unit) io" where
  "deleteBucket D userId name =
     await (getBucket D userId name) (\<lambda>bucket.
     await (find_all (sd_files D) (\<lambda>f. fe_bucketId f = b_id bucket)) (\<lambda>files.
     if 0 < length files then throw (Http 400 ''Bucket is not empty'')
     else
       await (minio_bucketExists (sd_minio D) name) (\<lambda>there.
       await (if there then minio_deleteBucket (sd_minio D) name else return ()) (\<lambda>_.
       remove_row (sd_buckets D) bucket))))"

section \<open>Files\<close>

record upload =
  up_buffer :: string
  up_size :: int
  up_mimetype :: string
  up_originalname :: string

definition DEFAULT_MAX_FILE_SIZE_MB :: int where
  "DEFAULT_MAX_FILE_SIZE_MB = 5120"

definition getMaxFileSizeMb :: "'w redis \<Rightarrow> int \<Rightarrow> ('w, int js) io" where
  "getMaxFileSizeMb R defaultMb =
     try_catch
       (await (redis_hget R ''edgesphere:platform_config'' ''maxFileSizeMb'') (\<lambda>val.
        return (if truthy val then parse_int (the val) else Num defaultMb)))
       (\<lambda>_. return (Num defaultMb))"

text \<open>\<open>userId\<close> is \<open>null\<close> for a request without an account.\<close>

definition getBucketOrThrow :: "'w store_deps \<Rightarrow> string option \<Rightarrow> string \<Rightarrow> bool \<Rightarrow> ('w, bucket_row) io" where
  "getBucketOrThrow D userId bucketName checkOwner =
     await (find_one (sd_buckets D) (\<lambda>b. b_name b = bucketName)) (\<lambda>found.
     case found of
       None \<Rightarrow> throw (Http 404 ''Bucket not found'')
     | Some bucket \<Rightarrow>
         if checkOwner \<and> Some (b_userId bucket) \<noteq> userId then throw (Http 403 ''Access denied'')
         else if \<not> checkOwner \<and> \<not> b_isPublic bucket \<and> Some (b_userId bucket) \<noteq> userId then throw (Http 403 ''Access denied'')
         else return bucket)"

definition too_large :: "int js \<Rightarrow> int \<Rightarrow> bool" where
  "too_large maxSizeMb bytes = (case maxSizeMb of NaN \<Rightarrow> False | Num m \<Rightarrow> bytes > m * 1024 * 1024)"

definition too_large_text :: "int js \<Rightarrow> string" where
  "too_large_text maxSizeMb = ''File exceeds the maximum allowed size of '' @ show_num maxSizeMb @ '' MB''"

definition final_key :: "'w store_deps \<Rightarrow> string option \<Rightarrow> ('w, string) io" where
  "final_key D key = (if truthy key then return (the key) else uuid_v4 (sd_sys D))"

text \<open>The row that was the latest one gives up the mark; the version of the next row.\<close>

definition supersede :: "'w store_deps \<Rightarrow> string \<Rightarrow> string \<Rightarrow> ('w, int) io" where
  "supersede D bucketId key =
     await (find_one (sd_files D) (\<lambda>f. fe_bucketId f = bucketId \<and> fe_key f = key \<and> fe_isLatest f)) (\<lambda>existingFile.
     case existingFile of
       None \<Rightarrow> return 1
     | Some f \<Rightarrow> await (save_row (sd_files D) (f\<lparr>fe_isLatest := False\<rparr>)) (\<lambda>_. return (fe_version f + 1)))"

definition file_record :: "bucket_row \<Rightarrow> string \<Rightarrow> upload \<Rightarrow> string \<Rightarrow> int \<Rightarrow> file_row" where
  "file_record bucket key file etag version =
     new_file\<lparr>fe_bucketId := b_id bucket, fe_key := key, fe_size := up_size file, fe_contentType := up_mimetype file,
       fe_etag := Some etag, fe_version := version, fe_isLatest := True,
       fe_metadata := JObj [(''originalname'', JStr (up_originalname file))]\<rparr>"

definition uploadFile :: "'w store_deps \<Rightarrow> string \<Rightarrow> string \<Rightarrow> upload \<Rightarrow> string option \<Rightarrow> ('w, file_row) io" where
  "uploadFile D userId bucketName file key =
     await (getBucketOrThrow D (Some userId) bucketName True) (\<lambda>bucket.
     await (getMaxFileSizeMb (sd_redis D) DEFAULT_MAX_FILE_SIZE_MB) (\<lambda>maxSizeMb.
     if too_large maxSizeMb (up_size file) then throw (Http 400 (too_large_text maxSizeMb))
     else
       await (final_key D key) (\<lambda>finalKey.
       await (minio_uploadFile (sd_minio D) (b_name bucket) finalKey (up_buffer file) (up_mimetype file)
                [(''originalname'', up_originalname file)]) (\<lambda>etag.
       await (supersede D (b_id bucket) finalKey) (\<lambda>version.
       insert_row (sd_files D) (file_record bucket finalKey file etag version))))))"

record download =
  dl_stream :: "string list"
  dl_contentType :: string
  dl_size :: int
  dl_etag :: "string option"

text \<open>A version that is no number is refused by the database, whose column is an integer.\<close>

definition find_version :: "'w store_deps \<Rightarrow> string \<Rightarrow> string \<Rightarrow> int js option \<Rightarrow> ('w, file_row option) io" where
  "find_version D bucketId key version =
     (case version of
        Some NaN \<Rightarrow> throw (JsError ''invalid input syntax for type integer'')
      | Some (Num v) \<Rightarrow> find_one (sd_files D) (\<lambda>f. fe_bucketId f = bucketId \<and> fe_key f = key \<and> fe_version f = v)
      | None \<Rightarrow> find_one (sd_files D) (\<lambda>f. fe_bucketId f = bucketId \<and> fe_key f = key \<and> fe_isLatest f))"

definition downloadFile :: "'w store_deps \<Rightarrow> string option \<Rightarrow> string \<Rightarrow> string \<Rightarrow> int js option \<Rightarrow> ('w, download) io" where
  "downloadFile D userId bucketName key version =
     await (getBucketOrThrow D userId bucketName False) (\<lambda>bucket.
     await (find_version D (b_id bucket) key version) (\<lambda>fileRecord.
     case fileRecord of
       None \<Rightarrow> throw (Http 404 ''File not found'')
     | Some f \<Rightarrow>
         await (getFileStream (sd_minio D) (b_name bucket) key) (\<lambda>stream.
         return \<lparr>dl_stream = stream, dl_contentType = fe_contentType f, dl_size = fe_size f, dl_etag = fe_etag f\<rparr>)))"

definition deleteFile :: "'w store_deps \<Rightarrow> string \<Rightarrow> string \<Rightarrow> string \<Rightarrow> ('w, unit) io" where
  "deleteFile D userId bucketName key =
     await (getBucketOrThrow D (Some userId) bucketName True) (\<lambda>bucket.
     await (find_one (sd_files D) (\<lambda>f. fe_bucketId f = b_id bucket \<and> fe_key f = key)) (\<lambda>fileRecord.
     case fileRecord of
       None \<Rightarrow> throw (Http 404 ''File not found'')
     | Some f \<Rightarrow>
         await (minio_deleteFile (sd_minio D) (b_name bucket) key) (\<lambda>_.
         remove_row (sd_files D) f)))"

definition listFiles :: "'w store_deps \<Rightarrow> string \<Rightarrow> string \<Rightarrow> nat \<Rightarrow> nat \<Rightarrow> ('w, file_row paged) io" where
  "listFiles D userId bucketName page pageSize =
     await (getBucketOrThrow D (Some userId) bucketName True) (\<lambda>bucket.
     await (find_and_count (sd_files D) (\<lambda>f. fe_bucketId f = b_id bucket) fe_createdAt ((page - 1) * pageSize) pageSize) (\<lambda>(data, total).
     return \<lparr>pg_data = data, pg_total = total, pg_page = page, pg_pageSize = pageSize\<rparr>))"

definition generatePresignedUrl ::
  "'w store_deps \<Rightarrow> string \<Rightarrow> string \<Rightarrow> string \<Rightarrow> int \<Rightarrow> string \<Rightarrow> ('w, string) io" where
  "generatePresignedUrl D userId bucketName key expirySeconds method =
     await (getBucketOrThrow D (Some userId) bucketName True) (\<lambda>bucket.
     if method = ''GET'' then generatePresignedGetUrl (sd_minio D) (b_name bucket) key expirySeconds
     else if method = ''PUT'' then generatePresignedPutUrl (sd_minio D) (b_name bucket) key expirySeconds
     else throw (Http 400 ''Invalid method''))"

section \<open>The routes\<close>

text \<open>
  The guard reads the bearer token; \<open>verify token secret\<close> is \<open>jsonwebtoken\<close>. \<open>split(' ')[1]\<close> is
  \<open>undefined\<close> for no header that passes the check.
\<close>

definition storage_guard :: "(string \<Rightarrow> string \<Rightarrow> json option) \<Rightarrow> string option \<Rightarrow> string option \<Rightarrow> exn + json" where
  "storage_guard verify jwtSecret authorization =
     (if \<not> truthy authorization \<or> \<not> prefix ''Bearer '' (the authorization) then Inl (Http 401 ''Missing or invalid token'')
      else
        (case verify (split_on (CHR '' '') (the authorization) ! 1) (or_str jwtSecret ''fallback_secret'') of
           None \<Rightarrow> Inl (Http 401 ''Invalid token'')
         | Some decoded \<Rightarrow> Inr decoded))"

definition for_user ::
  "(string \<Rightarrow> string \<Rightarrow> json option) \<Rightarrow> string option \<Rightarrow> string option \<Rightarrow> (string \<Rightarrow> ('w, 'a) io) \<Rightarrow> ('w, 'a) io" where
  "for_user verify jwtSecret authorization handler =
     (case storage_guard verify jwtSecret authorization of
        Inl e \<Rightarrow> throw e
      | Inr user \<Rightarrow> handler (js_text_of (jget ''sub'' user)))"

text \<open>What the download route answers: the headers it sets and the stream.\<close>

definition downloadFile_route ::
  "'w store_deps \<Rightarrow> json option \<Rightarrow> string \<Rightarrow> string \<Rightarrow> string option \<Rightarrow> ('w, (string \<times> string) list \<times> string list) io" where
  "downloadFile_route D user bucket key version =
     (let parsedVersion = (if truthy version then Some (parse_int (the version)) else None);
          sub = (case user of None \<Rightarrow> None | Some u \<Rightarrow> jget ''sub'' u);
          userId = (if jtruthy sub then Some (js_text (the sub)) else None)
      in await (downloadFile D userId bucket key parsedVersion) (\<lambda>d.
         return ([(''Content-Type'', dl_contentType d), (''Content-Length'', show_int (dl_size d)),
                  (''ETag'', case dl_etag d of None \<Rightarrow> ''null'' | Some e \<Rightarrow> e),
                  (''Cache-Control'', ''public, max-age=3600'')], dl_stream d)))"

text \<open>The other routes run for the subject of the token; a request is its authorization header.\<close>

record storage_env =
  se_verify :: "string \<Rightarrow> string \<Rightarrow> json option"
  se_secret :: "string option"

definition as_user :: "storage_env \<Rightarrow> string option \<Rightarrow> (string \<Rightarrow> ('w, 'a) io) \<Rightarrow> ('w, 'a) io" where
  "as_user E authorization handler = for_user (se_verify E) (se_secret E) authorization handler"

definition or_page :: "nat option \<Rightarrow> nat \<Rightarrow> nat" where
  "or_page n d = (case n of Some m \<Rightarrow> if m = 0 then d else m | None \<Rightarrow> d)"

definition uploadFile_route ::
  "storage_env \<Rightarrow> 'w store_deps \<Rightarrow> string option \<Rightarrow> string \<Rightarrow> upload \<Rightarrow> string option \<Rightarrow> ('w, file_row) io" where
  "uploadFile_route E D auth bucket file key = as_user E auth (\<lambda>sub. uploadFile D sub bucket file key)"

definition listFiles_route ::
  "storage_env \<Rightarrow> 'w store_deps \<Rightarrow> string option \<Rightarrow> string \<Rightarrow> nat option \<Rightarrow> nat option \<Rightarrow> ('w, file_row paged) io" where
  "listFiles_route E D auth bucket page pageSize =
     as_user E auth (\<lambda>sub. listFiles D sub bucket (or_page page 1) (or_page pageSize 50))"

definition deleteFile_route :: "storage_env \<Rightarrow> 'w store_deps \<Rightarrow> string option \<Rightarrow> string \<Rightarrow> string \<Rightarrow> ('w, unit) io" where
  "deleteFile_route E D auth bucket key = as_user E auth (\<lambda>sub. deleteFile D sub bucket key)"

definition presign_route ::
  "storage_env \<Rightarrow> 'w store_deps \<Rightarrow> string option \<Rightarrow> string \<Rightarrow> string \<Rightarrow> int option \<Rightarrow> string \<Rightarrow> ('w, string) io" where
  "presign_route E D auth bucket key expirySeconds method =
     as_user E auth (\<lambda>sub. generatePresignedUrl D sub bucket key
       (case expirySeconds of None \<Rightarrow> 3600 | Some n \<Rightarrow> if n = 0 then 3600 else n) method)"

definition createBucket_route ::
  "storage_env \<Rightarrow> 'w store_deps \<Rightarrow> string option \<Rightarrow> bucket_dto \<Rightarrow> ('w, bucket_row) io" where
  "createBucket_route E D auth dto =
     as_user E auth (\<lambda>sub. if \<not> bucket_name_ok (bd_name dto) then throw (Http 400 ''Bad Request'') else createBucket D sub dto)"

definition listBuckets_route ::
  "storage_env \<Rightarrow> 'w store_deps \<Rightarrow> string option \<Rightarrow> nat option \<Rightarrow> nat option \<Rightarrow> ('w, bucket_row paged) io" where
  "listBuckets_route E D auth page pageSize =
     as_user E auth (\<lambda>sub. listBuckets D sub (or_page page 1) (or_page pageSize 50))"

definition getBucket_route :: "storage_env \<Rightarrow> 'w store_deps \<Rightarrow> string option \<Rightarrow> string \<Rightarrow> ('w, bucket_row) io" where
  "getBucket_route E D auth name = as_user E auth (\<lambda>sub. getBucket D sub name)"

definition deleteBucket_route :: "storage_env \<Rightarrow> 'w store_deps \<Rightarrow> string option \<Rightarrow> string \<Rightarrow> ('w, unit) io" where
  "deleteBucket_route E D auth name = as_user E auth (\<lambda>sub. deleteBucket D sub name)"

section \<open>Events\<close>

definition publishStorageEvent :: "'w kafka \<Rightarrow> json \<Rightarrow> ('w, unit) io" where
  "publishStorageEvent K payload = kafka_send K ''storage.events'' (show_json payload)"

definition publishCacheInvalidation :: "'w kafka \<Rightarrow> json \<Rightarrow> ('w, unit) io" where
  "publishCacheInvalidation K payload = kafka_send K ''cache.invalidate'' (show_json payload)"

end
