(* ===== verification/Storage_Multipart.thy ===== *)
theory Storage_Multipart
  imports Storage_Service
begin

text \<open>
  \<open>apps/storage-service/src/multipart\<close>: uploads in parts. The sessions are a map in the memory of the
  service, here the second component of the state; a part is uploaded to MinIO and then appended to
  its session, and a completed upload becomes a row of the database and an event.
\<close>

section \<open>Sessions\<close>

record part =
  pt_number :: "int js"
  pt_etag :: string
  pt_size :: nat

record session =
  ss_uploadId :: string
  ss_internalUploadId :: string
  ss_bucketName :: string
  ss_key :: string
  ss_userId :: string
  ss_contentType :: string
  ss_totalSize :: int
  ss_partCount :: int
  ss_completedParts :: "part list"
  ss_createdAt :: int
  ss_expiresAt :: int

type_synonym sessions = "string \<Rightarrow> session option"

definition session_key :: "string \<Rightarrow> string" where
  "session_key uploadId = ''multipart:'' @ uploadId"

definition partSize :: int where
  "partSize = 5 * 1024 * 1024"

definition partCount :: "int \<Rightarrow> int" where
  "partCount totalSize =
     (if totalSize \<le> partSize then 1 else \<lceil>fdiv (of_int totalSize) (of_int partSize)\<rceil>)"

record initiated =
  in_uploadId :: string
  in_partCount :: int
  in_partSize :: int
  in_expiresAt :: int

definition initiateUpload ::
  "'w store_deps \<Rightarrow> string \<Rightarrow> string \<Rightarrow> string \<Rightarrow> string \<Rightarrow> int \<Rightarrow> ('w \<times> sessions, initiated) io" where
  "initiateUpload D userId bucketName key contentType totalSize =
     await (on_world (uuid_v4 (sd_sys D))) (\<lambda>uploadId.
     await (on_world (mc_initiateMultipart (sd_minio D) bucketName key contentType)) (\<lambda>minioUploadId.
     await (on_world (date_now (sd_sys D))) (\<lambda>now.
     (let expiresAt = now + 24 * 60 * 60 * 1000;
          count = partCount totalSize;
          session = \<lparr>ss_uploadId = minioUploadId, ss_internalUploadId = uploadId, ss_bucketName = bucketName,
            ss_key = key, ss_userId = userId, ss_contentType = contentType, ss_totalSize = totalSize,
            ss_partCount = count, ss_completedParts = [], ss_createdAt = now, ss_expiresAt = expiresAt\<rparr>
      in await (mod_ctx (\<lambda>m. m(session_key uploadId \<mapsto> session))) (\<lambda>_.
         return \<lparr>in_uploadId = uploadId, in_partCount = count, in_partSize = partSize, in_expiresAt = expiresAt\<rparr>)))))"

text \<open>A part number that is no number passes both comparisons.\<close>

definition bad_part_number :: "int js \<Rightarrow> int \<Rightarrow> bool" where
  "bad_part_number partNumber parts = (case partNumber of NaN \<Rightarrow> False | Num n \<Rightarrow> n < 1 \<or> n > parts)"

definition add_part :: "part \<Rightarrow> session \<Rightarrow> session" where
  "add_part p s = s\<lparr>ss_completedParts := ss_completedParts s @ [p]\<rparr>"

record uploaded =
  ul_partNumber :: "int js"
  ul_etag :: string
  ul_uploadedBytes :: nat

definition uploadPart :: "'w store_deps \<Rightarrow> string \<Rightarrow> int js \<Rightarrow> string \<Rightarrow> ('w \<times> sessions, uploaded) io" where
  "uploadPart D uploadId partNumber data =
     await get_ctx (\<lambda>store.
     case store (session_key uploadId) of
       None \<Rightarrow> throw (Http 404 ''Upload session not found'')
     | Some session \<Rightarrow>
         if bad_part_number partNumber (ss_partCount session) then throw (Http 400 ''Invalid part number'')
         else
           await (on_world (mc_uploadPart (sd_minio D) (ss_bucketName session) (ss_key session) partNumber data
                              (length data) (ss_uploadId session))) (\<lambda>etag.
           await (mod_ctx (\<lambda>m. m(session_key uploadId \<mapsto>
                    add_part \<lparr>pt_number = partNumber, pt_etag = etag, pt_size = length data\<rparr> session))) (\<lambda>_.
           return \<lparr>ul_partNumber = partNumber, ul_etag = etag, ul_uploadedBytes = length data\<rparr>)))"

text \<open>
  The comparison of the sort subtracts part numbers. Where one is no number the engine is free to
  choose the order; here it counts as 0.
\<close>

definition part_rank :: "part \<Rightarrow> int" where
  "part_rank p = (case pt_number p of NaN \<Rightarrow> 0 | Num n \<Rightarrow> n)"

definition sorted_parts :: "part list \<Rightarrow> (int js \<times> string) list" where
  "sorted_parts ps = map (\<lambda>p. (pt_number p, pt_etag p)) (sort_key part_rank ps)"

definition multipart_record :: "session \<Rightarrow> file_row" where
  "multipart_record s =
     new_file\<lparr>fe_bucketId := ss_bucketName s, fe_key := ss_key s, fe_size := ss_totalSize s,
       fe_contentType := ss_contentType s, fe_etag := Some ''multipart-etag'', fe_metadata := JObj []\<rparr>"

definition uploaded_event :: "session \<Rightarrow> json" where
  "uploaded_event s =
     JObj [(''type'', JStr ''file.uploaded''), (''bucket'', JStr (ss_bucketName s)), (''key'', JStr (ss_key s)),
           (''size'', JNum (ss_totalSize s))]"

definition completeUpload :: "'w store_deps \<Rightarrow> string \<Rightarrow> string \<Rightarrow> ('w \<times> sessions, file_row) io" where
  "completeUpload D uploadId userId =
     await get_ctx (\<lambda>store.
     case store (session_key uploadId) of
       None \<Rightarrow> throw (Http 404 ''Upload session not found'')
     | Some session \<Rightarrow>
         if int (length (ss_completedParts session)) \<noteq> ss_partCount session then throw (Http 400 ''Not all parts completed'')
         else
           await (on_world (mc_completeMultipart (sd_minio D) (ss_bucketName session) (ss_key session) (ss_uploadId session)
                              (sorted_parts (ss_completedParts session)))) (\<lambda>_.
           await (on_world (insert_row (sd_files D) (multipart_record session))) (\<lambda>savedFile.
           await (mod_ctx (\<lambda>m. m(session_key uploadId := None))) (\<lambda>_.
           await (on_world (publishStorageEvent (sd_kafka D) (uploaded_event session))) (\<lambda>_.
           return savedFile)))))"

definition abortUpload :: "'w store_deps \<Rightarrow> string \<Rightarrow> string \<Rightarrow> ('w \<times> sessions, unit) io" where
  "abortUpload D uploadId userId =
     await get_ctx (\<lambda>store.
     case store (session_key uploadId) of
       None \<Rightarrow> return ()
     | Some session \<Rightarrow>
         await (on_world (mc_abortMultipart (sd_minio D) (ss_bucketName session) (ss_key session) (ss_uploadId session))) (\<lambda>_.
         mod_ctx (\<lambda>m. m(session_key uploadId := None))))"

record upload_status =
  us_uploadId :: string
  us_key :: string
  us_totalSize :: int
  us_completedParts :: nat
  us_totalParts :: int
  us_progress :: "int js"
  us_expiresAt :: int
  us_status :: string

definition progress_of :: "nat \<Rightarrow> int \<Rightarrow> int js" where
  "progress_of k parts = js_map (\<lambda>x. math_round (fmul x 100)) (js_div (of_nat k) (of_int parts))"

definition getUploadStatus :: "string \<Rightarrow> string \<Rightarrow> ('w \<times> sessions, upload_status) io" where
  "getUploadStatus uploadId userId =
     await get_ctx (\<lambda>store.
     case store (session_key uploadId) of
       None \<Rightarrow> throw (Http 404 ''Upload session not found'')
     | Some s \<Rightarrow>
         return \<lparr>us_uploadId = uploadId, us_key = ss_key s, us_totalSize = ss_totalSize s,
           us_completedParts = length (ss_completedParts s), us_totalParts = ss_partCount s,
           us_progress = progress_of (length (ss_completedParts s)) (ss_partCount s),
           us_expiresAt = ss_expiresAt s, us_status = ''in_progress''\<rparr>)"

section \<open>The routes\<close>

text \<open>No guard runs before these routes, so that no request has a user. A \<open>totalSize\<close> that is no integer, which the DTO admits, is not modelled.\<close>

record initiate_dto =
  id_bucket :: string
  id_key :: string
  id_contentType :: string
  id_totalSize :: int

definition user_or_anonymous :: "json option \<Rightarrow> string" where
  "user_or_anonymous user =
     (case user of None \<Rightarrow> ''anonymous''
      | Some u \<Rightarrow> if jtruthy (jget ''id'' u) then js_text_of (jget ''id'' u) else ''anonymous'')"

definition initiateUpload_route ::
  "'w store_deps \<Rightarrow> json option \<Rightarrow> initiate_dto \<Rightarrow> ('w \<times> sessions, initiated) io" where
  "initiateUpload_route D user dto =
     (if id_totalSize dto < 1 then throw (Http 400 ''Bad Request'')
      else initiateUpload D (user_or_anonymous user) (id_bucket dto) (id_key dto) (id_contentType dto) (id_totalSize dto))"

definition uploadPart_route :: "'w store_deps \<Rightarrow> string \<Rightarrow> string \<Rightarrow> string list \<Rightarrow> ('w \<times> sessions, uploaded) io" where
  "uploadPart_route D uploadId partNumber chunks = uploadPart D uploadId (parse_int partNumber) (concat chunks)"

definition completeUpload_route :: "'w store_deps \<Rightarrow> json option \<Rightarrow> string \<Rightarrow> ('w \<times> sessions, file_row) io" where
  "completeUpload_route D user uploadId = completeUpload D uploadId (user_or_anonymous user)"

definition abortUpload_route :: "'w store_deps \<Rightarrow> json option \<Rightarrow> string \<Rightarrow> ('w \<times> sessions, string) io" where
  "abortUpload_route D user uploadId =
     await (abortUpload D uploadId (user_or_anonymous user)) (\<lambda>_. return ''Upload aborted'')"

definition getUploadStatus_route :: "json option \<Rightarrow> string \<Rightarrow> ('w \<times> sessions, upload_status) io" where
  "getUploadStatus_route user uploadId = getUploadStatus uploadId (user_or_anonymous user)"

section \<open>The number of parts\<close>

lemma partCount_exact:
  assumes "1 \<le> t" and "t < 2 ^ 30 * partSize"
  shows "1 \<le> partCount t" and "(partCount t - 1) * partSize < t" and "t \<le> partCount t * partSize"
proof -
  have P: "0 < partSize" "partSize \<le> 2 ^ 23" by (simp_all add: partSize_def)
  have "1 \<le> partCount t \<and> (partCount t - 1) * partSize < t \<and> t \<le> partCount t * partSize"
  proof (cases "t \<le> partSize")
    case True
    then show ?thesis using assms by (simp add: partCount_def)
  next
    case False
    have c: "partCount t = \<lceil>(of_int t / of_int partSize :: rat)\<rceil>"
      using False assms P dbl.ceiling_fl_div [of t partSize] by (simp add: partCount_def fdiv_def)
    have "of_int (partCount t - 1) < (of_int t / of_int partSize :: rat)" "(of_int t / of_int partSize :: rat) \<le> of_int (partCount t)"
      unfolding c by linarith+
    then have "of_int ((partCount t - 1) * partSize) < (of_int t :: rat)" "(of_int t :: rat) \<le> of_int (partCount t * partSize)"
      using P by (simp_all add: field_simps)
    then have "(partCount t - 1) * partSize < t" "t \<le> partCount t * partSize"
      by (simp_all only: of_int_less_iff of_int_le_iff)
    moreover have "1 \<le> partCount t"
      using False P by (simp add: c one_le_ceiling)
    ultimately show ?thesis by blast
  qed
  then show "1 \<le> partCount t" and "(partCount t - 1) * partSize < t" and "t \<le> partCount t * partSize" by blast+
qed

end
