(* ===== verification/Storage_Uploads.thy ===== *)
theory Storage_Uploads
  imports Storage_Multipart World
begin

text \<open>
  The properties of uploads in parts: what the sessions in memory always look like, which parts a
  completed upload consists of, and what its order depends on.
\<close>

section \<open>The sessions of a running service\<close>

definition part_in_range :: "int \<Rightarrow> part \<Rightarrow> bool" where
  "part_in_range n p \<longleftrightarrow> (case pt_number p of NaN \<Rightarrow> True | Num i \<Rightarrow> 1 \<le> i \<and> i \<le> n)"

definition session_wf :: "session \<Rightarrow> bool" where
  "session_wf s \<longleftrightarrow> 1 \<le> ss_totalSize s \<and> ss_partCount s = partCount (ss_totalSize s) \<and> 1 \<le> ss_partCount s \<and>
     (\<forall>p \<in> set (ss_completedParts s). part_in_range (ss_partCount s) p)"

definition sessions_wf :: "sessions \<Rightarrow> bool" where
  "sessions_wf m \<longleftrightarrow> (\<forall>k s. m k = Some s \<longrightarrow> session_wf s)"

text \<open>A request, whatever it answers; between two requests the rest of the world may change.\<close>

inductive mp_step :: "'w store_deps \<Rightarrow> 'w \<times> sessions \<Rightarrow> 'w \<times> sessions \<Rightarrow> bool" for D where
  mp_initiate: "initiateUpload_route D user dto s = (r, s') \<Longrightarrow> mp_step D s s'"
| mp_part: "uploadPart_route D uid number chunks s = (r, s') \<Longrightarrow> mp_step D s s'"
| mp_complete: "completeUpload_route D user uid s = (r, s') \<Longrightarrow> mp_step D s s'"
| mp_abort: "abortUpload_route D user uid s = (r, s') \<Longrightarrow> mp_step D s s'"
| mp_status: "getUploadStatus_route user uid s = (r, s') \<Longrightarrow> mp_step D s s'"

inductive mp_run :: "'w store_deps \<Rightarrow> sessions \<Rightarrow> sessions \<Rightarrow> bool" for D m where
  mp_start: "mp_run D m m"
| mp_next: "mp_run D m m1 \<Longrightarrow> mp_step D (w, m1) (w', m2) \<Longrightarrow> mp_run D m m2"

lemma partCount_pos: "1 \<le> partCount t"
proof (cases "t \<le> partSize")
  case False
  have P: "(0 :: rat) < of_int partSize" by (simp add: partSize_def)
  have "(of_int partSize :: rat) \<le> of_int t" using False by simp
  then have "(1 :: rat) \<le> of_int t / of_int partSize" using P by (simp add: pos_le_divide_eq)
  then have "(1 :: rat) \<le> js_fl (of_int t / of_int partSize)"
    using dbl.fl_ge_int [of 1 "of_int t / of_int partSize"] by simp
  then show ?thesis using False by (simp add: partCount_def fdiv_def one_le_ceiling)
qed (simp add: partCount_def)

lemma sessions_wf_upd: "sessions_wf m \<Longrightarrow> session_wf s \<Longrightarrow> sessions_wf (m(k \<mapsto> s))"
  by (simp add: sessions_wf_def)

lemma sessions_wf_del: "sessions_wf m \<Longrightarrow> sessions_wf (m(k := None))"
  by (simp add: sessions_wf_def)

lemma part_in_rangeI: "\<not> bad_part_number n c \<Longrightarrow> part_in_range c \<lparr>pt_number = n, pt_etag = e, pt_size = k\<rparr>"
  by (cases n) (simp_all add: bad_part_number_def part_in_range_def)

lemma session_wf_add:
  "session_wf s \<Longrightarrow> \<not> bad_part_number n (ss_partCount s) \<Longrightarrow> session_wf (add_part \<lparr>pt_number = n, pt_etag = e, pt_size = k\<rparr> s)"
  by (auto simp: session_wf_def add_part_def part_in_rangeI)

lemma maintains_initiate: "maintains sessions_wf (initiateUpload_route D user dto)"
  unfolding initiateUpload_route_def initiateUpload_def Let_def
  by (auto intro!: maintain intro: sessions_wf_upd simp: session_wf_def partCount_pos)

lemma maintains_part: "maintains sessions_wf (uploadPart_route D uid number chunks)"
  unfolding uploadPart_route_def uploadPart_def
  by (rule maintains_get_ctx)
     (auto intro!: maintain intro: sessions_wf_upd session_wf_add simp: sessions_wf_def split: option.split)

lemma maintains_complete: "maintains sessions_wf (completeUpload_route D user uid)"
  unfolding completeUpload_route_def completeUpload_def
  by (rule maintains_get_ctx) (auto intro!: maintain intro: sessions_wf_del split: option.split)

lemma maintains_abort: "maintains sessions_wf (abortUpload_route D user uid)"
  unfolding abortUpload_route_def abortUpload_def await_assoc
  by (rule maintains_get_ctx) (auto intro!: maintain maintains_Pair intro: sessions_wf_del split: option.split)

lemma maintains_status: "maintains sessions_wf (getUploadStatus_route user uid)"
  unfolding getUploadStatus_route_def getUploadStatus_def
  by (rule maintains_get_ctx) (auto intro!: maintain split: option.split)

lemmas maintains_multipart = maintains_initiate maintains_part maintains_complete maintains_abort maintains_status

lemma mp_step_wf: "mp_step D (w, m) (w', m') \<Longrightarrow> sessions_wf m \<Longrightarrow> sessions_wf m'"
  by (erule mp_step.cases) (auto dest: maintainsD [OF maintains_initiate] maintainsD [OF maintains_part]
      maintainsD [OF maintains_complete] maintainsD [OF maintains_abort] maintainsD [OF maintains_status])

text \<open>
  C15. The sessions of a running service: whatever requests arrive in whatever order and however
  MinIO, the database and Kafka answer them, every session has exactly the number of parts that its
  size needs, at least one, and every part recorded with a number has one of 1 up to that number.
\<close>

theorem multipart_sessions_invariant:
  assumes "mp_run D Map.empty m" and "m k = Some s"
  shows "1 \<le> ss_partCount s \<and>
    (ss_totalSize s < 2 ^ 30 * partSize \<longrightarrow>
       (ss_partCount s - 1) * partSize < ss_totalSize s \<and> ss_totalSize s \<le> ss_partCount s * partSize) \<and>
    (\<forall>p n. p \<in> set (ss_completedParts s) \<and> pt_number p = Num n \<longrightarrow> 1 \<le> n \<and> n \<le> ss_partCount s)"
proof -
  have "sessions_wf m"
    using assms(1)
  proof induction
    case mp_start
    show ?case by (simp add: sessions_wf_def)
  next
    case (mp_next m1 w w' m2)
    then show ?case by (blast intro: mp_step_wf)
  qed
  then have wf: "session_wf s" using assms(2) by (simp add: sessions_wf_def)
  then show ?thesis
    using partCount_exact [of "ss_totalSize s"] by (force simp: session_wf_def part_in_range_def)
qed

section \<open>What a completed upload consists of\<close>

lemma part_rank_Num: "pt_number p = Num n \<Longrightarrow> part_rank p = n"
  by (simp add: part_rank_def)

lemma sort_key_numbers:
  assumes "mset (map pt_number ps) = mset (map Num [1..n])"
  shows "map pt_number (sort_key part_rank ps) = map Num [1..n]"
proof -
  have num: "pt_number p = Num (part_rank p)" if "p \<in> set ps" for p
  proof -
    have "pt_number p \<in> set (map Num [1..n])"
      using that mset_eq_setD [OF assms] by auto
    then show ?thesis by (auto simp: part_rank_def)
  qed
  have rank: "map pt_number qs = map Num (map part_rank qs)" if "set qs \<subseteq> set ps" for qs
    using that num by (simp add: subset_iff)
  have "image_mset Num (mset (map part_rank ps)) = image_mset Num (mset [1..n])"
    using assms rank [of ps] by (metis mset_map subset_refl)
  then have "mset (map part_rank ps) = mset [1..n]"
    by (rule injD [OF multiset.inj_map, rotated]) (simp add: inj_def)
  then have "sort (map part_rank ps) = [1..n]"
    by (intro properties_for_sort) simp_all
  moreover have "sort (map part_rank ps) = map part_rank (sort_key part_rank ps)"
    by (rule properties_for_sort) simp_all
  ultimately show ?thesis using rank [of "sort_key part_rank ps"] by simp
qed

lemma completeUpload_run:
  assumes "m (session_key uid) = Some s" and "int (length (ss_completedParts s)) = ss_partCount s"
    and "mc_completeMultipart (sd_minio D) (ss_bucketName s) (ss_key s) (ss_uploadId s) (sorted_parts (ss_completedParts s)) w = (Inr (), w1)"
    and "insert_row (sd_files D) (multipart_record s) w1 = (Inr f, w2)"
    and "kafka_send (sd_kafka D) ''storage.events'' (show_json (uploaded_event s)) w2 = (r, w3)"
  shows "completeUpload D uid user (w, m) =
    ((case r of Inl e \<Rightarrow> Inl e | Inr _ \<Rightarrow> Inr f), (w3, m(session_key uid := None)))"
  using assms by (cases r) (simp_all add: completeUpload_def await_def on_world_def publishStorageEvent_def)

text \<open>
  C16. Completing an upload: a session with as many parts as it needs is completed for whoever asks.
  When every part from 1 to the last was uploaded once, MinIO is handed exactly the parts 1 to the
  last in this order, each with the tag its upload answered, whatever the order of the uploads was.
  The session is gone afterwards and the file is in the database, also when the event cannot be
  published and the request fails for it.
\<close>

theorem complete_upload_any_order:
  assumes session: "m (session_key uid) = Some s"
    and parts: "mset (map pt_number (ss_completedParts s)) = mset (map Num [1..ss_partCount s])" "0 \<le> ss_partCount s"
    and minio: "mc_completeMultipart (sd_minio D) (ss_bucketName s) (ss_key s) (ss_uploadId s) (sorted_parts (ss_completedParts s)) w = (Inr (), w1)"
    and db: "insert_row (sd_files D) (multipart_record s) w1 = (Inr f, w2)"
    and kafka: "kafka_send (sd_kafka D) ''storage.events'' (show_json (uploaded_event s)) w2 = (r, w3)"
  shows "map fst (sorted_parts (ss_completedParts s)) = map Num [1..ss_partCount s] \<and>
    set (sorted_parts (ss_completedParts s)) = (\<lambda>p. (pt_number p, pt_etag p)) ` set (ss_completedParts s) \<and>
    completeUpload D uid user (w, m) =
      ((case r of Inl e \<Rightarrow> Inl e | Inr _ \<Rightarrow> Inr f), (w3, m(session_key uid := None)))"
proof (intro conjI)
  show "map fst (sorted_parts (ss_completedParts s)) = map Num [1..ss_partCount s]"
    using sort_key_numbers [OF parts(1)] by (simp add: sorted_parts_def comp_def)
  show "set (sorted_parts (ss_completedParts s)) = (\<lambda>p. (pt_number p, pt_etag p)) ` set (ss_completedParts s)"
    by (simp add: sorted_parts_def)
  have "length (ss_completedParts s) = length [1..ss_partCount s]"
    by (metis length_map parts(1) size_mset)
  then have "int (length (ss_completedParts s)) = ss_partCount s" using parts(2) by simp
  then show "completeUpload D uid user (w, m) =
      ((case r of Inl e \<Rightarrow> Inl e | Inr _ \<Rightarrow> Inr f), (w3, m(session_key uid := None)))"
    by (rule completeUpload_run [of m uid s D w w1 f w2 r w3 user, OF session _ minio db kafka])
qed

text \<open>
  What the check of a completion misses: only the number of parts is compared. A session of two
  parts whose first part was uploaded twice is complete, MinIO is handed part 1 twice, and the file
  is recorded with the size that was announced.
\<close>

lemma complete_upload_repeated_part:
  assumes session: "m (session_key uid) = Some s" "ss_partCount s = 2"
    and parts: "ss_completedParts s = [\<lparr>pt_number = Num 1, pt_etag = a, pt_size = i\<rparr>, \<lparr>pt_number = Num 1, pt_etag = b, pt_size = j\<rparr>]"
    and minio: "mc_completeMultipart (sd_minio D) (ss_bucketName s) (ss_key s) (ss_uploadId s) [(Num 1, a), (Num 1, b)] w = (Inr (), w1)"
    and db: "insert_row (sd_files D) (multipart_record s) w1 = (Inr f, w2)"
    and kafka: "kafka_send (sd_kafka D) ''storage.events'' (show_json (uploaded_event s)) w2 = (Inr (), w3)"
  shows "completeUpload D uid user (w, m) = (Inr f, (w3, m(session_key uid := None))) \<and>
    fe_size (multipart_record s) = ss_totalSize s"
proof -
  have "sorted_parts (ss_completedParts s) = [(Num 1, a), (Num 1, b)]"
    by (simp add: sorted_parts_def parts part_rank_def)
  then show ?thesis
    using completeUpload_run [of m uid s D w w1 f w2 "Inr ()" w3 user] assms
    by (simp add: multipart_record_def)
qed

end
