(* ===== verification/Storage_Properties.thy ===== *)
theory Storage_Properties
  imports Storage_Uploads
begin

text \<open>
  The properties of buckets and files, on a platform whose clients keep their promises: who may do
  what, what an upload leaves behind, the versions of a file, and that a download answers the bytes
  of the upload.
\<close>

section \<open>The platform\<close>

text \<open>A store of objects: a put is seen by the next get, a removed object is gone.\<close>

locale object_store =
  fixes M :: "'w minio" and objs :: "'w \<Rightarrow> string \<times> string \<Rightarrow> string option" and rest :: "'w \<Rightarrow> 'v"
  assumes put: "\<exists>e w'. mc_putObject M b k data n meta w = (Inr e, w') \<and> objs w' = (objs w)((b, k) \<mapsto> data) \<and> rest w' = rest w"
    and get: "objs w (b, k) = Some data \<Longrightarrow> \<exists>chunks. mc_getObject M b k w = (Inr chunks, w) \<and> concat chunks = data"
    and remove: "\<exists>w'. mc_removeObject M b k w = (Inr (), w') \<and> objs w' = (objs w)((b, k) := None) \<and> rest w' = rest w"
begin

lemma put_get:
  obtains e w' chunks where "mc_putObject M b k data n meta w = (Inr e, w')" and "rest w' = rest w"
    and "mc_getObject M b k w' = (Inr chunks, w')" and "concat chunks = data"
proof -
  obtain e w' where p: "mc_putObject M b k data n meta w = (Inr e, w')" "objs w' = (objs w)((b, k) \<mapsto> data)" "rest w' = rest w"
    using put by blast
  obtain chunks where c: "mc_getObject M b k w' = (Inr chunks, w')" "concat chunks = data"
    using get [of w' b k data] p(2) by auto
  show thesis by (rule that [OF p(1,3) c])
qed

end

locale storage_platform =
  fixes D :: "'w store_deps" and rd :: "'w \<Rightarrow> rdb" and wr :: "rdb \<Rightarrow> 'w \<Rightarrow> 'w"
    and files :: "'w \<Rightarrow> file_row list" and put_files :: "file_row list \<Rightarrow> 'w \<Rightarrow> 'w"
    and buckets :: "'w \<Rightarrow> bucket_row list" and put_buckets :: "bucket_row list \<Rightarrow> 'w \<Rightarrow> 'w"
    and objs :: "'w \<Rightarrow> string \<times> string \<Rightarrow> string option"
    and clk :: "'w \<Rightarrow> int" and gen :: "'w \<Rightarrow> string" and new_id :: "'w \<Rightarrow> string"
  assumes redis: "redis_server (sd_redis D) rd wr"
    and files_repo: "repository (sd_files D) files put_files fe_id (\<lambda>w x. x\<lparr>fe_id := new_id w, fe_createdAt := clk w\<rparr>)"
    and buckets_repo: "repository (sd_buckets D) buckets put_buckets b_id (\<lambda>w x. x\<lparr>b_id := new_id w, b_createdAt := clk w\<rparr>)"
    and store: "object_store (sd_minio D) objs (\<lambda>w. (rd w, files w, buckets w, clk w))"
    and sys: "sys_ok (sd_sys D) clk gen (\<lambda>w. (rd w, files w, buckets w, objs w))"
    and frames [simp]: "buckets (put_files fs w) = buckets w" "rd (put_files fs w) = rd w" "objs (put_files fs w) = objs w"
begin

lemmas files_put = repository.rows_put [OF files_repo]

lemmas hget = redis_server.hget [OF redis]

lemma find_bucket_cases:
  obtains (none) "find_one (sd_buckets D) P w = (Inr None, w)" and "\<And>b. b \<in> set (buckets w) \<Longrightarrow> \<not> P b"
    | (some) b where "find_one (sd_buckets D) P w = (Inr (Some b), w)" and "b \<in> set (buckets w)" and "P b"
  by (rule repository.find_cases [OF buckets_repo, of P w]) (blast intro: none some)+

lemma find_file_cases:
  obtains (none) "find_one (sd_files D) P w = (Inr None, w)" and "\<And>f. f \<in> set (files w) \<Longrightarrow> \<not> P f"
    | (some) f where "find_one (sd_files D) P w = (Inr (Some f), w)" and "f \<in> set (files w)" and "P f"
  by (rule repository.find_cases [OF files_repo, of P w]) (blast intro: none some)+

text \<open>The search for a bucket, with its two checks.\<close>

lemma bucket_cases:
  obtains (missing) "\<And>b. b \<in> set (buckets w) \<Longrightarrow> b_name b \<noteq> name"
      and "\<And>u own. getBucketOrThrow D u name own w = (Inl (Http 404 ''Bucket not found''), w)"
    | (bucket) b where "b \<in> set (buckets w)" and "b_name b = name"
      and "\<And>u own. getBucketOrThrow D u name own w =
        (if Some (b_userId b) = u \<or> \<not> own \<and> b_isPublic b then (Inr b, w) else (Inl (Http 403 ''Access denied''), w))"
proof (cases rule: find_bucket_cases [of "\<lambda>b. b_name b = name" w])
  case none
  then show thesis by (intro missing) (auto simp: getBucketOrThrow_def await_def)
next
  case (some b)
  then show thesis by (intro bucket [of b]) (auto simp: getBucketOrThrow_def await_def)
qed

lemma bucket_of:
  assumes "b \<in> set (buckets w)" and "distinct (map b_name (buckets w))"
  shows "getBucketOrThrow D u (b_name b) own w =
    (if Some (b_userId b) = u \<or> \<not> own \<and> b_isPublic b then (Inr b, w) else (Inl (Http 403 ''Access denied''), w))"
proof (cases rule: bucket_cases [of w "b_name b"])
  case missing
  then show ?thesis using assms by blast
next
  case (bucket c)
  have "c = b" by (rule distinct_mapD [OF assms(2) bucket(1) assms(1) bucket(2)])
  with bucket show ?thesis by simp
qed

lemma max_size: "getMaxFileSizeMb (sd_redis D) n w = (Inr (let v = hashes (rd w) ''edgesphere:platform_config'' ''maxFileSizeMb''
    in if truthy v then parse_int (the v) else Num n), w)"
  by (simp add: getMaxFileSizeMb_def try_catch_def await_def hget Let_def)

end

section \<open>Access\<close>

text \<open>An operation of the owner of a bucket on its files.\<close>

datatype file_op = Upload upload "string option" | Delete string | List nat nat | Presign string int string

datatype file_result = Uploaded file_row | Deleted | Listed "file_row paged" | Signed string

fun file_op_run :: "'w store_deps \<Rightarrow> string \<Rightarrow> string \<Rightarrow> file_op \<Rightarrow> ('w, file_result) io" where
  "file_op_run D u b (Upload f k) = await (uploadFile D u b f k) (\<lambda>r. return (Uploaded r))"
| "file_op_run D u b (Delete k) = await (deleteFile D u b k) (\<lambda>_. return Deleted)"
| "file_op_run D u b (List p n) = await (listFiles D u b p n) (\<lambda>r. return (Listed r))"
| "file_op_run D u b (Presign k e m) = await (generatePresignedUrl D u b k e m) (\<lambda>r. return (Signed r))"

lemma file_op_no_bucket:
  "getBucketOrThrow D (Some u) b True w = (Inl e, w) \<Longrightarrow> file_op_run D u b op w = (Inl e, w)"
  by (cases op) (simp_all add: uploadFile_def deleteFile_def listFiles_def generatePresignedUrl_def await_def)

text \<open>
  C17. Access to files: uploads, deletions, listings and presigned links answer 404 for a bucket
  that does not exist and 403 for one of another account, and then change nothing. A download
  without an account, which is the only one the route makes, answers 403 for every private
  bucket, its owner's included.
\<close>

theorem file_access:
  assumes P: "storage_platform D rd wr files put_files buckets put_buckets objs clk gen new_id"
  shows "((\<forall>b \<in> set (buckets w). b_name b \<noteq> name) \<longrightarrow> file_op_run D u name op w = (Inl (Http 404 ''Bucket not found''), w)) \<and>
    ((\<exists>b \<in> set (buckets w). b_name b = name) \<and> (\<forall>b \<in> set (buckets w). b_name b = name \<longrightarrow> b_userId b \<noteq> u) \<longrightarrow>
       file_op_run D u name op w = (Inl (Http 403 ''Access denied''), w)) \<and>
    ((\<exists>b \<in> set (buckets w). b_name b = name) \<and> (\<forall>b \<in> set (buckets w). b_name b = name \<longrightarrow> \<not> b_isPublic b) \<longrightarrow>
       downloadFile_route D None name key v w = (Inl (Http 403 ''Access denied''), w))"
proof (rule storage_platform.bucket_cases [OF P, of w name], goal_cases missing bucket)
  case missing
  have "file_op_run D u name op w = (Inl (Http 404 ''Bucket not found''), w)"
    by (rule file_op_no_bucket) (rule missing(2))
  then show ?thesis using missing(1) by auto
next
  case (bucket b)
  have own: "file_op_run D u name op w = (Inl (Http 403 ''Access denied''), w)" if "b_userId b \<noteq> u"
    using file_op_no_bucket [of D u name w] bucket(3) [of "Some u" True] that by simp
  have anon: "downloadFile_route D None name key v w = (Inl (Http 403 ''Access denied''), w)" if "\<not> b_isPublic b"
    using bucket(3) [of None False] that by (simp add: downloadFile_route_def downloadFile_def await_def)
  show ?thesis
  proof (intro conjI impI, goal_cases no_bucket not_owner hidden)
    case no_bucket
    then show ?case using bucket(1,2) by blast
  next
    case not_owner
    then have "b_userId b \<noteq> u" using bucket(1,2) by blast
    then show ?case by (rule own)
  next
    case hidden
    then have "\<not> b_isPublic b" using bucket(1,2) by blast
    then show ?case by (rule anon)
  qed
qed

section \<open>An upload and what it leaves behind\<close>

text \<open>The rows after an upload: the latest one gives up the mark, and one row is added.\<close>

definition unmark :: "string \<Rightarrow> file_row list \<Rightarrow> file_row list" where
  "unmark i fs = map (\<lambda>f. if fe_id f = i then f\<lparr>fe_isLatest := False\<rparr> else f) fs"

definition latest_of :: "string \<Rightarrow> string \<Rightarrow> file_row \<Rightarrow> bool" where
  "latest_of bid key f \<longleftrightarrow> fe_bucketId f = bid \<and> fe_key f = key \<and> fe_isLatest f"

definition next_version :: "string \<Rightarrow> string \<Rightarrow> file_row list \<Rightarrow> file_row list \<Rightarrow> int \<Rightarrow> bool" where
  "next_version bid key fs fs' v \<longleftrightarrow>
     (\<forall>f \<in> set fs. \<not> latest_of bid key f) \<and> fs' = fs \<and> v = 1 \<or>
     (\<exists>f \<in> set fs. latest_of bid key f \<and> fs' = unmark (fe_id f) fs \<and> v = fe_version f + 1)"

lemma next_version_insert:
  assumes "next_version bid key fs fs' v" and "\<And>f g b k. f \<in> set fs \<Longrightarrow> g \<in> set fs \<Longrightarrow> latest_of b k f \<Longrightarrow> latest_of b k g \<Longrightarrow> f = g"
    and "distinct (map fe_id fs)"
  shows "\<And>f. f \<in> set fs' \<Longrightarrow> \<not> latest_of bid key f"
proof -
  fix f assume f: "f \<in> set fs'"
  from assms(1) consider (none) "\<forall>f \<in> set fs. \<not> latest_of bid key f" "fs' = fs"
    | (some) g where "g \<in> set fs" "latest_of bid key g" "fs' = unmark (fe_id g) fs"
    unfolding next_version_def by blast
  then show "\<not> latest_of bid key f"
  proof cases
    case none
    then show ?thesis using f by blast
  next
    case (some g)
    then obtain h where h: "h \<in> set fs" "f = (if fe_id h = fe_id g then h\<lparr>fe_isLatest := False\<rparr> else h)"
      using f by (auto simp: unmark_def)
    show ?thesis
    proof (cases "fe_id h = fe_id g")
      case True
      then show ?thesis using h(2) by (simp add: latest_of_def)
    next
      case False
      then show ?thesis using h assms(2) [OF h(1) some(1)] some(2) by auto
    qed
  qed
qed

context storage_platform
begin

lemma supersede_run:
  assumes "distinct (map fe_id (files w))"
  obtains fs v where "supersede D bid key w = (Inr v, put_files fs w)" and "next_version bid key (files w) fs v"
    and "map fe_id fs = map fe_id (files w)"
  | v where "supersede D bid key w = (Inr v, w)" and "next_version bid key (files w) (files w) v"
proof (cases rule: find_file_cases [of "\<lambda>f. fe_bucketId f = bid \<and> fe_key f = key \<and> fe_isLatest f" w])
  case none
  then show thesis
    by (intro that(2) [of 1]) (auto simp: supersede_def await_def next_version_def latest_of_def)
next
  case (some f)
  have upd: "map (\<lambda>r. if fe_id r = fe_id f then f\<lparr>fe_isLatest := False\<rparr> else r) (files w) = unmark (fe_id f) (files w)"
    using some(2) assms unfolding unmark_def by (intro map_cong) (auto dest: distinct_mapD)
  have "supersede D bid key w = (Inr (fe_version f + 1), put_files (unmark (fe_id f) (files w)) w)"
    using some by (simp add: supersede_def await_def repository.save [OF files_repo] upd)
  moreover have "next_version bid key (files w) (unmark (fe_id f) (files w)) (fe_version f + 1)"
    using some by (auto simp: next_version_def latest_of_def)
  moreover have "map fe_id (unmark (fe_id f) (files w)) = map fe_id (files w)"
    by (simp add: unmark_def comp_def if_distrib cong: map_cong if_cong)
  ultimately show thesis by (rule that(1))
qed

lemma final_key_run:
  obtains k w' where "final_key D key w = (Inr k, w')" and "rd w' = rd w" and "files w' = files w" and "buckets w' = buckets w"
    and "objs w' = objs w" and "truthy key \<Longrightarrow> k = the key"
proof (cases "truthy key")
  case True
  then show thesis by (intro that [of "the key" w]) (simp_all add: final_key_def)
next
  case False
  obtain w' where "uuid_v4 (sd_sys D) w = (Inr (gen w), w')" "(rd w', files w', buckets w', objs w') = (rd w, files w, buckets w, objs w)"
    using sys_ok_uuid [OF sys] by metis
  then show thesis using False by (intro that [of "gen w" w']) (simp_all add: final_key_def)
qed

text \<open>What an upload does, from the bucket that was found on.\<close>

lemma upload_run:
  assumes ids: "distinct (map fe_id (files w))"
    and bucket: "getBucketOrThrow D (Some u) name True w = (Inr b, w)"
  obtains (refused) e where "uploadFile D u name f key w = (Inl e, w)" and "\<exists>m. e = Http 400 m"
      and "\<exists>m. getMaxFileSizeMb (sd_redis D) 5120 w = (Inr m, w) \<and> too_large m (up_size f)"
    | (stored) k etag fs v row w' where "uploadFile D u name f key w = (Inr row, w')"
      and "truthy key \<Longrightarrow> k = the key" and "files w' = fs @ [row]" and "next_version (b_id b) k (files w) fs v"
      and "row = (file_record b k f etag v)\<lparr>fe_id := fe_id row, fe_createdAt := fe_createdAt row\<rparr>"
      and "fe_id row \<notin> fe_id ` set fs" and "map fe_id fs = map fe_id (files w)"
      and "objs w' = (objs w)((b_name b, k) \<mapsto> up_buffer f)" and "buckets w' = buckets w"
      and "rd w' = rd w"
proof -
  obtain m where m: "getMaxFileSizeMb (sd_redis D) 5120 w = (Inr m, w)" using max_size by blast
  show thesis
  proof (cases "too_large m (up_size f)")
    case True
    then show thesis
      using m bucket by (intro refused) (auto simp: uploadFile_def await_def DEFAULT_MAX_FILE_SIZE_MB_def)
  next
    case False
    obtain k w1 where k: "final_key D key w = (Inr k, w1)" "rd w1 = rd w" "files w1 = files w" "buckets w1 = buckets w"
      "objs w1 = objs w" "truthy key \<Longrightarrow> k = the key" by (rule final_key_run [of key w]) blast
    obtain etag w2 where put: "mc_putObject (sd_minio D) (b_name b) k (up_buffer f) (length (up_buffer f))
        [(''Content-Type'', up_mimetype f), (''originalname'', up_originalname f)] w1 = (Inr etag, w2)"
      "objs w2 = (objs w1)((b_name b, k) \<mapsto> up_buffer f)"
      "(rd w2, files w2, buckets w2, clk w2) = (rd w1, files w1, buckets w1, clk w1)"
      using object_store.put [OF store, of "b_name b" k "up_buffer f" "length (up_buffer f)"
        "[(''Content-Type'', up_mimetype f), (''originalname'', up_originalname f)]" w1] by blast
    have w2: "files w2 = files w" "buckets w2 = buckets w" "rd w2 = rd w" "objs w2 = (objs w)((b_name b, k) \<mapsto> up_buffer f)"
      using put(2,3) k by simp_all
    obtain v w3 fs where sup: "supersede D (b_id b) k w2 = (Inr v, w3)" "next_version (b_id b) k (files w) fs v"
      "files w3 = fs" "map fe_id fs = map fe_id (files w)" "buckets w3 = buckets w" "rd w3 = rd w" "objs w3 = objs w2"
    proof (rule supersede_run [of w2 "b_id b" k], goal_cases ids written same)
      case ids
      then show ?case using assms(1) w2 by simp
    next
      case (written fs v)
      then show ?case using w2 by (intro written(1) [of v "put_files fs w2" fs]) (simp_all add: files_put)
    next
      case (same v)
      then show ?case using w2 by (intro same(1) [of v w2 "files w2"]) simp_all
    qed
    let ?row = "(file_record b k f etag v)\<lparr>fe_id := new_id w3, fe_createdAt := clk w3\<rparr>"
    have run: "uploadFile D u name f key w = (Inr ?row, put_files (fs @ [?row]) w3)"
      using False m bucket k(1) put(1) sup(1,3)
      by (simp add: uploadFile_def await_def DEFAULT_MAX_FILE_SIZE_MB_def minio_uploadFile_def repository.insert [OF files_repo])
    have fresh: "new_id w3 \<notin> fe_id ` set fs"
      using repository.fresh [OF files_repo, of w3 ?row] sup(3) by simp
    show thesis
      by (rule stored [where k = k and fs = fs and v = v and etag = etag, OF run]) (use k(6) sup fresh w2 in \<open>simp_all add: files_put\<close>)
  qed
qed

lemma delete_run:
  obtains (refused) e where "deleteFile D u name key w = (Inl e, w)"
    | (removed) f w' where "deleteFile D u name key w = (Inr (), w')" and "f \<in> set (files w)" and "fe_key f = key"
      and "files w' = filter (\<lambda>g. fe_id g \<noteq> fe_id f) (files w)"
proof (cases rule: bucket_cases [of w name])
  case missing
  then show thesis by (intro refused) (simp add: deleteFile_def await_def)
next
  case (bucket b)
  show thesis
  proof (cases "b_userId b = u")
    case False
    then show thesis using bucket(3) [of "Some u" True] by (intro refused) (simp add: deleteFile_def await_def)
  next
    case True
    then have own: "getBucketOrThrow D (Some u) name True w = (Inr b, w)" using bucket(3) by simp
    show thesis
    proof (cases rule: find_file_cases [of "\<lambda>f. fe_bucketId f = b_id b \<and> fe_key f = key" w])
      case none
      then show thesis using own by (intro refused) (simp add: deleteFile_def await_def)
    next
      case (some f)
      obtain w1 where rem: "mc_removeObject (sd_minio D) (b_name b) key w = (Inr (), w1)"
        "(rd w1, files w1, buckets w1, clk w1) = (rd w, files w, buckets w, clk w)"
        using object_store.remove [OF store] by metis
      then show thesis
        using own some
        by (intro removed [of "put_files (filter (\<lambda>g. fe_id g \<noteq> fe_id f) (files w)) w1" f])
           (simp_all add: deleteFile_def await_def minio_deleteFile_def repository.remove [OF files_repo] files_put)
    qed
  qed
qed

end

section \<open>The versions of a file\<close>

definition one_latest :: "file_row list \<Rightarrow> bool" where
  "one_latest fs \<longleftrightarrow> distinct (map fe_id fs) \<and>
     (\<forall>f \<in> set fs. \<forall>g \<in> set fs. fe_bucketId f = fe_bucketId g \<and> fe_key f = fe_key g \<and> fe_isLatest f \<and> fe_isLatest g \<longrightarrow> f = g)"

lemma one_latestD:
  "one_latest fs \<Longrightarrow> f \<in> set fs \<Longrightarrow> g \<in> set fs \<Longrightarrow> latest_of b k f \<Longrightarrow> latest_of b k g \<Longrightarrow> f = g"
  by (auto simp: one_latest_def latest_of_def)

lemma one_latest_filter: "one_latest fs \<Longrightarrow> one_latest (filter P fs)"
  by (auto simp: one_latest_def distinct_map_filter)

lemma one_latest_unmark:
  assumes "one_latest fs"
  shows "one_latest (unmark i fs)"
proof -
  have ids: "map fe_id (unmark i fs) = map fe_id fs"
    by (simp add: unmark_def comp_def if_distrib cong: map_cong if_cong)
  have old: "\<exists>h \<in> set fs. fe_isLatest h \<and> f = h \<and> fe_id h \<noteq> i" if "f \<in> set (unmark i fs)" "fe_isLatest f" for f
    using that by (auto simp: unmark_def)
  show ?thesis
    unfolding one_latest_def ids
  proof (intro conjI ballI impI)
    show "distinct (map fe_id fs)" using assms by (simp add: one_latest_def)
    fix f g assume "f \<in> set (unmark i fs)" "g \<in> set (unmark i fs)"
      and "fe_bucketId f = fe_bucketId g \<and> fe_key f = fe_key g \<and> fe_isLatest f \<and> fe_isLatest g"
    then show "f = g" using old assms unfolding one_latest_def by metis
  qed
qed

lemma one_latest_next:
  assumes "one_latest fs" and "next_version bid key fs fs' v" and "fe_id row \<notin> fe_id ` set fs'"
    and "fe_bucketId row = bid" and "fe_key row = key"
  shows "one_latest (fs' @ [row])"
proof -
  have none: "\<not> latest_of bid key f" if "f \<in> set fs'" for f
    using next_version_insert [OF assms(2)] one_latestD [OF assms(1)] assms(1) that unfolding one_latest_def by metis
  have "one_latest fs'"
    using assms(1,2) one_latest_unmark unfolding next_version_def by blast
  then show ?thesis
    using none assms(3-5) unfolding one_latest_def latest_of_def by auto
qed

text \<open>An upload or a deletion by anyone, whatever it answers; in between the tables do not change.\<close>

inductive st_run :: "'w store_deps \<Rightarrow> ('w \<Rightarrow> file_row list) \<Rightarrow> 'w \<Rightarrow> 'w \<Rightarrow> bool" for D files w where
  st_refl: "st_run D files w w"
| st_upload: "st_run D files w w1 \<Longrightarrow> uploadFile D u name f key w1 = (r, w2) \<Longrightarrow> files w3 = files w2 \<Longrightarrow> st_run D files w w3"
| st_delete: "st_run D files w w1 \<Longrightarrow> deleteFile D u name key w1 = (r2, w2) \<Longrightarrow> files w3 = files w2 \<Longrightarrow> st_run D files w w3"

context storage_platform
begin

lemma upload_kept:
  assumes "one_latest (files w)" and run: "uploadFile D u name f key w = (r, w')"
  shows "one_latest (files w')"
proof (cases rule: bucket_cases [of w name])
  case missing
  then show ?thesis using assms by (simp add: uploadFile_def await_def)
next
  case (bucket b)
  show ?thesis
  proof (cases "b_userId b = u")
    case False
    then show ?thesis using bucket(3) [of "Some u" True] assms by (simp add: uploadFile_def await_def)
  next
    case True
    then have own: "getBucketOrThrow D (Some u) name True w = (Inr b, w)" using bucket(3) by simp
    have ids: "distinct (map fe_id (files w))" using assms(1) by (simp add: one_latest_def)
    show ?thesis
    proof (rule upload_run [OF ids own, of f key], goal_cases refused stored)
      case (refused e)
      then show ?case using assms by simp
    next
      case (stored k etag fs v row w2)
      have "fe_bucketId row = b_id b" "fe_key row = k"
        by (subst stored(5), simp add: file_record_def)+
      then show ?case
        using one_latest_next [OF assms(1) stored(4) stored(6)] stored(1,3) run by simp
    qed
  qed
qed

lemma delete_kept:
  assumes "one_latest (files w)" and run: "deleteFile D u name key w = (r, w')"
  shows "one_latest (files w')"
proof (cases rule: delete_run [of u name key w])
  case (refused e)
  then show ?thesis using assms by simp
next
  case (removed f w2)
  then show ?thesis using assms one_latest_filter by simp
qed

end

section \<open>A world with files\<close>

record store_world = world +
  sw_files :: "file_row list"
  sw_buckets :: "bucket_row list"
  sw_objects :: "string \<times> string \<Rightarrow> string option"

definition sw_fresh :: "store_world \<Rightarrow> string" where
  "sw_fresh w = fresh_id (map fe_id (sw_files w) @ map b_id (sw_buckets w))"

definition sw_put_files :: "file_row list \<Rightarrow> store_world \<Rightarrow> store_world" where
  "sw_put_files fs w = w\<lparr>sw_files := fs\<rparr>"

definition sw_put_buckets :: "bucket_row list \<Rightarrow> store_world \<Rightarrow> store_world" where
  "sw_put_buckets bs w = w\<lparr>sw_buckets := bs\<rparr>"

definition world_minio :: "store_world minio" where
  "world_minio =
     \<lparr>mc_bucketExists = (\<lambda>b. return False), mc_makeBucket = (\<lambda>b r. return ()), mc_removeBucket = (\<lambda>b. return ()),
      mc_putObject = (\<lambda>b k data n m w. (Inr ''etag'', w\<lparr>sw_objects := (sw_objects w)((b, k) \<mapsto> data)\<rparr>)),
      mc_getObject = (\<lambda>b k w. case sw_objects w (b, k) of
         None \<Rightarrow> (Inl (JsError ''NoSuchKey''), w) | Some data \<Rightarrow> (Inr [data], w)),
      mc_statObject = (\<lambda>b k. return JNull),
      mc_removeObject = (\<lambda>b k w. (Inr (), w\<lparr>sw_objects := (sw_objects w)((b, k) := None)\<rparr>)),
      mc_listObjects = (\<lambda>b p r. return []), mc_presignedGetObject = (\<lambda>b k n. return ''url''),
      mc_presignedPutObject = (\<lambda>b k n. return ''url''), mc_initiateMultipart = (\<lambda>b k t. return ''up''),
      mc_uploadPart = (\<lambda>b k n data i u. return ''part''), mc_completeMultipart = (\<lambda>b k u ps. return ()),
      mc_abortMultipart = (\<lambda>b k u. return ())\<rparr>"

definition vault_deps :: "store_world store_deps" where
  "vault_deps =
     \<lparr>sd_files = table_repo sw_files sw_put_files fe_id (\<lambda>w x. x\<lparr>fe_id := sw_fresh w, fe_createdAt := w_now w\<rparr>),
      sd_buckets = table_repo sw_buckets sw_put_buckets b_id (\<lambda>w x. x\<lparr>b_id := sw_fresh w, b_createdAt := w_now w\<rparr>),
      sd_minio = world_minio, sd_redis = world_redis, sd_sys = world_sys, sd_kafka = world_kafka\<rparr>"

interpretation objects: object_store world_minio sw_objects "\<lambda>w. (w_db w, sw_files w, sw_buckets w, w_now w)"
  by unfold_locales (simp_all add: world_minio_def)

interpretation vault: storage_platform vault_deps w_db put_db sw_files sw_put_files sw_buckets sw_put_buckets sw_objects
  w_now next_uuid sw_fresh
proof (rule storage_platform.intro)
  show "redis_server (sd_redis vault_deps) w_db put_db"
    by (simp add: vault_deps_def mem.redis_server_axioms)
  show "repository (sd_files vault_deps) sw_files sw_put_files fe_id (\<lambda>w x. x\<lparr>fe_id := sw_fresh w, fe_createdAt := w_now w\<rparr>)"
    using fresh_id_notin unfolding vault_deps_def
    by (auto intro!: table_repository simp: sw_put_files_def sw_fresh_def) (metis UnI1 image_eqI set_append set_map)
  show "repository (sd_buckets vault_deps) sw_buckets sw_put_buckets b_id (\<lambda>w x. x\<lparr>b_id := sw_fresh w, b_createdAt := w_now w\<rparr>)"
    using fresh_id_notin unfolding vault_deps_def
    by (auto intro!: table_repository simp: sw_put_buckets_def sw_fresh_def) (metis UnI2 image_eqI set_append set_map)
  show "object_store (sd_minio vault_deps) sw_objects (\<lambda>w. (w_db w, sw_files w, sw_buckets w, w_now w))"
    by (simp add: vault_deps_def objects.object_store_axioms)
qed (auto simp: vault_deps_def sys_ok_def world_sys_def sw_put_files_def put_db_def)

definition photos :: bucket_row where
  "photos = \<lparr>b_id = ''b1'', b_userId = ''u1'', b_name = ''photos'', b_region = ''us-east-1'', b_isPublic = True, b_createdAt = 0\<rparr>"

definition vault_at :: "bucket_row list \<Rightarrow> file_row list \<Rightarrow> store_world" where
  "vault_at bs fs = \<lparr>w_db = empty_db, w_now = 5, w_uuid = 0, w_counts = [], w_topics = [], sw_files = fs, sw_buckets = bs,
     sw_objects = Map.empty\<rparr>"

definition cat :: upload where
  "cat = \<lparr>up_buffer = ''meow'', up_size = 4, up_mimetype = ''image/png'', up_originalname = ''cat.png''\<rparr>"

text \<open>
  C18. Versions: however uploads and deletions follow on each other, whoever sends them and
  whatever they answer, no two files have the same id, and for a bucket and key at most one of them
  is marked as the latest.
\<close>

theorem one_latest_invariant:
  assumes P: "storage_platform D rd wr files put_files buckets put_buckets objs clk gen new_id"
    and start: "files w = []" and run: "st_run D files w w'"
  shows "distinct (map fe_id (files w')) \<and>
    length (filter (\<lambda>f. fe_bucketId f = bid \<and> fe_key f = key \<and> fe_isLatest f) (files w')) \<le> 1"
proof -
  have step: "one_latest (files w3)" if "st_run D files w w3" for w3
    using that
  proof induction
    case st_refl
    show ?case using start by (simp add: one_latest_def)
  next
    case (st_upload w1 u name f key r w2 w3)
    then show ?case using storage_platform.upload_kept [OF P] by metis
  next
    case (st_delete w1 u name key r w2 w3)
    then show ?case using storage_platform.delete_kept [OF P] by metis
  qed
  have "length (filter (latest_of bid key) fs) \<le> 1" if "one_latest fs" for fs
  proof (cases "filter (latest_of bid key) fs")
    case (Cons f gs)
    have "g = f" if "g \<in> set gs" for g
    proof -
      have "g \<in> set (filter (latest_of bid key) fs)" "f \<in> set (filter (latest_of bid key) fs)"
        using Cons that by simp_all
      then show ?thesis using one_latestD [OF \<open>one_latest fs\<close>] by auto
    qed
    moreover have "distinct (f # gs)"
      using that Cons distinct_filter [of fs "latest_of bid key"] by (simp add: one_latest_def distinct_map)
    ultimately have "gs = []" by (cases gs) auto
    then show ?thesis using Cons by simp
  qed simp
  then show ?thesis using step [OF run] unfolding latest_of_def one_latest_def by blast
qed

theorem one_latest_invariant_witness:
  "length (filter (\<lambda>f. fe_bucketId f = ''b1'' \<and> fe_key f = ''cat'' \<and> fe_isLatest f)
     (sw_files (snd (uploadFile vault_deps ''u1'' ''photos'' cat (Some ''cat'') (vault_at [photos] []))))) \<le> 1"
proof -
  let ?w = "vault_at [photos] []"
  have "st_run vault_deps sw_files ?w (snd (uploadFile vault_deps ''u1'' ''photos'' cat (Some ''cat'') ?w))"
    by (rule st_upload [OF st_refl]) (rule prod.collapse [symmetric], simp)
  moreover have "sw_files ?w = []" by (simp add: vault_at_def)
  ultimately show ?thesis
    using one_latest_invariant [OF vault.storage_platform_axioms] by blast
qed

section \<open>A download answers the upload\<close>

context storage_platform
begin

lemma download_latest:
  assumes b: "getBucketOrThrow D u name False w = (Inr b, w)"
    and row: "row \<in> set (files w)" "latest_of (b_id b) k row" "one_latest (files w)"
    and obj: "objs w (b_name b, k) = Some data"
  shows "\<exists>chunks. downloadFile D u name k None w =
    (Inr \<lparr>dl_stream = chunks, dl_contentType = fe_contentType row, dl_size = fe_size row, dl_etag = fe_etag row\<rparr>, w)
    \<and> concat chunks = data"
proof (cases rule: find_file_cases [of "\<lambda>f. fe_bucketId f = b_id b \<and> fe_key f = k \<and> fe_isLatest f" w])
  case none
  then show ?thesis using row by (auto simp: latest_of_def)
next
  case (some f)
  then have "f = row"
    using one_latestD [OF row(3) some(2) row(1)] row(2) by (simp add: latest_of_def)
  moreover obtain chunks where "mc_getObject (sd_minio D) (b_name b) k w = (Inr chunks, w)" "concat chunks = data"
    using object_store.get [OF store obj] by blast
  ultimately show ?thesis
    using b some(1) by (simp add: downloadFile_def await_def find_version_def getFileStream_def)
qed

end

text \<open>
  C19. A public file reads back as it was uploaded: after an upload under a key, anyone's download of
  that key answers the bytes of the upload, with its content type, its size and the tag of the row.
\<close>

theorem upload_download:
  assumes P: "storage_platform D rd wr files put_files buckets put_buckets objs clk gen new_id"
    and tables: "one_latest (files w)" "distinct (map b_name (buckets w))"
    and bucket: "b \<in> set (buckets w)" "b_isPublic b" and key: "k \<noteq> []"
    and upload: "uploadFile D (b_userId b) (b_name b) f (Some k) w = (Inr row, w')"
  shows "\<exists>chunks. downloadFile_route D None (b_name b) k None w' =
    (Inr ([(''Content-Type'', up_mimetype f), (''Content-Length'', show_int (up_size f)), (''ETag'', the (fe_etag row)),
           (''Cache-Control'', ''public, max-age=3600'')], chunks), w') \<and> concat chunks = up_buffer f"
proof -
  have own: "getBucketOrThrow D (Some (b_userId b)) (b_name b) True w = (Inr b, w)"
    by (simp add: storage_platform.bucket_of [OF P bucket(1) tables(2)])
  have ids: "distinct (map fe_id (files w))" using tables(1) by (simp add: one_latest_def)
  show ?thesis
  proof (rule storage_platform.upload_run [OF P ids own, of f "Some k"], goal_cases refused stored)
    case (refused e)
    then show ?case using upload by simp
  next
    case (stored k' etag fs v row' w2)
    have same: "k' = k" "row' = row" "w2 = w'" using stored(1,2) upload key by simp_all
    note stored' = stored [unfolded same]
    have fields: "fe_bucketId row = b_id b" "fe_key row = k" "fe_contentType row = up_mimetype f" "fe_size row = up_size f"
      "fe_etag row = Some etag" "fe_isLatest row"
      by (subst stored'(5), simp add: file_record_def)+
    have "one_latest (files w')"
      using one_latest_next [OF tables(1) stored'(4,6) fields(1,2)] stored'(3) by simp
    moreover have "getBucketOrThrow D None (b_name b) False w' = (Inr b, w')"
      using storage_platform.bucket_of [OF P, of b w' None False] bucket tables(2) stored'(9) by simp
    moreover have "row \<in> set (files w')" "latest_of (b_id b) k row" "objs w' (b_name b, k) = Some (up_buffer f)"
      using stored'(3,8) fields by (simp_all add: latest_of_def)
    ultimately obtain chunks where "downloadFile D None (b_name b) k None w' =
        (Inr \<lparr>dl_stream = chunks, dl_contentType = fe_contentType row, dl_size = fe_size row, dl_etag = fe_etag row\<rparr>, w')"
      "concat chunks = up_buffer f"
      using storage_platform.download_latest [OF P, of None "b_name b" w' b row k "up_buffer f"] by blast
    then show ?case
      by (intro exI [of _ chunks]) (simp add: downloadFile_route_def await_def fields)
  qed
qed

theorem upload_download_witness:
  "\<exists>row w' h chunks. uploadFile vault_deps ''u1'' ''photos'' cat (Some ''cat'') (vault_at [photos] []) = (Inr row, w') \<and>
    downloadFile_route vault_deps None ''photos'' ''cat'' None w' = (Inr (h, chunks), w') \<and> concat chunks = ''meow''"
proof -
  let ?w = "vault_at [photos] []"
  have p: "b_userId photos = ''u1''" "b_name photos = ''photos''" "b_isPublic photos" "up_buffer cat = ''meow''"
    by (simp_all add: photos_def cat_def)
  have t: "one_latest (sw_files ?w)" "distinct (map b_name (sw_buckets ?w))" "photos \<in> set (sw_buckets ?w)" "''cat'' \<noteq> ([] :: string)"
    by (simp_all add: vault_at_def one_latest_def)
  obtain row w' where up: "uploadFile vault_deps ''u1'' ''photos'' cat (Some ''cat'') ?w = (Inr row, w')"
  proof (rule vault.upload_run [of ?w "''u1''" "''photos''" photos cat "Some ''cat''"], goal_cases ids own refused stored)
    case ids
    then show ?case by (simp add: vault_at_def)
  next
    case own
    then show ?case
      using vault.bucket_of [OF t(3,2), of "Some ''u1''" True] by (simp add: p)
  next
    case (refused e)
    then show ?case by (simp add: vault.max_size vault_at_def empty_db_def too_large_def cat_def)
  next
    case (stored k etag fs v row w')
    then show ?case using that by blast
  qed
  with upload_download [OF vault.storage_platform_axioms t(1,2,3) p(3) t(4), of cat row w', unfolded p] show ?thesis by blast
qed

theorem file_access_witness:
  "file_op_run vault_deps ''mallory'' ''photos'' (Delete ''cat'') (vault_at [photos] []) =
     (Inl (Http 403 ''Access denied''), vault_at [photos] [])"
proof -
  have "sw_buckets (vault_at [photos] []) = [photos]" by (simp add: vault_at_def)
  then show ?thesis
    using file_access [OF vault.storage_platform_axioms, of "vault_at [photos] []" "''photos''" "''mallory''" "Delete ''cat''"]
    by (simp add: photos_def)
qed

section \<open>Uploads in parts, in this world\<close>

definition half_done :: session where
  "half_done = \<lparr>ss_uploadId = ''up'', ss_internalUploadId = ''id'', ss_bucketName = ''photos'', ss_key = ''film'', ss_userId = ''u1'',
     ss_contentType = ''video/mp4'', ss_totalSize = 6000000, ss_partCount = 2,
     ss_completedParts = [\<lparr>pt_number = Num 2, pt_etag = ''b'', pt_size = 3\<rparr>, \<lparr>pt_number = Num 1, pt_etag = ''a'', pt_size = 3\<rparr>],
     ss_createdAt = 0, ss_expiresAt = 9\<rparr>"

theorem complete_upload_any_order_witness:
  "map fst (sorted_parts (ss_completedParts half_done)) = [Num 1, Num 2] \<and>
    (\<exists>f w. completeUpload vault_deps ''id'' ''mallory'' (vault_at [photos] [], [session_key ''id'' \<mapsto> half_done]) = (Inr f, w))"
proof -
  let ?w = "vault_at [photos] []"
  have m: "mc_completeMultipart (sd_minio vault_deps) b k u ps ?w = (Inr (), ?w)" for b k u ps
    by (simp add: vault_deps_def world_minio_def)
  obtain f w2 where i: "insert_row (sd_files vault_deps) (multipart_record half_done) ?w = (Inr f, w2)"
    by (simp add: vault_deps_def table_repo_def)
  obtain w3 where k: "kafka_send (sd_kafka vault_deps) ''storage.events'' (show_json (uploaded_event half_done)) w2 = (Inr (), w3)"
    by (simp add: vault_deps_def world_kafka_def)
  have p: "mset (map pt_number (ss_completedParts half_done)) = mset (map Num [1..ss_partCount half_done])" "0 \<le> ss_partCount half_done"
    by (simp_all add: half_done_def upto.simps)
  have two: "map Num [1..ss_partCount half_done] = [Num 1, Num 2]"
    by (simp add: half_done_def upto.simps)
  show ?thesis
    using complete_upload_any_order [of "[session_key ''id'' \<mapsto> half_done]" "''id''" half_done, OF _ p m i k, of "''mallory''"]
    by (simp add: two)
qed

theorem multipart_sessions_invariant_witness:
  "\<exists>m s. mp_run vault_deps Map.empty m \<and> m (session_key (next_uuid (vault_at [photos] []))) = Some s \<and> 1 \<le> ss_partCount s"
proof -
  let ?d = "\<lparr>id_bucket = ''photos'', id_key = ''film'', id_contentType = ''video/mp4'', id_totalSize = 6000000\<rparr>"
  obtain r w' m' where run: "initiateUpload_route vault_deps None ?d (vault_at [photos] [], Map.empty) = (r, (w', m'))"
    by (metis prod_cases3)
  then have step: "mp_run vault_deps Map.empty m'"
    by (blast intro: mp_next [OF mp_start] mp_initiate)
  obtain s where "m' (session_key (next_uuid (vault_at [photos] []))) = Some s"
    using run
    by (auto simp: initiateUpload_route_def initiateUpload_def Let_def await_def on_world_def vault_deps_def world_sys_def world_minio_def)
  then show ?thesis
    using multipart_sessions_invariant [OF step] step by metis
qed

end
