(* ===== verification/Cdn_Service.thy ===== *)
theory Cdn_Service
  imports Codec Js_Value "HOL-Library.AList"
begin

text \<open>
  \<open>apps/cdn-service/src\<close>: an edge that serves files from its memory, from Redis or from the origin,
  and the purges of its cache. The memory of the edge (a \<open>node-cache\<close>) is the second component of
  the state, an association list from cache keys to responses; an entry that expires is dropped by
  the environment. The client of Redis puts \<open>edgesphere:\<close> before the keys of a command, but not
  before the pattern of a \<open>SCAN\<close>. The origin, \<open>sharp\<close> and the clients are fields of \<open>cdn_deps\<close>.
\<close>

section \<open>Data and dependencies\<close>

record transforms =
  tr_w :: "int js option"
  tr_h :: "int js option"
  tr_fmt :: "string option"
  tr_q :: "int js option"
  tr_fit :: "string option"

record cdn_response =
  cr_data :: string
  cr_contentType :: string
  cr_etag :: string
  cr_cacheHit :: bool
  cr_remainingTTL :: "int option"

type_synonym memory = "(string \<times> cdn_response) list"

text \<open>What the origin answers, and the steps of an image pipeline.\<close>

record origin_response =
  or_ok :: bool
  or_statusText :: string
  or_contentType :: "string option"
  or_etag :: "string option"
  or_body :: string

datatype sharp_op = Resize "int js option" "int js option" string | Encode string "int js"

record 'w cdn_deps =
  cd_redis :: "'w redis"
  cd_ttl :: "string \<Rightarrow> ('w, int) io"
  cd_info :: "string \<Rightarrow> ('w, string) io"
  cd_prom :: "'w prom"
  cd_sys :: "'w sys"
  cd_kafka :: "'w kafka"
  cd_fmt :: numfmt
  cd_fetch :: "string \<Rightarrow> ('w, origin_response) io"
  cd_sharp :: "sharp_op list \<Rightarrow> string \<Rightarrow> ('w, string) io"
  cd_edgeRegion :: "string option"
  cd_originUrl :: string
  cd_ttlSeconds :: int
  cd_internalKey :: "string option"

definition cdn_region :: "'w cdn_deps \<Rightarrow> string" where
  "cdn_region D = or_str (cd_edgeRegion D) ''us-east-1''"

section \<open>The cache in Redis\<close>

definition pk :: "string \<Rightarrow> string" where
  "pk key = ''edgesphere:'' @ key"

text \<open>\<open>SETEX\<close> refuses a time to live that is no positive integer.\<close>

definition cache_set :: "'w redis \<Rightarrow> string \<Rightarrow> string \<Rightarrow> int js \<Rightarrow> ('w, unit) io" where
  "cache_set R key v ttlSeconds =
     (case ttlSeconds of
        NaN \<Rightarrow> throw (JsError ''ERR value is not an integer or out of range'')
      | Num t \<Rightarrow> if t \<le> 0 then throw (JsError ''ERR invalid expire time in setex command'')
                else redis_do R (SETEX (pk key) t v))"

definition cache_get :: "'w redis \<Rightarrow> string \<Rightarrow> ('w, string option) io" where
  "cache_get R key = redis_get R (pk key)"

definition cache_delete :: "'w redis \<Rightarrow> string \<Rightarrow> ('w, unit) io" where
  "cache_delete R key = redis_do R (DEL [pk key])"

text \<open>\<open>k.replace('edgesphere:', '')\<close> takes the first occurrence out.\<close>

fun replace_first :: "string \<Rightarrow> string \<Rightarrow> string" where
  "replace_first pat [] = []"
| "replace_first pat (c # s) = (if prefix pat (c # s) then drop (length pat) (c # s) else c # replace_first pat s)"

definition delete_page :: "'w redis \<Rightarrow> string list \<Rightarrow> ('w, unit) io" where
  "delete_page R ks = redis_do R (DEL (map (\<lambda>k. pk (replace_first ''edgesphere:'' k)) ks))"

text \<open>The loop over the pages of a scan; \<open>pages\<close> bounds their number.\<close>

definition deletePattern :: "'w redis \<Rightarrow> nat \<Rightarrow> string \<Rightarrow> ('w, nat) io" where
  "deletePattern R pages pattern = scan_loop R (delete_page R) pages ''0'' pattern 0"

definition getConfiguredTtlSeconds :: "'w redis \<Rightarrow> int \<Rightarrow> ('w, int js) io" where
  "getConfiguredTtlSeconds R defaultTtl =
     await (redis_hget R (pk ''platform_config'') ''cacheTtlSeconds'') (\<lambda>val.
     return (if truthy val then parse_int (the val) else Num defaultTtl))"

definition publishInvalidation :: "'w redis \<Rightarrow> json \<Rightarrow> ('w, unit) io" where
  "publishInvalidation R event = redis_do R (PUBLISH ''cache:invalidate'' (show_json event))"

text \<open>The value of a line \<open>key:value\<close> of the text that \<open>INFO\<close> answers.\<close>

definition info_field :: "string \<Rightarrow> string \<Rightarrow> string" where
  "info_field text key =
     (case List.find (\<lambda>l. prefix (key @ '':'') l) (split_on (char_of (10::nat)) text) of
        None \<Rightarrow> ''0''
      | Some l \<Rightarrow> rev (dropWhile is_space (rev (dropWhile is_space
                    (takeWhile (\<lambda>c. c \<noteq> char_of (13::nat)) (drop (Suc (length key)) l))))))"

definition getInfo :: "'w cdn_deps \<Rightarrow> ('w, json) io" where
  "getInfo D =
     await (cd_info D ''memory'') (\<lambda>info.
     await (cd_info D ''stats'') (\<lambda>stats.
     return (JObj [(''used_memory_human'', JStr (info_field info ''used_memory_human'')),
                   (''keyspace_hits'', JStr (info_field stats ''keyspace_hits'')),
                   (''keyspace_misses'', JStr (info_field stats ''keyspace_misses''))])))"

section \<open>Images\<close>

fun num_truthy :: "int js option \<Rightarrow> bool" where
  "num_truthy None = False"
| "num_truthy (Some NaN) = False"
| "num_truthy (Some (Num n)) = (n \<noteq> 0)"

definition reparsed :: "int js option \<Rightarrow> int js option" where
  "reparsed v = (if num_truthy v then Some (parse_int (show_num (the v))) else None)"

definition image_format :: "string option \<Rightarrow> string \<Rightarrow> string" where
  "image_format fmt contentType =
     (if truthy fmt then the fmt
      else if str_includes contentType ''webp'' then ''webp''
      else if str_includes contentType ''png'' then ''png''
      else if str_includes contentType ''jpeg'' \<or> str_includes contentType ''jpg'' then ''jpeg''
      else if str_includes contentType ''avif'' then ''avif''
      else ''jpeg'')"

definition resize_ops :: "transforms \<Rightarrow> sharp_op list" where
  "resize_ops t =
     (if num_truthy (tr_w t) \<or> num_truthy (tr_h t)
      then [Resize (reparsed (tr_w t)) (reparsed (tr_h t)) (or_str (tr_fit t) ''cover'')] else [])"

definition encode_ops :: "string \<Rightarrow> int js \<Rightarrow> sharp_op list" where
  "encode_ops format quality =
     (if format = ''webp'' then [Encode ''webp'' quality]
      else if format = ''avif'' then [Encode ''avif'' quality]
      else if format = ''png'' then [Encode ''png'' quality]
      else if format = ''jpeg'' \<or> format = ''jpg'' then [Encode ''jpeg'' quality]
      else [])"

definition encoded_type :: "string \<Rightarrow> string \<Rightarrow> string" where
  "encoded_type format contentType =
     (if format = ''webp'' then ''image/webp''
      else if format = ''avif'' then ''image/avif''
      else if format = ''png'' then ''image/png''
      else if format = ''jpeg'' \<or> format = ''jpg'' then ''image/jpeg''
      else contentType)"

definition quality_of :: "transforms \<Rightarrow> int js" where
  "quality_of t = (if num_truthy (tr_q t) then parse_int (show_num (the (tr_q t))) else Num 80)"

record transform_result =
  ts_data :: string
  ts_contentType :: string
  ts_originalSize :: nat
  ts_optimizedSize :: nat

definition image_transform :: "'w cdn_deps \<Rightarrow> string \<Rightarrow> string \<Rightarrow> transforms \<Rightarrow> ('w, transform_result) io" where
  "image_transform D buffer contentType params =
     (let format = image_format (tr_fmt params) contentType
      in await (cd_sharp D (resize_ops params @ encode_ops format (quality_of params)) buffer) (\<lambda>data.
         return \<lparr>ts_data = data, ts_contentType = encoded_type format contentType,
           ts_originalSize = length buffer, ts_optimizedSize = length data\<rparr>))"

definition lower_char :: "char \<Rightarrow> char" where
  "lower_char c = (if 65 \<le> (of_char c :: nat) \<and> (of_char c :: nat) \<le> 90 then char_of ((of_char c :: nat) + 32) else c)"

definition isImage :: "string \<Rightarrow> bool" where
  "isImage contentType \<longleftrightarrow> contentType \<noteq> [] \<and>
     map lower_char contentType \<in> {''image/jpeg'', ''image/png'', ''image/gif'', ''image/webp'', ''image/avif'', ''image/svg+xml''}"

definition getSupportedFormats :: "string list" where
  "getSupportedFormats = [''jpeg'', ''png'', ''webp'', ''avif'']"

section \<open>Serving a file\<close>

text \<open>\<open>JSON.stringify\<close> drops what is undefined and writes \<open>NaN\<close> as \<open>null\<close>.\<close>

definition json_num :: "int js option \<Rightarrow> json option" where
  "json_num v = (case v of None \<Rightarrow> None | Some NaN \<Rightarrow> Some JNull | Some (Num n) \<Rightarrow> Some (JNum n))"

definition json_str :: "string option \<Rightarrow> json option" where
  "json_str v = (case v of None \<Rightarrow> None | Some s \<Rightarrow> Some (JStr s))"

definition transform_key :: "transforms option \<Rightarrow> string" where
  "transform_key tr =
     (case tr of
        None \<Rightarrow> ''{}''
      | Some t \<Rightarrow> show_json (jobject [(''w'', json_num (tr_w t)), (''h'', json_num (tr_h t)), (''fmt'', json_str (tr_fmt t)),
                    (''q'', json_num (tr_q t)), (''fit'', json_str (tr_fit t))]))"

text \<open>The object has these five keys, also where their values are undefined.\<close>

definition key_count :: "transforms \<Rightarrow> nat" where
  "key_count t = length [''w'', ''h'', ''fmt'', ''q'', ''fit'']"

definition cdn_key :: "'w cdn_deps \<Rightarrow> string \<Rightarrow> string \<Rightarrow> transforms option \<Rightarrow> string" where
  "cdn_key D bucket key tr =
     ''cdn:'' @ cdn_region D @ '':'' @ bucket @ '':'' @ key @ '':'' @ transform_key tr"

definition fmt_of :: "transforms option \<Rightarrow> string option" where
  "fmt_of tr = (case tr of None \<Rightarrow> None | Some t \<Rightarrow> tr_fmt t)"

definition recordMetrics :: "'w cdn_deps \<Rightarrow> string \<Rightarrow> string \<Rightarrow> string option \<Rightarrow> int \<Rightarrow> ('w, unit) io" where
  "recordMetrics D bucket cacheResult format startTime =
     await (date_now (cd_sys D)) (\<lambda>now.
     await (prom_inc (cd_prom D) ''cdn_requests_total'' [cdn_region D, bucket, cacheResult, or_str format ''none''] 1) (\<lambda>_.
     prom_observe (cd_prom D) ''cdn_request_duration_seconds'' [cdn_region D] (fdiv (of_int (now - startTime)) 1000)))"

definition remember :: "string \<Rightarrow> cdn_response \<Rightarrow> ('w \<times> memory, unit) io" where
  "remember k r = mod_ctx (\<lambda>m. AList.update k r m)"

text \<open>The entry in Redis: the bytes as text, the content type and the tag.\<close>

definition cdn_entry :: "string \<Rightarrow> string \<Rightarrow> string \<Rightarrow> json" where
  "cdn_entry data contentType etag =
     JObj [(''data'', JStr (b64_encode data)), (''contentType'', JStr contentType), (''etag'', JStr etag)]"

definition entry_data :: "json option \<Rightarrow> ('w, string) io" where
  "entry_data v = (case v of Some (JStr s) \<Rightarrow> return (b64_decode s) | _ \<Rightarrow> throw (JsError ''The first argument must be a string''))"

definition from_redis ::
  "'w cdn_deps \<Rightarrow> string \<Rightarrow> string \<Rightarrow> string option \<Rightarrow> int \<Rightarrow> ('w \<times> memory, cdn_response option) io" where
  "from_redis D bucket ck format startTime =
     await (on_world (cache_get (cd_redis D) ck)) (\<lambda>redisData.
     case redisData of
       None \<Rightarrow> return None
     | Some text \<Rightarrow>
         try_catch
           (case json_parse text of
              None \<Rightarrow> throw (JsError ''Unexpected token'')
            | Some parsed \<Rightarrow>
                await (read_of ''data'' parsed) (\<lambda>d.
                await (entry_data d) (\<lambda>dataBuffer.
                await (on_world (cd_ttl D (pk ck))) (\<lambda>ttl.
                (let response = \<lparr>cr_data = dataBuffer, cr_contentType = js_text_of (jget ''contentType'' parsed),
                       cr_etag = js_text_of (jget ''etag'' parsed), cr_cacheHit = True,
                       cr_remainingTTL = (if 0 < ttl then Some ttl else None)\<rparr>
                 in await (remember ck response) (\<lambda>_.
                    await (on_world (recordMetrics D bucket ''hit'' format startTime)) (\<lambda>_.
                    return (Some response))))))))
           (\<lambda>_. return None))"

definition second_part :: "string \<Rightarrow> string" where
  "second_part contentType = (case split_on (CHR ''/'') contentType of _ # p # _ \<Rightarrow> if p = [] then ''unknown'' else p | _ \<Rightarrow> ''unknown'')"

text \<open>The image transforms of a fetched file; what they answer replaces bytes, type and tag.\<close>

definition optimise ::
  "'w cdn_deps \<Rightarrow> transforms option \<Rightarrow> string \<Rightarrow> string \<Rightarrow> string \<Rightarrow> ('w, string \<times> string \<times> string) io" where
  "optimise D tr data contentType etag =
     (case tr of
        None \<Rightarrow> return (data, contentType, etag)
      | Some t \<Rightarrow>
          if 0 < key_count t \<and> isImage contentType then
            await (image_transform D data contentType t) (\<lambda>result.
            await (date_now (cd_sys D)) (\<lambda>now.
            await (prom_inc (cd_prom D) ''cdn_image_transforms_total'' [second_part (ts_contentType result), ''unknown''] 1) (\<lambda>_.
            await (if ts_originalSize result > ts_optimizedSize result
                   then prom_inc (cd_prom D) ''cdn_image_optimization_bytes_saved_total'' [second_part (ts_contentType result)]
                          (int (ts_originalSize result) - int (ts_optimizedSize result))
                   else return ()) (\<lambda>_.
            return (ts_data result, ts_contentType result, ''W/\"'' @ show_int now @ ''-opt\"'')))))
          else return (data, contentType, etag))"

definition origin_url :: "'w cdn_deps \<Rightarrow> string \<Rightarrow> string \<Rightarrow> string" where
  "origin_url D bucket key = cd_originUrl D @ ''/storage/buckets/'' @ bucket @ ''/files/'' @ key"

definition fetch_origin :: "'w cdn_deps \<Rightarrow> string \<Rightarrow> string \<Rightarrow> transforms option \<Rightarrow> ('w, string \<times> string \<times> string) io" where
  "fetch_origin D bucket key tr =
     await (date_now (cd_sys D)) (\<lambda>originFetchStart.
     await (cd_fetch D (origin_url D bucket key)) (\<lambda>originRes.
     await (date_now (cd_sys D)) (\<lambda>fetched.
     await (prom_observe (cd_prom D) ''cdn_origin_fetch_duration_seconds'' [cdn_region D]
              (fdiv (of_int (fetched - originFetchStart)) 1000)) (\<lambda>_.
     if \<not> or_ok originRes then throw (JsError (''Origin error: '' @ or_statusText originRes))
     else
       await (date_now (cd_sys D)) (\<lambda>now.
       optimise D tr (or_body originRes) (or_str (or_contentType originRes) ''application/octet-stream'')
         (or_str (or_etag originRes) (''W/\"'' @ show_int now @ CHR 0x22 # [])))))))"

definition from_origin ::
  "'w cdn_deps \<Rightarrow> string \<Rightarrow> string \<Rightarrow> transforms option \<Rightarrow> string \<Rightarrow> int \<Rightarrow> ('w \<times> memory, cdn_response) io" where
  "from_origin D bucket key tr ck startTime =
     await (on_world (fetch_origin D bucket key tr)) (\<lambda>(data, contentType, etag).
     await (on_world (getConfiguredTtlSeconds (cd_redis D) (cd_ttlSeconds D))) (\<lambda>ttlSeconds.
     await (on_world (cache_set (cd_redis D) ck (show_json (cdn_entry data contentType etag)) ttlSeconds)) (\<lambda>_.
     (let response = \<lparr>cr_data = data, cr_contentType = contentType, cr_etag = etag, cr_cacheHit = False, cr_remainingTTL = None\<rparr>
      in await (remember ck response) (\<lambda>_.
         await (on_world (recordMetrics D bucket ''miss'' (fmt_of tr) startTime)) (\<lambda>_.
         return response))))))"

definition serveFile :: "'w cdn_deps \<Rightarrow> string \<Rightarrow> string \<Rightarrow> transforms option \<Rightarrow> ('w \<times> memory, cdn_response) io" where
  "serveFile D bucket key tr =
     await (on_world (date_now (cd_sys D))) (\<lambda>startTime.
     (let ck = cdn_key D bucket key tr
      in await get_ctx (\<lambda>mem.
         case map_of mem ck of
           Some memData \<Rightarrow>
             await (on_world (recordMetrics D bucket ''hit'' (fmt_of tr) startTime)) (\<lambda>_.
             return (memData\<lparr>cr_cacheHit := True\<rparr>))
         | None \<Rightarrow>
             await (from_redis D bucket ck (fmt_of tr) startTime) (\<lambda>found.
             case found of
               Some response \<Rightarrow> return response
             | None \<Rightarrow> from_origin D bucket key tr ck startTime))))"

section \<open>Purges\<close>

definition purge_pattern :: "string \<Rightarrow> string option \<Rightarrow> string" where
  "purge_pattern bucket key =
     (if truthy key then ''cdn:*:'' @ bucket @ '':'' @ the key @ '':*'' else ''cdn:*:'' @ bucket @ '':*'')"

definition purgeCache :: "'w cdn_deps \<Rightarrow> nat \<Rightarrow> string \<Rightarrow> string option \<Rightarrow> ('w, nat) io" where
  "purgeCache D pages bucket key = deletePattern (cd_redis D) pages (purge_pattern bucket key)"

text \<open>What the handler of an invalidation message does to the memory.\<close>

definition on_event :: "json \<Rightarrow> memory \<Rightarrow> memory" where
  "on_event event mem =
     (if jtruthy (jget ''key'' event) then
        filter (\<lambda>(k, r). \<not> str_includes k ('':'' @ js_text_of (jget ''bucket'' event) @ '':'' @ js_text_of (jget ''key'' event) @ '':'')) mem
      else if jtruthy (jget ''bucket'' event) then
        filter (\<lambda>(k, r). \<not> str_includes k ('':'' @ js_text_of (jget ''bucket'' event) @ '':'')) mem
      else mem)"

definition on_message :: "string \<Rightarrow> string \<Rightarrow> memory \<Rightarrow> memory" where
  "on_message channel message mem =
     (if channel = ''edgesphere:cache:invalidate'' \<or> channel = ''cache:invalidate''
      then (case json_parse message of None \<Rightarrow> mem | Some event \<Rightarrow> on_event event mem)
      else mem)"

definition getCacheStats_keys :: "memory \<Rightarrow> nat" where
  "getCacheStats_keys mem = length mem"

text \<open>The routes of the internal interface. A key that is not configured is undefined, as is a header that is not sent.\<close>

definition validateKey :: "'w cdn_deps \<Rightarrow> string option \<Rightarrow> ('w, unit) io" where
  "validateKey D key = (if key \<noteq> cd_internalKey D then throw (Http 401 ''Invalid API Key'') else return ())"

definition purge_route :: "'w cdn_deps \<Rightarrow> nat \<Rightarrow> string option \<Rightarrow> string \<Rightarrow> string option \<Rightarrow> ('w, nat) io" where
  "purge_route D pages internalKey bucket key =
     await (validateKey D internalKey) (\<lambda>_.
     await (deletePattern (cd_redis D) pages (purge_pattern bucket key)) (\<lambda>count.
     await (publishInvalidation (cd_redis D) (jobject [(''bucket'', Some (JStr bucket)), (''key'', json_str key)])) (\<lambda>_.
     return count)))"

definition stats_route :: "'w cdn_deps \<Rightarrow> string option \<Rightarrow> ('w, json) io" where
  "stats_route D internalKey = await (validateKey D internalKey) (\<lambda>_. getInfo D)"

definition flushRegion :: "'w cdn_deps \<Rightarrow> nat \<Rightarrow> string option \<Rightarrow> string \<Rightarrow> ('w, nat) io" where
  "flushRegion D pages internalKey region =
     await (validateKey D internalKey) (\<lambda>_. deletePattern (cd_redis D) pages (''cdn:'' @ region @ '':*''))"

section \<open>The route of files\<close>

record file_request =
  fq_w :: "string option"
  fq_h :: "string option"
  fq_fmt :: "string option"
  fq_q :: "string option"
  fq_fit :: "string option"
  fq_method :: string
  fq_url :: string
  fq_ip :: "string option"

definition query_int :: "string option \<Rightarrow> int js option" where
  "query_int v = (if truthy v then Some (parse_int (the v)) else None)"

definition transforms_of :: "file_request \<Rightarrow> transforms" where
  "transforms_of q = \<lparr>tr_w = query_int (fq_w q), tr_h = query_int (fq_h q), tr_fmt = fq_fmt q,
     tr_q = query_int (fq_q q), tr_fit = fq_fit q\<rparr>"

definition cdn_publishRequestEvent :: "'w kafka \<Rightarrow> json \<Rightarrow> ('w, unit) io" where
  "cdn_publishRequestEvent K data = swallow (kafka_send K ''request.events'' (show_json data))"

definition cdn_event :: "'w cdn_deps \<Rightarrow> file_request \<Rightarrow> int \<Rightarrow> int \<Rightarrow> int \<Rightarrow> bool \<Rightarrow> nat \<Rightarrow> (string \<times> json) list \<Rightarrow> json" where
  "cdn_event D q now latencyMs status cacheHit bytes extra =
     JObj ([(''time'', JStr (iso_string (cd_fmt D) now)), (''service'', JStr ''cdn-service''), (''method'', JStr (fq_method q)),
       (''path'', JStr (fq_url q)), (''status'', JNum status), (''latencyMs'', JNum latencyMs),
       (''ip'', JStr (or_str (fq_ip q) ''unknown'')), (''cacheHit'', JBool cacheHit), (''bytes'', JNum (int bytes))] @ extra)"

definition cdn_headers :: "'w cdn_deps \<Rightarrow> cdn_response \<Rightarrow> (string \<times> string) list" where
  "cdn_headers D r =
     [(''X-Cache'', if cr_cacheHit r then ''HIT'' else ''MISS''), (''X-Edge-Region'', or_str (cd_edgeRegion D) ''unknown''),
      (''Cache-Control'', ''public, max-age='' @ show_int (case cr_remainingTTL r of None \<Rightarrow> 3600 | Some t \<Rightarrow> if t = 0 then 3600 else t)),
      (''ETag'', cr_etag r), (''Content-Type'', cr_contentType r), (''Content-Length'', show_int (int (length (cr_data r))))]"

definition served ::
  "'w cdn_deps \<Rightarrow> file_request \<Rightarrow> bool \<Rightarrow> int \<Rightarrow> cdn_response \<Rightarrow> ('w \<times> memory, (string \<times> string) list \<times> string) io" where
  "served D q isHead startTime r =
     await (on_world (prom_inc (cd_prom D) ''cdn_bandwidth_bytes_total'' [or_str (cd_edgeRegion D) ''unknown''] (int (length (cr_data r))))) (\<lambda>_.
     await (on_world (date_now (cd_sys D))) (\<lambda>now.
     await (on_world (cdn_publishRequestEvent (cd_kafka D) (cdn_event D q now (now - startTime) 200 (cr_cacheHit r) (length (cr_data r))
              [(''edgeRegion'', JStr (or_str (cd_edgeRegion D) ''unknown'')), (''contentType'', JStr (cr_contentType r))]))) (\<lambda>_.
     return (cdn_headers D r, if isHead then [] else cr_data r))))"

fun exn_status :: "exn \<Rightarrow> int" where
  "exn_status (Http s m) = (if s = 0 then 500 else int s)"
| "exn_status (JsError m) = 500"

fun exn_message :: "exn \<Rightarrow> string" where
  "exn_message (Http s m) = m"
| "exn_message (JsError m) = m"

definition handleFileRequest ::
  "'w cdn_deps \<Rightarrow> string \<Rightarrow> string \<Rightarrow> file_request \<Rightarrow> bool \<Rightarrow> ('w \<times> memory, (string \<times> string) list \<times> string) io" where
  "handleFileRequest D bucket key q isHead =
     await (on_world (date_now (cd_sys D))) (\<lambda>startTime.
     try_catch
       (await (serveFile D bucket key (Some (transforms_of q))) (\<lambda>r. served D q isHead startTime r))
       (\<lambda>e. await (on_world (date_now (cd_sys D))) (\<lambda>now.
            await (on_world (cdn_publishRequestEvent (cd_kafka D)
                     (cdn_event D q now (now - startTime) (exn_status e) False 0 []))) (\<lambda>_.
            if str_includes (exn_message e) ''Origin error'' then throw (Http 404 ''File not found or origin error'')
            else throw (Http 500 ''Internal Server Error'')))))"

section \<open>Regions and health\<close>

definition getNearestRegion :: "string \<Rightarrow> string" where
  "getNearestRegion ip =
     (if ip = [] then ''us-east-1''
      else (case parse_int (hd (split_on (CHR ''.'') ip)) of
              NaN \<Rightarrow> ''us-east-1''
            | Num n \<Rightarrow> if n \<le> 100 then ''us-east-1'' else if n \<le> 200 then ''eu-west-1'' else ''ap-south-1''))"

definition getAvailableRegions :: "(string \<times> string \<times> string) list" where
  "getAvailableRegions =
     [(''us-east-1'', ''cdn-us.edgesphere.local'', ''online''), (''eu-west-1'', ''cdn-eu.edgesphere.local'', ''online''),
      (''ap-south-1'', ''cdn-ap.edgesphere.local'', ''online'')]"

text \<open>\<open>uptime\<close> is what the process reports of itself.\<close>

definition checkHealth :: "'w cdn_deps \<Rightarrow> json \<Rightarrow> ('w, json) io" where
  "checkHealth D uptime =
     await (try_catch (await (getInfo D) (\<lambda>_. return ''up'')) (\<lambda>_. return ''down'')) (\<lambda>redisStatus.
     await (date_now (cd_sys D)) (\<lambda>now.
     return (JObj [(''status'', JStr ''ok''), (''region'', JStr (cdn_region D)), (''redis'', JStr redisStatus),
                   (''uptime'', uptime), (''timestamp'', JStr (iso_string (cd_fmt D) now))])))"

end
