(* ===== verification/Cache_Invalidation.thy ===== *)
theory Cache_Invalidation
  imports Cdn_Service Storage_Multipart World
begin

text \<open>
  \<open>apps/cache-service/src\<close>: purges of cached files, their history, and the purges that follow events
  of the storage service. This service's client of Redis puts nothing before its keys.
\<close>

section \<open>Purges\<close>

record 'w cache_deps =
  ca_redis :: "'w redis"
  ca_info :: "string \<Rightarrow> ('w, string) io"
  ca_dbsize :: "('w, int) io"
  ca_prom :: "'w prom"
  ca_sys :: "'w sys"
  ca_fmt :: numfmt

record purge_result =
  pr_purgeId :: string
  pr_keysDeleted :: nat
  pr_regions :: "string list"
  pr_timestamp :: string

record purge_record =
  pc_purgeId :: string
  pc_type :: string
  pc_details :: "(string \<times> json) list"
  pc_timestamp :: string
  pc_keysDeleted :: nat

definition event_payload :: "string \<Rightarrow> string \<Rightarrow> string \<Rightarrow> (string \<times> json) list \<Rightarrow> (string \<times> json) list" where
  "event_payload purgeId timestamp kind details =
     [(''purgeId'', JStr purgeId), (''timestamp'', JStr timestamp), (''type'', JStr kind)] @ details"

definition record_json :: "purge_record \<Rightarrow> json" where
  "record_json r =
     JObj (event_payload (pc_purgeId r) (pc_timestamp r) (pc_type r) (pc_details r) @ [(''keysDeleted'', JNum (int (pc_keysDeleted r)))])"

definition recordPurgeOperation :: "'w prom \<Rightarrow> string \<Rightarrow> rat \<Rightarrow> nat \<Rightarrow> ('w, unit) io" where
  "recordPurgeOperation P kind durationSeconds keysDeleted =
     await (prom_inc P ''cache_purge_operations_total'' [kind] 1) (\<lambda>_.
     await (prom_observe P ''cache_purge_duration_seconds'' [] durationSeconds) (\<lambda>_.
     prom_inc P ''cache_purge_keys_deleted_total'' [] (int keysDeleted)))"

text \<open>The keys of a page are deleted by a pipeline.\<close>

definition purge_page :: "'w redis \<Rightarrow> string list \<Rightarrow> ('w, unit) io" where
  "purge_page R ks = await (r_pipe R (map (\<lambda>k. DEL [k]) ks)) (\<lambda>_. return ())"

definition purge_pages :: "'w redis \<Rightarrow> nat \<Rightarrow> string \<Rightarrow> ('w, nat) io" where
  "purge_pages R pages pattern = scan_loop R (purge_page R) pages ''0'' pattern 0"

definition history_key :: string where
  "history_key = ''purge:history''"

definition executePurge ::
  "'w cache_deps \<Rightarrow> nat \<Rightarrow> string \<Rightarrow> string \<Rightarrow> (string \<times> json) list \<Rightarrow> ('w, purge_result) io" where
  "executePurge D pages pattern kind details =
     await (date_now (ca_sys D)) (\<lambda>startTime.
     await (uuid_v4 (ca_sys D)) (\<lambda>purgeId.
     await (date_now (ca_sys D)) (\<lambda>now.
     (let timestamp = iso_string (ca_fmt D) now; pat = (if pattern = ''*'' then ''cdn:*'' else pattern)
      in await (purge_pages (ca_redis D) pages pat) (\<lambda>keysDeleted.
         await (redis_do (ca_redis D) (PUBLISH ''cache:invalidate'' (show_json (JObj (event_payload purgeId timestamp kind details))))) (\<lambda>_.
         await (r_pipe (ca_redis D)
                 [LPUSH history_key (show_json (record_json \<lparr>pc_purgeId = purgeId, pc_type = kind, pc_details = details,
                    pc_timestamp = timestamp, pc_keysDeleted = keysDeleted\<rparr>)),
                  LTRIM history_key 0 99]) (\<lambda>_.
         await (date_now (ca_sys D)) (\<lambda>done_at.
         await (recordPurgeOperation (ca_prom D) kind (fdiv (of_int (done_at - startTime)) 1000) keysDeleted) (\<lambda>_.
         return \<lparr>pr_purgeId = purgeId, pr_keysDeleted = keysDeleted, pr_regions = [''global''], pr_timestamp = timestamp\<rparr>)))))))))"

definition file_pattern :: "string \<Rightarrow> string \<Rightarrow> string" where
  "file_pattern bucket key = ''cdn:*:'' @ bucket @ ''/'' @ key @ '':*''"

definition bucket_pattern :: "string \<Rightarrow> string" where
  "bucket_pattern bucket = ''cdn:*:'' @ bucket @ '':*''"

definition prefix_pattern :: "string \<Rightarrow> string \<Rightarrow> string" where
  "prefix_pattern bucket pre = ''cdn:*:'' @ bucket @ ''/'' @ pre @ ''*''"

definition purge_file :: "'w cache_deps \<Rightarrow> nat \<Rightarrow> string \<Rightarrow> string \<Rightarrow> ('w, purge_result) io" where
  "purge_file D pages bucket key =
     executePurge D pages (file_pattern bucket key) ''file'' [(''bucket'', JStr bucket), (''key'', JStr key)]"

definition purgeBucket :: "'w cache_deps \<Rightarrow> nat \<Rightarrow> string \<Rightarrow> ('w, purge_result) io" where
  "purgeBucket D pages bucket = executePurge D pages (bucket_pattern bucket) ''bucket'' [(''bucket'', JStr bucket)]"

definition purgePrefix :: "'w cache_deps \<Rightarrow> nat \<Rightarrow> string \<Rightarrow> string \<Rightarrow> ('w, purge_result) io" where
  "purgePrefix D pages bucket pre =
     executePurge D pages (prefix_pattern bucket pre) ''prefix'' [(''bucket'', JStr bucket), (''prefix'', JStr pre)]"

definition purgeAll :: "'w cache_deps \<Rightarrow> nat \<Rightarrow> ('w, purge_result) io" where
  "purgeAll D pages = executePurge D pages ''*'' ''all'' []"

text \<open>\<open>limit\<close> is at least 1; the route puts 100 for a limit that is missing.\<close>

fun parse_all :: "string list \<Rightarrow> ('w, json list) io" where
  "parse_all [] = return []"
| "parse_all (x # xs) =
     (case json_parse x of None \<Rightarrow> throw (JsError ''Unexpected token'')
      | Some j \<Rightarrow> await (parse_all xs) (\<lambda>js. return (j # js)))"

definition getPurgeHistory :: "'w cache_deps \<Rightarrow> nat \<Rightarrow> ('w, json list) io" where
  "getPurgeHistory D limit =
     await (redis_list (ca_redis D) (LRANGE history_key 0 (limit - 1))) (\<lambda>history. parse_all history)"

definition getHistory_route :: "'w cache_deps \<Rightarrow> nat option \<Rightarrow> ('w, json list) io" where
  "getHistory_route D limit = getPurgeHistory D (case limit of None \<Rightarrow> 100 | Some n \<Rightarrow> n)"

fun after_first :: "string \<Rightarrow> string \<Rightarrow> string option" where
  "after_first mark [] = None"
| "after_first mark (c # s) = (if prefix mark (c # s) then Some (drop (length mark) (c # s)) else after_first mark s)"

definition getCacheStats :: "'w cache_deps \<Rightarrow> ('w, int \<times> string) io" where
  "getCacheStats D =
     await (ca_info D ''memory'') (\<lambda>info.
     (let memoryUsed = (case after_first ''used_memory_human:'' info of
            None \<Rightarrow> ''0B''
          | Some s \<Rightarrow> rev (dropWhile is_space (rev (dropWhile is_space
              (takeWhile (\<lambda>c. c \<noteq> char_of (10::nat) \<and> c \<noteq> char_of (13::nat)) s)))))
      in await (ca_dbsize D) (\<lambda>dbSize. return (dbSize, memoryUsed))))"

section \<open>Events of the storage service\<close>

definition on_storage_message :: "'w cache_deps \<Rightarrow> nat \<Rightarrow> string \<Rightarrow> string \<Rightarrow> ('w, unit) io" where
  "on_storage_message D pages channel message =
     (if channel = ''storage:events'' then
        try_catch
          (case json_parse message of
             None \<Rightarrow> throw (JsError ''Unexpected token'')
           | Some event \<Rightarrow>
               await (read_of ''action'' event) (\<lambda>action.
               if action = Some (JStr ''delete'') \<or> action = Some (JStr ''update'')
               then await (purge_file D pages (js_text_of (jget ''bucket'' event)) (js_text_of (jget ''key'' event))) (\<lambda>_. return ())
               else return ()))
          (\<lambda>_. return ())
      else return ())"

section \<open>The history of purges\<close>

definition push_record :: "string \<Rightarrow> rdb \<Rightarrow> rdb" where
  "push_record r d = snd (redis_steps [LPUSH history_key r, LTRIM history_key 0 99] d)"

lemma range_of_0: "range_of 0 n xs = take (Suc n) xs"
  by (simp add: range_of_def)

interpretation purge_log: bounded_log push_record "\<lambda>d. lists d history_key" 100
  by unfold_locales (simp add: push_record_def range_of_0)

end
