(* ===== verification/Edge_Properties.thy ===== *)
theory Edge_Properties
  imports Cache_Invalidation
begin

text \<open>
  The properties of the edge and of the purges: a file that was served is served again from the
  caches as it was, the history of purges is bounded, and what the purges of both services leave
  in Redis.
\<close>

section \<open>The platform of an edge\<close>

locale edge_platform =
  fixes D :: "'w cdn_deps" and rd :: "'w \<Rightarrow> rdb" and wr :: "rdb \<Rightarrow> 'w \<Rightarrow> 'w" and clk :: "'w \<Rightarrow> int" and gen :: "'w \<Rightarrow> string"
  assumes redis: "redis_server (cd_redis D) rd wr" and sys: "sys_ok (cd_sys D) clk gen rd"
    and prom: "prom_ok (cd_prom D) rd" and ttl: "quiet rd (cd_ttl D k)"
begin

lemma now: "date_now (cd_sys D) w = (Inr (clk w), w)"
  by (rule sys_ok_now [OF sys])

lemma metrics_quiet: "quiet rd (recordMetrics D b c f t)"
proof -
  have "quiet rd (date_now (cd_sys D))" by (simp add: quiet_def now)
  then show ?thesis
    using prom unfolding recordMetrics_def prom_ok_def by (intro quiet_await) blast+
qed

lemma metrics:
  obtains w' where "recordMetrics D b c f t w = (Inr (), w')" and "rd w' = rd w"
  by (rule quiet_unitE [OF metrics_quiet])

end

section \<open>A file served twice\<close>

lemma try_catch_Inr_iff:
  "try_catch m h x = (Inr y, z) \<longleftrightarrow> m x = (Inr y, z) \<or> (\<exists>e x'. m x = (Inl e, x') \<and> h e x' = (Inr y, z))"
  by (auto simp: try_catch_def split: prod.splits sum.splits)

lemma on_world_Inr: "m w = (r, w') \<Longrightarrow> on_world m (w, c) = (r, (w', c))"
  by (simp add: on_world_def)

lemma remember_run: "remember k r (w, m) = (Inr (), (w, AList.update k r m))"
  by (simp add: remember_def)

lemma map_of_remembered: "map_of (AList.update k r m) k = Some r"
  by (simp add: update_conv)

lemma from_redis_some:
  assumes "from_redis D b ck f t (w, m) = (Inr (Some r), (w', m'))"
  shows "map_of m' ck = Some r \<and> cr_cacheHit r"
proof -
  obtain d w1 where d: "cache_get (cd_redis D) ck w = (Inr d, w1)"
    using assms unfolding from_redis_def by (auto elim!: await_on_world_InrE)
  then obtain body where body: "d = Some body"
    using assms by (cases d) (auto simp: from_redis_def await_def on_world_def)
  from assms d body obtain parsed where p: "json_parse body = Some parsed"
    by (cases "json_parse body") (auto simp: from_redis_def await_def on_world_def)
  from assms d body p show ?thesis
    by (auto simp: from_redis_def try_catch_Inr_iff await_eq_Inr_iff on_world_eq_iff remember_run map_of_remembered Let_def)
qed

lemma from_origin_run:
  assumes "from_origin D b key tr ck t (w, m) = (Inr r, (w', m'))"
  obtains ttlv w1 w2 w3 where "map_of m' ck = Some r" and "\<not> cr_cacheHit r"
    and "cache_set (cd_redis D) ck (show_json (cdn_entry (cr_data r) (cr_contentType r) (cr_etag r))) ttlv w1 = (Inr (), w2)"
    and "recordMetrics D b ''miss'' (fmt_of tr) t w2 = (Inr (), w')"
proof -
  from assms obtain data ct etag w1 where f: "fetch_origin D b key tr w = (Inr (data, ct, etag), w1)"
    unfolding from_origin_def by (auto elim!: await_on_world_InrE)
  let ?r = "\<lparr>cr_data = data, cr_contentType = ct, cr_etag = etag, cr_cacheHit = False, cr_remainingTTL = None\<rparr>"
  from assms f obtain tt w2 w3 where t: "getConfiguredTtlSeconds (cd_redis D) (cd_ttlSeconds D) w1 = (Inr tt, w2)"
    and s: "cache_set (cd_redis D) ck (show_json (cdn_entry data ct etag)) tt w2 = (Inr (), w3)"
    and r: "recordMetrics D b ''miss'' (fmt_of tr) t w3 = (Inr (), w')" "r = ?r" "m' = AList.update ck ?r m"
    by (auto simp: from_origin_def await_eq_Inr_iff on_world_eq_iff remember_run Let_def)
  show thesis
    by (rule that) (use s r in \<open>auto simp: map_of_remembered\<close>)
qed

context edge_platform
begin

lemma served_remembered:
  assumes "serveFile D b key tr (w, m) = (Inr r, (w', m'))"
  shows "\<exists>r0. map_of m' (cdn_key D b key tr) = Some r0 \<and> r0\<lparr>cr_cacheHit := True\<rparr> = r\<lparr>cr_cacheHit := True\<rparr>"
proof (cases "map_of m (cdn_key D b key tr)")
  case (Some r0)
  obtain w1 where "recordMetrics D b ''hit'' (fmt_of tr) (clk w) w = (Inr (), w1)" by (rule metrics)
  then show ?thesis
    using assms Some by (auto simp: serveFile_def Let_def await_def on_world_def now)
next
  case None
  obtain q w1 m1 where q: "from_redis D b (cdn_key D b key tr) (fmt_of tr) (clk w) (w, m) = (q, (w1, m1))"
    by (metis prod_cases3)
  have run: "await (from_redis D b (cdn_key D b key tr) (fmt_of tr) (clk w)) (\<lambda>found. case found of
      Some response \<Rightarrow> return response | None \<Rightarrow> from_origin D b key tr (cdn_key D b key tr) (clk w)) (w, m) = (Inr r, (w', m'))"
    using assms None by (simp add: serveFile_def Let_def await_Inr [where m = "on_world (date_now (cd_sys D))"] on_world_Inr [OF now])
  show ?thesis
  proof (cases q)
    case (Inl e)
    then show ?thesis using run q by (simp add: await_def)
  next
    case (Inr found)
    show ?thesis
    proof (cases found)
      case (Some r0)
      then have same: "r0 = r" "m1 = m'" using run q Inr by (simp_all add: await_def)
      have "map_of m' (cdn_key D b key tr) = Some r"
        using from_redis_some [OF q [unfolded Inr Some same]] by simp
      then show ?thesis by blast
    next
      case None
      then have "from_origin D b key tr (cdn_key D b key tr) (clk w) (w1, m1) = (Inr r, (w', m'))"
        using run q Inr by (simp add: await_def)
      then show ?thesis by (blast elim: from_origin_run)
    qed
  qed
qed

lemma served_from_memory:
  assumes "map_of m (cdn_key D b key tr) = Some r"
  shows "\<exists>w'. serveFile D b key tr (w, m) = (Inr (r\<lparr>cr_cacheHit := True\<rparr>), (w', m)) \<and> rd w' = rd w"
proof -
  obtain w1 where "recordMetrics D b ''hit'' (fmt_of tr) (clk w) w = (Inr (), w1)" "rd w1 = rd w" by (rule metrics)
  then show ?thesis using assms by (simp add: serveFile_def Let_def await_def on_world_def now)
qed

text \<open>A miss leaves its entry in Redis, and an edge with an empty memory answers from it.\<close>

lemma miss_stored:
  assumes "serveFile D b key tr (w, m) = (Inr r, (w', m'))" and "\<not> cr_cacheHit r"
  shows "strs (rd w') (pk (cdn_key D b key tr)) = Some (show_json (cdn_entry (cr_data r) (cr_contentType r) (cr_etag r)))"
proof (cases "map_of m (cdn_key D b key tr)")
  case (Some r0)
  obtain w1 where "recordMetrics D b ''hit'' (fmt_of tr) (clk w) w = (Inr (), w1)" by (rule metrics)
  then show ?thesis
    using assms Some by (auto simp: serveFile_def Let_def await_def on_world_def now)
next
  case None
  let ?ck = "cdn_key D b key tr"
  obtain q w1 m1 where q: "from_redis D b ?ck (fmt_of tr) (clk w) (w, m) = (q, (w1, m1))"
    by (metis prod_cases3)
  have run: "await (from_redis D b ?ck (fmt_of tr) (clk w)) (\<lambda>found. case found of
      Some response \<Rightarrow> return response | None \<Rightarrow> from_origin D b key tr ?ck (clk w)) (w, m) = (Inr r, (w', m'))"
    using assms None by (simp add: serveFile_def Let_def await_Inr [where m = "on_world (date_now (cd_sys D))"] on_world_Inr [OF now])
  have "from_origin D b key tr ?ck (clk w) (w1, m1) = (Inr r, (w', m'))"
  proof (cases q)
    case (Inl e)
    then show ?thesis using run q by (simp add: await_def)
  next
    case (Inr found)
    show ?thesis
    proof (cases found)
      case (Some r0)
      then have "r0 = r" using run q Inr by (simp add: await_def)
      then have "cr_cacheHit r" using from_redis_some [OF q [unfolded Inr Some]] by simp
      then show ?thesis using assms(2) by blast
    qed (use run q Inr in \<open>simp add: await_def\<close>)
  qed
  then obtain ttlv w2 w3 where s: "cache_set (cd_redis D) ?ck (show_json (cdn_entry (cr_data r) (cr_contentType r) (cr_etag r))) ttlv w2 = (Inr (), w3)"
    and m: "recordMetrics D b ''miss'' (fmt_of tr) (clk w) w3 = (Inr (), w')"
    by (blast elim: from_origin_run)
  obtain w4 where "recordMetrics D b ''miss'' (fmt_of tr) (clk w) w3 = (Inr (), w4)" "rd w4 = rd w3" by (rule metrics)
  then have "rd w' = rd w3" using m by simp
  then show ?thesis
    using s by (auto simp: cache_set_def redis_server.commands [OF redis] redis_server.rd_wr [OF redis] split: js.splits if_splits)
qed

lemma served_from_redis:
  assumes "strs (rd w) (pk (cdn_key D b key tr)) = Some (show_json (cdn_entry data ct etag))"
    and "map_of m (cdn_key D b key tr) = None"
  shows "\<exists>t w' m'. serveFile D b key tr (w, m) =
    (Inr \<lparr>cr_data = data, cr_contentType = ct, cr_etag = etag, cr_cacheHit = True, cr_remainingTTL = t\<rparr>, (w', m'))"
proof -
  let ?ck = "cdn_key D b key tr"
  obtain t w1 where t: "cd_ttl D (pk ?ck) w = (Inr t, w1)" by (rule quietE [OF ttl])
  let ?r = "\<lparr>cr_data = data, cr_contentType = ct, cr_etag = etag, cr_cacheHit = True,
      cr_remainingTTL = (if 0 < t then Some t else None)\<rparr>"
  obtain w2 where m: "recordMetrics D b ''hit'' (fmt_of tr) (clk w) w1 = (Inr (), w2)" by (rule metrics)
  have entry: "cdn_entry data ct etag \<noteq> JNull" "jget ''data'' (cdn_entry data ct etag) = Some (JStr (b64_encode data))"
    "jget ''contentType'' (cdn_entry data ct etag) = Some (JStr ct)" "jget ''etag'' (cdn_entry data ct etag) = Some (JStr etag)"
    by (simp_all add: cdn_entry_def)
  have get: "cache_get (cd_redis D) ?ck w = (Inr (Some (show_json (cdn_entry data ct etag))), w)"
    using assms(1) by (simp add: cache_get_def redis_server.commands [OF redis])
  have "from_redis D b ?ck (fmt_of tr) (clk w) (w, m) = (Inr (Some ?r), (w2, AList.update ?ck ?r m))"
    by (simp add: from_redis_def await_def on_world_def get entry read_of_def entry_data_def t m try_catch_def js_text_of_def Let_def remember_def)
  then show ?thesis
    using assms(2) by (auto simp: serveFile_def Let_def await_def on_world_def now)
qed

end

text \<open>
  C20. A file that was served is served again as it was: from the memory of the edge, whatever has
  happened to the rest of the world, with the same bytes, type and tag and marked as a hit; and
  when it had come from the origin, an edge with an empty memory answers it from Redis, from the
  text it is stored as.
\<close>

theorem served_again:
  assumes E: "edge_platform D rd wr clk gen" and first: "serveFile D bucket key tr (w, mem) = (Inr r, (w1, mem1))"
  shows "(\<forall>w2. \<exists>w3. serveFile D bucket key tr (w2, mem1) = (Inr (r\<lparr>cr_cacheHit := True\<rparr>), (w3, mem1))) \<and>
    (\<not> cr_cacheHit r \<longrightarrow> (\<forall>w2. rd w2 = rd w1 \<longrightarrow> (\<exists>t w3 mem3. serveFile D bucket key tr (w2, []) =
       (Inr \<lparr>cr_data = cr_data r, cr_contentType = cr_contentType r, cr_etag = cr_etag r, cr_cacheHit = True,
             cr_remainingTTL = t\<rparr>, (w3, mem3)))))"
proof (intro conjI allI impI)
  fix w2
  obtain r0 where "map_of mem1 (cdn_key D bucket key tr) = Some r0" "r0\<lparr>cr_cacheHit := True\<rparr> = r\<lparr>cr_cacheHit := True\<rparr>"
    using edge_platform.served_remembered [OF E first] by blast
  then show "\<exists>w3. serveFile D bucket key tr (w2, mem1) = (Inr (r\<lparr>cr_cacheHit := True\<rparr>), (w3, mem1))"
    using edge_platform.served_from_memory [OF E, of mem1 bucket key tr r0 w2] by auto
next
  fix w2 assume "\<not> cr_cacheHit r" and "rd w2 = rd w1"
  then have "strs (rd w2) (pk (cdn_key D bucket key tr)) = Some (show_json (cdn_entry (cr_data r) (cr_contentType r) (cr_etag r)))"
    using edge_platform.miss_stored [OF E first] by simp
  then show "\<exists>t w3 mem3. serveFile D bucket key tr (w2, []) =
       (Inr \<lparr>cr_data = cr_data r, cr_contentType = cr_contentType r, cr_etag = cr_etag r, cr_cacheHit = True,
             cr_remainingTTL = t\<rparr>, (w3, mem3))"
    using edge_platform.served_from_redis [OF E, of w2 bucket key tr _ _ _ "[]"] by simp
qed

section \<open>What a purge leaves behind\<close>

lemma ordinary_cdn: "ordinary ''cdn:''"
  by (simp add: ordinary_def)

lemma patterns_cdn:
  "\<exists>q. purge_pattern bucket key = ''cdn:'' @ q" "\<exists>q. file_pattern bucket k = ''cdn:'' @ q"
  "\<exists>q. bucket_pattern bucket = ''cdn:'' @ q" "\<exists>q. prefix_pattern bucket k = ''cdn:'' @ q"
  by (simp_all add: purge_pattern_def file_pattern_def bucket_pattern_def prefix_pattern_def)

lemma pattern_not_all:
  "file_pattern b k \<noteq> ''*''" "bucket_pattern b \<noteq> ''*''" "prefix_pattern b k \<noteq> ''*''"
  by (simp_all add: file_pattern_def bucket_pattern_def prefix_pattern_def)

lemma executePurge_nothing:
  assumes R: "redis_server (ca_redis C) rd wr" and S: "sys_ok (ca_sys C) clk gen rd" and P: "prom_ok (ca_prom C) rd"
    and scan: "scan_only (ca_redis C) rd glob pages" "glob_literal glob"
    and keys: "\<And>k. strs (rd w) k \<noteq> None \<Longrightarrow> \<not> prefix ''cdn:'' k"
    and pat: "(if pattern = ''*'' then ''cdn:*'' else pattern) = ''cdn:'' @ q"
  shows "\<exists>p w'. executePurge C pages pattern kind details w = (Inr p, w') \<and> pr_keysDeleted p = 0 \<and> strs (rd w') = strs (rd w)
    \<and> (\<exists>r. lists (rd w') history_key = take 100 (r # lists (rd w) history_key))"
proof -
  note now = sys_ok_now [OF S]
  obtain w1 where u: "uuid_v4 (ca_sys C) w = (Inr (gen w), w1)" "rd w1 = rd w"
    using sys_ok_uuid [OF S] by metis
  have none: "purge_pages (ca_redis C) pages (''cdn:'' @ q) w1 = (Inr 0, w1)"
    unfolding purge_pages_def using keys u(2) by (intro scan_nothing [OF scan ordinary_cdn]) simp
  have metrics: "\<exists>w'. recordPurgeOperation (ca_prom C) kind d n w = (Inr (), w') \<and> rd w' = rd w" for d n w
  proof -
    have "quiet rd (recordPurgeOperation (ca_prom C) kind d n)"
      using P unfolding recordPurgeOperation_def prom_ok_def by (intro quiet_await) blast+
    then show ?thesis by (rule quiet_unitE) blast
  qed
  let ?ev = "show_json (JObj (event_payload (gen w) (iso_string (ca_fmt C) (clk w1)) kind details))"
  let ?rec = "show_json (record_json \<lparr>pc_purgeId = gen w, pc_type = kind, pc_details = details,
      pc_timestamp = iso_string (ca_fmt C) (clk w1), pc_keysDeleted = 0\<rparr>)"
  let ?w2 = "wr (push_record ?rec ((rd w)\<lparr>published := published (rd w) @ [(''cache:invalidate'', ?ev)]\<rparr>)) w1"
  obtain w3 where m: "recordPurgeOperation (ca_prom C) kind (fdiv (of_int (clk ?w2 - clk w)) 1000) 0 ?w2 = (Inr (), w3)" "rd w3 = rd ?w2"
    using metrics by blast
  have "executePurge C pages pattern kind details w =
      (Inr \<lparr>pr_purgeId = gen w, pr_keysDeleted = 0, pr_regions = [''global''], pr_timestamp = iso_string (ca_fmt C) (clk w1)\<rparr>, w3)"
    using u none m by (simp add: executePurge_def Let_def pat await_def now redis_server.commands [OF R] redis_server.rd_wr [OF R]
        redis_server.wr_wr [OF R] push_record_def)
  then show ?thesis
    using m(2) by (auto simp: redis_server.rd_wr [OF R] push_record_def range_of_0)
qed

text \<open>
  C21. The purges do not reach the files of the edge: its entries are stored under keys that start
  with \<open>edgesphere:\<close>, while the patterns of both services start with \<open>cdn:\<close>. As long as no key starts
  with that, the purge of the CDN service deletes nothing, and each purge of the cache service
  answers that it deleted 0 keys, writes the history, which stays at 100 entries, and leaves all
  entries where they are: an edge whose memory was cleared serves the purged bytes again, as a hit.
\<close>

theorem purges_delete_nothing:
  assumes E: "edge_platform D rd wr clk gen" and scanD: "scan_only (cd_redis D) rd glob pages"
    and R: "redis_server (ca_redis C) rd wr" and S: "sys_ok (ca_sys C) clk gen rd" and P: "prom_ok (ca_prom C) rd"
    and scan: "scan_only (ca_redis C) rd glob pages" and glob: "glob_literal glob"
    and keys: "\<And>k. strs (rd w) k \<noteq> None \<Longrightarrow> \<not> prefix ''cdn:'' k"
    and entry: "strs (rd w) (pk (cdn_key D bucket key tr)) = Some (show_json (cdn_entry data ct etag))"
    and purge: "purge \<in> {purge_file C pages bucket key, purgeBucket C pages bucket, purgePrefix C pages bucket pre, purgeAll C pages}"
  shows "deletePattern (cd_redis D) pages (purge_pattern bucket k) w = (Inr 0, w) \<and>
    (\<exists>p w'. purge w = (Inr p, w') \<and> pr_keysDeleted p = 0 \<and> strs (rd w') = strs (rd w)
      \<and> (\<exists>r. lists (rd w') history_key = take 100 (r # lists (rd w) history_key))
      \<and> (\<exists>t w3 mem3. serveFile D bucket key tr (w', []) =
          (Inr \<lparr>cr_data = data, cr_contentType = ct, cr_etag = etag, cr_cacheHit = True, cr_remainingTTL = t\<rparr>, (w3, mem3))))"
proof
  obtain q where "purge_pattern bucket k = ''cdn:'' @ q" using patterns_cdn(1) by blast
  then show "deletePattern (cd_redis D) pages (purge_pattern bucket k) w = (Inr 0, w)"
    unfolding deletePattern_def using keys by (simp only:) (intro scan_nothing [OF scanD glob ordinary_cdn])
  have "\<exists>pattern kind details q. purge = executePurge C pages pattern kind details \<and>
      (if pattern = ''*'' then ''cdn:*'' else pattern) = ''cdn:'' @ q"
    using purge
  proof (elim insertE emptyE, goal_cases one bucket pref all)
    case one
    then show ?case using patterns_cdn(2) [of bucket key] pattern_not_all(1) [of bucket key]
      unfolding purge_file_def by (metis (no_types))
  next
    case bucket
    then show ?case using patterns_cdn(3) [of bucket] pattern_not_all(2) [of bucket]
      unfolding purgeBucket_def by (metis (no_types))
  next
    case pref
    then show ?case using patterns_cdn(4) [of bucket pre] pattern_not_all(3) [of bucket pre]
      unfolding purgePrefix_def by (metis (no_types))
  next
    case all
    then show ?case unfolding purgeAll_def
      by - (rule exI [of _ "''*''"], rule exI [of _ "''all''"], rule exI [of _ "[]"], rule exI [of _ "''*''"], simp)
  qed
  then obtain pattern kind details q where e: "purge = executePurge C pages pattern kind details"
    "(if pattern = ''*'' then ''cdn:*'' else pattern) = ''cdn:'' @ q" by blast
  obtain p w' where p: "purge w = (Inr p, w')" "pr_keysDeleted p = 0" "strs (rd w') = strs (rd w)"
    "\<exists>r. lists (rd w') history_key = take 100 (r # lists (rd w) history_key)"
    using executePurge_nothing [OF R S P scan glob keys e(2), where kind = kind and details = details] unfolding e(1) by blast
  have "strs (rd w') (pk (cdn_key D bucket key tr)) = Some (show_json (cdn_entry data ct etag))"
    using entry p(3) by simp
  then show "\<exists>p w'. purge w = (Inr p, w') \<and> pr_keysDeleted p = 0 \<and> strs (rd w') = strs (rd w)
      \<and> (\<exists>r. lists (rd w') history_key = take 100 (r # lists (rd w) history_key))
      \<and> (\<exists>t w3 mem3. serveFile D bucket key tr (w', []) =
          (Inr \<lparr>cr_data = data, cr_contentType = ct, cr_etag = etag, cr_cacheHit = True, cr_remainingTTL = t\<rparr>, (w3, mem3)))"
    using edge_platform.served_from_redis [OF E, of w' bucket key tr data ct etag "[]"] p by auto
qed

section \<open>An edge in the world\<close>

definition a_file :: origin_response where
  "a_file = \<lparr>or_ok = True, or_statusText = ''OK'', or_contentType = Some ''text/plain'', or_etag = Some ''v1'', or_body = ''hello''\<rparr>"

definition world_edge :: "world cdn_deps" where
  "world_edge =
     \<lparr>cd_redis = scan_redis, cd_ttl = (\<lambda>k. return 60), cd_info = (\<lambda>s. return []), cd_prom = world_prom, cd_sys = world_sys,
      cd_kafka = world_kafka, cd_fmt = world_numfmt, cd_fetch = (\<lambda>u. return a_file), cd_sharp = (\<lambda>ops d. return d),
      cd_edgeRegion = None, cd_originUrl = ''http://o'', cd_ttlSeconds = 3600, cd_internalKey = None\<rparr>"

definition world_cache :: "world cache_deps" where
  "world_cache =
     \<lparr>ca_redis = scan_redis, ca_info = (\<lambda>s. return []), ca_dbsize = return 0, ca_prom = world_prom, ca_sys = world_sys, ca_fmt = world_numfmt\<rparr>"

interpretation edge: edge_platform world_edge w_db put_db w_now next_uuid
  by (rule edge_platform.intro) (simp_all add: world_edge_def scan.redis_server_axioms)

theorem served_again_witness:
  "\<exists>r w1 mem1 w3. serveFile world_edge ''docs'' ''a'' None (world_at 5, []) = (Inr r, (w1, mem1)) \<and>
    cr_data r = ''hello'' \<and> serveFile world_edge ''docs'' ''a'' None (world_at 9, mem1) = (Inr (r\<lparr>cr_cacheHit := True\<rparr>), (w3, mem1))"
proof -
  obtain r w1 mem1 where first: "serveFile world_edge ''docs'' ''a'' None (world_at 5, []) = (Inr r, (w1, mem1))" "cr_data r = ''hello''"
    by (simp add: serveFile_def from_redis_def from_origin_def fetch_origin_def optimise_def getConfiguredTtlSeconds_def cache_get_def cache_set_def
        recordMetrics_def Let_def await_def on_world_def edge.now world_edge_def scan.commands world_at_def a_file_def
        empty_db_def remember_def world_sys_def world_prom_def put_db_def)
  with served_again [OF edge.edge_platform_axioms first(1)] show ?thesis by blast
qed

definition stocked :: world where
  "stocked = (world_at 5)\<lparr>w_db := empty_db\<lparr>strs := [pk (cdn_key world_edge ''docs'' ''a'' None) \<mapsto> show_json (cdn_entry ''old'' ''text/plain'' ''v0'')]\<rparr>\<rparr>"

theorem purges_delete_nothing_witness:
  "\<exists>p w'. purge_file world_cache (Suc 0) ''docs'' ''a'' stocked = (Inr p, w') \<and> pr_keysDeleted p = 0 \<and>
    (\<exists>r s. serveFile world_edge ''docs'' ''a'' None (w', []) = (Inr r, s) \<and> cr_data r = ''old'')"
proof -
  let ?k = "pk (cdn_key world_edge ''docs'' ''a'' None)"
  have keys: "\<not> prefix ''cdn:'' k" if "strs (w_db stocked) k \<noteq> None" for k
  proof -
    have "k = ?k" using that by (auto simp: stocked_def split: if_splits)
    then show ?thesis by (simp add: pk_def)
  qed
  have entry: "strs (w_db stocked) ?k = Some (show_json (cdn_entry ''old'' ''text/plain'' ''v0''))"
    by (simp add: stocked_def)
  have scan: "scan_only (cd_redis world_edge) w_db world_glob (Suc 0)" "redis_server (ca_redis world_cache) w_db put_db"
    "sys_ok (ca_sys world_cache) w_now next_uuid w_db" "prom_ok (ca_prom world_cache) w_db"
    "scan_only (ca_redis world_cache) w_db world_glob (Suc 0)"
    by (simp_all add: world_edge_def world_cache_def scan_redis_scan_only scan.redis_server_axioms)
  obtain p w' t w3 mem3 where "purge_file world_cache (Suc 0) ''docs'' ''a'' stocked = (Inr p, w')" "pr_keysDeleted p = 0"
    "serveFile world_edge ''docs'' ''a'' None (w', []) =
      (Inr \<lparr>cr_data = ''old'', cr_contentType = ''text/plain'', cr_etag = ''v0'', cr_cacheHit = True, cr_remainingTTL = t\<rparr>, (w3, mem3))"
    using conjunct2 [OF purges_delete_nothing [OF edge.edge_platform_axioms scan world_glob_literal keys entry insertI1]] by blast
  then show ?thesis by force
qed

end
