(* ===== verification/Analytics.thy ===== *)
theory Analytics
  imports Js_Value
begin

text \<open>
  The analytics service (\<open>apps/analytics-service\<close>): events of requests come in over Kafka, are
  collected in batches and written to a TimescaleDB table; the reports are SQL queries over it. The
  database is a parameter: the model builds the text and the parameters of each query as the code
  does (line breaks are single blanks) and reads the rows of the answer as the code does. Integers
  are exact, as those of the language are up to \<open>2 ^ 53\<close>.
\<close>

section \<open>Values of a row\<close>

datatype dval = Plain json | Real rat | Time "int js"

type_synonym row = "(string \<times> dval) list"

fun dtruthy :: "dval option \<Rightarrow> bool" where
  "dtruthy None = False"
| "dtruthy (Some (Plain j)) = jtruthy (Some j)"
| "dtruthy (Some (Real x)) = (x \<noteq> 0)"
| "dtruthy (Some (Time t)) = True"

text \<open>The text \<open>parseInt\<close> and \<open>parseFloat\<close> read; that of a date starts with the name of a day, no number.\<close>

fun dtext :: "numfmt \<Rightarrow> dval option \<Rightarrow> string" where
  "dtext F None = ''undefined''"
| "dtext F (Some (Plain j)) = js_text j"
| "dtext F (Some (Real x)) = num_to_string F (Num x)"
| "dtext F (Some (Time t)) = ''Invalid Date''"

definition int_col :: "numfmt \<Rightarrow> dval option \<Rightarrow> int js" where
  "int_col F v = parse_int (dtext F v)"

definition int_or_zero :: "numfmt \<Rightarrow> dval option \<Rightarrow> int js" where
  "int_or_zero F v = parse_int (if dtruthy v then dtext F v else ''0'')"

definition float_or_zero :: "numfmt \<Rightarrow> dval option \<Rightarrow> rat js" where
  "float_or_zero F v = parse_float F (if dtruthy v then dtext F v else ''0'')"

fun js_minus :: "int js \<Rightarrow> int js \<Rightarrow> int js" where
  "js_minus (Num a) (Num b) = Num (a - b)"
| "js_minus a b = NaN"

text \<open>\<open>total > 0 ? part / total : 0\<close>\<close>

fun ratio :: "int js \<Rightarrow> int js \<Rightarrow> rat js" where
  "ratio (Num part) (Num n) = (if n > 0 then js_div (of_int part) (of_int n) else Num 0)"
| "ratio NaN (Num n) = (if n > 0 then NaN else Num 0)"
| "ratio part NaN = Num 0"

section \<open>The service and its database\<close>

record event_entity =
  ee_time :: "dval option"
  ee_service :: "dval option"
  ee_method :: "dval option"
  ee_path :: "dval option"
  ee_status :: "dval option"
  ee_latencyMs :: "dval option"
  ee_userId :: "dval option"
  ee_ip :: "dval option"
  ee_country :: "dval option"
  ee_cacheHit :: "dval option"
  ee_bytes :: "dval option"
  ee_edgeRegion :: "dval option"
  ee_requestId :: "dval option"

record 'w analytics_deps =
  an_query :: "string \<Rightarrow> dval list \<Rightarrow> ('w, row list) io"
  an_insert :: "event_entity list \<Rightarrow> ('w, unit) io"
  an_sys :: "'w sys"
  an_fmt :: numfmt

text \<open>\<open>result[0].c\<close>: an empty result throws. The queries without groups answer one row.\<close>

definition first_row :: "row list \<Rightarrow> ('w, row) io" where
  "first_row rs = (case rs of [] \<Rightarrow> throw (JsError ''Cannot read properties of undefined'') | r # _ \<Rightarrow> return r)"

section \<open>Ingestion\<close>

definition plain_of :: "string \<Rightarrow> json \<Rightarrow> dval option" where
  "plain_of f event = map_option Plain (jget f event)"

definition entity_of :: "'w analytics_deps \<Rightarrow> json \<Rightarrow> ('w, event_entity) io" where
  "entity_of D event =
     await (read_of ''time'' event) (\<lambda>t.
     await (if jtruthy t then return (date_of (an_fmt D) (the t))
            else await (date_now (an_sys D)) (\<lambda>now. return (Num now))) (\<lambda>time.
     await (if jtruthy (jget ''requestId'' event) then return (the (jget ''requestId'' event))
            else await (uuid_v4 (an_sys D)) (\<lambda>u. return (JStr u))) (\<lambda>requestId.
     return \<lparr>ee_time = Some (Time time), ee_service = plain_of ''service'' event, ee_method = plain_of ''method'' event,
             ee_path = plain_of ''path'' event, ee_status = plain_of ''status'' event, ee_latencyMs = plain_of ''latencyMs'' event,
             ee_userId = plain_of ''userId'' event, ee_ip = plain_of ''ip'' event, ee_country = plain_of ''country'' event,
             ee_cacheHit = Some (Plain (if jtruthy (jget ''cacheHit'' event) then the (jget ''cacheHit'' event) else JBool False)),
             ee_bytes = Some (Plain (if jtruthy (jget ''bytes'' event) then the (jget ''bytes'' event) else JNum 0)),
             ee_edgeRegion = plain_of ''edgeRegion'' event, ee_requestId = Some (Plain requestId)\<rparr>)))"

fun entities_of :: "'w analytics_deps \<Rightarrow> json list \<Rightarrow> ('w, event_entity list) io" where
  "entities_of D [] = return []"
| "entities_of D (e # es) = await (entity_of D e) (\<lambda>x. await (entities_of D es) (\<lambda>xs. return (x # xs)))"

definition ingestEventBatch :: "'w analytics_deps \<Rightarrow> json list \<Rightarrow> ('w, unit) io" where
  "ingestEventBatch D events =
     (if events = [] then return ()
      else try_catch (await (entities_of D events) (\<lambda>entities. an_insert D entities)) (\<lambda>e. return ()))"

definition ingestEvent :: "'w analytics_deps \<Rightarrow> json \<Rightarrow> ('w, unit) io" where
  "ingestEvent D event = ingestEventBatch D [event]"

section \<open>The text of the reports\<close>

definition quoted :: "string \<Rightarrow> string" where
  "quoted s = CHR 0x27 # s @ [CHR 0x27]"

definition since :: "int \<Rightarrow> string" where
  "since windowMinutes = ''FROM request_events WHERE time > NOW() - INTERVAL '' @ quoted (show_int windowMinutes @ '' minutes'')"

definition per_minute :: string where
  "per_minute = ''time_bucket('' @ quoted ''1 minute'' @ '', time) AS t''"

definition rate_sql :: "int \<Rightarrow> string" where
  "rate_sql n = ''SELECT '' @ per_minute @ '', COUNT(*) AS value '' @ since n @ '' GROUP BY t ORDER BY t ASC''"

definition cache_sql :: "int \<Rightarrow> string" where
  "cache_sql n =
     ''SELECT SUM(CASE WHEN cache_hit THEN 1 ELSE 0 END)::integer as hits, COUNT(*)::integer as total, SUM(bytes) FILTER (WHERE cache_hit)::bigint as cached_bytes '' @ since n"

definition latency_sql :: "int \<Rightarrow> string" where
  "latency_sql n =
     ''SELECT percentile_cont(0.50) WITHIN GROUP (ORDER BY latency_ms) as p50, percentile_cont(0.95) WITHIN GROUP (ORDER BY latency_ms) as p95, percentile_cont(0.99) WITHIN GROUP (ORDER BY latency_ms) as p99 '' @ since n"

definition bandwidth_sql :: "int \<Rightarrow> string" where
  "bandwidth_sql n = ''SELECT '' @ per_minute @ '', SUM(bytes)::bigint AS value '' @ since n @ '' GROUP BY t ORDER BY t''"

definition errors_sql :: "int \<Rightarrow> string" where
  "errors_sql n = ''SELECT COUNT(*) FILTER (WHERE status >= 400)::integer as errors, COUNT(*)::integer as total '' @ since n"

definition paths_sql :: "int \<Rightarrow> string" where
  "paths_sql n =
     ''SELECT path, COUNT(*)::integer as count, AVG(latency_ms) as avg_latency '' @ since n @ '' GROUP BY path ORDER BY count DESC LIMIT $1''"

definition geo_sql :: "int \<Rightarrow> string" where
  "geo_sql n =
     ''SELECT country, COUNT(*)::integer as count, ROUND(COUNT(*) * 100.0 / SUM(COUNT(*)) OVER (), 2) as pct '' @ since n
       @ '' AND country IS NOT NULL GROUP BY country ORDER BY count DESC LIMIT 20''"

definition services_sql :: "int \<Rightarrow> string" where
  "services_sql n =
     ''SELECT service, COUNT(*)::integer as count, COUNT(*) FILTER (WHERE status >= 400)::integer as error_count '' @ since n
       @ '' AND service IS NOT NULL GROUP BY service ORDER BY count DESC''"

definition users_sql :: "int \<Rightarrow> string" where
  "users_sql n = ''SELECT COUNT(DISTINCT user_id)::integer as count '' @ since n @ '' AND user_id IS NOT NULL''"

definition bytes_sql :: "int \<Rightarrow> string" where
  "bytes_sql n = ''SELECT SUM(bytes)::bigint as total '' @ since n"

definition avg_sql :: "int \<Rightarrow> string" where
  "avg_sql n = ''SELECT AVG(latency_ms) as avg '' @ since n"

definition cache_series_sql :: "int \<Rightarrow> string" where
  "cache_series_sql n =
     ''SELECT '' @ per_minute @ '', ROUND(AVG(cache_hit::int) * 100)::integer AS value '' @ since n @ '' GROUP BY t ORDER BY t''"

definition edges_sql :: "int \<Rightarrow> string" where
  "edges_sql n =
     ''SELECT edge_region AS region, COUNT(*)::integer AS requests, ROUND(AVG(cache_hit::int), 4)::float AS cache_hit_ratio, AVG(latency_ms) AS avg_latency_ms, MAX(time) AS last_seen ''
       @ since n @ '' AND edge_region IS NOT NULL GROUP BY edge_region ORDER BY requests DESC''"

section \<open>The reports\<close>

record point =
  pt_t :: "dval option"
  pt_value :: "int js"

record cache_ratio =
  ch_hitRatio :: "rat js"
  ch_hits :: "int js"
  ch_misses :: "int js"
  ch_cachedBytes :: "int js"

record percentiles =
  pc_p50 :: "rat js"
  pc_p95 :: "rat js"
  pc_p99 :: "rat js"

record error_rate =
  er_errorRate :: "rat js"
  er_total :: "int js"
  er_errors :: "int js"

definition getRequestRate :: "'w analytics_deps \<Rightarrow> int \<Rightarrow> ('w, point list) io" where
  "getRequestRate D n =
     await (an_query D (rate_sql n) []) (\<lambda>rs.
     return (map (\<lambda>r. \<lparr>pt_t = map_of r ''t'', pt_value = int_col (an_fmt D) (map_of r ''value'')\<rparr>) rs))"

definition getCacheHitRatio :: "'w analytics_deps \<Rightarrow> int \<Rightarrow> ('w, cache_ratio) io" where
  "getCacheHitRatio D n =
     await (an_query D (cache_sql n) []) (\<lambda>rs.
     await (first_row rs) (\<lambda>r.
     (let hits = int_or_zero (an_fmt D) (map_of r ''hits''); all = int_or_zero (an_fmt D) (map_of r ''total'')
      in return \<lparr>ch_hitRatio = ratio hits all, ch_hits = hits, ch_misses = js_minus all hits,
                 ch_cachedBytes = int_or_zero (an_fmt D) (map_of r ''cached_bytes'')\<rparr>)))"

definition getLatencyPercentiles :: "'w analytics_deps \<Rightarrow> int \<Rightarrow> ('w, percentiles) io" where
  "getLatencyPercentiles D n =
     await (an_query D (latency_sql n) []) (\<lambda>rs.
     await (first_row rs) (\<lambda>r.
     return \<lparr>pc_p50 = float_or_zero (an_fmt D) (map_of r ''p50''), pc_p95 = float_or_zero (an_fmt D) (map_of r ''p95''),
             pc_p99 = float_or_zero (an_fmt D) (map_of r ''p99'')\<rparr>))"

definition getBandwidthOverTime :: "'w analytics_deps \<Rightarrow> int \<Rightarrow> ('w, point list) io" where
  "getBandwidthOverTime D n =
     await (an_query D (bandwidth_sql n) []) (\<lambda>rs.
     return (map (\<lambda>r. \<lparr>pt_t = map_of r ''t'', pt_value = int_or_zero (an_fmt D) (map_of r ''value'')\<rparr>) rs))"

definition getErrorRate :: "'w analytics_deps \<Rightarrow> int \<Rightarrow> ('w, error_rate) io" where
  "getErrorRate D n =
     await (an_query D (errors_sql n) []) (\<lambda>rs.
     await (first_row rs) (\<lambda>r.
     (let errors = int_or_zero (an_fmt D) (map_of r ''errors''); all = int_or_zero (an_fmt D) (map_of r ''total'')
      in return \<lparr>er_errorRate = ratio errors all, er_total = all, er_errors = errors\<rparr>)))"

definition getTopPaths :: "'w analytics_deps \<Rightarrow> int \<Rightarrow> int \<Rightarrow> ('w, (dval option \<times> int js \<times> rat js) list) io" where
  "getTopPaths D limit n =
     await (an_query D (paths_sql n) [Plain (JNum limit)]) (\<lambda>rs.
     return (map (\<lambda>r. (map_of r ''path'', int_col (an_fmt D) (map_of r ''count''), float_or_zero (an_fmt D) (map_of r ''avg_latency''))) rs))"

definition getGeoDistribution :: "'w analytics_deps \<Rightarrow> int \<Rightarrow> ('w, (dval option \<times> int js \<times> rat js) list) io" where
  "getGeoDistribution D n =
     await (an_query D (geo_sql n) []) (\<lambda>rs.
     return (map (\<lambda>r. (map_of r ''country'', int_col (an_fmt D) (map_of r ''count''), float_or_zero (an_fmt D) (map_of r ''pct''))) rs))"

definition getRequestsByService :: "'w analytics_deps \<Rightarrow> int \<Rightarrow> ('w, (dval option \<times> int js \<times> int js) list) io" where
  "getRequestsByService D n =
     await (an_query D (services_sql n) []) (\<lambda>rs.
     return (map (\<lambda>r. (map_of r ''service'', int_col (an_fmt D) (map_of r ''count''), int_col (an_fmt D) (map_of r ''error_count''))) rs))"

definition getActiveUsers :: "'w analytics_deps \<Rightarrow> int \<Rightarrow> ('w, int js) io" where
  "getActiveUsers D n =
     await (an_query D (users_sql n) []) (\<lambda>rs.
     await (first_row rs) (\<lambda>r. return (int_or_zero (an_fmt D) (map_of r ''count''))))"

text \<open>\<open>rows[0]?.c\<close>\<close>

definition first_col :: "row list \<Rightarrow> string \<Rightarrow> dval option" where
  "first_col rs c = (case rs of [] \<Rightarrow> None | r # _ \<Rightarrow> map_of r c)"

record summary_stats =
  su_totalRequests :: "int js"
  su_cacheHitRatio :: "rat js"
  su_avgLatency :: "rat js"
  su_p95Latency :: "rat js"
  su_totalBandwidthBytes :: "int js"
  su_errorRate :: "rat js"
  su_activeUsers :: "int js"
  su_windowMinutes :: int
  su_generatedAt :: int

definition getSummaryStats :: "'w analytics_deps \<Rightarrow> int \<Rightarrow> ('w, summary_stats) io" where
  "getSummaryStats D n =
     await (getErrorRate D n) (\<lambda>totals.
     await (getCacheHitRatio D n) (\<lambda>cache.
     await (getLatencyPercentiles D n) (\<lambda>latency.
     await (getErrorRate D n) (\<lambda>errorData.
     await (getActiveUsers D n) (\<lambda>activeUsers.
     await (an_query D (bytes_sql n) []) (\<lambda>totalBytesData.
     await (an_query D (avg_sql n) []) (\<lambda>avgLatencyData.
     await (date_now (an_sys D)) (\<lambda>now.
     return \<lparr>su_totalRequests = er_total totals, su_cacheHitRatio = ch_hitRatio cache,
             su_avgLatency = float_or_zero (an_fmt D) (first_col avgLatencyData ''avg''), su_p95Latency = pc_p95 latency,
             su_totalBandwidthBytes = int_or_zero (an_fmt D) (first_col totalBytesData ''total''),
             su_errorRate = er_errorRate errorData, su_activeUsers = activeUsers, su_windowMinutes = n,
             su_generatedAt = now\<rparr>))))))))"

definition getCacheHitRatioTimeSeries :: "'w analytics_deps \<Rightarrow> int \<Rightarrow> ('w, point list) io" where
  "getCacheHitRatioTimeSeries D n =
     await (an_query D (cache_series_sql n) []) (\<lambda>rs.
     return (map (\<lambda>r. \<lparr>pt_t = map_of r ''t'', pt_value = int_or_zero (an_fmt D) (map_of r ''value'')\<rparr>) rs))"

record edge_stat =
  es_region :: "dval option"
  es_requests :: "int js"
  es_cacheHitRatio :: "rat js"
  es_avgLatencyMs :: "rat js"
  es_lastSeen :: "dval option"

definition getEdgeStats :: "'w analytics_deps \<Rightarrow> int \<Rightarrow> ('w, edge_stat list) io" where
  "getEdgeStats D n =
     await (an_query D (edges_sql n) []) (\<lambda>rs.
     return (map (\<lambda>r. \<lparr>es_region = map_of r ''region'', es_requests = int_col (an_fmt D) (map_of r ''requests''),
        es_cacheHitRatio = float_or_zero (an_fmt D) (map_of r ''cache_hit_ratio''),
        es_avgLatencyMs = float_or_zero (an_fmt D) (map_of r ''avg_latency_ms''), es_lastSeen = map_of r ''last_seen''\<rparr>) rs))"

section \<open>The events themselves\<close>

definition mapEventRow :: "row \<Rightarrow> event_entity" where
  "mapEventRow r =
     \<lparr>ee_time = map_of r ''time'', ee_service = map_of r ''service'', ee_method = map_of r ''method'', ee_path = map_of r ''path'',
      ee_status = map_of r ''status'', ee_latencyMs = map_of r ''latency_ms'', ee_userId = map_of r ''user_id'', ee_ip = map_of r ''ip'',
      ee_country = map_of r ''country'', ee_cacheHit = map_of r ''cache_hit'', ee_bytes = map_of r ''bytes'',
      ee_edgeRegion = map_of r ''edge_region'', ee_requestId = map_of r ''request_id''\<rparr>"

definition recent_sql :: string where
  "recent_sql = ''SELECT * FROM request_events ORDER BY time DESC LIMIT $1''"

definition getRecentEvents :: "'w analytics_deps \<Rightarrow> int \<Rightarrow> ('w, event_entity list) io" where
  "getRecentEvents D limit = await (an_query D recent_sql [Plain (JNum limit)]) (\<lambda>rs. return (map mapEventRow rs))"

record search_filters =
  sf_method :: "string option"
  sf_service :: "string option"
  sf_statusClass :: "string option"
  sf_query :: "string option"
  sf_limit :: "int option"
  sf_offset :: "int option"

text \<open>A condition and the numbers of the parameters it compares with.\<close>

datatype condition = Method_is nat | Service_is nat | Status_in nat nat | Any_like nat

definition dollar :: "nat \<Rightarrow> string" where
  "dollar i = CHR ''$'' # show_nat i"

fun condition_sql :: "condition \<Rightarrow> string" where
  "condition_sql (Method_is i) = ''method = '' @ dollar i"
| "condition_sql (Service_is i) = ''service = '' @ dollar i"
| "condition_sql (Status_in i j) = ''status >= '' @ dollar i @ '' AND status < '' @ dollar j"
| "condition_sql (Any_like i) =
     ''(path ILIKE '' @ dollar i @ '' OR ip::text ILIKE '' @ dollar i @ '' OR request_id::text ILIKE '' @ dollar i @ '')''"

text \<open>Each filter pushes its parameters and a condition that names them by their positions.\<close>

definition add_method :: "search_filters \<Rightarrow> dval list \<times> condition list \<Rightarrow> dval list \<times> condition list" where
  "add_method f pc = (case pc of (params, conds) \<Rightarrow>
     if truthy (sf_method f)
     then (params @ [Plain (JStr (the (sf_method f)))], conds @ [Method_is (Suc (length params))]) else (params, conds))"

definition add_service :: "search_filters \<Rightarrow> dval list \<times> condition list \<Rightarrow> dval list \<times> condition list" where
  "add_service f pc = (case pc of (params, conds) \<Rightarrow>
     if truthy (sf_service f)
     then (params @ [Plain (JStr (the (sf_service f)))], conds @ [Service_is (Suc (length params))]) else (params, conds))"

text \<open>\<open>parseInt(s[0], 10) * 100\<close>; the driver sends \<open>NaN\<close> as the text NaN.\<close>

definition status_base :: "string \<Rightarrow> int js" where
  "status_base s = js_map (\<lambda>n. n * 100) (parse_int [hd s])"

fun num_param :: "int js \<Rightarrow> dval" where
  "num_param (Num n) = Plain (JNum n)"
| "num_param NaN = Plain (JStr ''NaN'')"

definition add_status :: "search_filters \<Rightarrow> dval list \<times> condition list \<Rightarrow> dval list \<times> condition list" where
  "add_status f pc = (case pc of (params, conds) \<Rightarrow>
     if truthy (sf_statusClass f) then
       (let base = status_base (the (sf_statusClass f)); params' = params @ [num_param base, num_param (js_map (\<lambda>n. n + 100) base)]
        in (params', conds @ [Status_in (length params' - 1) (length params')]))
     else (params, conds))"

definition add_query :: "search_filters \<Rightarrow> dval list \<times> condition list \<Rightarrow> dval list \<times> condition list" where
  "add_query f pc = (case pc of (params, conds) \<Rightarrow>
     if truthy (sf_query f)
     then (params @ [Plain (JStr (''%'' @ the (sf_query f) @ ''%''))], conds @ [Any_like (Suc (length params))]) else (params, conds))"

definition filter_parts :: "search_filters \<Rightarrow> dval list \<times> condition list" where
  "filter_parts f = add_query f (add_status f (add_service f (add_method f ([], []))))"

fun join_and :: "string list \<Rightarrow> string" where
  "join_and [] = []"
| "join_and [c] = c"
| "join_and (c # d # cs) = c @ '' AND '' @ join_and (d # cs)"

definition where_clause :: "condition list \<Rightarrow> string" where
  "where_clause conds = (if length conds > 0 then ''WHERE '' @ join_and (map condition_sql conds) else [])"

definition search_limit :: "search_filters \<Rightarrow> int" where
  "search_limit f = min (case sf_limit f of None \<Rightarrow> 50 | Some n \<Rightarrow> n) 200"

definition search_offset :: "search_filters \<Rightarrow> int" where
  "search_offset f = (case sf_offset f of None \<Rightarrow> 0 | Some n \<Rightarrow> n)"

definition data_sql :: "condition list \<Rightarrow> nat \<Rightarrow> string" where
  "data_sql conds k =
     ''SELECT * FROM request_events '' @ where_clause conds @ '' ORDER BY time DESC LIMIT '' @ dollar (k + 1) @ '' OFFSET '' @ dollar (k + 2)"

definition count_sql :: "condition list \<Rightarrow> string" where
  "count_sql conds = ''SELECT COUNT(*)::integer as total FROM request_events '' @ where_clause conds"

definition searchEvents :: "'w analytics_deps \<Rightarrow> search_filters \<Rightarrow> ('w, event_entity list \<times> dval) io" where
  "searchEvents D f =
     (case filter_parts f of (params, conds) \<Rightarrow>
       await (an_query D (data_sql conds (length params))
                (params @ [Plain (JNum (search_limit f)), Plain (JNum (search_offset f))])) (\<lambda>data.
       await (an_query D (count_sql conds) params) (\<lambda>countResult.
       return (map mapEventRow data,
               case first_col countResult ''total'' of None \<Rightarrow> Plain (JNum 0) | Some (Plain JNull) \<Rightarrow> Plain (JNum 0) | Some v \<Rightarrow> v))))"

section \<open>Routes\<close>

text \<open>
  \<open>new DefaultValuePipe(d), ParseIntPipe\<close> of Nest on a query parameter: an integer in decimal
  digits, or 400; a parameter that is not sent has its default.
\<close>

definition decimal_int :: "string \<Rightarrow> bool" where
  "decimal_int s =
     (let ds = (if s \<noteq> [] \<and> hd s = CHR ''-'' then tl s else s) in ds \<noteq> [] \<and> list_all is_digit ds)"

definition int_param :: "int \<Rightarrow> string option \<Rightarrow> ('w, int) io" where
  "int_param d v =
     (case v of None \<Rightarrow> return d
      | Some s \<Rightarrow> (case (decimal_int s, parse_int s) of
           (True, Num n) \<Rightarrow> return n
         | _ \<Rightarrow> throw (Http 400 ''Validation failed (numeric string is expected)'')))"

definition summary_route :: "'w analytics_deps \<Rightarrow> string option \<Rightarrow> ('w, summary_stats) io" where
  "summary_route D window = await (int_param 1440 window) (getSummaryStats D)"

definition rate_route :: "'w analytics_deps \<Rightarrow> string option \<Rightarrow> ('w, point list) io" where
  "rate_route D window = await (int_param 60 window) (getRequestRate D)"

definition topPaths_route :: "'w analytics_deps \<Rightarrow> string option \<Rightarrow> string option \<Rightarrow> ('w, (dval option \<times> int js \<times> rat js) list) io" where
  "topPaths_route D window limit = await (int_param 60 window) (\<lambda>n. await (int_param 10 limit) (\<lambda>k. getTopPaths D k n))"

definition byService_route :: "'w analytics_deps \<Rightarrow> string option \<Rightarrow> ('w, (dval option \<times> int js \<times> int js) list) io" where
  "byService_route D window = await (int_param 60 window) (getRequestsByService D)"

definition cacheRatio_route :: "'w analytics_deps \<Rightarrow> string option \<Rightarrow> ('w, cache_ratio) io" where
  "cacheRatio_route D window = await (int_param 60 window) (getCacheHitRatio D)"

definition cacheSeries_route :: "'w analytics_deps \<Rightarrow> string option \<Rightarrow> ('w, point list) io" where
  "cacheSeries_route D window = await (int_param 60 window) (getCacheHitRatioTimeSeries D)"

definition edges_route :: "'w analytics_deps \<Rightarrow> string option \<Rightarrow> ('w, edge_stat list) io" where
  "edges_route D window = await (int_param 60 window) (getEdgeStats D)"

definition latency_route :: "'w analytics_deps \<Rightarrow> string option \<Rightarrow> ('w, percentiles) io" where
  "latency_route D window = await (int_param 60 window) (getLatencyPercentiles D)"

definition bandwidth_route :: "'w analytics_deps \<Rightarrow> string option \<Rightarrow> ('w, point list) io" where
  "bandwidth_route D window = await (int_param 60 window) (getBandwidthOverTime D)"

definition errors_route :: "'w analytics_deps \<Rightarrow> string option \<Rightarrow> ('w, error_rate) io" where
  "errors_route D window = await (int_param 60 window) (getErrorRate D)"

definition geo_route :: "'w analytics_deps \<Rightarrow> string option \<Rightarrow> ('w, (dval option \<times> int js \<times> rat js) list) io" where
  "geo_route D window = await (int_param 60 window) (getGeoDistribution D)"

definition activeUsers_route :: "'w analytics_deps \<Rightarrow> string option \<Rightarrow> ('w, int js) io" where
  "activeUsers_route D window = await (int_param 15 window) (getActiveUsers D)"

definition recentEvents_route :: "'w analytics_deps \<Rightarrow> string option \<Rightarrow> ('w, event_entity list) io" where
  "recentEvents_route D limit = await (int_param 50 limit) (getRecentEvents D)"

definition searchEvents_route ::
  "'w analytics_deps \<Rightarrow> string option \<Rightarrow> string option \<Rightarrow> string option \<Rightarrow> string option \<Rightarrow> string option \<Rightarrow> string option
    \<Rightarrow> ('w, event_entity list \<times> dval) io" where
  "searchEvents_route D method service status q limit offset =
     await (int_param 50 limit) (\<lambda>l.
     await (int_param 0 offset) (\<lambda>k.
     searchEvents D \<lparr>sf_method = method, sf_service = service, sf_statusClass = status, sf_query = q,
                     sf_limit = Some l, sf_offset = Some k\<rparr>))"

section \<open>Messages\<close>

definition an_publishRequestEvent :: "'w kafka \<Rightarrow> json \<Rightarrow> ('w, unit) io" where
  "an_publishRequestEvent K event =
     try_catch (kafka_send K ''request.events'' (show_json event)) (\<lambda>e. throw e)"

definition an_publishStorageEvent :: "'w kafka \<Rightarrow> json \<Rightarrow> ('w, unit) io" where
  "an_publishStorageEvent K event =
     try_catch (kafka_send K ''storage.events'' (show_json event)) (\<lambda>e. throw e)"

text \<open>
  The consumer. \<open>flushBatch\<close> is asynchronous: what it does before it waits for the database is
  \<open>flush_begin\<close>, which hands over the batch to be written, and what it does afterwards is
  \<open>flush_end\<close>; messages and the timer can come in between.
\<close>

record consumer =
  co_batch :: "json list"
  co_isProcessing :: bool

definition flush_begin :: "consumer \<Rightarrow> json list option \<times> consumer" where
  "flush_begin c =
     (if co_batch c = [] \<or> co_isProcessing c then (None, c)
      else (Some (co_batch c), c\<lparr>co_batch := [], co_isProcessing := True\<rparr>))"

definition flush_end :: "consumer \<Rightarrow> consumer" where
  "flush_end c = c\<lparr>co_isProcessing := False\<rparr>"

text \<open>The handler of a message up to its wait: the message is pushed, and a full batch is flushed.\<close>

definition an_eachMessage :: "string \<Rightarrow> string option \<Rightarrow> consumer \<Rightarrow> json list option \<times> consumer" where
  "an_eachMessage topic value c =
     (case value of
        None \<Rightarrow> (None, c)
      | Some eventStr \<Rightarrow>
          (case json_parse eventStr of
             None \<Rightarrow> (None, c)
           | Some event \<Rightarrow>
               if topic = ''request.events'' then
                 (let c' = c\<lparr>co_batch := co_batch c @ [event]\<rparr>
                  in if length (co_batch c') \<ge> 1000 then flush_begin c' else (None, c'))
               else (None, c)))"

text \<open>The whole flush, with nothing in between, as at the shutdown, which waits for it.\<close>

definition flushBatch :: "'w analytics_deps \<Rightarrow> ('w \<times> consumer, unit) io" where
  "flushBatch D =
     await get_ctx (\<lambda>c.
     case flush_begin c of
       (None, _) \<Rightarrow> return ()
     | (Some currentBatch, c') \<Rightarrow>
         await (mod_ctx (\<lambda>_. c')) (\<lambda>_.
         await (on_world (try_catch (ingestEventBatch D currentBatch) (\<lambda>e. return ()))) (\<lambda>_.
         mod_ctx flush_end)))"

section \<open>Health\<close>

record analytics_health =
  ah_status :: string
  ah_kafka :: string
  ah_db :: string
  ah_eventsIngested :: nat
  ah_uptime :: int

definition an_getHealth :: "'w analytics_deps \<Rightarrow> bool \<Rightarrow> int \<Rightarrow> ('w, analytics_health) io" where
  "an_getHealth D isInitialized startTime =
     await (date_now (an_sys D)) (\<lambda>now.
     return \<lparr>ah_status = ''ok'', ah_kafka = ''connected'', ah_db = (if isInitialized then ''up'' else ''down''),
             ah_eventsIngested = 0, ah_uptime = \<lfloor>fdiv (of_int (now - startTime)) 1000\<rfloor>\<rparr>)"

end
