(* ===== verification/Analytics_Ingest.thy ===== *)
theory Analytics_Ingest
  imports Analytics World
begin

text \<open>
  What becomes of the events the analytics service receives: the batches under construction and in
  flight, whatever the order in which messages, ticks of the timer and answers of the database
  come, and what a batch that reaches the database holds.
\<close>

section \<open>Runs of the consumer\<close>

text \<open>
  An answer of the database comes with the world in which the rows of its batch were made and inserted; whether they were
  decides \<open>inserted\<close>, as \<open>ingestEventBatch\<close> does, which tells nobody.
\<close>

datatype 'w an_event = Message string "string option" | Tick | Answer 'w

definition inserted :: "'w analytics_deps \<Rightarrow> json list \<Rightarrow> 'w \<Rightarrow> bool" where
  "inserted D events w =
     (case entities_of D events w of
        (Inl e, w1) \<Rightarrow> False
      | (Inr entities, w1) \<Rightarrow> (case an_insert D entities w1 of (Inl e, w2) \<Rightarrow> False | (Inr u, w2) \<Rightarrow> True))"

text \<open>The consumer, the batch that is in flight, and the earlier ones, each with the world of its answer.\<close>

record 'w ingest_run =
  ir_consumer :: consumer
  ir_running :: "json list option"
  ir_settled :: "(json list \<times> 'w) list"

definition idle :: "'w ingest_run" where
  "idle = \<lparr>ir_consumer = \<lparr>co_batch = [], co_isProcessing = False\<rparr>, ir_running = None, ir_settled = []\<rparr>"

text \<open>The events that are in the database.\<close>

definition stored :: "'w analytics_deps \<Rightarrow> 'w ingest_run \<Rightarrow> json list" where
  "stored D r = concat (map fst (filter (\<lambda>(b, w). inserted D b w) (ir_settled r)))"

text \<open>A flush that began runs until the database has answered.\<close>

definition begun :: "json list option \<times> consumer \<Rightarrow> 'w ingest_run \<Rightarrow> 'w ingest_run" where
  "begun bc r = r\<lparr>ir_consumer := snd bc, ir_running := (case fst bc of None \<Rightarrow> ir_running r | Some b \<Rightarrow> Some b)\<rparr>"

definition ended :: "json list \<times> 'w \<Rightarrow> 'w ingest_run \<Rightarrow> 'w ingest_run" where
  "ended b r = \<lparr>ir_consumer = flush_end (ir_consumer r), ir_running = None, ir_settled = ir_settled r @ [b]\<rparr>"

inductive ingest_step :: "'w ingest_run \<Rightarrow> 'w an_event \<Rightarrow> 'w ingest_run \<Rightarrow> bool" where
  message: "ingest_step r (Message topic value) (begun (an_eachMessage topic value (ir_consumer r)) r)"
| tick: "ingest_step r Tick (begun (flush_begin (ir_consumer r)) r)"
| answer: "ir_running r = Some b \<Longrightarrow> ingest_step r (Answer w) (ended (b, w) r)"

inductive_simps ingest_step_simps: "ingest_step r (Message topic value) r'" "ingest_step r Tick r'" "ingest_step r (Answer w) r'"

inductive ingest_runs :: "'w ingest_run \<Rightarrow> 'w an_event list \<Rightarrow> 'w ingest_run \<Rightarrow> bool" for r where
  start: "ingest_runs r [] r"
| step: "ingest_runs r es r' \<Longrightarrow> ingest_step r' e r'' \<Longrightarrow> ingest_runs r (es @ [e]) r''"

text \<open>The events that were accepted: the parsed values of the messages on the topic of requests.\<close>

fun accepted :: "'w an_event \<Rightarrow> json list" where
  "accepted (Message topic value) =
     (case value of None \<Rightarrow> []
      | Some s \<Rightarrow> (case json_parse s of None \<Rightarrow> [] | Some j \<Rightarrow> if topic = ''request.events'' then [j] else []))"
| "accepted Tick = []"
| "accepted (Answer w) = []"

definition in_flight :: "'w ingest_run \<Rightarrow> json list" where
  "in_flight r = (case ir_running r of None \<Rightarrow> [] | Some b \<Rightarrow> b)"

definition held :: "'w ingest_run \<Rightarrow> json list" where
  "held r = concat (map fst (ir_settled r)) @ in_flight r @ co_batch (ir_consumer r)"

definition flag_ok :: "'w ingest_run \<Rightarrow> bool" where
  "flag_ok r \<longleftrightarrow> co_isProcessing (ir_consumer r) = (ir_running r \<noteq> None)"

text \<open>The worlds of the answers.\<close>

fun answer_of :: "'w an_event \<Rightarrow> 'w list" where
  "answer_of (Answer w) = [w]"
| "answer_of (Message topic value) = []"
| "answer_of Tick = []"

lemma flush_begin_held:
  assumes "flag_ok r"
  shows "held (begun (flush_begin (ir_consumer r)) r) = held r" and "flag_ok (begun (flush_begin (ir_consumer r)) r)"
  using assms by (auto simp: flush_begin_def begun_def held_def in_flight_def flag_ok_def)

lemma message_held:
  assumes "flag_ok r"
  shows "held (begun (an_eachMessage topic value (ir_consumer r)) r) = held r @ accepted (Message topic value)"
    and "flag_ok (begun (an_eachMessage topic value (ir_consumer r)) r)"
proof -
  have same: "begun (None, ir_consumer r) r = r" by (simp add: begun_def)
  show "held (begun (an_eachMessage topic value (ir_consumer r)) r) = held r @ accepted (Message topic value)"
    "flag_ok (begun (an_eachMessage topic value (ir_consumer r)) r)"
    using assms
    by (auto simp: an_eachMessage_def same flush_begin_def begun_def held_def in_flight_def flag_ok_def Let_def split: option.split)
qed

lemma begun_settled [simp]: "ir_settled (begun bc r) = ir_settled r"
  by (simp add: begun_def)

lemma ingest_step_held:
  assumes "ingest_step r e r'" and "flag_ok r"
  shows "held r' = held r @ accepted e" and "flag_ok r'"
proof -
  show "held r' = held r @ accepted e"
    using assms by (cases rule: ingest_step.cases)
      (auto simp: message_held flush_begin_held simp del: accepted.simps(1), auto simp: held_def in_flight_def flush_end_def ended_def)
  show "flag_ok r'"
    using assms by (cases rule: ingest_step.cases)
      (auto simp: message_held flush_begin_held, auto simp: flag_ok_def flush_end_def ended_def)
qed

lemma ingest_step_answers: "ingest_step r e r' \<Longrightarrow> map snd (ir_settled r') = map snd (ir_settled r) @ answer_of e"
  by (cases rule: ingest_step.cases) (auto simp: ended_def)

lemma ingest_runs_held:
  assumes "ingest_runs idle es r"
  shows "held r = concat (map accepted es) \<and> flag_ok r \<and> map snd (ir_settled r) = concat (map answer_of es)"
  using assms
  by (induction rule: ingest_runs.induct)
     (auto simp: ingest_step_held ingest_step_answers, auto simp: idle_def held_def in_flight_def flag_ok_def)

lemma one_step: "ingest_step r e r' \<Longrightarrow> ingest_runs r [e] r'"
  using step [OF start] by fastforce

text \<open>What it takes to settle everything that is held, when the database answers in the world \<open>w\<close>.\<close>

definition drain :: "'w \<Rightarrow> 'w ingest_run \<Rightarrow> 'w an_event list" where
  "drain w r = (if ir_running r = None then [] else [Answer w]) @ (if co_batch (ir_consumer r) = [] then [] else [Tick, Answer w])"

lemma tick_answer:
  assumes "ir_running r = None" and "flag_ok r"
  shows "\<exists>r'. ingest_runs r (if co_batch (ir_consumer r) = [] then [] else [Tick, Answer w]) r' \<and>
    ir_running r' = None \<and> co_batch (ir_consumer r') = []"
proof (cases "co_batch (ir_consumer r) = []")
  case True
  then show ?thesis using assms(1) by (auto intro: start)
next
  case False
  define r1 where "r1 = begun (flush_begin (ir_consumer r)) r"
  have r1: "ir_running r1 = Some (co_batch (ir_consumer r))" "co_batch (ir_consumer r1) = []"
    using assms False by (simp_all add: r1_def begun_def flush_begin_def flag_ok_def)
  have "ingest_runs r [Tick] r1" unfolding r1_def by (intro one_step tick)
  from step [OF this answer [OF r1(1), where w = w]] show ?thesis
    using False r1(2) by (intro exI conjI) (assumption | simp add: flush_end_def ended_def)+
qed

lemma ingest_runs_append:
  assumes "ingest_runs r es r'" and "ingest_runs r' fs r''"
  shows "ingest_runs r (es @ fs) r''"
  using assms(2)
proof (induction rule: ingest_runs.induct)
  case (step fs' x e y)
  from ingest_runs.step [OF step.IH step.hyps(2)] show ?case by simp
qed (simp add: assms(1))

lemma drain_runs:
  assumes "flag_ok r"
  shows "\<exists>r'. ingest_runs r (drain w r) r' \<and> in_flight r' = [] \<and> co_batch (ir_consumer r') = []"
proof (cases "ir_running r")
  case None
  obtain r' where "ingest_runs r (if co_batch (ir_consumer r) = [] then [] else [Tick, Answer w]) r'"
      "ir_running r' = None" "co_batch (ir_consumer r') = []"
    using tick_answer [OF None assms] by blast
  moreover have "drain w r = (if co_batch (ir_consumer r) = [] then [] else [Tick, Answer w])"
    by (simp add: drain_def None)
  ultimately show ?thesis by (auto simp: in_flight_def)
next
  case (Some b)
  define r1 where "r1 = ended (b, w) r"
  have "ingest_runs r [Answer w] r1" unfolding r1_def by (intro one_step answer Some)
  moreover obtain r' where "ingest_runs r1 (if co_batch (ir_consumer r1) = [] then [] else [Tick, Answer w]) r'"
      "ir_running r' = None" "co_batch (ir_consumer r') = []"
    using tick_answer [of r1] by (auto simp: r1_def ended_def flag_ok_def flush_end_def)
  ultimately have "ingest_runs r (drain w r) r'"
    using ingest_runs_append [of r "[Answer w]" r1] by (simp add: drain_def Some r1_def ended_def flush_end_def split: if_splits)
  then show ?thesis using \<open>ir_running r' = None\<close> \<open>co_batch (ir_consumer r') = []\<close> by (auto simp: in_flight_def)
qed

lemma drain_accepts_nothing: "concat (map accepted (drain w r)) = []"
  by (simp add: drain_def)

section \<open>What a batch becomes\<close>

lemma entity_of_null: "entity_of D JNull = throw (JsError ''Cannot read properties of null (reading time)'')"
  by (simp add: entity_of_def read_of_def)

definition describes :: "json \<Rightarrow> event_entity \<Rightarrow> bool" where
  "describes e x \<longleftrightarrow> ee_service x = plain_of ''service'' e \<and> ee_path x = plain_of ''path'' e \<and> ee_status x = plain_of ''status'' e \<and>
     ee_latencyMs x = plain_of ''latencyMs'' e \<and> ee_userId x = plain_of ''userId'' e \<and> ee_requestId x \<noteq> None"

lemma entity_of_ok:
  assumes "sys_ok (an_sys D) clk gen v" and "e \<noteq> JNull"
  shows "\<exists>x w'. entity_of D e w = (Inr x, w') \<and> describes e x \<and> v w' = v w"
proof -
  obtain w1 where u: "uuid_v4 (an_sys D) w = (Inr (gen w), w1)" "v w1 = v w"
    using sys_ok_uuid [OF assms(1)] by metis
  show ?thesis
    using assms(2) u by (simp add: entity_of_def read_of_def await_def sys_ok_now [OF assms(1)] describes_def)
qed

lemma entities_of_ok:
  assumes S: "sys_ok (an_sys D) clk gen v" and "JNull \<notin> set es"
  shows "\<exists>xs w'. entities_of D es w = (Inr xs, w') \<and> list_all2 describes es xs \<and> v w' = v w"
  using assms(2)
proof (induction es arbitrary: w)
  case (Cons e es)
  obtain x w1 where 1: "entity_of D e w = (Inr x, w1)" "describes e x" "v w1 = v w"
    using entity_of_ok [OF S, of e w] Cons.prems by auto
  obtain xs w2 where "entities_of D es w1 = (Inr xs, w2)" "list_all2 describes es xs" "v w2 = v w1"
    using Cons.IH [of w1] Cons.prems by auto
  then show ?case using 1 by (simp add: await_def)
qed simp

lemma entities_of_null:
  assumes S: "sys_ok (an_sys D) clk gen v" and "JNull \<in> set es"
  shows "\<exists>e w'. entities_of D es w = (Inl e, w') \<and> v w' = v w"
  using assms(2)
proof (induction es arbitrary: w)
  case (Cons e es)
  show ?case
  proof (cases "e = JNull")
    case True
    then show ?thesis by (simp add: entity_of_null)
  next
    case False
    obtain x w1 where 1: "entity_of D e w = (Inr x, w1)" "v w1 = v w"
      using entity_of_ok [OF S False, of w] by auto
    then show ?thesis using Cons.IH [of w1] Cons.prems False by (auto simp: await_def)
  qed
qed simp

text \<open>A batch is in the database unless it holds a \<open>null\<close> or the database refused it.\<close>

lemma inserted_iff:
  assumes S: "sys_ok (an_sys D) clk gen v"
  shows "inserted D events w \<longleftrightarrow>
    JNull \<notin> set events \<and> (\<exists>entities w1 w2. entities_of D events w = (Inr entities, w1) \<and> an_insert D entities w1 = (Inr (), w2))"
proof (cases "JNull \<in> set events")
  case True
  obtain e w' where "entities_of D events w = (Inl e, w')" using entities_of_null [OF S True, of w] by blast
  then show ?thesis using True by (simp add: inserted_def)
next
  case False
  obtain xs w' where "entities_of D events w = (Inr xs, w')" using entities_of_ok [OF S False, of w] by blast
  then show ?thesis using False by (auto simp: inserted_def split: prod.splits sum.splits)
qed

lemma not_inserted_iff:
  assumes S: "sys_ok (an_sys D) clk gen v"
  shows "\<not> inserted D events w \<longleftrightarrow>
    JNull \<in> set events \<or> (\<exists>entities w1 e w2. entities_of D events w = (Inr entities, w1) \<and> an_insert D entities w1 = (Inl e, w2))"
proof (cases "JNull \<in> set events")
  case False
  then obtain xs w1 where xs: "entities_of D events w = (Inr xs, w1)" using entities_of_ok [OF S, of events w] by blast
  obtain q w2 where "an_insert D xs w1 = (q, w2)" by fastforce
  then show ?thesis using False xs by (cases q) (simp_all add: inserted_def)
qed (simp add: inserted_iff [OF S])

definition database_up :: "'w analytics_deps \<Rightarrow> bool" where
  "database_up D \<longleftrightarrow> (\<forall>entities w. \<exists>w'. an_insert D entities w = (Inr (), w'))"

lemma inserted_up:
  assumes S: "sys_ok (an_sys D) clk gen v" and up: "database_up D"
  shows "inserted D events w \<longleftrightarrow> JNull \<notin> set events"
proof
  assume "JNull \<notin> set events"
  moreover from this obtain xs w1 where "entities_of D events w = (Inr xs, w1)" using entities_of_ok [OF S, of events w] by blast
  moreover obtain w2 where "an_insert D xs w1 = (Inr (), w2)" using up by (auto simp: database_up_def)
  ultimately show "inserted D events w" by (auto simp: inserted_iff [OF S])
qed (simp add: inserted_iff [OF S])

lemma stored_up:
  assumes S: "sys_ok (an_sys D) clk gen v" and up: "database_up D"
    and no: "JNull \<notin> set (concat (map fst (ir_settled r)))"
  shows "stored D r = concat (map fst (ir_settled r))"
proof -
  have "inserted D b w" if "(b, w) \<in> set (ir_settled r)" for b w
    using that no by (force simp: inserted_up [OF S up])
  then have "filter (\<lambda>(b, w). inserted D b w) (ir_settled r) = ir_settled r" by (auto simp: filter_id_conv)
  then show ?thesis by (simp add: stored_def)
qed

text \<open>The flush of the code, alone: its two halves around the ingestion, whatever that comes to.\<close>

lemma flushBatch_halves:
  "flushBatch D (w, c) =
     (case flush_begin c of
        (None, c') \<Rightarrow> (Inr (), (w, c))
      | (Some b, c') \<Rightarrow> (Inr (), (snd (ingestEventBatch D b w), flush_end c')))"
proof -
  have "\<exists>w'. ingestEventBatch D b w = (Inr (), w')" for b
    by (auto simp: ingestEventBatch_def try_catch_def split: prod.splits sum.splits)
  then show ?thesis
    by (simp add: flushBatch_def await_def on_world_def try_catch_def split: prod.split option.split sum.split)
qed

text \<open>
  C22. The consumer loses no event on its way to the database and hands none over twice: after any sequence of messages, ticks and
  answers, the events of the batches that were handed over, of the one in flight and of the one that is collected are, in
  this order, exactly the accepted ones; at most one flush is in flight, and each answer settled one batch. A batch that was handed
  over is in the database as a whole or not at all, and it is not exactly when one of its events is \<open>null\<close> or the database refused the
  insert; the consumer never hears of that. The answer that is due, a tick and its answer hand over all there is; so all accepted
  events are then in the database, if the database refuses nothing and none of them is \<open>null\<close>. A flush while another one is in flight
  does nothing, so a shutdown at such a moment leaves the batch behind.
\<close>

theorem consumer_delivers:
  assumes run: "ingest_runs idle es r" and S: "sys_ok (an_sys D) clk gen v"
  shows "concat (map fst (ir_settled r)) @ in_flight r @ co_batch (ir_consumer r) = concat (map accepted es) \<and>
    (co_isProcessing (ir_consumer r) \<longleftrightarrow> ir_running r \<noteq> None) \<and> map snd (ir_settled r) = concat (map answer_of es) \<and>
    (\<forall>(b, w) \<in> set (ir_settled r). \<not> inserted D b w \<longleftrightarrow>
       JNull \<in> set b \<or> (\<exists>entities w1 e w2. entities_of D b w = (Inr entities, w1) \<and> an_insert D entities w1 = (Inl e, w2))) \<and>
    (\<forall>w. \<exists>r'. ingest_runs idle (es @ drain w r) r' \<and> concat (map fst (ir_settled r')) = concat (map accepted es) \<and>
       (database_up D \<and> JNull \<notin> set (concat (map accepted es)) \<longrightarrow> stored D r' = concat (map accepted es))) \<and>
    (ir_running r \<noteq> None \<longrightarrow> flushBatch D (w, ir_consumer r) = (Inr (), (w, ir_consumer r)))"
proof (intro conjI allI impI)
  have inv: "held r = concat (map accepted es)" "flag_ok r" using ingest_runs_held [OF run] by auto
  show "concat (map fst (ir_settled r)) @ in_flight r @ co_batch (ir_consumer r) = concat (map accepted es)"
    using inv(1) by (simp add: held_def)
  show flag: "co_isProcessing (ir_consumer r) \<longleftrightarrow> ir_running r \<noteq> None"
    using inv(2) by (simp add: flag_ok_def)
  show "map snd (ir_settled r) = concat (map answer_of es)" using ingest_runs_held [OF run] by simp
  show "flushBatch D (w, ir_consumer r) = (Inr (), (w, ir_consumer r))" if "ir_running r \<noteq> None"
    using flag that by (simp add: flushBatch_halves flush_begin_def)
  show "\<forall>(b, w) \<in> set (ir_settled r). \<not> inserted D b w \<longleftrightarrow>
       JNull \<in> set b \<or> (\<exists>entities w1 e w2. entities_of D b w = (Inr entities, w1) \<and> an_insert D entities w1 = (Inl e, w2))"
    by (auto simp: not_inserted_iff [OF S])
  fix w
  obtain r' where r': "ingest_runs r (drain w r) r'" "in_flight r' = []" "co_batch (ir_consumer r') = []"
    using drain_runs [OF inv(2)] by blast
  have all: "ingest_runs idle (es @ drain w r) r'" by (rule ingest_runs_append [OF run r'(1)])
  then have settled: "concat (map fst (ir_settled r')) = concat (map accepted es)"
    using ingest_runs_held [OF all] r'(2,3) by (simp add: drain_accepts_nothing held_def)
  have "stored D r' = concat (map accepted es)" if "database_up D \<and> JNull \<notin> set (concat (map accepted es))"
    using stored_up [OF S, of r'] that settled by simp
  with all settled show "\<exists>r'. ingest_runs idle (es @ drain w r) r' \<and> concat (map fst (ir_settled r')) = concat (map accepted es) \<and>
       (database_up D \<and> JNull \<notin> set (concat (map accepted es)) \<longrightarrow> stored D r' = concat (map accepted es))" by blast
qed

text \<open>
  C23. A batch is written by a single insert that holds one row for each event, in order, or not at
  all. The caller never hears of it: a failed insert and an event that is \<open>null\<close>, which makes the
  whole batch unreadable before anything is sent, both answer success.
\<close>

theorem ingest_all_or_nothing:
  assumes S: "sys_ok (an_sys D) clk gen v" and nonempty: "events \<noteq> []"
  shows "if JNull \<in> set events then \<exists>w'. ingestEventBatch D events w = (Inr (), w') \<and> v w' = v w
    else \<exists>entities w'. list_all2 describes events entities \<and> v w' = v w \<and>
      ingestEventBatch D events w = (Inr (), snd (an_insert D entities w'))"
proof (cases "JNull \<in> set events")
  case True
  obtain e w' where "entities_of D events w = (Inl e, w')" "v w' = v w"
    using entities_of_null [OF S True, of w] by blast
  then show ?thesis using True nonempty by (simp add: ingestEventBatch_def try_catch_def await_def)
next
  case False
  obtain xs w' where "entities_of D events w = (Inr xs, w')" "list_all2 describes events xs" "v w' = v w"
    using entities_of_ok [OF S False, of w] by blast
  moreover have "ingestEventBatch D events w = (Inr (), snd (an_insert D xs w'))"
    using calculation(1) nonempty
    by (simp add: ingestEventBatch_def try_catch_def await_def split: prod.split sum.split)
  ultimately show ?thesis using False by auto
qed

section \<open>The service in the world\<close>

record event_world = world +
  w_events :: "event_entity list"

definition world_ingest :: "event_world analytics_deps" where
  "world_ingest =
     \<lparr>an_query = (\<lambda>t ps. return []), an_insert = (\<lambda>xs w. (Inr (), w\<lparr>w_events := w_events w @ xs\<rparr>)), an_sys = world_sys, an_fmt = world_numfmt\<rparr>"

definition event_world_at :: "int \<Rightarrow> event_world" where
  "event_world_at t = world.extend (world_at t) \<lparr>w_events = []\<rparr>"

lemma world_ingest_sys: "sys_ok (an_sys world_ingest) w_now next_uuid w_events"
  by (simp add: sys_ok_def world_ingest_def world_sys_def)

text \<open>A message, a flush, and a message while the first is in flight.\<close>

definition two_messages :: "event_world an_event list" where
  "two_messages = [Message ''request.events'' (Some (show_json (JNum 7))), Tick, Message ''request.events'' (Some (show_json (JNum 8)))]"

theorem consumer_delivers_witness:
  "\<exists>r r'. ingest_runs idle two_messages r \<and> in_flight r = [JNum 7] \<and> co_batch (ir_consumer r) = [JNum 8] \<and>
    flushBatch world_ingest (event_world_at 0, ir_consumer r) = (Inr (), (event_world_at 0, ir_consumer r)) \<and>
    ingest_runs idle (two_messages @ drain (event_world_at 0) r) r' \<and> stored world_ingest r' = [JNum 7, JNum 8]"
proof -
  define r :: "event_world ingest_run" where "r = \<lparr>ir_consumer = \<lparr>co_batch = [JNum 8], co_isProcessing = True\<rparr>, ir_running = Some [JNum 7], ir_settled = []\<rparr>"
  define r1 :: "event_world ingest_run" where "r1 = begun (an_eachMessage ''request.events'' (Some (show_json (JNum 7))) (ir_consumer (idle :: event_world ingest_run))) idle"
  define r2 where "r2 = begun (flush_begin (ir_consumer r1)) r1"
  have 1: "ingest_runs idle [Message ''request.events'' (Some (show_json (JNum 7)))] r1"
    unfolding r1_def by (intro one_step message)
  have 2: "ingest_runs idle ([Message ''request.events'' (Some (show_json (JNum 7)))] @ [Tick]) r2"
    unfolding r2_def by (rule step [OF 1 tick])
  have "r = begun (an_eachMessage ''request.events'' (Some (show_json (JNum 8))) (ir_consumer r2)) r2"
    unfolding r_def r2_def r1_def an_eachMessage_def by (simp add: idle_def begun_def flush_begin_def del: show_json.simps)
  then have run: "ingest_runs idle two_messages r"
    using step [OF 2 message] by (simp add: two_messages_def del: show_json.simps)
  have acc: "concat (map accepted two_messages) = [JNum 7, JNum 8]" by (simp add: two_messages_def del: show_json.simps)
  have up: "database_up world_ingest" by (simp add: database_up_def world_ingest_def)
  note all = consumer_delivers [OF run world_ingest_sys, of "event_world_at 0", unfolded acc]
  have "\<forall>w. \<exists>r'. ingest_runs idle (two_messages @ drain w r) r' \<and> concat (map fst (ir_settled r')) = [JNum 7, JNum 8] \<and>
       (database_up world_ingest \<and> JNull \<notin> set [JNum 7, JNum 8] \<longrightarrow> stored world_ingest r' = [JNum 7, JNum 8])"
    using all by (elim conjE)
  with up obtain r' where "ingest_runs idle (two_messages @ drain (event_world_at 0) r) r'" "stored world_ingest r' = [JNum 7, JNum 8]"
    by fastforce
  moreover have "flushBatch world_ingest (event_world_at 0, ir_consumer r) = (Inr (), (event_world_at 0, ir_consumer r))"
    using all by (simp add: r_def)
  ultimately show ?thesis using run by (auto simp: r_def in_flight_def simp del: show_json.simps)
qed

theorem ingest_all_or_nothing_witness:
  "(\<exists>w'. ingestEventBatch world_ingest [JObj [(''path'', JStr ''/a'')], JNull] (event_world_at 5) = (Inr (), w') \<and> w_events w' = []) \<and>
   (\<exists>x w'. ingestEventBatch world_ingest [JObj [(''path'', JStr ''/a'')]] (event_world_at 5) = (Inr (), w') \<and>
      w_events w' = [x] \<and> ee_path x = Some (Plain (JStr ''/a'')))"
proof
  show "\<exists>w'. ingestEventBatch world_ingest [JObj [(''path'', JStr ''/a'')], JNull] (event_world_at 5) = (Inr (), w') \<and> w_events w' = []"
    using ingest_all_or_nothing [OF world_ingest_sys, of "[JObj [(''path'', JStr ''/a'')], JNull]" "event_world_at 5"]
    by (simp add: event_world_at_def world.defs)
next
  obtain xs w' where "list_all2 describes [JObj [(''path'', JStr ''/a'')]] xs" "w_events w' = w_events (event_world_at 5)"
      "ingestEventBatch world_ingest [JObj [(''path'', JStr ''/a'')]] (event_world_at 5) = (Inr (), snd (an_insert world_ingest xs w'))"
    using ingest_all_or_nothing [OF world_ingest_sys, of "[JObj [(''path'', JStr ''/a'')]]" "event_world_at 5"] by auto
  then show "\<exists>x w'. ingestEventBatch world_ingest [JObj [(''path'', JStr ''/a'')]] (event_world_at 5) = (Inr (), w') \<and>
      w_events w' = [x] \<and> ee_path x = Some (Plain (JStr ''/a''))"
    by (auto simp: list_all2_Cons1 describes_def plain_of_def world_ingest_def event_world_at_def world.defs)
qed

end
