(* ===== verification/Analytics_Reports.thy ===== *)
theory Analytics_Reports
  imports Analytics World "HOL-Library.Multiset"
begin

text \<open>
  The reports of the analytics service against the table they are computed from. The locale
  \<open>event_table\<close> says what the database answers to the texts the service sends; it fixes the pattern
  match of \<open>ILIKE\<close>, of which nothing is assumed. The search is shown to return exactly the events
  that its filters describe, and the ratios to be fractions of the counted events.
\<close>

section \<open>The table\<close>

definition row_time :: "row \<Rightarrow> int" where
  "row_time r = (case map_of r ''time'' of Some (Time (Num t)) \<Rightarrow> t | _ \<Rightarrow> 0)"

definition row_status :: "row \<Rightarrow> int option" where
  "row_status r = (case map_of r ''status'' of Some (Plain (JNum s)) \<Rightarrow> Some s | _ \<Rightarrow> None)"

definition row_hit :: "row \<Rightarrow> bool" where
  "row_hit r = (map_of r ''cache_hit'' = Some (Plain (JBool True)))"

definition row_failed :: "row \<Rightarrow> bool" where
  "row_failed r = (case row_status r of None \<Rightarrow> False | Some s \<Rightarrow> s \<ge> 400)"

definition row_bytes :: "row \<Rightarrow> int" where
  "row_bytes r = (case map_of r ''bytes'' of Some (Plain (JNum n)) \<Rightarrow> n | _ \<Rightarrow> 0)"

text \<open>What a condition means, given the parameters, which are numbered from 1.\<close>

fun holds :: "(string \<Rightarrow> row \<Rightarrow> bool) \<Rightarrow> dval list \<Rightarrow> condition \<Rightarrow> row \<Rightarrow> bool" where
  "holds like ps (Method_is i) r = (map_of r ''method'' = Some (ps ! (i - 1)))"
| "holds like ps (Service_is i) r = (map_of r ''service'' = Some (ps ! (i - 1)))"
| "holds like ps (Status_in i j) r =
     (case (row_status r, ps ! (i - 1), ps ! (j - 1)) of
        (Some s, Plain (JNum a), Plain (JNum b)) \<Rightarrow> a \<le> s \<and> s < b | _ \<Rightarrow> False)"
| "holds like ps (Any_like i) r = (case ps ! (i - 1) of Plain (JStr p) \<Rightarrow> like p r | _ \<Rightarrow> False)"

definition all_hold :: "(string \<Rightarrow> row \<Rightarrow> bool) \<Rightarrow> dval list \<Rightarrow> condition list \<Rightarrow> row \<Rightarrow> bool" where
  "all_hold like ps conds r = list_all (\<lambda>c. holds like ps c r) conds"

definition in_window :: "int \<Rightarrow> int \<Rightarrow> row \<Rightarrow> bool" where
  "in_window now n r = (row_time r > now - n * 60000)"

definition newest_first :: "row list \<Rightarrow> bool" where
  "newest_first = sorted_wrt (\<lambda>a b. row_time b \<le> row_time a)"

text \<open>A class of status codes starts with a digit; the database refuses anything else.\<close>

definition class_ok :: "search_filters \<Rightarrow> bool" where
  "class_ok f = (case sf_statusClass f of None \<Rightarrow> True | Some [] \<Rightarrow> True | Some (c # s) \<Rightarrow> is_digit c)"

text \<open>
  The answers: a page is a part of all matching rows, newest first; a sum over no row is \<open>NULL\<close>,
  a count is 0, and a bigint comes as text.
\<close>

locale event_table =
  fixes D :: "'w analytics_deps" and table :: "'w \<Rightarrow> row list" and now :: "'w \<Rightarrow> int" and like :: "string \<Rightarrow> row \<Rightarrow> bool"
  assumes page: "class_ok f \<Longrightarrow> filter_parts f = (ps, conds) \<Longrightarrow> 0 \<le> n \<Longrightarrow> 0 \<le> k \<Longrightarrow> \<exists>xs.
      mset xs = mset (filter (all_hold like ps conds) (table w)) \<and> newest_first xs \<and>
      an_query D (data_sql conds (length ps)) (ps @ [Plain (JNum n), Plain (JNum k)]) w = (Inr (take (nat n) (drop (nat k) xs)), w)"
    and count: "class_ok f \<Longrightarrow> filter_parts f = (ps, conds) \<Longrightarrow> an_query D (count_sql conds) ps w =
      (Inr [[(''total'', Plain (JNum (int (length (filter (all_hold like ps conds) (table w))))))]], w)"
    and cache: "an_query D (cache_sql m) [] w =
      (let recent = filter (in_window (now w) m) (table w) in
       (Inr [[(''hits'', if recent = [] then Plain JNull else Plain (JNum (int (length (filter row_hit recent))))),
              (''total'', Plain (JNum (int (length recent)))),
              (''cached_bytes'', if filter row_hit recent = [] then Plain JNull
                 else Plain (JStr (show_int (sum_list (map row_bytes (filter row_hit recent))))))]], w))"
    and errors: "an_query D (errors_sql m) [] w =
      (let recent = filter (in_window (now w) m) (table w) in
       (Inr [[(''errors'', Plain (JNum (int (length (filter row_failed recent))))), (''total'', Plain (JNum (int (length recent))))]], w))"

section \<open>Ratios\<close>

lemma int_or_zero_num [simp]: "int_or_zero F (Some (Plain (JNum n))) = Num n"
proof (cases "n = 0")
  case True
  have "show_int 0 = ''0''" by code_simp
  then have "parse_int ''0'' = Num 0" using parse_int_show_int_end [of 0] by metis
  with True show ?thesis by (simp add: int_or_zero_def)
qed (simp add: int_or_zero_def)

lemma int_or_zero_null [simp]: "int_or_zero F (Some (Plain JNull)) = Num 0"
  using int_or_zero_num [of F 0] by (simp add: int_or_zero_def)

lemma int_or_zero_text [simp]: "int_or_zero F (Some (Plain (JStr (show_int n)))) = Num n"
  by (simp add: int_or_zero_def)

lemma ratio_bounds:
  assumes "m \<le> n"
  shows "\<exists>x. ratio (Num (int m)) (Num (int n)) = Num x \<and> 0 \<le> x \<and> x \<le> 1 \<and> (m = 0 \<longrightarrow> x = 0) \<and> (0 < n \<longrightarrow> m = n \<longrightarrow> x = 1) \<and>
    x = (if n = 0 then 0 else fdiv (of_nat m) (of_nat n))"
proof (cases "n = 0")
  case False
  have "0 \<le> js_fl (of_nat m / of_nat n)" "js_fl (of_nat m / of_nat n) \<le> 1"
    using dbl.fl_ratio [of "of_nat m" "of_nat n"] assms by simp_all
  then show ?thesis using False dbl.fl_int [of 1] by (auto simp: fdiv_def)
qed (use assms in simp)

context event_table
begin

lemma cache_report:
  assumes "recent = filter (in_window (now w) m) (table w)"
  shows "\<exists>x. getCacheHitRatio D m w =
      (Inr \<lparr>ch_hitRatio = Num x, ch_hits = Num (int (length (filter row_hit recent))),
            ch_misses = Num (int (length (filter (\<lambda>r. \<not> row_hit r) recent))),
            ch_cachedBytes = Num (sum_list (map row_bytes (filter row_hit recent)))\<rparr>, w) \<and>
      0 \<le> x \<and> x \<le> 1 \<and> (filter row_hit recent = [] \<longrightarrow> x = 0) \<and>
      x = (if recent = [] then 0 else fdiv (of_nat (length (filter row_hit recent))) (of_nat (length recent)))"
proof -
  obtain x where x: "ratio (Num (int (length (filter row_hit recent)))) (Num (int (length recent))) = Num x" "0 \<le> x" "x \<le> 1"
      "length (filter row_hit recent) = 0 \<longrightarrow> x = 0" "x = (if recent = [] then 0 else fdiv (of_nat (length (filter row_hit recent))) (of_nat (length recent)))"
    using ratio_bounds [of "length (filter row_hit recent)" "length recent"] by auto
  have hits: "int_or_zero F (Some (if recent = [] then Plain JNull else Plain (JNum (int (length (filter row_hit recent)))))) =
      Num (int (length (filter row_hit recent)))" for F
    by simp
  have bytes: "int_or_zero F (Some (if filter row_hit recent = [] then Plain JNull
      else Plain (JStr (show_int (sum_list (map row_bytes (filter row_hit recent))))))) = Num (sum_list (map row_bytes (filter row_hit recent)))" for F
    by simp
  have misses: "int (length recent) - int (length (filter row_hit recent)) = int (length (filter (\<lambda>r. \<not> row_hit r) recent))"
    using sum_length_filter_compl [of row_hit recent] by simp
  have "getCacheHitRatio D m w =
      (Inr \<lparr>ch_hitRatio = Num x, ch_hits = Num (int (length (filter row_hit recent))),
            ch_misses = Num (int (length (filter (\<lambda>r. \<not> row_hit r) recent))),
            ch_cachedBytes = Num (sum_list (map row_bytes (filter row_hit recent)))\<rparr>, w)"
    unfolding getCacheHitRatio_def await_def cache
    by (simp only: Let_def assms [symmetric] prod.case sum.case first_row_def list.case return_apply map_of.simps fst_conv snd_conv
        fun_upd_apply)
       (simp add: hits bytes x(1) misses del: ratio.simps)
  then show ?thesis using x by auto
qed

lemma error_report:
  assumes "recent = filter (in_window (now w) m) (table w)"
  shows "\<exists>x. getErrorRate D m w =
      (Inr \<lparr>er_errorRate = Num x, er_total = Num (int (length recent)), er_errors = Num (int (length (filter row_failed recent)))\<rparr>, w) \<and>
      0 \<le> x \<and> x \<le> 1 \<and> (filter row_failed recent = [] \<longrightarrow> x = 0) \<and>
      x = (if recent = [] then 0 else fdiv (of_nat (length (filter row_failed recent))) (of_nat (length recent)))"
proof -
  obtain x where x: "ratio (Num (int (length (filter row_failed recent)))) (Num (int (length recent))) = Num x" "0 \<le> x" "x \<le> 1"
      "length (filter row_failed recent) = 0 \<longrightarrow> x = 0" "x = (if recent = [] then 0 else fdiv (of_nat (length (filter row_failed recent))) (of_nat (length recent)))"
    using ratio_bounds [of "length (filter row_failed recent)" "length recent"] by auto
  have "getErrorRate D m w =
      (Inr \<lparr>er_errorRate = Num x, er_total = Num (int (length recent)), er_errors = Num (int (length (filter row_failed recent)))\<rparr>, w)"
    using x(1) by (simp add: getErrorRate_def await_def errors assms [symmetric] first_row_def Let_def del: ratio.simps)
  then show ?thesis using x by auto
qed

end

text \<open>
  C24. The ratios of the reports are numbers between 0 and 1 for every table and window: the doubles
  nearest to the quotients of the counts, and 0 when nothing was counted: a quotient by zero would be no number,
  and none reaches the caller. They belong to the counts that are reported with them: hits and misses are the two parts of the events in the window.
\<close>

theorem report_ratios:
  assumes T: "event_table D table now like" and recent: "recent = filter (in_window (now w) m) (table w)"
  shows "(\<exists>x. getCacheHitRatio D m w =
      (Inr \<lparr>ch_hitRatio = Num x, ch_hits = Num (int (length (filter row_hit recent))),
            ch_misses = Num (int (length (filter (\<lambda>r. \<not> row_hit r) recent))),
            ch_cachedBytes = Num (sum_list (map row_bytes (filter row_hit recent)))\<rparr>, w) \<and>
      0 \<le> x \<and> x \<le> 1 \<and> (filter row_hit recent = [] \<longrightarrow> x = 0) \<and>
      x = (if recent = [] then 0 else fdiv (of_nat (length (filter row_hit recent))) (of_nat (length recent)))) \<and>
    (\<exists>x. getErrorRate D m w =
      (Inr \<lparr>er_errorRate = Num x, er_total = Num (int (length recent)), er_errors = Num (int (length (filter row_failed recent)))\<rparr>, w) \<and>
      0 \<le> x \<and> x \<le> 1 \<and> (filter row_failed recent = [] \<longrightarrow> x = 0) \<and>
      x = (if recent = [] then 0 else fdiv (of_nat (length (filter row_failed recent))) (of_nat (length recent))))"
  using event_table.cache_report [OF T recent] event_table.error_report [OF T recent] by (rule conjI)

section \<open>Search\<close>

text \<open>What the filters ask for.\<close>

definition wanted :: "(string \<Rightarrow> row \<Rightarrow> bool) \<Rightarrow> search_filters \<Rightarrow> row \<Rightarrow> bool" where
  "wanted like f r \<longleftrightarrow>
     (truthy (sf_method f) \<longrightarrow> map_of r ''method'' = Some (Plain (JStr (the (sf_method f))))) \<and>
     (truthy (sf_service f) \<longrightarrow> map_of r ''service'' = Some (Plain (JStr (the (sf_service f))))) \<and>
     (truthy (sf_statusClass f) \<longrightarrow> (\<exists>s. row_status r = Some s \<and> s div 100 = int (digit_val (hd (the (sf_statusClass f)))))) \<and>
     (truthy (sf_query f) \<longrightarrow> like (''%'' @ the (sf_query f) @ ''%'') r)"

lemma parse_int_digit: "is_digit c \<Longrightarrow> parse_int [c] = Num (int (digit_val c))"
  using is_digit_not_special [of c] by (simp add: parse_int_def parse_nat_def digits_val_def)

lemma status_base_digit: "class_ok f \<Longrightarrow> sf_statusClass f = Some (c # s) \<Longrightarrow> status_base (c # s) = Num (int (digit_val c) * 100)"
  by (simp add: class_ok_def status_base_def parse_int_digit)

lemma div_100: "(s div 100 = d) = (d * 100 \<le> s \<and> s < d * 100 + (100::int))"
proof -
  have "s = s div 100 * 100 + s mod 100" by simp
  moreover have "0 \<le> s mod 100" "s mod 100 < 100" by simp_all
  ultimately show ?thesis by linarith
qed

text \<open>The parameters at the positions the conditions name are those of their filters.\<close>

lemma filter_parts_hold:
  assumes "class_ok f" and "filter_parts f = (ps, conds)"
  shows "all_hold like ps conds r = wanted like f r"
proof -
  have status: "status_base (the (sf_statusClass f)) = Num (int (digit_val (hd (the (sf_statusClass f)))) * 100)"
    if "truthy (sf_statusClass f)"
    using that status_base_digit [OF assms(1)] by (auto simp: truthy_iff)
  show ?thesis
    using assms(2) status
    by (cases "row_status r"; cases "truthy (sf_method f)"; cases "truthy (sf_service f)"; cases "truthy (sf_statusClass f)"; cases "truthy (sf_query f)")
       (auto simp: filter_parts_def add_method_def add_service_def add_status_def add_query_def Let_def all_hold_def wanted_def
          div_100 nth_append split: option.split)
qed

lemma search_limit_most: "search_limit f \<le> 200"
  by (simp add: search_limit_def)

context event_table
begin

lemma search_page:
  assumes ok: "class_ok f" and n: "0 \<le> search_limit f" and k: "0 \<le> search_offset f"
  shows "\<exists>xs. mset xs = mset (filter (wanted like f) (table w)) \<and> newest_first xs \<and> searchEvents D f w =
    (Inr (map mapEventRow (take (nat (search_limit f)) (drop (nat (search_offset f)) xs)), Plain (JNum (int (length xs)))), w)"
proof -
  obtain ps conds where parts: "filter_parts f = (ps, conds)" by (cases "filter_parts f")
  have same: "all_hold like ps conds = wanted like f" using filter_parts_hold [OF ok parts] by (rule ext)
  obtain xs where xs: "mset xs = mset (filter (wanted like f) (table w))" "newest_first xs"
      "an_query D (data_sql conds (length ps)) (ps @ [Plain (JNum (search_limit f)), Plain (JNum (search_offset f))]) w =
        (Inr (take (nat (search_limit f)) (drop (nat (search_offset f)) xs)), w)"
    using page [OF ok parts n k, of w] unfolding same by blast
  have "length xs = length (filter (wanted like f) (table w))" using mset_eq_length [OF xs(1)] .
  then show ?thesis
    using xs count [OF ok parts, of w] by (auto simp: searchEvents_def parts same await_def first_col_def)
qed

end

text \<open>
  C25. The search of the request logs returns a page of exactly the events the filters ask for,
  newest first, with their number, and never more than 200 of them: each condition compares with
  the parameter that its filter pushed, whatever filters are present.
\<close>

theorem search_refines:
  assumes T: "event_table D table now like" and ok: "class_ok f" and n: "0 \<le> search_limit f" and k: "0 \<le> search_offset f"
  shows "\<exists>xs. mset xs = mset (filter (wanted like f) (table w)) \<and> newest_first xs \<and>
    (\<exists>rs. searchEvents D f w = (Inr (map mapEventRow rs, Plain (JNum (int (length xs)))), w) \<and>
      rs = take (nat (search_limit f)) (drop (nat (search_offset f)) xs) \<and> length rs \<le> 200)"
proof -
  obtain xs where xs: "mset xs = mset (filter (wanted like f) (table w))" "newest_first xs" "searchEvents D f w =
    (Inr (map mapEventRow (take (nat (search_limit f)) (drop (nat (search_offset f)) xs)), Plain (JNum (int (length xs)))), w)"
    using event_table.search_page [OF T ok n k] by blast
  moreover have "length (take (nat (search_limit f)) (drop (nat (search_offset f)) xs)) \<le> 200"
    using search_limit_most [of f] by simp
  ultimately show ?thesis by blast
qed

section \<open>What of a request gets into the text of a query\<close>

definition same_filters :: "search_filters \<Rightarrow> search_filters \<Rightarrow> bool" where
  "same_filters f g \<longleftrightarrow> truthy (sf_method f) = truthy (sf_method g) \<and> truthy (sf_service f) = truthy (sf_service g) \<and>
     truthy (sf_statusClass f) = truthy (sf_statusClass g) \<and> truthy (sf_query f) = truthy (sf_query g)"

lemma filter_parts_shape:
  assumes "same_filters f g"
  shows "snd (filter_parts f) = snd (filter_parts g) \<and> length (fst (filter_parts f)) = length (fst (filter_parts g))"
  using assms unfolding same_filters_def
  by (cases "truthy (sf_method g)"; cases "truthy (sf_service g)"; cases "truthy (sf_statusClass g)"; cases "truthy (sf_query g)")
     (simp_all add: filter_parts_def add_method_def add_service_def add_status_def add_query_def Let_def)

text \<open>
  C26. No text of a request gets into the text of a query. The two queries of a search depend only
  on which filters are present, their texts travel as parameters; what the reports insert between
  the quotes of an interval is the decimal number that the route accepted, which has no quote.
\<close>

theorem query_texts_safe:
  "(same_filters f g \<longrightarrow>
      data_sql (snd (filter_parts f)) (length (fst (filter_parts f))) = data_sql (snd (filter_parts g)) (length (fst (filter_parts g))) \<and>
      count_sql (snd (filter_parts f)) = count_sql (snd (filter_parts g))) \<and>
   (\<forall>n w'. int_param d v w = (Inr n, w') \<longrightarrow>
      since n = ''FROM request_events WHERE time > NOW() - INTERVAL '' @ CHR 0x27 # show_int n @ '' minutes'' @ [CHR 0x27] \<and>
      (\<forall>c \<in> set (show_int n). is_digit c \<or> c = CHR ''-'') \<and> (v = None \<longrightarrow> n = d) \<and> (\<forall>s. v = Some s \<longrightarrow> parse_int s = Num n)) \<and>
   (\<forall>s. v = Some s \<and> \<not> decimal_int s \<longrightarrow> int_param d v w = (Inl (Http 400 ''Validation failed (numeric string is expected)''), w))"
proof (intro conjI impI allI)
  assume "same_filters f g"
  then show "data_sql (snd (filter_parts f)) (length (fst (filter_parts f))) = data_sql (snd (filter_parts g)) (length (fst (filter_parts g)))"
    "count_sql (snd (filter_parts f)) = count_sql (snd (filter_parts g))"
    using filter_parts_shape [of f g] by simp_all
next
  fix n w'
  show "since n = ''FROM request_events WHERE time > NOW() - INTERVAL '' @ CHR 0x27 # show_int n @ '' minutes'' @ [CHR 0x27]"
    by (simp add: since_def quoted_def)
  show "\<forall>c \<in> set (show_int n). is_digit c \<or> c = CHR ''-''" using show_int_chars by blast
  assume "int_param d v w = (Inr n, w')"
  then show "v = None \<Longrightarrow> n = d" "\<And>s. v = Some s \<Longrightarrow> parse_int s = Num n"
    by (auto simp: int_param_def split: bool.splits js.splits if_splits)
next
  fix s assume "v = Some s \<and> \<not> decimal_int s"
  then show "int_param d v w = (Inl (Http 400 ''Validation failed (numeric string is expected)''), w)"
    by (auto simp: int_param_def)
qed

section \<open>A database in the world\<close>

record log_world = world +
  lw_rows :: "row list"

definition log_world_of :: "row list \<Rightarrow> log_world" where
  "log_world_of rows = world.extend (world_at 100000) \<lparr>lw_rows = rows\<rparr>"

text \<open>The patterns of the service have a percent sign at both ends.\<close>

definition world_like :: "string \<Rightarrow> row \<Rightarrow> bool" where
  "world_like p r = (\<exists>c \<in> set [''path'', ''ip'', ''request_id'']. str_includes (dtext world_numfmt (map_of r c)) (butlast (tl p)))"

definition sample_filters :: "search_filters list" where
  "sample_filters =
     [\<lparr>sf_method = m, sf_service = s, sf_statusClass = c, sf_query = q, sf_limit = None, sf_offset = None\<rparr>.
        m \<leftarrow> [None, Some ''m''], s \<leftarrow> [None, Some ''s''], c \<leftarrow> [None, Some ''2''], q \<leftarrow> [None, Some ''q'']]"

definition shapes :: "condition list list" where
  "shapes = map (\<lambda>f. snd (filter_parts f)) sample_filters"

lemma shapes_all: "snd (filter_parts f) \<in> set shapes"
proof -
  define pick where "pick = (\<lambda>(t::string) v. if truthy v then Some t else None)"
  have pick: "truthy (pick t v) = (t \<noteq> [] \<and> truthy v)" "pick t v \<in> set [None, Some t]" for t v
    by (auto simp: pick_def truthy_iff neq_Nil_conv)
  define g where "g = \<lparr>sf_method = pick ''m'' (sf_method f), sf_service = pick ''s'' (sf_service f), sf_statusClass = pick ''2'' (sf_statusClass f),
      sf_query = pick ''q'' (sf_query f), sf_limit = None, sf_offset = None\<rparr>"
  have "same_filters f g" by (simp add: same_filters_def g_def pick(1))
  moreover have "g \<in> set sample_filters" by (simp add: sample_filters_def g_def pick_def)
  ultimately show ?thesis using filter_parts_shape [of f g] by (auto simp: shapes_def)
qed

lemma shapes_distinct: "distinct (map where_clause shapes)"
  by code_simp

lemma find_shape:
  assumes "c \<in> set shapes" and "\<And>d. key d = key c \<Longrightarrow> where_clause d = where_clause c"
  shows "find (\<lambda>d. key d = key c) shapes = Some c"
proof -
  have "find (\<lambda>d. key d = key c) shapes \<noteq> None" using assms(1) by (auto simp: find_None_iff)
  then obtain d where d: "find (\<lambda>d. key d = key c) shapes = Some d" by blast
  then have "d \<in> set shapes" "key d = key c" by (auto simp: find_Some_iff)
  then have "d = c" using distinct_mapD [OF shapes_distinct _ assms(1)] assms(2) by blast
  with d show ?thesis by simp
qed

lemma data_sql_where: "data_sql d k = data_sql c k \<Longrightarrow> where_clause d = where_clause c"
  by (simp add: data_sql_def)

lemma count_sql_where: "count_sql d = count_sql c \<Longrightarrow> where_clause d = where_clause c"
  by (simp add: count_sql_def)

definition window_of :: "string \<Rightarrow> string \<Rightarrow> int option" where
  "window_of head_text t =
     (if prefix head_text t then (case parse_int (drop (length head_text) t) of Num m \<Rightarrow> Some m | NaN \<Rightarrow> None) else None)"

definition cache_head :: string where
  "cache_head = takeWhile (\<lambda>c. c \<noteq> CHR 0x27) (cache_sql 0) @ [CHR 0x27]"

definition errors_head :: string where
  "errors_head = takeWhile (\<lambda>c. c \<noteq> CHR 0x27) (errors_sql 0) @ [CHR 0x27]"

lemma window_of_head: "window_of h (h @ show_int m @ '' minutes'' @ q) = Some m"
  using parse_int_show_int [of "'' minutes'' @ q" m] by (simp add: window_of_def is_digit_def)

lemma cache_sql_head: "cache_sql m = cache_head @ show_int m @ '' minutes'' @ [CHR 0x27]"
  by (simp add: cache_head_def cache_sql_def since_def quoted_def)

lemma errors_sql_head: "errors_sql m = errors_head @ show_int m @ '' minutes'' @ [CHR 0x27]"
  by (simp add: errors_head_def errors_sql_def since_def quoted_def)

definition matching :: "dval list \<Rightarrow> condition list \<Rightarrow> log_world \<Rightarrow> row list" where
  "matching ps c w = filter (all_hold world_like ps c) (lw_rows w)"

definition world_query :: "string \<Rightarrow> dval list \<Rightarrow> (log_world, row list) io" where
  "world_query t ps w =
     (let k = length ps - 2 in
      case find (\<lambda>c. data_sql c k = t) shapes of
        Some c \<Rightarrow>
          (case (ps ! k, ps ! Suc k) of
             (Plain (JNum n), Plain (JNum m)) \<Rightarrow> (Inr (take (nat n) (drop (nat m) (rev (sort_key row_time (matching (take k ps) c w))))), w)
           | _ \<Rightarrow> (Inr [], w))
      | None \<Rightarrow>
      (case find (\<lambda>c. count_sql c = t) shapes of
         Some c \<Rightarrow> (Inr [[(''total'', Plain (JNum (int (length (matching ps c w)))))]], w)
       | None \<Rightarrow>
       (case window_of cache_head t of
          Some m \<Rightarrow>
            (let recent = filter (in_window (w_now w) m) (lw_rows w) in
             (Inr [[(''hits'', if recent = [] then Plain JNull else Plain (JNum (int (length (filter row_hit recent))))),
                    (''total'', Plain (JNum (int (length recent)))),
                    (''cached_bytes'', if filter row_hit recent = [] then Plain JNull
                       else Plain (JStr (show_int (sum_list (map row_bytes (filter row_hit recent))))))]], w))
        | None \<Rightarrow>
        (case window_of errors_head t of
           Some m \<Rightarrow>
             (let recent = filter (in_window (w_now w) m) (lw_rows w) in
              (Inr [[(''errors'', Plain (JNum (int (length (filter row_failed recent))))), (''total'', Plain (JNum (int (length recent))))]], w))
         | None \<Rightarrow> (Inr [[]], w)))))"

definition world_analytics :: "log_world analytics_deps" where
  "world_analytics = \<lparr>an_query = world_query, an_insert = (\<lambda>xs. return ()), an_sys = world_sys, an_fmt = world_numfmt\<rparr>"

lemma no_data_shape:
  "find (\<lambda>c. data_sql c k = count_sql conds) shapes = None" "find (\<lambda>c. data_sql c k = cache_sql m) shapes = None"
  "find (\<lambda>c. data_sql c k = errors_sql m) shapes = None" "find (\<lambda>c. count_sql c = cache_sql m) shapes = None"
  "find (\<lambda>c. count_sql c = errors_sql m) shapes = None"
  by (simp_all add: find_None_iff data_sql_def count_sql_def cache_sql_def errors_sql_def)

lemma no_cache_head: "window_of cache_head (errors_sql m) = None"
  by (simp add: window_of_def cache_head_def cache_sql_def errors_sql_def)

lemma other_queries:
  assumes "t \<in> {latency_sql m, users_sql m, bytes_sql m, avg_sql m}"
  shows "world_query t [] w = (Inr [[]], w)"
proof -
  have "find (\<lambda>c. data_sql c k = t) shapes = None" for k
    using assms by (auto simp: find_None_iff data_sql_def latency_sql_def users_sql_def bytes_sql_def avg_sql_def)
  moreover have "find (\<lambda>c. count_sql c = t) shapes = None"
    using assms by (auto simp: find_None_iff count_sql_def latency_sql_def users_sql_def bytes_sql_def avg_sql_def)
  moreover have "window_of cache_head t = None" "window_of errors_head t = None"
    using assms by (auto simp: window_of_def cache_head_def cache_sql_def errors_head_def errors_sql_def latency_sql_def users_sql_def bytes_sql_def avg_sql_def)
  ultimately show ?thesis by (simp add: world_query_def Let_def)
qed

interpretation logs: event_table world_analytics lw_rows w_now world_like
proof (unfold_locales, goal_cases page count cache errors)
  case (page f ps conds n k w)
  then have c: "conds \<in> set shapes" using shapes_all [of f] by simp
  have f: "find (\<lambda>d. data_sql d (length ps) = data_sql conds (length ps)) shapes = Some conds"
    by (rule find_shape [where key = "\<lambda>d. data_sql d (length ps)", OF c data_sql_where])
  have s: "newest_first (rev (sort_key row_time (matching ps conds w)))"
    using sorted_sort_key [of row_time "matching ps conds w"] unfolding sorted_map newest_first_def sorted_wrt_rev .
  have q: "world_query (data_sql conds (length ps)) (ps @ [Plain (JNum n), Plain (JNum k)]) w =
      (Inr (take (nat n) (drop (nat k) (rev (sort_key row_time (matching ps conds w))))), w)"
    by (simp add: world_query_def Let_def f nth_append)
  show ?case
    unfolding world_analytics_def analytics_deps.select_convs q
    by (rule exI [of _ "rev (sort_key row_time (matching ps conds w))"]) (simp add: s, simp add: matching_def)
next
  case (count f ps conds w)
  then have c: "conds \<in> set shapes" using shapes_all [of f] by simp
  have f: "find (\<lambda>d. count_sql d = count_sql conds) shapes = Some conds"
    by (rule find_shape [where key = count_sql, OF c count_sql_where])
  show ?case
    unfolding world_analytics_def analytics_deps.select_convs
    by (simp add: world_query_def Let_def f no_data_shape(1) matching_def)
next
  case (cache m w)
  show ?case
    unfolding world_analytics_def analytics_deps.select_convs world_query_def Let_def no_data_shape option.case
    by (simp only: cache_sql_head window_of_head option.case)
next
  case (errors m w)
  show ?case
    unfolding world_analytics_def analytics_deps.select_convs world_query_def Let_def no_data_shape option.case no_cache_head
    by (simp only: errors_sql_head window_of_head option.case)
qed

definition row1 :: row where
  "row1 = [(''time'', Time (Num 90000)), (''service'', Plain (JStr ''gateway'')), (''path'', Plain (JStr ''/a'')),
           (''status'', Plain (JNum 404)), (''cache_hit'', Plain (JBool False)), (''bytes'', Plain (JNum 10))]"

definition row2 :: row where
  "row2 = [(''time'', Time (Num 95000)), (''service'', Plain (JStr ''cdn'')), (''path'', Plain (JStr ''/b'')),
           (''status'', Plain (JNum 200)), (''cache_hit'', Plain (JBool True)), (''bytes'', Plain (JNum 20))]"

theorem report_ratios_witness:
  "(\<exists>c. getCacheHitRatio world_analytics 1 (log_world_of [row1, row2]) = (Inr c, log_world_of [row1, row2]) \<and>
      ch_hits c = Num 1 \<and> ch_misses c = Num 1 \<and> ch_cachedBytes c = Num 20) \<and>
   (\<exists>e. getErrorRate world_analytics 1 (log_world_of [row1, row2]) = (Inr e, log_world_of [row1, row2]) \<and> er_errors e = Num 1 \<and> er_total e = Num 2) \<and>
   (\<exists>c e. getCacheHitRatio world_analytics 1 (log_world_of []) = (Inr c, log_world_of []) \<and> ch_hitRatio c = Num 0 \<and>
      getErrorRate world_analytics 1 (log_world_of []) = (Inr e, log_world_of []) \<and> er_errorRate e = Num 0)"
proof -
  have recent: "[row1, row2] = filter (in_window (w_now (log_world_of [row1, row2])) 1) (lw_rows (log_world_of [row1, row2]))"
    by (simp add: log_world_of_def world.defs world_at_def in_window_def row_time_def row1_def row2_def)
  have rows: "filter row_hit [row1, row2] = [row2]" "filter (\<lambda>r. \<not> row_hit r) [row1, row2] = [row1]" "filter row_failed [row1, row2] = [row1]"
      "row_bytes row2 = 20"
    by (simp_all add: row_hit_def row_failed_def row_status_def row_bytes_def row1_def row2_def)
  show ?thesis
    using report_ratios [OF logs.event_table_axioms recent]
      report_ratios [OF logs.event_table_axioms, of "[]" "log_world_of []" 1] unfolding rows
    by (auto simp: rows(4) log_world_of_def world.defs)
qed

theorem search_refines_witness:
  "\<exists>n. searchEvents world_analytics \<lparr>sf_method = None, sf_service = Some ''gateway'', sf_statusClass = Some ''4xx'', sf_query = None,
      sf_limit = None, sf_offset = None\<rparr> (log_world_of [row1, row2]) = (Inr ([mapEventRow row1], n), log_world_of [row1, row2])"
proof -
  let ?f = "\<lparr>sf_method = None, sf_service = Some ''gateway'', sf_statusClass = Some ''4xx'', sf_query = None, sf_limit = None, sf_offset = None\<rparr>"
  have ok: "class_ok ?f" "0 \<le> search_limit ?f" "0 \<le> search_offset ?f"
    by (simp_all add: class_ok_def is_digit_def search_limit_def search_offset_def)
  have "filter (wanted world_like ?f) (lw_rows (log_world_of [row1, row2])) = [row1]"
    by (simp add: log_world_of_def world.defs wanted_def row1_def row2_def row_status_def digit_val_def)
  then obtain xs rs where "mset xs = mset [row1]" "searchEvents world_analytics ?f (log_world_of [row1, row2]) =
      (Inr (map mapEventRow rs, Plain (JNum (int (length xs)))), log_world_of [row1, row2])"
      "rs = take (nat (search_limit ?f)) (drop (nat (search_offset ?f)) xs)"
    using search_refines [OF logs.event_table_axioms ok, of "log_world_of [row1, row2]"] by auto
  then show ?thesis by (auto simp: search_limit_def search_offset_def)
qed

theorem query_texts_safe_witness:
  "data_sql (snd (filter_parts \<lparr>sf_method = None, sf_service = Some ''x' OR 1=1'', sf_statusClass = None, sf_query = None, sf_limit = None, sf_offset = None\<rparr>)) 1 =
   data_sql (snd (filter_parts \<lparr>sf_method = None, sf_service = Some ''cdn'', sf_statusClass = None, sf_query = None, sf_limit = None, sf_offset = None\<rparr>)) 1 \<and>
   (int_param 60 (Some ''1 day'') :: (log_world, int) io) (log_world_of []) = (Inl (Http 400 ''Validation failed (numeric string is expected)''), log_world_of [])"
proof -
  let ?f = "\<lambda>s. \<lparr>sf_method = None, sf_service = Some s, sf_statusClass = None, sf_query = None, sf_limit = None, sf_offset = None\<rparr>"
  have "same_filters (?f ''x' OR 1=1'') (?f ''cdn'')" by (simp add: same_filters_def)
  moreover have "length (fst (filter_parts (?f s))) = 1" if "s \<noteq> []" for s
    using that by (simp add: filter_parts_def add_method_def add_service_def add_status_def add_query_def truthy_iff neq_Nil_conv)
  moreover have "\<not> decimal_int ''1 day''" by (simp add: decimal_int_def is_digit_def)
  ultimately show ?thesis
    using query_texts_safe [of "?f ''x' OR 1=1''" "?f ''cdn''" 60 "Some ''1 day''" "log_world_of []"] by simp
qed

end
