(* ===== verification/Notifications.thy ===== *)
theory Notifications
  imports Analytics "HOL-Library.AList"
begin

text \<open>
  The notification service (\<open>apps/notification-service\<close>): alert rules, their periodic check against
  the summary of the analytics service, the dispatch of notifications over channels, and the two
  histories. Its state is in memory: the rules, the alerts raised, the time of the last alert of
  each rule, and the notifications sent. Mail, HTTP and the random id are parameters. Bodies have
  the fields of their declared types, but for the channels of a rule, which are any JSON: nothing checks a body, and the
  dashboard posts an object there. The messages from Kafka are arbitrary JSON.
\<close>

section \<open>Rules\<close>

datatype alert_condition = Error_rate_above | Latency_above | Cache_hit_below | Bandwidth_above | Edge_down

fun condition_name :: "alert_condition \<Rightarrow> string" where
  "condition_name Error_rate_above = ''error_rate_above''"
| "condition_name Latency_above = ''latency_above''"
| "condition_name Cache_hit_below = ''cache_hit_below''"
| "condition_name Bandwidth_above = ''bandwidth_above''"
| "condition_name Edge_down = ''edge_down''"

record alert_rule =
  ru_id :: string
  ru_name :: string
  ru_condition :: alert_condition
  ru_threshold :: rat
  ru_windowMinutes :: int
  ru_channels :: json
  ru_enabled :: bool

definition DEFAULT_ALERT_RULES :: "alert_rule list" where
  "DEFAULT_ALERT_RULES =
     [\<lparr>ru_id = ''1'', ru_name = ''High Error Rate'', ru_condition = Error_rate_above, ru_threshold = 5, ru_windowMinutes = 5,
       ru_channels = JArr [JStr ''webhook''], ru_enabled = True\<rparr>,
      \<lparr>ru_id = ''2'', ru_name = ''High Latency'', ru_condition = Latency_above, ru_threshold = 500, ru_windowMinutes = 5,
       ru_channels = JArr [JStr ''webhook''], ru_enabled = True\<rparr>,
      \<lparr>ru_id = ''3'', ru_name = ''Low Cache Hit'', ru_condition = Cache_hit_below, ru_threshold = 50, ru_windowMinutes = 15,
       ru_channels = JArr [JStr ''webhook''], ru_enabled = True\<rparr>,
      \<lparr>ru_id = ''4'', ru_name = ''Edge Server Down'', ru_condition = Edge_down, ru_threshold = 0, ru_windowMinutes = 1,
       ru_channels = JArr [JStr ''email'', JStr ''webhook''], ru_enabled = True\<rparr>]"

record partial_rule =
  pa_id :: "string option"
  pa_name :: "string option"
  pa_condition :: "alert_condition option"
  pa_threshold :: "rat option"
  pa_windowMinutes :: "int option"
  pa_channels :: "json option"
  pa_enabled :: "bool option"

record alert_record =
  al_id :: string
  al_ruleId :: string
  al_ruleName :: string
  al_condition :: alert_condition
  al_threshold :: rat
  al_currentValue :: rat
  al_message :: string
  al_timestamp :: int

record notification_record =
  nr_id :: string
  nr_alertId :: string
  nr_channels :: json
  nr_status :: string
  nr_timestamp :: int
  nr_error :: "string option"

record alerting =
  at_rules :: "alert_rule list"
  at_history :: "alert_record list"
  at_lastTriggered :: "(string \<times> int) list"
  at_sent :: "notification_record list"

text \<open>A message body: the fields of a webhook, or the JSON of a chat message.\<close>

datatype payload = Fields "(string \<times> dval option) list" | Body json

record 'w notify_deps =
  nd_get :: "string \<Rightarrow> ('w, string \<Rightarrow> rat option) io"
  nd_post :: "string \<Rightarrow> payload \<Rightarrow> ('w, unit) io"
  nd_mail :: "string \<Rightarrow> string \<Rightarrow> string \<Rightarrow> string \<Rightarrow> ('w, unit) io"
  nd_random_id :: "('w, string) io"
  nd_sys :: "'w sys"
  nd_prom :: "'w prom"
  nd_fmt :: numfmt
  nd_config :: "string \<Rightarrow> string option"
  nd_debounceMinutes :: "rat js"

section \<open>Conditions\<close>

text \<open>\<open>stats.f || d\<close> on a field that holds a number\<close>

definition or_num :: "rat option \<Rightarrow> rat \<Rightarrow> rat" where
  "or_num v d = (case v of None \<Rightarrow> d | Some x \<Rightarrow> if x = 0 then d else x)"

definition num_text :: "numfmt \<Rightarrow> rat \<Rightarrow> string" where
  "num_text F x = num_to_string F (Num x)"

definition evaluateCondition :: "numfmt \<Rightarrow> alert_rule \<Rightarrow> (string \<Rightarrow> rat option) \<Rightarrow> bool \<times> rat \<times> string" where
  "evaluateCondition F rule stats =
     (let threshold = ru_threshold rule in
      case ru_condition rule of
        Error_rate_above \<Rightarrow>
          (let v = or_num (stats ''errorRate'') 0
           in (v > threshold, v, ''Error rate is '' @ num_text F v @ ''%, above threshold of '' @ num_text F threshold @ ''%''))
      | Latency_above \<Rightarrow>
          (let v = or_num (stats ''avgLatency'') 0
           in (v > threshold, v, ''Average latency is '' @ num_text F v @ ''ms, above threshold of '' @ num_text F threshold @ ''ms''))
      | Cache_hit_below \<Rightarrow>
          (let v = or_num (stats ''cacheHitRate'') 100
           in (v < threshold, v, ''Cache hit rate is '' @ num_text F v @ ''%, below threshold of '' @ num_text F threshold @ ''%''))
      | Bandwidth_above \<Rightarrow>
          (let v = or_num (stats ''bandwidthUsage'') 0
           in (v > threshold, v, ''Bandwidth usage is '' @ num_text F v @ '' bytes, above threshold of '' @ num_text F threshold @ '' bytes''))
      | Edge_down \<Rightarrow>
          (let v = or_num (stats ''activeEdges'') 1
           in (v \<le> threshold, v, ''Active edges is '' @ num_text F v @ '', equal or below threshold of '' @ num_text F threshold)))"

section \<open>Dispatch\<close>

text \<open>An alert is an object of any origin; its fields are read by name.\<close>

definition name_of :: "row \<Rightarrow> dval option" where
  "name_of alert = (if dtruthy (map_of alert ''ruleName'') then map_of alert ''ruleName'' else map_of alert ''name'')"

definition conf :: "'w notify_deps \<Rightarrow> string \<Rightarrow> string \<Rightarrow> string" where
  "conf D k d = or_str (nd_config D k) d"

definition sendEmail :: "'w notify_deps \<Rightarrow> string \<Rightarrow> string \<Rightarrow> string \<Rightarrow> ('w, unit) io" where
  "sendEmail D to subject body = nd_mail D (conf D ''SMTP_FROM'' ''alerts@edgesphere.local'') to subject body"

definition sendWebhook :: "'w notify_deps \<Rightarrow> string \<Rightarrow> (string \<times> dval option) list \<Rightarrow> ('w, unit) io" where
  "sendWebhook D url payload = nd_post D url (Fields payload)"

definition sendSlack :: "'w notify_deps \<Rightarrow> string \<Rightarrow> string \<Rightarrow> ('w, unit) io" where
  "sendSlack D webhookUrl message =
     nd_post D webhookUrl
       (Body (JObj [(''text'', JStr message),
                    (''attachments'', JArr [JObj [(''color'', JStr ''danger''),
                       (''fields'', JArr [JObj [(''title'', JStr ''Alert''), (''value'', JStr message)]])]])]))"

definition email_body :: "numfmt \<Rightarrow> row \<Rightarrow> string" where
  "email_body F alert =
     ''Message: '' @ dtext F (map_of alert ''message'') @ [CHR 0x0A] @ ''Condition: '' @ dtext F (map_of alert ''condition'')
       @ [CHR 0x0A] @ ''Value: '' @ dtext F (map_of alert ''currentValue'')"

definition webhook_fields :: "row \<Rightarrow> dval option \<Rightarrow> (string \<times> dval option) list" where
  "webhook_fields alert timestamp =
     [(''alertId'', map_of alert ''id''), (''ruleName'', name_of alert), (''condition'', map_of alert ''condition''),
      (''threshold'', map_of alert ''threshold''), (''currentValue'', map_of alert ''currentValue''), (''message'', map_of alert ''message''),
      (''timestamp'', timestamp),
      (''severity'', Some (Plain (JStr ''high'')))]"

definition send_channel :: "'w notify_deps \<Rightarrow> row \<Rightarrow> json \<Rightarrow> ('w, unit) io" where
  "send_channel D alert channel =
     (if channel = JStr ''email'' then
        sendEmail D (conf D ''ALERT_EMAIL_TO'' ''admin@edgesphere.local'')
          (''Alert Triggered: '' @ dtext (nd_fmt D) (name_of alert)) (email_body (nd_fmt D) alert)
      else if channel = JStr ''webhook'' then
        await (if dtruthy (map_of alert ''timestamp'') then return (map_of alert ''timestamp'')
               else await (date_now (nd_sys D)) (\<lambda>now. return (Some (Time (Num now))))) (\<lambda>timestamp.
        sendWebhook D (conf D ''WEBHOOK_URL'' ''http://localhost:3100/api/webhooks/alerts'') (webhook_fields alert timestamp))
      else if channel = JStr ''slack'' then
        (let slackUrl = nd_config D ''SLACK_WEBHOOK_URL''
         in if truthy slackUrl
            then sendSlack D (the slackUrl) (''*Alert*: '' @ dtext (nd_fmt D) (name_of alert) @ [CHR 0x0A] @ dtext (nd_fmt D) (map_of alert ''message''))
            else return ())
      else return ())"

fun error_message :: "exn \<Rightarrow> string" where
  "error_message (Http s m) = m"
| "error_message (JsError m) = m"

text \<open>The loop over the channels, with the record it fills; the second component is what it threw.\<close>

fun send_all :: "'w notify_deps \<Rightarrow> row \<Rightarrow> json list \<Rightarrow> notification_record \<Rightarrow> ('w, notification_record \<times> exn option) io" where
  "send_all D alert [] rec = return (rec, None)"
| "send_all D alert (ch # chs) rec =
     await (try_catch
       (await (send_channel D alert ch) (\<lambda>_.
        await (prom_inc (nd_prom D) ''notifications_sent_total'' [js_text ch] 1) (\<lambda>_. return None)))
       (\<lambda>e. return (Some e))) (\<lambda>failed.
     case failed of
       None \<Rightarrow> send_all D alert chs rec
     | Some e \<Rightarrow>
         await (try_catch
           (await (prom_inc (nd_prom D) ''notifications_failed_total'' [js_text ch] 1) (\<lambda>_. return None))
           (\<lambda>e'. return (Some e'))) (\<lambda>aborted.
         case aborted of
           Some e' \<Rightarrow> return (rec, Some e')
         | None \<Rightarrow> send_all D alert chs (rec\<lparr>nr_status := ''failed'', nr_error := Some (error_message e)\<rparr>)))"

text \<open>\<open>history.unshift(record); if (history.length > n) history.pop();\<close>\<close>

definition unshift_capped :: "nat \<Rightarrow> 'a \<Rightarrow> 'a list \<Rightarrow> 'a list" where
  "unshift_capped n x xs = (let ys = x # xs in if length ys > n then butlast ys else ys)"

definition push_sent :: "notification_record \<Rightarrow> alerting \<Rightarrow> alerting" where
  "push_sent r c = c\<lparr>at_sent := unshift_capped 100 r (at_sent c)\<rparr>"

definition push_alert :: "alert_record \<Rightarrow> alerting \<Rightarrow> alerting" where
  "push_alert r c = c\<lparr>at_history := unshift_capped 50 r (at_history c)\<rparr>"

text \<open>What \<open>for (const channel of channels)\<close> runs through; anything else throws.\<close>

fun iterated :: "json \<Rightarrow> json list option" where
  "iterated (JArr xs) = Some xs"
| "iterated (JStr s) = Some (map (\<lambda>c. JStr [c]) s)"
| "iterated j = None"

text \<open>\<open>dispatch\<close> on an alert that is an object, or \<open>null\<close>.\<close>

definition dispatch :: "'w notify_deps \<Rightarrow> row option \<Rightarrow> json \<Rightarrow> ('w \<times> alerting, unit) io" where
  "dispatch D alert_or_null channels =
     await (on_world (nd_random_id D)) (\<lambda>rid.
     case alert_or_null of
       None \<Rightarrow> throw (JsError ''Cannot read properties of null (reading id)'')
     | Some alert \<Rightarrow>
         await (on_world (date_now (nd_sys D))) (\<lambda>now.
         (let rec = \<lparr>nr_id = rid, nr_alertId = (if dtruthy (map_of alert ''id'') then dtext (nd_fmt D) (map_of alert ''id'') else ''unknown''),
                     nr_channels = channels, nr_status = ''success'', nr_timestamp = now, nr_error = None\<rparr>
          in await (case iterated channels of
                      None \<Rightarrow> return (rec, Some (JsError ''channels is not iterable''))
                    | Some chs \<Rightarrow> on_world (send_all D alert chs rec)) (\<lambda>(record', thrown).
             await (mod_ctx (push_sent record')) (\<lambda>_.
             case thrown of None \<Rightarrow> return () | Some e \<Rightarrow> throw e)))))"

definition alert_fields :: "alert_record \<Rightarrow> row" where
  "alert_fields a =
     [(''id'', Plain (JStr (al_id a))), (''ruleId'', Plain (JStr (al_ruleId a))), (''ruleName'', Plain (JStr (al_ruleName a))),
      (''condition'', Plain (JStr (condition_name (al_condition a)))), (''threshold'', Real (al_threshold a)),
      (''currentValue'', Real (al_currentValue a)), (''message'', Plain (JStr (al_message a))), (''timestamp'', Time (Num (al_timestamp a)))]"

section \<open>The check of the alerts\<close>

definition summary_url :: "'w notify_deps \<Rightarrow> alert_rule \<Rightarrow> string" where
  "summary_url D rule =
     conf D ''ANALYTICS_SERVICE_URL'' ''http://localhost:3003'' @ ''/analytics/summary?window='' @ show_int (ru_windowMinutes rule)"

definition last_time :: "alerting \<Rightarrow> string \<Rightarrow> int" where
  "last_time c k = (case map_of (at_lastTriggered c) k of None \<Rightarrow> 0 | Some t \<Rightarrow> t)"

text \<open>\<open>now - lastTime < debounceMinutes * 60 * 1000\<close>\<close>

definition debounced :: "'w notify_deps \<Rightarrow> int \<Rightarrow> int \<Rightarrow> bool" where
  "debounced D now lastTime =
     (case nd_debounceMinutes D of NaN \<Rightarrow> False | Num m \<Rightarrow> of_int (now - lastTime) < fmul (fmul m 60) 1000)"

definition raise_alert :: "'w notify_deps \<Rightarrow> int \<Rightarrow> alert_rule \<Rightarrow> rat \<Rightarrow> string \<Rightarrow> ('w \<times> alerting, unit) io" where
  "raise_alert D now rule current message =
     await (on_world (uuid_v4 (nd_sys D))) (\<lambda>u.
     await (on_world (date_now (nd_sys D))) (\<lambda>t.
     (let alertRecord = \<lparr>al_id = u, al_ruleId = ru_id rule, al_ruleName = ru_name rule, al_condition = ru_condition rule,
             al_threshold = ru_threshold rule, al_currentValue = current, al_message = message, al_timestamp = t\<rparr>
      in await (mod_ctx (push_alert alertRecord)) (\<lambda>_.
         await (mod_ctx (\<lambda>c. c\<lparr>at_lastTriggered := AList.update (ru_id rule) now (at_lastTriggered c)\<rparr>)) (\<lambda>_.
         await (on_world (prom_inc (nd_prom D) ''alerts_triggered_total'' [ru_name rule, condition_name (ru_condition rule)] 1)) (\<lambda>_.
         dispatch D (Some (alert_fields alertRecord)) (ru_channels rule)))))))"

definition check_rule :: "'w notify_deps \<Rightarrow> int \<Rightarrow> alert_rule \<Rightarrow> ('w \<times> alerting, unit) io" where
  "check_rule D now rule =
     await get_ctx (\<lambda>c.
     if \<not> ru_enabled rule then return ()
     else if debounced D now (last_time c (ru_id rule)) then return ()
     else try_catch
       (await (on_world (nd_get D (summary_url D rule))) (\<lambda>stats.
        case evaluateCondition (nd_fmt D) rule stats of (triggered, current, message) \<Rightarrow>
          if triggered then raise_alert D now rule current message else return ()))
       (\<lambda>e. return ()))"

definition checkAlerts :: "'w notify_deps \<Rightarrow> ('w \<times> alerting, unit) io" where
  "checkAlerts D =
     await (on_world (date_now (nd_sys D))) (\<lambda>started.
     await (on_world (date_now (nd_sys D))) (\<lambda>now.
     await get_ctx (\<lambda>c.
     await (for_each (at_rules c) (check_rule D now)) (\<lambda>_.
     await (on_world (date_now (nd_sys D))) (\<lambda>ended.
     on_world (prom_observe (nd_prom D) ''alert_check_duration_seconds'' [] (fdiv (of_int (ended - started)) 1000)))))))"

section \<open>Operations on the rules\<close>

definition createRule :: "'w notify_deps \<Rightarrow> partial_rule \<Rightarrow> ('w \<times> alerting, alert_rule) io" where
  "createRule D rule =
     await (on_world (uuid_v4 (nd_sys D))) (\<lambda>u.
     (let newRule = \<lparr>ru_id = u, ru_name = or_str (pa_name rule) ''New Rule'',
             ru_condition = (case pa_condition rule of None \<Rightarrow> Error_rate_above | Some c \<Rightarrow> c),
             ru_threshold = or_num (pa_threshold rule) 0,
             ru_windowMinutes = (case pa_windowMinutes rule of None \<Rightarrow> 5 | Some n \<Rightarrow> if n = 0 then 5 else n),
             ru_channels = (if jtruthy (pa_channels rule) then the (pa_channels rule) else JArr [JStr ''webhook'']),
             ru_enabled = (case pa_enabled rule of None \<Rightarrow> True | Some b \<Rightarrow> b)\<rparr>
      in await (mod_ctx (\<lambda>c. c\<lparr>at_rules := at_rules c @ [newRule]\<rparr>)) (\<lambda>_. return newRule)))"

text \<open>\<open>{ ...rule, ...updates }\<close>\<close>

definition merged :: "alert_rule \<Rightarrow> partial_rule \<Rightarrow> alert_rule" where
  "merged r u =
     \<lparr>ru_id = (case pa_id u of None \<Rightarrow> ru_id r | Some x \<Rightarrow> x), ru_name = (case pa_name u of None \<Rightarrow> ru_name r | Some x \<Rightarrow> x),
      ru_condition = (case pa_condition u of None \<Rightarrow> ru_condition r | Some x \<Rightarrow> x),
      ru_threshold = (case pa_threshold u of None \<Rightarrow> ru_threshold r | Some x \<Rightarrow> x),
      ru_windowMinutes = (case pa_windowMinutes u of None \<Rightarrow> ru_windowMinutes r | Some x \<Rightarrow> x),
      ru_channels = (case pa_channels u of None \<Rightarrow> ru_channels r | Some x \<Rightarrow> x),
      ru_enabled = (case pa_enabled u of None \<Rightarrow> ru_enabled r | Some x \<Rightarrow> x)\<rparr>"

fun find_index :: "('a \<Rightarrow> bool) \<Rightarrow> 'a list \<Rightarrow> nat option" where
  "find_index P [] = None"
| "find_index P (x # xs) = (if P x then Some 0 else map_option Suc (find_index P xs))"

definition updateRule :: "string \<Rightarrow> partial_rule \<Rightarrow> ('w \<times> alerting, alert_rule) io" where
  "updateRule k updates =
     await get_ctx (\<lambda>c.
     case find_index (\<lambda>r. ru_id r = k) (at_rules c) of
       None \<Rightarrow> throw (JsError ''Rule not found'')
     | Some i \<Rightarrow>
         (let r = merged (at_rules c ! i) updates
          in await (mod_ctx (\<lambda>c. c\<lparr>at_rules := (at_rules c)[i := r]\<rparr>)) (\<lambda>_. return r)))"

definition deleteRule :: "string \<Rightarrow> ('w \<times> alerting, unit) io" where
  "deleteRule k = mod_ctx (\<lambda>c. c\<lparr>at_rules := filter (\<lambda>r. ru_id r \<noteq> k) (at_rules c)\<rparr>)"

section \<open>Pages\<close>

text \<open>
  The query parameters of the routes are declared as numbers but arrive as text, since no pipe
  converts them: \<open>page || 1\<close> is a text or the number 1. Subtraction and multiplication convert a
  text to a number; \<open>start + pageSize\<close> with a text appends it to the digits of \<open>start\<close>.
\<close>

datatype arg = Given string | Default int

definition arg_or :: "string option \<Rightarrow> int \<Rightarrow> arg" where
  "arg_or v d = (if truthy v then Given (the v) else Default d)"

fun arg_num :: "numfmt \<Rightarrow> arg \<Rightarrow> rat js" where
  "arg_num F (Given s) = number_of_string F s"
| "arg_num F (Default n) = Num (of_int n)"

fun page_start :: "rat js \<Rightarrow> rat js \<Rightarrow> rat js" where
  "page_start (Num p) (Num s) = Num (fmul (fsub p 1) s)"
| "page_start p s = NaN"

fun page_stop :: "numfmt \<Rightarrow> rat js \<Rightarrow> arg \<Rightarrow> rat js" where
  "page_stop F start (Given s) = number_of_string F (num_to_string F start @ s)"
| "page_stop F start (Default n) = js_map (\<lambda>x. fadd x (of_int n)) start"

text \<open>\<open>xs.slice(a, b)\<close>: indices are cut to integers, \<open>NaN\<close> is 0, negative ones count from the end.\<close>

fun to_integer :: "rat js \<Rightarrow> int" where
  "to_integer NaN = 0"
| "to_integer (Num x) = (if x \<ge> 0 then \<lfloor>x\<rfloor> else \<lceil>x\<rceil>)"

definition slice_index :: "rat js \<Rightarrow> nat \<Rightarrow> nat" where
  "slice_index x len = (let i = to_integer x in if i < 0 then nat (max 0 (int len + i)) else min (nat i) len)"

definition js_slice :: "rat js \<Rightarrow> rat js \<Rightarrow> 'a list \<Rightarrow> 'a list" where
  "js_slice a b xs = (let i = slice_index a (length xs); j = slice_index b (length xs) in take (j - i) (drop i xs))"

record 'a js_page =
  pg_data :: "'a list"
  pg_total :: nat
  pg_page :: arg
  pg_pageSize :: arg

definition page_of :: "numfmt \<Rightarrow> arg \<Rightarrow> arg \<Rightarrow> 'a list \<Rightarrow> 'a js_page" where
  "page_of F page pageSize xs =
     (let start = page_start (arg_num F page) (arg_num F pageSize)
      in \<lparr>pg_data = js_slice start (page_stop F start pageSize) xs, pg_total = length xs, pg_page = page, pg_pageSize = pageSize\<rparr>)"

definition listRules :: "numfmt \<Rightarrow> arg \<Rightarrow> arg \<Rightarrow> alerting \<Rightarrow> alert_rule js_page" where
  "listRules F page pageSize c = page_of F page pageSize (at_rules c)"

definition getAlertHistory :: "numfmt \<Rightarrow> arg \<Rightarrow> arg \<Rightarrow> alerting \<Rightarrow> alert_record js_page" where
  "getAlertHistory F page pageSize c = page_of F page pageSize (at_history c)"

definition getHistory :: "numfmt \<Rightarrow> arg \<Rightarrow> arg \<Rightarrow> alerting \<Rightarrow> notification_record js_page" where
  "getHistory F page pageSize c = page_of F page pageSize (at_sent c)"

section \<open>Routes\<close>

definition listRules_route :: "numfmt \<Rightarrow> string option \<Rightarrow> string option \<Rightarrow> alerting \<Rightarrow> alert_rule js_page" where
  "listRules_route F page pageSize = listRules F (arg_or page 1) (arg_or pageSize 20)"

definition getAlertHistory_route :: "numfmt \<Rightarrow> string option \<Rightarrow> string option \<Rightarrow> alerting \<Rightarrow> alert_record js_page" where
  "getAlertHistory_route F page pageSize = getAlertHistory F (arg_or page 1) (arg_or pageSize 20)"

definition notificationHistory_route :: "numfmt \<Rightarrow> string option \<Rightarrow> string option \<Rightarrow> alerting \<Rightarrow> notification_record js_page" where
  "notificationHistory_route F page pageSize = getHistory F (arg_or page 1) (arg_or pageSize 20)"

definition createRule_route :: "'w notify_deps \<Rightarrow> partial_rule \<Rightarrow> ('w \<times> alerting, alert_rule) io" where
  "createRule_route D rule = createRule D rule"

definition updateRule_route :: "string \<Rightarrow> partial_rule \<Rightarrow> ('w \<times> alerting, alert_rule) io" where
  "updateRule_route k updates = updateRule k updates"

definition deleteRule_route :: "string \<Rightarrow> ('w \<times> alerting, json) io" where
  "deleteRule_route k = await (deleteRule k) (\<lambda>_. return (JObj [(''success'', JBool True)]))"

definition testNotification :: "'w notify_deps \<Rightarrow> ('w \<times> alerting, json) io" where
  "testNotification D =
     await (on_world (date_now (nd_sys D))) (\<lambda>now.
     await (dispatch D
       (Some [(''id'', Plain (JStr ''test-123'')), (''ruleName'', Plain (JStr ''Test Alert'')), (''condition'', Plain (JStr ''test'')),
              (''threshold'', Plain (JNum 0)), (''currentValue'', Plain (JNum 1)), (''message'', Plain (JStr ''This is a test notification'')),
              (''timestamp'', Time (Num now))])
       (JArr [JStr ''email'', JStr ''webhook'', JStr ''slack''])) (\<lambda>_.
     return (JObj [(''status'', JStr ''sent'')])))"

definition notify_health :: "json \<Rightarrow> json" where
  "notify_health uptime =
     JObj [(''status'', JStr ''ok''), (''kafka'', JStr ''connected''), (''smtp'', JStr ''configured''), (''uptime'', uptime)]"

section \<open>Messages\<close>

text \<open>The fields of a value as an alert: those of an object, none for other values, \<open>None\<close> for \<open>null\<close>.\<close>

fun alert_of :: "json \<Rightarrow> row option" where
  "alert_of JNull = None"
| "alert_of (JObj kvs) = Some (map (\<lambda>(k, v). (k, Plain v)) (rev kvs))"
| "alert_of j = Some []"

definition notify_eachMessage :: "'w notify_deps \<Rightarrow> string \<Rightarrow> string option \<Rightarrow> ('w \<times> alerting, unit) io" where
  "notify_eachMessage D topic message =
     (case message of
        None \<Rightarrow> return ()
      | Some s \<Rightarrow>
          (case json_parse s of
             None \<Rightarrow> throw (JsError ''Unexpected token'')
           | Some event \<Rightarrow>
               if topic = ''alerts.triggered'' \<or> topic = ''system.events'' then
                 await (read_of ''channels'' event) (\<lambda>chs.
                 dispatch D (alert_of event) (if jtruthy chs then the chs else JArr [JStr ''email'', JStr ''webhook'']))
               else return ()))"

end
