(* ===== verification/Alerting.thy ===== *)
theory Alerting
  imports Notifications Analytics_Reports
begin

text \<open>
  What the checks of the alerts guarantee: the histories stay short, a rule is quiet for as long as
  its debounce says, and which rules the summary of the analytics service can trigger at all. Then
  what the pages of the histories hold.
\<close>

section \<open>The histories\<close>

lemma unshift_capped_take: "length xs \<le> n \<Longrightarrow> unshift_capped n x xs = take n (x # xs)"
  by (auto simp: unshift_capped_def Let_def butlast_conv_take less_Suc_eq_le dest: le_antisym)

interpretation alert_log: bounded_log push_alert at_history 50
  by unfold_locales (simp add: push_alert_def unshift_capped_take)

interpretation sent_log: bounded_log push_sent at_sent 100
  by unfold_locales (simp add: push_sent_def unshift_capped_take)

section \<open>What a dispatch and an alert change\<close>

text \<open>The part of the state that notifications do not touch.\<close>

definition alerts_of :: "alerting \<Rightarrow> alert_rule list \<times> alert_record list \<times> (string \<times> int) list" where
  "alerts_of c = (at_rules c, at_history c, at_lastTriggered c)"

lemma preserves_on_world_view [frame]: "preserves (\<lambda>wc. f (snd wc)) (on_world m)"
  by (simp add: preserves_def on_world_def split: prod.splits)

lemma preserves_mod_view [frame]: "(\<And>c. f (g c) = f c) \<Longrightarrow> preserves (\<lambda>wc. f (snd wc)) (mod_ctx g)"
  by (simp add: preserves_def)

lemma dispatch_alerts: "preserves (\<lambda>wc. alerts_of (snd wc)) (dispatch D alert channels)"
  unfolding dispatch_def Let_def
  by (intro frame; (intro preserves_mod_view)?; cases alert)
     (auto intro!: frame preserves_mod_view simp: alerts_of_def push_sent_def split: option.split prod.split)

lemma dispatch_sent: "maintains (\<lambda>c. length (at_sent c) \<le> 100) (dispatch D alert channels)"
  unfolding dispatch_def Let_def
  by (intro maintain; cases alert) (auto intro!: maintain sent_log.bounded split: option.split prod.split)

definition raised :: "alert_record \<Rightarrow> int \<Rightarrow> alerting \<Rightarrow> alerting" where
  "raised a now c = (push_alert a c)\<lparr>at_lastTriggered := AList.update (al_ruleId a) now (at_lastTriggered c)\<rparr>"

lemma raise_alert_alerts:
  assumes "raise_alert D now rule v msg (w, c) = (r, (w', c'))"
  shows "alerts_of c' = alerts_of c \<or> (\<exists>a. al_ruleId a = ru_id rule \<and> alerts_of c' = alerts_of (raised a now c))"
proof -
  obtain u w1 where u: "uuid_v4 (nd_sys D) w = (u, w1)" by fastforce
  show ?thesis
  proof (cases u)
    case (Inl e)
    then show ?thesis using assms u by (auto simp: raise_alert_def await_def on_world_def)
  next
    case (Inr k)
    obtain t w2 where t: "date_now (nd_sys D) w1 = (t, w2)" by fastforce
    show ?thesis
    proof (cases t)
      case (Inl e)
      then show ?thesis using assms u t Inr by (auto simp: raise_alert_def await_def on_world_def)
    next
      case (Inr stamp)
      define a where "a = \<lparr>al_id = k, al_ruleId = ru_id rule, al_ruleName = ru_name rule, al_condition = ru_condition rule,
             al_threshold = ru_threshold rule, al_currentValue = v, al_message = msg, al_timestamp = stamp\<rparr>"
      let ?m = "await (on_world (prom_inc (nd_prom D) ''alerts_triggered_total'' [ru_name rule, condition_name (ru_condition rule)] 1))
          (\<lambda>_. dispatch D (Some (alert_fields a)) (ru_channels rule))"
      have "raise_alert D now rule v msg (w, c) = ?m (w2, raised a now c)"
        using u t \<open>u = Inr k\<close> Inr unfolding raise_alert_def
        by (simp add: await_def on_world_def Let_def a_def [symmetric] raised_def push_alert_def) (simp add: a_def)
      then have run: "?m (w2, raised a now c) = (r, (w', c'))" using assms by simp
      have "preserves (\<lambda>wc. alerts_of (snd wc)) ?m" by (intro frame dispatch_alerts)
      from preservesD [OF this run] have "alerts_of c' = alerts_of (raised a now c)" by simp
      moreover have "al_ruleId a = ru_id rule" by (simp add: a_def)
      ultimately show ?thesis by blast
    qed
  qed
qed

lemma raise_alert_sent: "maintains (\<lambda>c. length (at_sent c) \<le> 100) (raise_alert D now rule v msg)"
  unfolding raise_alert_def Let_def by (intro maintain dispatch_sent) (simp_all add: push_alert_def)

text \<open>One rule: nothing changes, or it was due and one alert is raised.\<close>

lemma check_rule_cases:
  assumes "check_rule D now rule (w, c) = (r, (w', c'))"
  obtains (quiet) "r = Inr ()" "alerts_of c' = alerts_of c"
    | (raised) a where "r = Inr ()" "al_ruleId a = ru_id rule" "alerts_of c' = alerts_of (raised a now c)" "ru_enabled rule"
        "\<not> debounced D now (last_time c (ru_id rule))"
proof (cases "\<not> ru_enabled rule \<or> debounced D now (last_time c (ru_id rule))")
  case True
  then show ?thesis using assms quiet by (auto simp: check_rule_def split: if_splits)
next
  case False
  obtain g w1 where g: "nd_get D (summary_url D rule) w = (g, w1)" by fastforce
  show ?thesis
  proof (cases g)
    case (Inl e)
    then show ?thesis using assms False g quiet by (auto simp: check_rule_def await_def on_world_def try_catch_def)
  next
    case (Inr stats)
    obtain b v msg where e: "evaluateCondition (nd_fmt D) rule stats = (b, v, msg)" by (metis prod_cases3)
    obtain r2 w2 c2 where m: "raise_alert D now rule v msg (w1, c) = (r2, (w2, c2))" by (metis prod_cases3)
    show ?thesis
    proof (cases b)
      case False
      then show ?thesis using assms \<open>\<not> (\<not> ru_enabled rule \<or> _)\<close> g Inr e quiet
        by (auto simp: check_rule_def await_def on_world_def try_catch_def)
    next
      case True
      then have "r = Inr ()" "c' = c2"
        using assms False g Inr e m by (auto simp: check_rule_def await_def on_world_def try_catch_def split: sum.splits)
      then show ?thesis using raise_alert_alerts [OF m] False quiet raised by auto
    qed
  qed
qed

lemma check_rule_sent: "maintains (\<lambda>c. length (at_sent c) \<le> 100) (check_rule D now rule)"
  unfolding check_rule_def
  by (intro maintains_get_ctx maintain) (auto intro!: maintain raise_alert_sent split: prod.split)

section \<open>A check of all rules\<close>

lemma debounced_now:
  assumes "nd_debounceMinutes D = Num m" and "1 \<le> m"
  shows "debounced D now now"
proof -
  have "of_int 1 \<le> m * 60" using assms(2) by simp
  then have "1 \<le> fmul m 60" using dbl.fl_ge_int [of 1 "m * 60"] by (simp add: fmul_def)
  then have "of_int 1 \<le> fmul m 60 * 1000" by simp
  then have "1 \<le> fmul (fmul m 60) 1000" using dbl.fl_ge_int [of 1 "fmul m 60 * 1000"] by (simp add: fmul_def)
  then show ?thesis using assms(1) by (simp add: debounced_def)
qed

lemma alerts_of_raised:
  assumes "alerts_of c' = alerts_of (raised a now c)"
  shows "at_rules c' = at_rules c" and "at_history c' = unshift_capped 50 a (at_history c)"
    and "last_time c' k = (if k = al_ruleId a then now else last_time c k)"
  using assms by (auto simp: alerts_of_def raised_def push_alert_def last_time_def update_conv')

lemma alerts_of_same:
  assumes "alerts_of c' = alerts_of c"
  shows "at_rules c' = at_rules c" and "at_history c' = at_history c" and "last_time c' = last_time c"
  using assms by (auto simp: alerts_of_def last_time_def fun_eq_iff)

definition alerts_added :: "'w notify_deps \<Rightarrow> int \<Rightarrow> alert_rule list \<Rightarrow> alerting \<Rightarrow> alert_record list \<Rightarrow> alerting \<Rightarrow> bool" where
  "alerts_added D now rules c new c' \<longleftrightarrow>
     at_rules c' = at_rules c \<and> at_history c' = take 50 (new @ at_history c) \<and> distinct (map al_ruleId new) \<and>
     (\<forall>a \<in> set new. \<not> debounced D now (last_time c (al_ruleId a)) \<and> (\<exists>rule \<in> set rules. ru_enabled rule \<and> ru_id rule = al_ruleId a)) \<and>
     (\<forall>k. last_time c' k = (if k \<in> al_ruleId ` set new then now else last_time c k))"

lemma check_rules:
  assumes now: "debounced D now now" and "length (at_history c) \<le> 50" and "for_each rules (check_rule D now) (w, c) = (r, (w', c'))"
  shows "r = Inr () \<and> (\<exists>new. alerts_added D now rules c new c')"
  using assms(2,3)
proof (induction rules arbitrary: w c)
  case Nil
  then show ?case by (auto simp: alerts_added_def intro!: exI [of _ "[]"])
next
  case (Cons rule rules)
  obtain r1 w1 c1 where m: "check_rule D now rule (w, c) = (r1, (w1, c1))" by (metis prod_cases3)
  from m show ?case
  proof (cases rule: check_rule_cases)
    case quiet
    note same = alerts_of_same [OF quiet(2)]
    have "for_each rules (check_rule D now) (w1, c1) = (r, (w', c'))"
      using Cons.prems(2) m quiet(1) by (simp add: await_def)
    from Cons.IH [OF _ this] obtain new where "r = Inr ()" "alerts_added D now rules c1 new c'"
      using Cons.prems(1) same(2) by auto
    then show ?thesis using same by (auto simp: alerts_added_def)
  next
    case (raised a)
    note chg = alerts_of_raised [OF raised(3)]
    have hist: "at_history c1 = take 50 (a # at_history c)"
      using chg(2) Cons.prems(1) by (simp add: unshift_capped_take)
    have "for_each rules (check_rule D now) (w1, c1) = (r, (w', c'))"
      using Cons.prems(2) m raised(1) by (simp add: await_def)
    from Cons.IH [OF _ this] obtain new where new: "r = Inr ()" "alerts_added D now rules c1 new c'"
      using hist by auto
    have fresh: "al_ruleId b \<noteq> al_ruleId a" if "b \<in> set new" for b
    proof
      assume "al_ruleId b = al_ruleId a"
      then have "last_time c1 (al_ruleId b) = now" by (simp add: chg(3))
      then show False using new(2) that now by (auto simp: alerts_added_def)
    qed
    then have new_id: "al_ruleId a \<notin> set (map al_ruleId new)" by (metis (no_types) imageE list.set_map)
    have "alerts_added D now (rule # rules) c (new @ [a]) c'"
      unfolding alerts_added_def
    proof (intro conjI allI)
      show "at_rules c' = at_rules c" using new(2) chg(1) by (simp add: alerts_added_def)
      have cut: "take 50 (new @ take 50 xs) = take 50 (new @ xs)" for xs by (simp add: min_def)
      have "at_history c' = take 50 (new @ at_history c1)" using new(2) by (simp only: alerts_added_def)
      also have "\<dots> = take 50 (new @ a # at_history c)" unfolding hist by (rule cut)
      finally show "at_history c' = take 50 ((new @ [a]) @ at_history c)" by simp
      show "distinct (map al_ruleId (new @ [a]))"
        using new(2) new_id unfolding alerts_added_def map_append distinct_append by simp
      show "\<forall>b \<in> set (new @ [a]). \<not> debounced D now (last_time c (al_ruleId b)) \<and>
          (\<exists>ru \<in> set (rule # rules). ru_enabled ru \<and> ru_id ru = al_ruleId b)"
        using new(2) raised(2,4,5) fresh by (auto simp: alerts_added_def chg(3))
      show "last_time c' k = (if k \<in> al_ruleId ` set (new @ [a]) then now else last_time c k)" for k
        using new(2) by (auto simp: alerts_added_def chg(3))
    qed
    then show ?thesis using new(1) by blast
  qed
qed

text \<open>
  C27. The debounce of the alerts. A check raises at most one alert for a rule id, and only for an
  enabled rule whose last alert is at least the debounce time ago; it then remembers the time of
  the check, so that the rule is quiet again, also when the notification cannot be delivered. The
  history keeps the newest 50 alerts and that of the notifications at most 100.
\<close>

theorem check_alerts_debounced:
  assumes clock: "\<And>w. date_now (nd_sys D) w = (Inr (clk w), w)" and m: "nd_debounceMinutes D = Num m" "1 \<le> m"
    and len: "length (at_history c) \<le> 50" "length (at_sent c) \<le> 100" and run: "checkAlerts D (w, c) = (r, (w', c'))"
  shows "\<exists>new. at_rules c' = at_rules c \<and> at_history c' = take 50 (new @ at_history c) \<and> distinct (map al_ruleId new) \<and>
    (\<forall>a \<in> set new. \<not> debounced D (clk w) (last_time c (al_ruleId a)) \<and>
       (\<exists>rule \<in> set (at_rules c). ru_enabled rule \<and> ru_id rule = al_ruleId a)) \<and>
    (\<forall>k. last_time c' k = (if k \<in> al_ruleId ` set new then clk w else last_time c k)) \<and> length (at_sent c') \<le> 100"
proof -
  obtain r1 w1 c1 where loop: "for_each (at_rules c) (check_rule D (clk w)) (w, c) = (r1, (w1, c1))" by (metis prod_cases3)
  from check_rules [OF debounced_now [OF m] len(1) loop] obtain new where
    new: "r1 = Inr ()" "alerts_added D (clk w) (at_rules c) c new c1" by blast
  have "c' = c1"
    using run loop new(1) by (auto simp: checkAlerts_def await_def on_world_def clock split: prod.splits)
  moreover have "length (at_sent c1) \<le> 100"
    using maintainsD [OF maintains_for_each [OF check_rule_sent] loop len(2)] .
  ultimately show ?thesis using new(2) by (auto simp: alerts_added_def)
qed

section \<open>Which rules the summary can trigger\<close>

fun number_field :: "rat js \<Rightarrow> rat option" where
  "number_field (Num x) = Some x"
| "number_field NaN = None"

text \<open>The fields of the answer of the summary that hold numbers.\<close>

definition summary_numbers :: "summary_stats \<Rightarrow> string \<Rightarrow> rat option" where
  "summary_numbers s f =
     (case map_of [(''totalRequests'', js_map of_int (su_totalRequests s)), (''cacheHitRatio'', su_cacheHitRatio s),
        (''avgLatency'', su_avgLatency s), (''p95Latency'', su_p95Latency s), (''totalBandwidthBytes'', js_map of_int (su_totalBandwidthBytes s)),
        (''errorRate'', su_errorRate s), (''activeUsers'', js_map of_int (su_activeUsers s)), (''windowMinutes'', Num (of_int (su_windowMinutes s)))] f
      of None \<Rightarrow> None | Some x \<Rightarrow> number_field x)"

lemma summary_error_rate:
  assumes T: "event_table D table now like" and run: "getSummaryStats D n w = (Inr s, w')"
  shows "\<exists>x. su_errorRate s = Num x \<and> 0 \<le> x \<and> x \<le> 1"
proof -
  obtain w3 e w4 where e: "getErrorRate D n w3 = (Inr e, w4)" "su_errorRate s = er_errorRate e"
    using run unfolding getSummaryStats_def by (auto elim!: await_InrE)
  obtain x where "getErrorRate D n w3 = (Inr \<lparr>er_errorRate = Num x, er_total = Num (int (length (filter (in_window (now w3) n) (table w3)))),
      er_errors = Num (int (length (filter row_failed (filter (in_window (now w3) n) (table w3)))))\<rparr>, w3)" "0 \<le> x" "x \<le> 1"
    using event_table.error_report [OF T refl, of n w3] by blast
  with e show ?thesis by auto
qed

text \<open>
  The alerts do not match what they are computed from. The summary reports the error rate as a
  fraction, and neither a cache hit rate, a bandwidth usage nor a number of active edges under the
  names the conditions read: a rule can fire only with a threshold below 1 for errors, above 100 for
  the cache, below 0 for the bandwidth, and from 1 on for the edges. Of the four default rules only
  the one on latency ever can.
\<close>

theorem alerts_mismatch:
  assumes T: "event_table D table now like" and run: "getSummaryStats D n w = (Inr s, w')"
    and fires: "fst (evaluateCondition F rule (summary_numbers s))"
  shows "(case ru_condition rule of Error_rate_above \<Rightarrow> ru_threshold rule < 1 | Latency_above \<Rightarrow> True
      | Cache_hit_below \<Rightarrow> 100 < ru_threshold rule | Bandwidth_above \<Rightarrow> ru_threshold rule < 0 | Edge_down \<Rightarrow> 1 \<le> ru_threshold rule) \<and>
    (rule \<in> set DEFAULT_ALERT_RULES \<longrightarrow> ru_name rule = ''High Latency'')"
proof -
  obtain x where x: "su_errorRate s = Num x" "0 \<le> x" "x \<le> 1" using summary_error_rate [OF T run] by blast
  have fields: "summary_numbers s ''errorRate'' = Some x" "summary_numbers s ''cacheHitRate'' = None"
    "summary_numbers s ''bandwidthUsage'' = None" "summary_numbers s ''activeEdges'' = None"
    by (simp_all add: summary_numbers_def x)
  have general: "case ru_condition rule of Error_rate_above \<Rightarrow> ru_threshold rule < 1 | Latency_above \<Rightarrow> True
      | Cache_hit_below \<Rightarrow> 100 < ru_threshold rule | Bandwidth_above \<Rightarrow> ru_threshold rule < 0 | Edge_down \<Rightarrow> 1 \<le> ru_threshold rule"
    using fires x by (cases "ru_condition rule") (auto simp: evaluateCondition_def fields or_num_def Let_def split: if_splits)
  moreover have "ru_name rule = ''High Latency''" if "rule \<in> set DEFAULT_ALERT_RULES"
    using that general by (auto simp: DEFAULT_ALERT_RULES_def)
  ultimately show ?thesis by blast
qed

section \<open>Pages\<close>

text \<open>Decimal digits read as their number, a number prints as its digits, within what a double holds.\<close>

definition decimal_numfmt :: "numfmt \<Rightarrow> bool" where
  "decimal_numfmt F \<longleftrightarrow>
     (\<forall>ds. ds \<noteq> [] \<and> list_all is_digit ds \<and> digits_val ds \<le> 2 ^ 53 \<longrightarrow> number_of_string F ds = Num (of_nat (digits_val ds))) \<and>
     (\<forall>n. n \<le> 2 ^ 53 \<longrightarrow> num_to_string F (Num (of_nat n)) = show_nat n)"

lemma digits_val_append: "digits_val (a @ b) = digits_val a * 10 ^ length b + digits_val b"
proof (induction b rule: rev_induct)
  case (snoc c b)
  have "digits_val ((a @ b) @ [c]) = 10 * digits_val (a @ b) + digits_val [c]"
    unfolding digits_val_append_digit by (simp add: digits_val_def)
  then show ?case using snoc digits_val_append_digit [of b c] by (simp add: digits_val_def algebra_simps)
qed (simp add: digits_val_def)

lemma show_nat_is_digits: "show_nat n \<noteq> [] \<and> list_all is_digit (show_nat n)"
  using show_nat_digits [of n] by (simp add: list_all_iff)

lemma number_of_nat: "decimal_numfmt F \<Longrightarrow> n \<le> 2 ^ 53 \<Longrightarrow> number_of_string F (show_nat n) = Num (of_nat n)"
  unfolding decimal_numfmt_def using show_nat_is_digits [of n] by (simp add: digits_val_show_nat)

text \<open>What a page holds whose size is given as text.\<close>

definition page_read :: "nat \<Rightarrow> nat \<Rightarrow> 'a list \<Rightarrow> 'a list" where
  "page_read p s xs =
     (let start = (p - 1) * s in take (start * 10 ^ length (show_nat s) + s - start) (drop start xs))"

lemma slice_index_nat [simp]: "slice_index (Num (of_nat n)) len = min n len"
  by (simp add: slice_index_def Let_def)

lemma js_slice_nat: "i \<le> j \<Longrightarrow> js_slice (Num (of_nat i)) (Num (of_nat j)) xs = take (j - i) (drop i xs)"
  by (cases "i \<le> length xs"; cases "j \<le> length xs") (auto simp: js_slice_def Let_def min_def)

lemma length_show_nat_le: "s \<le> 1000 \<Longrightarrow> length (show_nat s) \<le> 4"
  by (subst show_nat.simps, subst show_nat.simps, subst show_nat.simps, subst show_nat.simps) auto

lemma page_of_texts:
  assumes F: "decimal_numfmt F" and p: "1 \<le> p" "p \<le> 1000" and s: "1 \<le> s" "s \<le> 1000"
  shows "pg_data (page_of F (Given (show_nat p)) (Given (show_nat s)) xs) = page_read p s xs"
proof -
  define start where "start = (p - 1) * s"
  have "start \<le> 999 * 1000" unfolding start_def using p s by (intro mult_le_mono) auto
  then have small: "start \<le> 999000" by simp
  have nums: "number_of_string F (show_nat p) = Num (of_nat p)" "number_of_string F (show_nat s) = Num (of_nat s)"
    using number_of_nat [OF F] p s by simp_all
  have "fsub (of_nat p) 1 = of_nat (p - 1)"
    using dbl.fl_int [of "int (p - 1)"] p by (simp add: fsub_def of_nat_diff)
  moreover have "fmul (of_nat (p - 1)) (of_nat s) = of_nat start"
  proof -
    have "(of_nat (p - 1) * of_nat s :: rat) = of_int (int start)" by (simp add: start_def)
    then show ?thesis using dbl.fl_int [of "int start"] small by (simp add: fmul_def)
  qed
  ultimately have st: "page_start (Num (of_nat p)) (Num (of_nat s)) = Num (of_nat start)" by simp
  define stop where "stop = digits_val (show_nat start @ show_nat s)"
  have stop: "stop = start * 10 ^ length (show_nat s) + s"
    by (simp add: stop_def digits_val_append digits_val_show_nat)
  have "start * 10 ^ length (show_nat s) \<le> 999000 * 10 ^ 4"
    using small length_show_nat_le [OF s(2)] by (intro mult_le_mono power_increasing) auto
  then have "stop \<le> 2 ^ 53" using stop s by simp
  then have calc: "page_stop F (Num (of_nat start)) (Given (show_nat s)) = Num (of_nat stop)"
    using F show_nat_is_digits [of start] show_nat_is_digits [of s] small unfolding decimal_numfmt_def stop_def by simp
  have "start \<le> stop" unfolding stop by (simp add: trans_le_add1)
  then have "js_slice (Num (of_nat start)) (Num (of_nat stop)) xs = page_read p s xs"
    unfolding page_read_def Let_def start_def [symmetric] stop [symmetric] by (rule js_slice_nat)
  then show ?thesis
    by (simp only: page_of_def arg_num.simps nums st calc Let_def js_page.select_convs)
qed

text \<open>
  The pages of the rules and of both histories overrun: the size of the page arrives as text
  and is appended to the digits of the start. The first page is right; a later one runs to the end
  of the list as long as that has no more than ten times as many entries as come before the page.
\<close>

theorem pages_overrun:
  assumes F: "decimal_numfmt F" and p: "1 \<le> p" "p \<le> 1000" and s: "1 \<le> s" "s \<le> 1000"
  shows "pg_data (listRules_route F (Some (show_nat p)) (Some (show_nat s)) c) = page_read p s (at_rules c) \<and>
    pg_data (getAlertHistory_route F (Some (show_nat p)) (Some (show_nat s)) c) = page_read p s (at_history c) \<and>
    pg_data (notificationHistory_route F (Some (show_nat p)) (Some (show_nat s)) c) = page_read p s (at_sent c) \<and>
    page_read 1 s (at_rules c) = take s (at_rules c) \<and>
    (1 < p \<and> length (at_rules c) \<le> 10 * ((p - 1) * s) \<longrightarrow> page_read p s (at_rules c) = drop ((p - 1) * s) (at_rules c))"
proof -
  have arg: "arg_or (Some (show_nat n)) d = Given (show_nat n)" for n d
    by (cases "show_nat n") (simp_all add: arg_or_def show_nat_nonempty [THEN notE])
  have "1 \<le> length (show_nat s)" using show_nat_nonempty [of s] by (cases "show_nat s") auto
  then have ten: "(10::nat) \<le> 10 ^ length (show_nat s)" using power_increasing [of 1 "length (show_nat s)" "10::nat"] by simp
  have "page_read p s (at_rules c) = drop ((p - 1) * s) (at_rules c)" if "length (at_rules c) \<le> 10 * ((p - 1) * s)"
  proof -
    have "10 * ((p - 1) * s) \<le> (p - 1) * s * 10 ^ length (show_nat s)"
      using mult_le_mono2 [OF ten, of "(p - 1) * s"] by (simp only: mult.commute)
    then have "length (at_rules c) \<le> (p - 1) * s * 10 ^ length (show_nat s) + s"
      using that by (meson le_trans trans_le_add1)
    then show ?thesis unfolding page_read_def Let_def
      by (intro take_all) (simp only: length_drop diff_le_mono)
  qed
  moreover have "page_read 1 s (at_rules c) = take s (at_rules c)" by (simp add: page_read_def)
  ultimately show ?thesis
    by (simp add: listRules_route_def listRules_def getAlertHistory_route_def getAlertHistory_def notificationHistory_route_def
        getHistory_def arg page_of_texts [OF F p s])
qed

section \<open>The service in the world\<close>

definition world_notify :: "world notify_deps" where
  "world_notify =
     \<lparr>nd_get = (\<lambda>u. return [''errorRate'' \<mapsto> 10]), nd_post = (\<lambda>u p. return ()), nd_mail = (\<lambda>f t s b. return ()),
      nd_random_id = return ''r'', nd_sys = world_sys, nd_prom = world_prom, nd_fmt = world_numfmt, nd_config = Map.empty,
      nd_debounceMinutes = Num 10\<rparr>"

definition fresh_alerting :: alerting where
  "fresh_alerting = \<lparr>at_rules = [hd DEFAULT_ALERT_RULES], at_history = [], at_lastTriggered = [], at_sent = []\<rparr>"

text \<open>The first check raises an alert; a second one, a minute later, is covered by the debounce.\<close>

theorem check_alerts_debounced_witness:
  "\<exists>a w1 c1. checkAlerts world_notify (world_at 1000000, fresh_alerting) = (Inr (), (w1, c1)) \<and>
    al_ruleId a = ''1'' \<and> at_history c1 = [a] \<and> last_time c1 ''1'' = 1000000 \<and>
    (\<exists>r w2 c2. checkAlerts world_notify (world_at 1060000, c1) = (r, (w2, c2)) \<and> at_history c2 = [a])"
proof -
  have due: "\<not> debounced world_notify 1000000 0" "debounced world_notify 1060000 1000000"
    using dbl.fl_int [of 600] dbl.fl_int [of 600000] by (simp_all add: debounced_def world_notify_def fmul_def)
  define res where "res = checkAlerts world_notify (world_at 1000000, fresh_alerting)"
  have run: "fst res = Inr () \<and> (\<exists>a. al_ruleId a = ''1'' \<and> at_history (snd (snd res)) = [a]) \<and> last_time (snd (snd res)) ''1'' = 1000000 \<and>
      at_rules (snd (snd res)) = at_rules fresh_alerting \<and> length (at_sent (snd (snd res))) \<le> 100"
    using due(1)
    by (simp add: res_def checkAlerts_def check_rule_def raise_alert_def dispatch_def fresh_alerting_def DEFAULT_ALERT_RULES_def world_notify_def
        world_sys_def world_prom_def await_def on_world_def try_catch_def evaluateCondition_def or_num_def Let_def last_time_def
        push_alert_def push_sent_def unshift_capped_def send_channel_def sendWebhook_def alert_fields_def world_at_def)
  then obtain a w1 c1 where first: "checkAlerts world_notify (world_at 1000000, fresh_alerting) = (Inr (), (w1, c1))"
    "al_ruleId a = ''1''" "at_history c1 = [a]" "last_time c1 ''1'' = 1000000" "at_rules c1 = at_rules fresh_alerting" "length (at_sent c1) \<le> 100"
    unfolding res_def by (metis prod.collapse)
  obtain r w2 c2 where second: "checkAlerts world_notify (world_at 1060000, c1) = (r, (w2, c2))" by (metis prod_cases3)
  have clock: "\<And>w. date_now (nd_sys world_notify) w = (Inr (w_now w), w)" by (simp add: world_notify_def world_sys_def)
  have m: "nd_debounceMinutes world_notify = Num 10" "(1::rat) \<le> 10" by (simp_all add: world_notify_def)
  obtain new where new: "at_history c2 = take 50 (new @ [a])"
    "\<forall>b \<in> set new. \<not> debounced world_notify (w_now (world_at 1060000)) (last_time c1 (al_ruleId b)) \<and>
       (\<exists>rule \<in> set (at_rules c1). ru_enabled rule \<and> ru_id rule = al_ruleId b)"
    using check_alerts_debounced [OF clock m _ first(6) second] first(3) by auto
  have "new = []"
  proof (rule ccontr)
    assume "new \<noteq> []"
    then obtain b where "b \<in> set new" by (cases new) auto
    then show False using new(2) first(4,5) due(2) by (auto simp: fresh_alerting_def DEFAULT_ALERT_RULES_def world_at_def)
  qed
  then show ?thesis using first second new(1) by auto
qed

definition eager_rule :: alert_rule where
  "eager_rule = (hd DEFAULT_ALERT_RULES)\<lparr>ru_threshold := 0\<rparr>"

theorem alerts_mismatch_witness:
  "\<exists>s w'. getSummaryStats world_analytics 1 (log_world_of [row1, row2]) = (Inr s, w') \<and>
    fst (evaluateCondition world_numfmt eager_rule (summary_numbers s)) \<and> ru_threshold eager_rule < 1"
proof -
  let ?w = "log_world_of [row1, row2]"
  have recent: "[row1, row2] = filter (in_window (w_now ?w) 1) (lw_rows ?w)"
    by (simp add: log_world_of_def world.defs world_at_def in_window_def row_time_def row1_def row2_def)
  obtain c where c: "getCacheHitRatio world_analytics 1 ?w = (Inr c, ?w)" using logs.cache_report [OF recent] by blast
  have failed: "row_failed row1" "\<not> row_failed row2"
    by (simp_all add: row_failed_def row_status_def row1_def row2_def)
  have half: "js_fl (1 / 2) > 0" using js_fl_representable [of "1 / 2"] by (simp add: representable_def power_int_def exI [of _ "-1::int"] exI [of _ "1::int"])
  obtain e where e: "getErrorRate world_analytics 1 ?w = (Inr e, ?w)" "er_errorRate e = Num (js_fl (1 / 2))"
    by (simp add: getErrorRate_def await_def logs.errors recent [symmetric] failed first_row_def Let_def fdiv_def)
  have other: "an_query world_analytics t [] ?w = (Inr [[]], ?w)" if "t \<in> {latency_sql 1, users_sql 1, bytes_sql 1, avg_sql 1}" for t
    using other_queries [OF that] by (simp add: world_analytics_def)
  obtain s where s: "getSummaryStats world_analytics 1 ?w = (Inr s, ?w)" "su_errorRate s = Num (js_fl (1 / 2))"
    by (simp add: getSummaryStats_def await_def c e other getLatencyPercentiles_def getActiveUsers_def first_row_def)
       (simp add: world_analytics_def world_sys_def e)
  have fires: "fst (evaluateCondition world_numfmt eager_rule (summary_numbers s))"
    using half by (simp add: evaluateCondition_def eager_rule_def DEFAULT_ALERT_RULES_def summary_numbers_def s(2) or_num_def Let_def)
  have "ru_threshold eager_rule < 1"
    using alerts_mismatch [OF logs.event_table_axioms s(1) fires] by (simp add: eager_rule_def DEFAULT_ALERT_RULES_def)
  then show ?thesis using s(1) fires by blast
qed

definition digit_numfmt :: numfmt where
  "digit_numfmt = world_numfmt\<lparr>num_to_string := (\<lambda>x. case x of NaN \<Rightarrow> ''NaN'' | Num r \<Rightarrow> show_int \<lfloor>r\<rfloor>)\<rparr>"

lemma parse_int_digits:
  assumes "ds \<noteq> []" and "list_all is_digit ds"
  shows "parse_int ds = Num (int (digits_val ds))"
proof -
  obtain c cs where ds: "ds = c # cs" using assms(1) by (cases ds) auto
  have "takeWhile is_digit cs = cs" and "is_digit c" using assms(2) by (simp_all add: ds list_all_iff)
  note digits = this
  show ?thesis using is_digit_not_special [OF digits(2)] by (simp add: ds parse_int_def parse_nat_def digits)
qed

lemma digit_numfmt_ok: "decimal_numfmt digit_numfmt"
  by (auto simp: decimal_numfmt_def digit_numfmt_def world_numfmt_def parse_int_digits show_int_def)

theorem pages_overrun_witness:
  "pg_data (listRules_route digit_numfmt (Some (show_nat 2)) (Some (show_nat 1)) \<lparr>at_rules = DEFAULT_ALERT_RULES, at_history = [], at_lastTriggered = [], at_sent = []\<rparr>)
     = tl DEFAULT_ALERT_RULES"
  using pages_overrun [OF digit_numfmt_ok, of 2 1 "\<lparr>at_rules = DEFAULT_ALERT_RULES, at_history = [], at_lastTriggered = [], at_sent = []\<rparr>"]
  by (simp add: DEFAULT_ALERT_RULES_def drop_Suc)

end
