(* ===== verification/Realtime.thy ===== *)
theory Realtime
  imports Analytics World
begin

text \<open>
  The websocket gateway (\<open>apps/websocket-gateway\<close>) and what the dashboard does with its events: the
  rooms, the relay of Kafka topics and purge messages into them, and the metrics of the last five
  seconds. Socket.IO is a parameter: joining and leaving rooms, emitting, and the number of clients.
  The samples of latencies and status codes are the numbers the services publish.
\<close>

section \<open>Rooms and events\<close>

record realtime_metrics =
  rm_requestsPerSec :: rat
  rm_cacheHitRatio :: "rat js"
  rm_avgLatencyMs :: "rat js"
  rm_activeConnections :: nat
  rm_errorRate :: "rat js"
  rm_timestamp :: string

datatype ws_data = Event json | Metrics realtime_metrics

text \<open>To one client, to a room, or to everyone.\<close>

datatype ws_target = Client string | Room string | Everyone

record 'w ws_deps =
  ws_join :: "string \<Rightarrow> string \<Rightarrow> ('w, unit) io"
  ws_leave :: "string \<Rightarrow> string \<Rightarrow> ('w, unit) io"
  ws_emit :: "ws_target \<Rightarrow> string \<Rightarrow> ws_data \<Rightarrow> ('w, unit) io"
  ws_count :: "('w, nat) io"
  ws_sys :: "'w sys"
  ws_fmt :: numfmt

definition handleConnection :: "'w ws_deps \<Rightarrow> string \<Rightarrow> ('w, unit) io" where
  "handleConnection D client =
     await (date_now (ws_sys D)) (\<lambda>now.
     ws_emit D (Client client) ''connected''
       (Event (JObj [(''clientId'', JStr client), (''timestamp'', JStr (iso_string (ws_fmt D) now)), (''subscribedRooms'', JArr [])])))"

definition handleDisconnect :: "string \<Rightarrow> ('w, unit) io" where
  "handleDisconnect client = return ()"

definition handleSubscribe :: "'w ws_deps \<Rightarrow> string \<Rightarrow> string list \<Rightarrow> ('w, string \<times> string list) io" where
  "handleSubscribe D client rooms = await (for_each rooms (\<lambda>room. ws_join D client room)) (\<lambda>_. return (''subscribed'', rooms))"

definition handleUnsubscribe :: "'w ws_deps \<Rightarrow> string \<Rightarrow> string list \<Rightarrow> ('w, unit) io" where
  "handleUnsubscribe D client rooms = for_each rooms (\<lambda>room. ws_leave D client room)"

definition emitRequestEvent :: "'w ws_deps \<Rightarrow> json \<Rightarrow> ('w, unit) io" where
  "emitRequestEvent D event = ws_emit D (Room ''events'') ''request_event'' (Event event)"

definition emitMetricsUpdate :: "'w ws_deps \<Rightarrow> realtime_metrics \<Rightarrow> ('w, unit) io" where
  "emitMetricsUpdate D m = ws_emit D (Room ''metrics'') ''metrics_update'' (Metrics m)"

definition emitAlert :: "'w ws_deps \<Rightarrow> json \<Rightarrow> ('w, unit) io" where
  "emitAlert D alert = ws_emit D (Room ''alerts'') ''alert_triggered'' (Event alert)"

definition emitCachePurge :: "'w ws_deps \<Rightarrow> json \<Rightarrow> ('w, unit) io" where
  "emitCachePurge D event = ws_emit D (Room ''cdn'') ''cache_purged'' (Event event)"

definition emitStorageEvent :: "'w ws_deps \<Rightarrow> json \<Rightarrow> ('w, unit) io" where
  "emitStorageEvent D event = ws_emit D (Room ''storage'') ''storage_event'' (Event event)"

definition broadcast :: "'w ws_deps \<Rightarrow> string \<Rightarrow> json \<Rightarrow> ('w, unit) io" where
  "broadcast D event data = ws_emit D Everyone event (Event data)"

definition broadcastStorageEvent :: "'w ws_deps \<Rightarrow> json \<Rightarrow> ('w, unit) io" where
  "broadcastStorageEvent D event = ws_emit D Everyone ''storage.events'' (Event event)"

section \<open>The relay\<close>

record sample =
  sa_receivedAt :: int
  sa_latencyMs :: int
  sa_cacheHit :: bool
  sa_status :: int

definition METRICS_WINDOW_MS :: int where
  "METRICS_WINDOW_MS = 5000"

text \<open>\<open>data.f || 0\<close> on a field that holds a number.\<close>

definition num_or_zero :: "string \<Rightarrow> json \<Rightarrow> int" where
  "num_or_zero f data = (case jget f data of Some (JNum n) \<Rightarrow> n | _ \<Rightarrow> 0)"

definition sample_of :: "int \<Rightarrow> json \<Rightarrow> sample" where
  "sample_of now data =
     \<lparr>sa_receivedAt = now, sa_latencyMs = num_or_zero ''latencyMs'' data, sa_cacheHit = jtruthy (jget ''cacheHit'' data),
      sa_status = num_or_zero ''status'' data\<rparr>"

definition ws_eachMessage :: "'w ws_deps \<Rightarrow> string \<Rightarrow> string option \<Rightarrow> ('w \<times> sample list, unit) io" where
  "ws_eachMessage D topic message =
     (case message of
        None \<Rightarrow> return ()
      | Some s \<Rightarrow>
          try_catch
            (case json_parse s of
               None \<Rightarrow> throw (JsError ''Unexpected token'')
             | Some data \<Rightarrow>
                 if topic = ''request.events'' then
                   await (on_world (emitRequestEvent D data)) (\<lambda>_.
                   await (on_world (date_now (ws_sys D))) (\<lambda>now.
                   await (on_world (read_of ''latencyMs'' data)) (\<lambda>_.
                   mod_ctx (\<lambda>recent. recent @ [sample_of now data]))))
                 else if topic = ''storage.events'' then on_world (emitStorageEvent D data)
                 else if topic = ''alerts.triggered'' then on_world (emitAlert D data)
                 else return ())
            (\<lambda>e. return ()))"

definition ws_onPurge :: "'w ws_deps \<Rightarrow> string \<Rightarrow> string \<Rightarrow> ('w, unit) io" where
  "ws_onPurge D channel message =
     (if channel = ''cache:invalidate'' then
        try_catch (case json_parse message of None \<Rightarrow> throw (JsError ''Unexpected token'') | Some event \<Rightarrow> emitCachePurge D event)
          (\<lambda>e. return ())
      else return ())"

section \<open>The metrics of the last seconds\<close>

definition per_total :: "int \<Rightarrow> nat \<Rightarrow> rat js" where
  "per_total k n = (if n > 0 then js_div (of_int k) (of_nat n) else Num 0)"

definition metrics_of :: "sample list \<Rightarrow> nat \<Rightarrow> string \<Rightarrow> realtime_metrics" where
  "metrics_of recent connections timestamp =
     (let n = length recent; hits = length (filter sa_cacheHit recent); errors = length (filter (\<lambda>r. sa_status r \<ge> 400) recent);
          latencySum = sum_list (map sa_latencyMs recent)
      in \<lparr>rm_requestsPerSec = fdiv (of_nat n) (fdiv (of_int METRICS_WINDOW_MS) 1000),
          rm_cacheHitRatio = per_total (int hits) n, rm_avgLatencyMs = per_total latencySum n,
          rm_activeConnections = connections, rm_errorRate = per_total (int errors) n, rm_timestamp = timestamp\<rparr>)"

text \<open>One tick of the timer that \<open>startMetricsEmitter\<close> starts.\<close>

definition metrics_tick :: "'w ws_deps \<Rightarrow> ('w \<times> sample list, unit) io" where
  "metrics_tick D =
     await (on_world (date_now (ws_sys D))) (\<lambda>t.
     (let cutoff = t - METRICS_WINDOW_MS
      in await (mod_ctx (filter (\<lambda>r. sa_receivedAt r \<ge> cutoff))) (\<lambda>_.
         await get_ctx (\<lambda>recent.
         await (on_world (ws_count D)) (\<lambda>connections.
         await (on_world (date_now (ws_sys D))) (\<lambda>now.
         on_world (emitMetricsUpdate D (metrics_of recent connections (iso_string (ws_fmt D) now)))))))))"

section \<open>The hooks of the dashboard\<close>

text \<open>\<open>[event, ...prev].slice(0, n)\<close>\<close>

definition newest :: "nat \<Rightarrow> json \<Rightarrow> json list \<Rightarrow> json list" where
  "newest n event prev = take n (event # prev)"

definition useRealtimeEvents_on :: "nat \<Rightarrow> json \<Rightarrow> json list \<Rightarrow> json list" where
  "useRealtimeEvents_on maxEvents = newest maxEvents"

definition useRealtimeAlerts_on :: "json \<Rightarrow> json list \<Rightarrow> json list" where
  "useRealtimeAlerts_on = newest 50"

record realtime_state =
  rs_metrics :: "ws_data option"
  rs_connected :: bool

datatype socket_event = Connect | Disconnect | Metrics_update ws_data

fun useRealtimeMetrics_on :: "socket_event \<Rightarrow> realtime_state \<Rightarrow> realtime_state" where
  "useRealtimeMetrics_on Connect s = s\<lparr>rs_connected := True\<rparr>"
| "useRealtimeMetrics_on Disconnect s = s\<lparr>rs_connected := False\<rparr>"
| "useRealtimeMetrics_on (Metrics_update d) s = s\<lparr>rs_metrics := Some d\<rparr>"

interpretation alert_feed: bounded_log useRealtimeAlerts_on "\<lambda>l. l" 50
  by unfold_locales (simp add: useRealtimeAlerts_on_def newest_def)

interpretation event_feed: bounded_log "useRealtimeEvents_on n" "\<lambda>l. l" n for n
  by unfold_locales (simp add: useRealtimeEvents_on_def newest_def)

section \<open>What a tick reports\<close>

lemma per_total_ratio: "\<exists>x \<in> {0..1}. per_total (int (length (filter P xs))) (length xs) = Num x"
  using dbl.fl_ratio [of "of_nat (length (filter P xs))" "of_nat (length xs)"] length_filter_le [of P xs]
  by (simp add: per_total_def fdiv_def)

lemma requests_per_second: "fdiv (of_nat n) (fdiv (of_int METRICS_WINDOW_MS) 1000) = js_fl (of_nat n / 5)"
  using dbl.fl_int [of 5] by (simp add: fdiv_def METRICS_WINDOW_MS_def)

text \<open>
  The metrics that go out to the room are those of the messages of the last five seconds: older
  samples are dropped for good, the ratios are between 0 and 1, also without any message, and the
  rate is the number of samples over five.
\<close>

theorem metrics_tick_window:
  assumes clock: "\<And>w. date_now (ws_sys D) w = (Inr (clk w), w)" and n: "\<And>w. ws_count D w = (Inr (cnt w), w)"
  shows "metrics_tick D (w, recent) =
      (let kept = filter (\<lambda>r. sa_receivedAt r \<ge> clk w - 5000) recent
       in on_world (ws_emit D (Room ''metrics'') ''metrics_update'' (Metrics (metrics_of kept (cnt w) (iso_string (ws_fmt D) (clk w))))) (w, kept)) \<and>
    (\<exists>x \<in> {0..1}. rm_cacheHitRatio (metrics_of kept c t) = Num x) \<and> (\<exists>x \<in> {0..1}. rm_errorRate (metrics_of kept c t) = Num x) \<and>
    rm_requestsPerSec (metrics_of kept c t) = js_fl (of_nat (length kept) / 5)"
proof (intro conjI)
  show "metrics_tick D (w, recent) =
      (let kept = filter (\<lambda>r. sa_receivedAt r \<ge> clk w - 5000) recent
       in on_world (ws_emit D (Room ''metrics'') ''metrics_update'' (Metrics (metrics_of kept (cnt w) (iso_string (ws_fmt D) (clk w))))) (w, kept))"
    by (simp add: metrics_tick_def await_def on_world_def clock n emitMetricsUpdate_def METRICS_WINDOW_MS_def Let_def)
  show "\<exists>x \<in> {0..1}. rm_cacheHitRatio (metrics_of kept c t) = Num x" "\<exists>x \<in> {0..1}. rm_errorRate (metrics_of kept c t) = Num x"
    unfolding metrics_of_def Let_def realtime_metrics.select_convs by (rule per_total_ratio)+
  show "rm_requestsPerSec (metrics_of kept c t) = js_fl (of_nat (length kept) / 5)"
    unfolding metrics_of_def Let_def realtime_metrics.select_convs by (rule requests_per_second)
qed

definition world_ws :: "world ws_deps" where
  "world_ws = \<lparr>ws_join = (\<lambda>c r. return ()), ws_leave = (\<lambda>c r. return ()),
     ws_emit = (\<lambda>t e d w. (Inr (), w\<lparr>w_topics := w_topics w @ [(e, [])]\<rparr>)), ws_count = return 3, ws_sys = world_sys, ws_fmt = world_numfmt\<rparr>"

theorem metrics_tick_window_witness:
  "\<exists>w'. metrics_tick world_ws (world_at 10000, [sample_of 4000 JNull, sample_of 9000 JNull]) = (Inr (), (w', [sample_of 9000 JNull])) \<and>
    w_topics w' = [(''metrics_update'', [])]"
proof -
  have D: "\<And>w. date_now (ws_sys world_ws) w = (Inr (w_now w), w)" "\<And>w. ws_count world_ws w = (Inr 3, w)"
    by (simp_all add: world_ws_def world_sys_def)
  show ?thesis
    using metrics_tick_window [OF D, of "world_at 10000" "[sample_of 4000 JNull, sample_of 9000 JNull]"]
    by (simp add: Let_def on_world_def world_ws_def world_at_def sample_of_def)
qed

end
