(* ===== verification/Dashboard_Client.thy ===== *)
theory Dashboard_Client
  imports Js_Value World Codec "HOL-Library.AList"
begin

text \<open>
  The dashboard's session (\<open>apps/dashboard/src/store/slices/authSlice.ts\<close>), its client of the API
  (\<open>lib/api.ts\<close>) with the refresh of an expired session, and the login page. The Redux store, \<open>fetch\<close>
  and the location of the window are parameters; other requests may run while a \<open>fetch\<close> is awaited, so
  a \<open>fetch\<close> may leave another session in the store. An \<open>ApiError\<close> is the exception
  \<open>Http status message\<close>; its code is left out, as nothing reads it.
\<close>

section \<open>The session\<close>

text \<open>The user's email and role; a token that is \<open>null\<close> or \<open>undefined\<close> is \<open>None\<close>.\<close>

record auth_state =
  au_user :: "(json option \<times> json option) option"
  au_accessToken :: "json option"
  au_refreshToken :: "json option"
  au_isAuthenticated :: bool

definition initialState :: auth_state where
  "initialState = \<lparr>au_user = None, au_accessToken = None, au_refreshToken = None, au_isAuthenticated = False\<rparr>"

datatype auth_action = SetCredentials "json option \<times> json option" "json option" "json option" | Logout

fun authReducer :: "auth_action \<Rightarrow> auth_state \<Rightarrow> auth_state" where
  "authReducer (SetCredentials user accessToken refreshToken) s =
     s\<lparr>au_user := Some user, au_accessToken := accessToken, au_refreshToken := refreshToken, au_isAuthenticated := True\<rparr>"
| "authReducer Logout s = s\<lparr>au_user := None, au_accessToken := None, au_refreshToken := None, au_isAuthenticated := False\<rparr>"

section \<open>Requests\<close>

text \<open>
  What \<open>fetch\<close> is given and what it answers; \<open>fe_json\<close> is the body read as JSON, \<open>None\<close> when it is none
  and \<open>res.json()\<close> rejects.
\<close>

datatype fetch_body = No_body | Text string | Form "(string \<times> string) list"

record fetch_request =
  fq_method :: string
  fq_url :: string
  fq_headers :: "(string \<times> string) list"
  fq_body :: fetch_body

record fetched =
  fe_status :: nat
  fe_json :: "json option"

definition fe_ok :: "fetched \<Rightarrow> bool" where
  "fe_ok res \<longleftrightarrow> 200 \<le> fe_status res \<and> fe_status res < 300"

record 'w browser =
  br_window :: bool
  br_apiUrl :: "string option"
  br_state :: "('w, auth_state) io"
  br_dispatch :: "auth_action \<Rightarrow> ('w, unit) io"
  br_fetch :: "fetch_request \<Rightarrow> ('w, fetched) io"
  br_redirect :: "string \<Rightarrow> ('w, unit) io"

text \<open>The body argument of \<open>request\<close> with \<open>isFormData\<close>.\<close>

datatype request_payload = Json "json option" | FormData "(string \<times> string) list"

fun body_of :: "request_payload \<Rightarrow> fetch_body" where
  "body_of (FormData f) = Form f"
| "body_of (Json b) = (if jtruthy b then Text (show_json (the b)) else No_body)"

fun content_header :: "request_payload \<Rightarrow> (string \<times> string) list" where
  "content_header (FormData f) = []"
| "content_header (Json b) = [(''Content-Type'', ''application/json'')]"

definition bearer_of :: "json option \<Rightarrow> string" where
  "bearer_of token = ''Bearer '' @ js_text_of token"

definition headers_of :: "json option \<Rightarrow> request_payload \<Rightarrow> (string \<times> string) list" where
  "headers_of token body = (if jtruthy token then [(''Authorization'', bearer_of token)] else []) @ content_header body"

definition api_url :: "'w browser \<Rightarrow> string \<Rightarrow> string" where
  "api_url D path = or_str (br_apiUrl D) ''http://localhost:8080'' @ path"

definition send :: "'w browser \<Rightarrow> string \<Rightarrow> string \<Rightarrow> (string \<times> string) list \<Rightarrow> request_payload \<Rightarrow> ('w, fetched) io" where
  "send D method path headers body =
     br_fetch D \<lparr>fq_method = method, fq_url = api_url D path, fq_headers = headers, fq_body = body_of body\<rparr>"

definition read_json :: "fetched \<Rightarrow> ('w, json) io" where
  "read_json res = (case fe_json res of None \<Rightarrow> throw (JsError ''Unexpected token'') | Some j \<Rightarrow> return j)"

text \<open>\<open>204\<close> is \<open>undefined\<close>.\<close>

definition result_of :: "fetched \<Rightarrow> ('w, json option) io" where
  "result_of res = (if fe_status res = 204 then return None else await (read_json res) (\<lambda>j. return (Some j)))"

definition refresh_request :: "'w browser \<Rightarrow> json \<Rightarrow> fetch_request" where
  "refresh_request D refreshToken =
     \<lparr>fq_method = ''POST'', fq_url = api_url D ''/v1/auth/refresh'', fq_headers = [(''Content-Type'', ''application/json'')],
      fq_body = Text (show_json (JObj [(''refreshToken'', refreshToken)]))\<rparr>"

definition with_token :: "json option \<Rightarrow> (string \<times> string) list \<Rightarrow> (string \<times> string) list" where
  "with_token token headers = AList.update ''Authorization'' (bearer_of token) headers"

text \<open>
  The refresh of the session and the retry. The value is the answer of a retry that went well, whose
  body is read outside the \<open>try\<close>: a promise that is returned without \<open>await\<close> is not caught.
\<close>

definition refresh_retry ::
  "'w browser \<Rightarrow> string \<Rightarrow> string \<Rightarrow> (string \<times> string) list \<Rightarrow> request_payload \<Rightarrow> json \<Rightarrow> ('w, fetched option) io" where
  "refresh_retry D method path headers body refreshToken =
     try_catch
       (await (br_fetch D (refresh_request D refreshToken)) (\<lambda>refreshRes.
        if \<not> fe_ok refreshRes then return None
        else
          await (read_json refreshRes) (\<lambda>j.
          await (read_of ''accessToken'' j) (\<lambda>accessToken.
          (let newRefresh = jget ''refreshToken'' j
           in await (br_state D) (\<lambda>s.
              await (case au_user s of None \<Rightarrow> return () | Some user \<Rightarrow> br_dispatch D (SetCredentials user accessToken newRefresh)) (\<lambda>_.
              await (send D method path (with_token accessToken headers) body) (\<lambda>retryRes.
              return (if fe_ok retryRes then Some retryRes else None)))))))))
       (\<lambda>_. await (br_dispatch D Logout) (\<lambda>_. await (br_redirect D ''/login'') (\<lambda>_. return None)))"

definition unauthorized :: exn where
  "unauthorized = Http 401 ''Unauthorized''"

definition request :: "'w browser \<Rightarrow> string \<Rightarrow> string \<Rightarrow> request_payload \<Rightarrow> ('w, json option) io" where
  "request D method path body =
     await (if br_window D then await (br_state D) (\<lambda>s. return (au_accessToken s, au_refreshToken s)) else return (None, None))
       (\<lambda>(token, refreshToken).
     (let headers = headers_of token body
      in await (send D method path headers body) (\<lambda>res.
         if fe_status res = 401 \<and> br_window D then
           await (if jtruthy refreshToken then refresh_retry D method path headers body (the refreshToken) else return None) (\<lambda>retried.
           case retried of
             Some retryRes \<Rightarrow> result_of retryRes
           | None \<Rightarrow>
               await (br_dispatch D Logout) (\<lambda>_.
               await (if br_window D then br_redirect D ''/login'' else return ()) (\<lambda>_.
               throw unauthorized)))
         else if \<not> fe_ok res then
           (let errorData = (case fe_json res of None \<Rightarrow> JObj [(''message'', JStr ''Request failed'')] | Some j \<Rightarrow> j)
            in await (read_of ''message'' errorData) (\<lambda>message.
               throw (Http (fe_status res) (if jtruthy message then js_text (the message) else ''HTTP '' @ show_nat (fe_status res)))))
         else result_of res)))"

definition api_get :: "'w browser \<Rightarrow> string \<Rightarrow> ('w, json option) io" where
  "api_get D path = request D ''GET'' path (Json None)"

definition api_post :: "'w browser \<Rightarrow> string \<Rightarrow> json option \<Rightarrow> ('w, json option) io" where
  "api_post D path body = request D ''POST'' path (Json body)"

definition api_put :: "'w browser \<Rightarrow> string \<Rightarrow> json option \<Rightarrow> ('w, json option) io" where
  "api_put D path body = request D ''PUT'' path (Json body)"

definition api_patch :: "'w browser \<Rightarrow> string \<Rightarrow> json option \<Rightarrow> ('w, json option) io" where
  "api_patch D path body = request D ''PATCH'' path (Json body)"

definition api_delete :: "'w browser \<Rightarrow> string \<Rightarrow> ('w, json option) io" where
  "api_delete D path = request D ''DELETE'' path (Json None)"

definition api_upload :: "'w browser \<Rightarrow> string \<Rightarrow> (string \<times> string) list \<Rightarrow> ('w, json option) io" where
  "api_upload D path formData = request D ''POST'' path (FormData formData)"

section \<open>The login page\<close>

record login_page =
  lo_register :: bool
  lo_email :: string
  lo_password :: string
  lo_loading :: bool
  lo_error :: string

text \<open>\<open>try { m } finally { f }\<close>\<close>

definition try_finally :: "('w, 'a) io \<Rightarrow> ('w, unit) io \<Rightarrow> ('w, 'a) io" where
  "try_finally m f w = (case m w of (r, w') \<Rightarrow> (case f w' of (Inl e, w'') \<Rightarrow> (Inl e, w'') | (Inr u, w'') \<Rightarrow> (r, w'')))"

definition err_message :: "exn \<Rightarrow> string" where
  "err_message e = (case e of Http n m \<Rightarrow> m | JsError m \<Rightarrow> m)"

text \<open>
  \<open>data.f\<close>, where \<open>undefined\<close> throws as \<open>null\<close> does. \<open>atob\<close> is a parameter: it reads base64 and throws
  on other text, on the characters of base64url among it.
\<close>

definition read_opt :: "string \<Rightarrow> json option \<Rightarrow> ('w, json option) io" where
  "read_opt f v = (case v of None \<Rightarrow> throw (JsError ''Cannot read properties of undefined'') | Some j \<Rightarrow> read_of f j)"

definition token_payload :: "(string \<Rightarrow> string option) \<Rightarrow> json option \<Rightarrow> ('w, json) io" where
  "token_payload atob token =
     (case token of
        Some (JStr t) \<Rightarrow>
          (case atob (if 1 < length (split_on (CHR ''.'') t) then split_on (CHR ''.'') t ! 1 else ''undefined'') of
             None \<Rightarrow> throw (JsError ''The string to be decoded is not correctly encoded.'')
           | Some s \<Rightarrow> (case json_parse s of None \<Rightarrow> throw (JsError ''Unexpected token'') | Some p \<Rightarrow> return p))
      | _ \<Rightarrow> throw (JsError ''data.accessToken.split is not a function''))"

definition login_handleSubmit ::
  "'w browser \<Rightarrow> (string \<Rightarrow> string option) \<Rightarrow> (string \<Rightarrow> ('w, unit) io) \<Rightarrow> ('w \<times> login_page, unit) io" where
  "login_handleSubmit D atob router_replace =
     await (mod_ctx (\<lambda>p. p\<lparr>lo_loading := True, lo_error := []\<rparr>)) (\<lambda>_.
     try_finally
       (try_catch
         (await get_ctx (\<lambda>p.
          await (on_world (api_post D (if lo_register p then ''/v1/auth/register'' else ''/v1/auth/login'')
             (Some (JObj [(''email'', JStr (lo_email p)), (''password'', JStr (lo_password p))])))) (\<lambda>data.
          await (on_world (read_opt ''accessToken'' data)) (\<lambda>accessToken.
          await (on_world (token_payload atob accessToken)) (\<lambda>payload.
          await (on_world (read_of ''email'' payload)) (\<lambda>email.
          await (on_world (br_dispatch D (SetCredentials (email, jget ''role'' payload) accessToken (jget ''refreshToken'' (the data))))) (\<lambda>_.
          on_world (router_replace ''/dashboard''))))))))
         (\<lambda>err. mod_ctx (\<lambda>p. p\<lparr>lo_error := err_message err\<rparr>)))
       (mod_ctx (\<lambda>p. p\<lparr>lo_loading := False\<rparr>)))"

section \<open>What a request does to the session\<close>

text \<open>
  The store applies the reducer, a redirect moves the window; \<open>st\<close> is the session in the store and
  \<open>loc\<close> the location. Nothing is assumed of \<open>fetch\<close>.
\<close>

definition browser_ok :: "'w browser \<Rightarrow> ('w \<Rightarrow> auth_state) \<Rightarrow> ('w \<Rightarrow> string) \<Rightarrow> bool" where
  "browser_ok D st loc \<longleftrightarrow>
     br_window D \<and> (\<forall>w. br_state D w = (Inr (st w), w)) \<and>
     (\<forall>a w. \<exists>w'. br_dispatch D a w = (Inr (), w') \<and> st w' = authReducer a (st w) \<and> loc w' = loc w) \<and>
     (\<forall>u w. \<exists>w'. br_redirect D u w = (Inr (), w') \<and> st w' = st w \<and> loc w' = u)"

lemma browser_window: "browser_ok D st loc \<Longrightarrow> br_window D"
  by (simp add: browser_ok_def)

lemma browser_state: "browser_ok D st loc \<Longrightarrow> br_state D w = (Inr (st w), w)"
  by (simp add: browser_ok_def)

lemma browser_dispatch:
  assumes "browser_ok D st loc"
  obtains w' where "br_dispatch D a w = (Inr (), w')" and "st w' = authReducer a (st w)" and "loc w' = loc w"
  using assms unfolding browser_ok_def by blast

lemma browser_redirect:
  assumes "browser_ok D st loc"
  obtains w' where "br_redirect D u w = (Inr (), w')" and "st w' = st w" and "loc w' = u"
  using assms unfolding browser_ok_def by blast

lemma logout_initial [simp]: "authReducer Logout s = initialState"
  by (cases s) (simp add: initialState_def)

declare authReducer.simps(2) [simp del]

lemma sign_out:
  assumes "browser_ok D st loc"
  obtains w' where "\<And>k. await (br_dispatch D Logout) (\<lambda>_. await (br_redirect D ''/login'') (\<lambda>_. k)) w = k w'"
    and "st w' = initialState" and "loc w' = ''/login''"
proof -
  obtain w1 where 1: "br_dispatch D Logout w = (Inr (), w1)" "st w1 = authReducer Logout (st w)" "loc w1 = loc w"
    by (rule browser_dispatch [OF assms])
  obtain w2 where 2: "br_redirect D ''/login'' w1 = (Inr (), w2)" "st w2 = st w1" "loc w2 = ''/login''"
    by (rule browser_redirect [OF assms])
  show thesis using 1 2 by (intro that [of w2]) (simp_all add: await_def)
qed

text \<open>
  \<open>tokens_stored\<close>: what the store does with new tokens between two worlds. While a user is signed in they replace the old ones, of
  that user; when another request has ended the session in the meantime, nothing is stored. \<open>renewed\<close>: one run from \<open>w\<close> to
  \<open>w'\<close>, in which the refresh was answered with the tokens in \<open>j\<close>, these were stored, and the retry with the new token, sent at
  once, was answered with a success.
\<close>

definition tokens_stored :: "'w browser \<Rightarrow> ('w \<Rightarrow> auth_state) \<Rightarrow> json option \<Rightarrow> json option \<Rightarrow> 'w \<Rightarrow> 'w \<Rightarrow> bool" where
  "tokens_stored D st access refresh w w' \<longleftrightarrow>
     (case au_user (st w) of
        None \<Rightarrow> w' = w
      | Some user \<Rightarrow> br_dispatch D (SetCredentials user access refresh) w = (Inr (), w') \<and>
          st w' = \<lparr>au_user = Some user, au_accessToken = access, au_refreshToken = refresh, au_isAuthenticated = True\<rparr>)"

definition renewed ::
  "'w browser \<Rightarrow> ('w \<Rightarrow> auth_state) \<Rightarrow> string \<Rightarrow> string \<Rightarrow> (string \<times> string) list \<Rightarrow> request_payload \<Rightarrow> json \<Rightarrow> 'w \<Rightarrow> json \<Rightarrow> fetched \<Rightarrow> 'w \<Rightarrow> bool" where
  "renewed D st method path headers body refreshToken w j retryRes w' \<longleftrightarrow>
     (\<exists>refreshRes w1 w2.
        br_fetch D (refresh_request D refreshToken) w = (Inr refreshRes, w1) \<and> fe_ok refreshRes \<and> fe_json refreshRes = Some j \<and>
        tokens_stored D st (jget ''accessToken'' j) (jget ''refreshToken'' j) w1 w2 \<and>
        send D method path (with_token (jget ''accessToken'' j) headers) body w2 = (Inr retryRes, w') \<and> fe_ok retryRes)"

lemma store_tokens:
  assumes "browser_ok D st loc"
  obtains w2 where
    "(case au_user (st w1) of None \<Rightarrow> return () | Some user \<Rightarrow> br_dispatch D (SetCredentials user a b)) w1 = (Inr (), w2)"
    and "tokens_stored D st a b w1 w2"
proof (cases "au_user (st w1)")
  case None
  then show thesis by (intro that [of w1]) (simp_all add: tokens_stored_def)
next
  case (Some user)
  obtain w2 where "br_dispatch D (SetCredentials user a b) w1 = (Inr (), w2)"
      "st w2 = authReducer (SetCredentials user a b) (st w1)"
    by (rule browser_dispatch [OF assms])
  then show thesis using Some by (intro that [of w2]) (simp_all add: tokens_stored_def)
qed

lemma refresh_retry_cases:
  assumes ok: "browser_ok D st loc" and run: "refresh_retry D method path headers body refreshToken w = (r, w')"
  shows "r = Inr None \<or> (\<exists>j retryRes. r = Inr (Some retryRes) \<and> renewed D st method path headers body refreshToken w j retryRes w')"
proof -
  define m where "m = await (br_fetch D (refresh_request D refreshToken)) (\<lambda>refreshRes.
        if \<not> fe_ok refreshRes then return None
        else
          await (read_json refreshRes) (\<lambda>j.
          await (read_of ''accessToken'' j) (\<lambda>accessToken.
          (let newRefresh = jget ''refreshToken'' j
           in await (br_state D) (\<lambda>s.
              await (case au_user s of None \<Rightarrow> return () | Some user \<Rightarrow> br_dispatch D (SetCredentials user accessToken newRefresh)) (\<lambda>_.
              await (send D method path (with_token accessToken headers) body) (\<lambda>retryRes.
              return (if fe_ok retryRes then Some retryRes else None))))))))"
  have r: "try_catch m (\<lambda>_. await (br_dispatch D Logout) (\<lambda>_. await (br_redirect D ''/login'') (\<lambda>_. return None))) w = (r, w')"
    using run unfolding refresh_retry_def m_def .
  obtain q w3 where q: "m w = (q, w3)" by fastforce
  show ?thesis
  proof (cases q)
    case (Inl e)
    obtain w4 where "\<And>k :: (_, fetched option) io.
        await (br_dispatch D Logout) (\<lambda>_. await (br_redirect D ''/login'') (\<lambda>_. k)) w3 = k w4"
      by (rule sign_out [OF ok, where w = w3]) blast
    then show ?thesis using r q Inl by (simp add: try_catch_def)
  next
    case (Inr x)
    with r q have x: "r = Inr x" "m w = (Inr x, w')" by (simp_all add: try_catch_def)
    show ?thesis
    proof (cases x)
      case None
      then show ?thesis using x by simp
    next
      case (Some retryRes)
      from x(2) [unfolded m_def] obtain refreshRes w1 where 1: "br_fetch D (refresh_request D refreshToken) w = (Inr refreshRes, w1)"
        and 2: "(if \<not> fe_ok refreshRes then return None
        else
          await (read_json refreshRes) (\<lambda>j.
          await (read_of ''accessToken'' j) (\<lambda>accessToken.
          (let newRefresh = jget ''refreshToken'' j
           in await (br_state D) (\<lambda>s.
              await (case au_user s of None \<Rightarrow> return () | Some user \<Rightarrow> br_dispatch D (SetCredentials user accessToken newRefresh)) (\<lambda>_.
              await (send D method path (with_token accessToken headers) body) (\<lambda>retryRes.
              return (if fe_ok retryRes then Some retryRes else None)))))))) w1 = (Inr x, w')"
        by (rule await_InrE)
      have "fe_ok refreshRes" using 2 Some by (auto split: if_splits)
      moreover obtain j where "fe_json refreshRes = Some j"
        using 2 \<open>fe_ok refreshRes\<close> by (cases "fe_json refreshRes") (simp_all add: read_json_def)
      moreover have "j \<noteq> JNull"
        using 2 calculation by (auto simp: read_json_def read_of_def)
      moreover obtain w2 where
        "(case au_user (st w1) of None \<Rightarrow> return ()
           | Some user \<Rightarrow> br_dispatch D (SetCredentials user (jget ''accessToken'' j) (jget ''refreshToken'' j))) w1 = (Inr (), w2)"
        "tokens_stored D st (jget ''accessToken'' j) (jget ''refreshToken'' j) w1 w2"
        by (rule store_tokens [OF ok])
      ultimately have "await (send D method path (with_token (jget ''accessToken'' j) headers) body) (\<lambda>retryRes.
              return (if fe_ok retryRes then Some retryRes else None)) w2 = (Inr x, w')" and
          st: "tokens_stored D st (jget ''accessToken'' j) (jget ''refreshToken'' j) w1 w2"
        using 2 browser_state [OF ok, of w1] by (simp_all add: read_json_def read_of_def await_Inr Let_def)
      then have "send D method path (with_token (jget ''accessToken'' j) headers) body w2 = (Inr retryRes, w') \<and> fe_ok retryRes"
        using Some by (auto elim!: await_InrE split: if_splits)
      with st 1 \<open>fe_ok refreshRes\<close> \<open>fe_json refreshRes = Some j\<close> show ?thesis
        unfolding x(1) Some renewed_def by blast
    qed
  qed
qed

lemma result_of_world: "result_of res w = (fst (result_of res w), w)"
  by (simp add: result_of_def read_json_def split: option.split)

text \<open>What follows the first answer, once it is known.\<close>

definition request_rest ::
  "'w browser \<Rightarrow> ('w \<Rightarrow> auth_state) \<Rightarrow> string \<Rightarrow> string \<Rightarrow> request_payload \<Rightarrow> 'w \<Rightarrow> fetched \<Rightarrow> ('w, json option) io" where
  "request_rest D st method path body w res =
     (if fe_status res = 401 then
        await (if jtruthy (au_refreshToken (st w))
               then refresh_retry D method path (headers_of (au_accessToken (st w)) body) body (the (au_refreshToken (st w)))
               else return None) (\<lambda>retried.
        case retried of
          Some retryRes \<Rightarrow> result_of retryRes
        | None \<Rightarrow> await (br_dispatch D Logout) (\<lambda>_. await (br_redirect D ''/login'') (\<lambda>_. throw unauthorized)))
      else if \<not> fe_ok res then
        (let errorData = (case fe_json res of None \<Rightarrow> JObj [(''message'', JStr ''Request failed'')] | Some j \<Rightarrow> j)
         in await (read_of ''message'' errorData) (\<lambda>message.
            throw (Http (fe_status res) (if jtruthy message then js_text (the message) else ''HTTP '' @ show_nat (fe_status res)))))
      else result_of res)"

lemma request_first:
  assumes ok: "browser_ok D st loc"
    and first: "send D method path (headers_of (au_accessToken (st w)) body) body w = (Inr res, w1)"
  shows "request D method path body w = request_rest D st method path body w res w1"
  using browser_state [OF ok, of w] browser_window [OF ok] first
  by (simp add: request_def request_rest_def await_Inr Let_def)

text \<open>After a 401: the refresh, and how the request ends with what it came to.\<close>

definition try_refresh :: "'w browser \<Rightarrow> auth_state \<Rightarrow> string \<Rightarrow> string \<Rightarrow> request_payload \<Rightarrow> ('w, fetched option) io" where
  "try_refresh D s method path body =
     (if jtruthy (au_refreshToken s)
      then refresh_retry D method path (headers_of (au_accessToken s) body) body (the (au_refreshToken s))
      else return None)"

definition ending :: "'w browser \<Rightarrow> fetched option \<Rightarrow> ('w, json option) io" where
  "ending D retried =
     (case retried of
        Some retryRes \<Rightarrow> result_of retryRes
      | None \<Rightarrow> await (br_dispatch D Logout) (\<lambda>_. await (br_redirect D ''/login'') (\<lambda>_. throw unauthorized)))"

lemma request_401:
  assumes "browser_ok D st loc" and "send D method path (headers_of (au_accessToken (st w)) body) body w = (Inr res, w1)"
    and "fe_status res = 401"
  shows "request D method path body w = await (try_refresh D (st w) method path body) (ending D) w1"
  using assms(3) by (simp add: request_first [OF assms(1,2)] request_rest_def try_refresh_def ending_def [abs_def])

lemma ending_Some [simp]: "ending D (Some retryRes) = result_of retryRes"
  by (simp add: ending_def)

lemma ending_None:
  assumes "browser_ok D st loc"
  obtains w' where "ending D None w = (Inl unauthorized, w')" and "st w' = initialState" and "loc w' = ''/login''"
proof -
  obtain w' where "\<And>k :: (_, json option) io. await (br_dispatch D Logout) (\<lambda>_. await (br_redirect D ''/login'') (\<lambda>_. k)) w = k w'"
    and "st w' = initialState" and "loc w' = ''/login''"
    by (rule sign_out [OF assms, where w = w]) blast
  then show thesis by (intro that [of w']) (simp_all add: ending_def)
qed

lemma try_refresh_cases:
  assumes ok: "browser_ok D st loc" and run: "try_refresh D s method path body w1 = (q, w2)"
  shows "q = Inr None \<or> (\<exists>rt j retryRes. q = Inr (Some retryRes) \<and> au_refreshToken s = Some rt \<and>
      renewed D st method path (headers_of (au_accessToken s) body) body rt w1 j retryRes w2)"
proof (cases "jtruthy (au_refreshToken s)")
  case True
  then obtain rt where rt: "au_refreshToken s = Some rt" by (cases "au_refreshToken s") simp_all
  with run True have "refresh_retry D method path (headers_of (au_accessToken s) body) body rt w1 = (q, w2)"
    by (simp add: try_refresh_def)
  from refresh_retry_cases [OF ok this] rt show ?thesis by blast
next
  case False
  then show ?thesis using run by (simp add: try_refresh_def)
qed

text \<open>What is thrown for an answer that is no success: the message of its body, a text of its own without one, or without a body.\<close>

definition thrown_for :: "fetched \<Rightarrow> exn" where
  "thrown_for res =
     (case fe_json res of
        None \<Rightarrow> Http (fe_status res) ''Request failed''
      | Some j \<Rightarrow>
          if j = JNull then JsError ''Cannot read properties of null (reading message)''
          else Http (fe_status res) (if jtruthy (jget ''message'' j) then js_text (the (jget ''message'' j)) else ''HTTP '' @ show_nat (fe_status res)))"

lemma other_failure:
  assumes "fe_status res \<noteq> 401" and "\<not> fe_ok res"
  shows "request_rest D st method path body w res w1 = (Inl (thrown_for res), w1)"
proof (cases "fe_json res")
  case None
  then show ?thesis using assms by (simp add: request_rest_def thrown_for_def throw_def)
next
  case (Some j)
  then show ?thesis
    using assms by (cases "j = JNull") (simp_all add: request_rest_def thrown_for_def read_of_def throw_def)
qed

text \<open>
  C28. A request ends in one of two ways once its first answer is known. An answer other than 401 is the
  result, or what \<open>thrown_for\<close> makes of it is thrown, with its status and message, and nothing else happens. After a 401 the caller has
  the result of a retry that went well, sent with the access token of a refresh; the store had then just taken both tokens of that refresh for
  the user who was signed in, or stayed as it was if another request had signed that user out. Or
  the request is \<open>Unauthorized\<close>, the session is gone from the store and the window is at the login
  page. That holds whatever the server answers, also when the retry fails for another reason, and
  whatever other requests have put into the store in the meantime.
\<close>

theorem request_spec:
  assumes ok: "browser_ok D st loc"
    and first: "send D method path (headers_of (au_accessToken (st w)) body) body w = (Inr res, w1)"
    and run: "request D method path body w = (r, w')"
  shows "(fe_status res \<noteq> 401 \<longrightarrow> (r, w') = (if fe_ok res then result_of res w1 else (Inl (thrown_for res), w1)) \<and> w' = w1) \<and>
    (fe_status res = 401 \<longrightarrow>
      (r = Inl unauthorized \<and> st w' = initialState \<and> loc w' = ''/login'') \<or>
      (\<exists>rt j retryRes. au_refreshToken (st w) = Some rt \<and>
         renewed D st method path (headers_of (au_accessToken (st w)) body) body rt w1 j retryRes w' \<and>
         (r, w') = result_of retryRes w'))"
proof (intro conjI [rotated] impI)
  assume 401: "fe_status res = 401"
  obtain q w2 where q: "try_refresh D (st w) method path body w1 = (q, w2)" by fastforce
  have r: "await (try_refresh D (st w) method path body) (ending D) w1 = (r, w')"
    using run unfolding request_401 [OF ok first 401] .
  from try_refresh_cases [OF ok q] show "(r = Inl unauthorized \<and> st w' = initialState \<and> loc w' = ''/login'') \<or>
      (\<exists>rt j retryRes. au_refreshToken (st w) = Some rt \<and>
         renewed D st method path (headers_of (au_accessToken (st w)) body) body rt w1 j retryRes w' \<and>
         (r, w') = result_of retryRes w')"
  proof (elim disjE exE conjE)
    assume "q = Inr None"
    moreover obtain w3 where "ending D None w2 = (Inl unauthorized, w3)" "st w3 = initialState" "loc w3 = ''/login''"
      by (rule ending_None [OF ok])
    ultimately show ?thesis using r q by (simp add: await_Inr)
  next
    fix rt j retryRes
    assume s: "q = Inr (Some retryRes)" "au_refreshToken (st w) = Some rt"
      "renewed D st method path (headers_of (au_accessToken (st w)) body) body rt w1 j retryRes w2"
    have "result_of retryRes w2 = (r, w')" using r q s(1) by (simp add: await_Inr)
    moreover from this have "w' = w2" using result_of_world [of retryRes w2] by simp
    ultimately show ?thesis using s by metis
  qed
next
  assume other: "fe_status res \<noteq> 401"
  have rest: "request_rest D st method path body w res w1 = (r, w')" using run unfolding request_first [OF ok first] .
  show "(r, w') = (if fe_ok res then result_of res w1 else (Inl (thrown_for res), w1))"
    using rest other by (cases "fe_ok res") (simp_all add: other_failure, simp add: request_rest_def)
  then show "w' = w1" using result_of_world [of res w1] by (metis prod.inject)
qed

text \<open>
  A browser and a server that accepts one pair of tokens at a time: a refresh with the current refresh
  token replaces both, as the auth service does.
\<close>

record web =
  we_session :: auth_state
  we_location :: string
  we_pair :: "string \<times> string"

definition web_fetch :: "fetch_request \<Rightarrow> (web, fetched) io" where
  "web_fetch q w =
     (if fq_url q = ''http://localhost:8080/v1/auth/refresh'' then
        (if fq_body q = Text (show_json (JObj [(''refreshToken'', JStr (snd (we_pair w)))]))
         then (Inr \<lparr>fe_status = 200, fe_json = Some (JObj [(''accessToken'', JStr ''a2''), (''refreshToken'', JStr ''r2'')])\<rparr>,
               w\<lparr>we_pair := (''a2'', ''r2'')\<rparr>)
         else (Inr \<lparr>fe_status = 401, fe_json = None\<rparr>, w))
      else if fq_url q = ''http://localhost:8080/v1/auth/login'' then
        (if fq_body q = Text (show_json (JObj [(''email'', JStr ''e''), (''password'', JStr ''pw'')]))
         then (Inr \<lparr>fe_status = 200, fe_json = Some (JObj [(''accessToken'', JStr ''h.p.s''), (''refreshToken'', JStr ''r1'')])\<rparr>, w)
         else (Inr \<lparr>fe_status = 401, fe_json = Some (JObj [(''message'', JStr ''Invalid credentials'')])\<rparr>, w))
      else if map_of (fq_headers q) ''Authorization'' = Some (''Bearer '' @ fst (we_pair w))
      then (Inr \<lparr>fe_status = 200, fe_json = Some (JStr ''data'')\<rparr>, w)
      else (Inr \<lparr>fe_status = 401, fe_json = Some (JObj [(''message'', JStr ''Unauthorized'')])\<rparr>, w))"

definition web_browser :: "web browser" where
  "web_browser = \<lparr>br_window = True, br_apiUrl = None, br_state = (\<lambda>w. (Inr (we_session w), w)),
     br_dispatch = (\<lambda>a w. (Inr (), w\<lparr>we_session := authReducer a (we_session w)\<rparr>)),
     br_fetch = web_fetch, br_redirect = (\<lambda>u w. (Inr (), w\<lparr>we_location := u\<rparr>))\<rparr>"

lemma web_browser_ok: "browser_ok web_browser we_session we_location"
  by (simp add: browser_ok_def web_browser_def)

text \<open>A session whose access token has expired.\<close>

definition web_start :: web where
  "web_start = \<lparr>we_session = \<lparr>au_user = Some (Some (JStr ''e''), Some (JStr ''user'')), au_accessToken = Some (JStr ''a0''),
     au_refreshToken = Some (JStr ''r1''), au_isAuthenticated = True\<rparr>, we_location = ''/dashboard'', we_pair = (''a1'', ''r1'')\<rparr>"

lemma web_start_run:
  "fst (request web_browser ''GET'' ''/x'' (Json None) web_start) = Inr (Some (JStr ''data''))"
  "fst (send web_browser ''GET'' ''/x'' (headers_of (au_accessToken (we_session web_start)) (Json None)) (Json None) web_start)
     = Inr \<lparr>fe_status = 401, fe_json = Some (JObj [(''message'', JStr ''Unauthorized'')])\<rparr>"
  "snd (send web_browser ''GET'' ''/x'' (headers_of (au_accessToken (we_session web_start)) (Json None)) (Json None) web_start) = web_start"
  by code_simp+

theorem request_spec_witness:
  "\<exists>j retryRes w'. renewed web_browser we_session ''GET'' ''/x'' (headers_of (Some (JStr ''a0'')) (Json None)) (Json None)
     (JStr ''r1'') web_start j retryRes w' \<and> result_of retryRes w' = (Inr (Some (JStr ''data'')), w')"
proof -
  obtain w' where "request web_browser ''GET'' ''/x'' (Json None) web_start = (Inr (Some (JStr ''data'')), w')"
    using web_start_run(1) by (metis prod.collapse)
  moreover have "send web_browser ''GET'' ''/x'' (headers_of (au_accessToken (we_session web_start)) (Json None)) (Json None) web_start
     = (Inr \<lparr>fe_status = 401, fe_json = Some (JObj [(''message'', JStr ''Unauthorized'')])\<rparr>, web_start)"
    using web_start_run(2,3) by (metis prod.collapse)
  ultimately show ?thesis
    using request_spec [OF web_browser_ok] by (fastforce simp: web_start_def)
qed

section \<open>Signing in\<close>

definition go_ok :: "(string \<Rightarrow> ('w, unit) io) \<Rightarrow> ('w \<Rightarrow> auth_state) \<Rightarrow> bool" where
  "go_ok go st \<longleftrightarrow> (\<forall>u w. \<exists>w'. go u w = (Inr (), w') \<and> st w' = st w)"


definition login_path :: "login_page \<Rightarrow> string" where
  "login_path p = (if lo_register p then ''/v1/auth/register'' else ''/v1/auth/login'')"

definition login_body :: "login_page \<Rightarrow> json" where
  "login_body p = JObj [(''email'', JStr (lo_email p)), (''password'', JStr (lo_password p))]"

definition settled :: "login_page \<Rightarrow> string \<Rightarrow> login_page" where
  "settled p e = p\<lparr>lo_loading := False, lo_error := e\<rparr>"

text \<open>The handler without its frame: the \<open>try\<close> block on the world alone.\<close>

definition sign_in :: "'w browser \<Rightarrow> (string \<Rightarrow> string option) \<Rightarrow> (string \<Rightarrow> ('w, unit) io) \<Rightarrow> login_page \<Rightarrow> ('w, unit) io" where
  "sign_in D atob go p =
     await (api_post D (login_path p) (Some (login_body p))) (\<lambda>data.
     await (read_opt ''accessToken'' data) (\<lambda>accessToken.
     await (token_payload atob accessToken) (\<lambda>payload.
     await (read_of ''email'' payload) (\<lambda>email.
     await (br_dispatch D (SetCredentials (email, jget ''role'' payload) accessToken (jget ''refreshToken'' (the data)))) (\<lambda>_.
     go ''/dashboard'')))))"

lemma on_world_await: "on_world (await m k) = await (on_world m) (\<lambda>a. on_world (k a))"
  by (rule ext) (auto simp: on_world_def await_def split: prod.splits sum.splits)

lemma login_handleSubmit_sign_in:
  "login_handleSubmit D atob go (w, p) =
     (case sign_in D atob go p w of
        (Inl e, w') \<Rightarrow> (Inr (), (w', settled p (err_message e)))
      | (Inr u, w') \<Rightarrow> (Inr (), (w', settled p [])))"
proof -
  have s: "sign_in D atob go (p\<lparr>lo_loading := True, lo_error := []\<rparr>) = sign_in D atob go p"
    by (simp add: sign_in_def login_path_def login_body_def)
  have "login_handleSubmit D atob go =
    await (mod_ctx (\<lambda>p. p\<lparr>lo_loading := True, lo_error := []\<rparr>)) (\<lambda>_.
     try_finally
       (try_catch (await get_ctx (\<lambda>p. on_world (sign_in D atob go p))) (\<lambda>err. mod_ctx (\<lambda>p. p\<lparr>lo_error := err_message err\<rparr>)))
       (mod_ctx (\<lambda>p. p\<lparr>lo_loading := False\<rparr>)))"
    by (simp add: login_handleSubmit_def sign_in_def on_world_await login_path_def login_body_def)
  then show ?thesis
    by (simp add: s try_finally_def try_catch_def on_world_def settled_def split: prod.splits sum.splits)
qed

lemma token_payload_world: "token_payload atob t w = (fst (token_payload atob t w), w)"
  by (auto simp: token_payload_def split: option.split json.split)

lemma sign_in_cases:
  assumes ok: "browser_ok D st loc" and go: "go_ok go st"
    and post: "api_post D (login_path p) (Some (login_body p)) w = (Inr data, w1)"
  obtains (refused) x where "sign_in D atob go p w = (Inl x, w1)"
    | (signed_in) w' j payload where "sign_in D atob go p w = (Inr (), w')" and "data = Some j"
        and "token_payload atob (jget ''accessToken'' j) w1 = (Inr payload, w1)"
        and "st w' = authReducer (SetCredentials (jget ''email'' payload, jget ''role'' payload)
               (jget ''accessToken'' j) (jget ''refreshToken'' j)) (st w1)"
proof (cases "\<exists>j. data = Some j \<and> j \<noteq> JNull")
  case False
  then have "data = None \<or> data = Some JNull" by (cases data) simp_all
  then have "\<exists>x. sign_in D atob go p w = (Inl x, w1)"
    using post by (elim disjE) (simp_all add: sign_in_def read_opt_def read_of_def await_Inr)
  then show thesis using refused by blast
next
  case True
  then obtain j where j: "data = Some j" "j \<noteq> JNull" by blast
  obtain q where q: "token_payload atob (jget ''accessToken'' j) w1 = (q, w1)"
    using token_payload_world [of atob _ w1] by metis
  show thesis
  proof (cases "\<exists>payload. q = Inr payload \<and> payload \<noteq> JNull")
    case False
    then have "(\<exists>x. q = Inl x) \<or> q = Inr JNull" by (cases q) simp_all
    then have "\<exists>x. sign_in D atob go p w = (Inl x, w1)" using post j q
      by (elim disjE exE) (simp_all add: sign_in_def read_opt_def read_of_def await_Inr await_Inl)
    then show thesis using refused by blast
  next
    case True
    then obtain payload where pl: "q = Inr payload" "payload \<noteq> JNull" by blast
    obtain w2 where w2: "br_dispatch D (SetCredentials (jget ''email'' payload, jget ''role'' payload)
        (jget ''accessToken'' j) (jget ''refreshToken'' j)) w1 = (Inr (), w2)"
      and st2: "st w2 = authReducer (SetCredentials (jget ''email'' payload, jget ''role'' payload)
        (jget ''accessToken'' j) (jget ''refreshToken'' j)) (st w1)"
      by (rule browser_dispatch [OF ok])
    obtain w3 where w3: "go ''/dashboard'' w2 = (Inr (), w3)" "st w3 = st w2" using go unfolding go_ok_def by blast
    have "sign_in D atob go p w = (Inr (), w3)"
      using post j q pl w2 w3 by (simp add: sign_in_def read_opt_def read_of_def await_Inr)
    then show thesis by (rule signed_in) (simp_all add: j q pl st2 w3)
  qed
qed

text \<open>
  The login page always settles: whatever the client of the API does, the handler returns with the
  form no longer loading and its fields as they were. When the request throws, its message is
  shown. When it was answered, either the session in the store is that of the answered token, with the
  email and the role in its payload, and no error is shown; or the answer holds no token that can be
  read, the store is as the request left it and the reason is shown.
\<close>

theorem login_settles:
  assumes ok: "browser_ok D st loc" and go: "go_ok go st"
    and post: "api_post D (login_path p) (Some (login_body p)) w = (r, w1)"
  shows "(\<forall>x. r = Inl x \<longrightarrow> login_handleSubmit D atob go (w, p) = (Inr (), (w1, settled p (err_message x)))) \<and>
    (\<forall>data. r = Inr data \<longrightarrow>
       (\<exists>x. login_handleSubmit D atob go (w, p) = (Inr (), (w1, settled p (err_message x)))) \<or>
       (\<exists>w' j payload. login_handleSubmit D atob go (w, p) = (Inr (), (w', settled p [])) \<and> data = Some j \<and>
          token_payload atob (jget ''accessToken'' j) w1 = (Inr payload, w1) \<and>
          st w' = authReducer (SetCredentials (jget ''email'' payload, jget ''role'' payload)
            (jget ''accessToken'' j) (jget ''refreshToken'' j)) (st w1)))"
proof (intro conjI allI impI)
  fix x assume "r = Inl x"
  then show "login_handleSubmit D atob go (w, p) = (Inr (), (w1, settled p (err_message x)))"
    using post by (simp add: login_handleSubmit_sign_in sign_in_def await_Inl)
next
  fix data assume r: "r = Inr data"
  show "(\<exists>x. login_handleSubmit D atob go (w, p) = (Inr (), (w1, settled p (err_message x)))) \<or>
       (\<exists>w' j payload. login_handleSubmit D atob go (w, p) = (Inr (), (w', settled p [])) \<and> data = Some j \<and>
          token_payload atob (jget ''accessToken'' j) w1 = (Inr payload, w1) \<and>
          st w' = authReducer (SetCredentials (jget ''email'' payload, jget ''role'' payload)
            (jget ''accessToken'' j) (jget ''refreshToken'' j)) (st w1))"
  proof (rule sign_in_cases [OF ok go post [unfolded r], of atob])
    fix x assume "sign_in D atob go p w = (Inl x, w1)"
    then show ?thesis by (auto simp: login_handleSubmit_sign_in)
  next
    fix w' j payload
    assume "sign_in D atob go p w = (Inr (), w')" and "data = Some j"
      and "token_payload atob (jget ''accessToken'' j) w1 = (Inr payload, w1)"
      and "st w' = authReducer (SetCredentials (jget ''email'' payload, jget ''role'' payload)
        (jget ''accessToken'' j) (jget ''refreshToken'' j)) (st w1)"
    then show ?thesis
      by (intro disjI2 exI [of _ w'] exI [of _ j] exI [of _ payload]) (simp add: login_handleSubmit_sign_in)
  qed
qed

definition web_signed_out :: web where
  "web_signed_out = \<lparr>we_session = initialState, we_location = ''/login'', we_pair = (''a1'', ''r1'')\<rparr>"

definition web_form :: "string \<Rightarrow> login_page" where
  "web_form pw = \<lparr>lo_register = False, lo_email = ''e'', lo_password = pw, lo_loading = False, lo_error = []\<rparr>"

definition web_atob :: "string \<Rightarrow> string option" where
  "web_atob s = (if s = ''p'' then Some (show_json (JObj [(''email'', JStr ''e''), (''role'', JStr ''user'')])) else None)"

definition web_go :: "string \<Rightarrow> (web, unit) io" where
  "web_go u w = (Inr (), w\<lparr>we_location := u\<rparr>)"

lemma web_go_ok: "go_ok web_go we_session"
  by (simp add: go_ok_def web_go_def)

lemma web_login_run:
  "fst (api_post web_browser (login_path (web_form ''pw'')) (Some (login_body (web_form ''pw''))) web_signed_out) =
     Inr (Some (JObj [(''accessToken'', JStr ''h.p.s''), (''refreshToken'', JStr ''r1'')]))"
  "snd (api_post web_browser (login_path (web_form ''pw'')) (Some (login_body (web_form ''pw''))) web_signed_out) = web_signed_out"
  "fst (token_payload web_atob (Some (JStr ''h.p.s'')) web_signed_out) = Inr (JObj [(''email'', JStr ''e''), (''role'', JStr ''user'')])"
  by code_simp+

theorem login_settles_witness:
  "(\<exists>x. login_handleSubmit web_browser web_atob web_go (web_signed_out, web_form ''pw'')
      = (Inr (), (web_signed_out, settled (web_form ''pw'') (err_message x)))) \<or>
   (\<exists>w'. login_handleSubmit web_browser web_atob web_go (web_signed_out, web_form ''pw'') = (Inr (), (w', settled (web_form ''pw'') [])) \<and>
      we_session w' = authReducer (SetCredentials (Some (JStr ''e''), Some (JStr ''user'')) (Some (JStr ''h.p.s'')) (Some (JStr ''r1''))) initialState)"
proof -
  have "api_post web_browser (login_path (web_form ''pw'')) (Some (login_body (web_form ''pw''))) web_signed_out =
     (Inr (Some (JObj [(''accessToken'', JStr ''h.p.s''), (''refreshToken'', JStr ''r1'')])), web_signed_out)"
    using web_login_run(1,2) by (metis prod.collapse)
  note conjunct2 [OF login_settles [OF web_browser_ok web_go_ok this, of web_atob], rule_format, OF refl]
  then show ?thesis
    using web_login_run(3) by (elim disjE exE conjE) (auto simp: web_signed_out_def)
qed

text \<open>
  A wrong password is not told: the service answers the login with 401, which the client takes for an
  expired session. Without a session to refresh the error shown is \<open>Unauthorized\<close>, whatever
  message the service sent, and the window is sent to the login page it is on.
\<close>

theorem login_wrong_password:
  assumes ok: "browser_ok D st loc"
    and first: "send D ''POST'' (login_path p) (headers_of (au_accessToken (st w)) (Json (Some (login_body p))))
        (Json (Some (login_body p))) w = (Inr res, w1)"
    and 401: "fe_status res = 401" and no: "\<not> jtruthy (au_refreshToken (st w))"
  shows "\<exists>w'. login_handleSubmit D atob go (w, p) = (Inr (), (w', settled p ''Unauthorized'')) \<and>
    st w' = initialState \<and> loc w' = ''/login''"
proof -
  obtain w3 where "\<And>k :: (_, json option) io. await (br_dispatch D Logout) (\<lambda>_. await (br_redirect D ''/login'') (\<lambda>_. k)) w1 = k w3"
    and w3: "st w3 = initialState" "loc w3 = ''/login''"
    by (rule sign_out [OF ok, where w = w1]) blast
  then have "api_post D (login_path p) (Some (login_body p)) w = (Inl unauthorized, w3)"
    using request_first [OF ok first] 401 no by (simp add: api_post_def request_rest_def)
  then show ?thesis using w3
    by (simp add: login_handleSubmit_sign_in sign_in_def await_Inl unauthorized_def err_message_def)
qed

lemma web_wrong_run:
  "fst (send web_browser ''POST'' (login_path (web_form ''no'')) (headers_of (au_accessToken (we_session web_signed_out))
      (Json (Some (login_body (web_form ''no''))))) (Json (Some (login_body (web_form ''no'')))) web_signed_out) =
   Inr \<lparr>fe_status = 401, fe_json = Some (JObj [(''message'', JStr ''Invalid credentials'')])\<rparr>"
  by code_simp

theorem login_wrong_password_witness:
  "\<exists>w'. login_handleSubmit web_browser web_atob web_go (web_signed_out, web_form ''no'')
      = (Inr (), (w', settled (web_form ''no'') ''Unauthorized'')) \<and> we_location w' = ''/login''"
proof -
  obtain w1 where "send web_browser ''POST'' (login_path (web_form ''no'')) (headers_of (au_accessToken (we_session web_signed_out))
      (Json (Some (login_body (web_form ''no''))))) (Json (Some (login_body (web_form ''no'')))) web_signed_out =
    (Inr \<lparr>fe_status = 401, fe_json = Some (JObj [(''message'', JStr ''Invalid credentials'')])\<rparr>, w1)"
    using web_wrong_run by (metis prod.collapse)
  from login_wrong_password [OF web_browser_ok this, of web_atob web_go] show ?thesis
    by (auto simp: web_signed_out_def initialState_def)
qed

end
