(* ===== verification/Dashboard_Pages.thy ===== *)
theory Dashboard_Pages
  imports Dashboard_Client
begin

text \<open>
  The handlers of the dashboard's pages (\<open>apps/dashboard/src/app/dashboard\<close>): storage, alerts, API keys,
  CDN, settings and live events. The state of a page is a record, the hooks of React change it; SWR's
  \<open>mutate\<close>, the toasts, the clipboard, the windows and \<open>encodeURIComponent\<close> are parameters. What a
  handler closes over is the state when it was called. The markup is left out.
\<close>

record 'w ui =
  ui_browser :: "'w browser"
  ui_mutate :: "string option \<Rightarrow> ('w, unit) io"
  ui_toast :: "bool \<Rightarrow> string \<Rightarrow> ('w, unit) io"
  ui_open :: "string \<Rightarrow> ('w, unit) io"
  ui_copy :: "string \<Rightarrow> ('w, unit) io"
  ui_alert :: "string \<Rightarrow> ('w, unit) io"
  ui_encode :: "string \<Rightarrow> string"

abbreviation toast_success :: "'w ui \<Rightarrow> string \<Rightarrow> ('w \<times> 'p, unit) io" where
  "toast_success U s \<equiv> on_world (ui_toast U True s)"

abbreviation toast_error :: "'w ui \<Rightarrow> string \<Rightarrow> ('w \<times> 'p, unit) io" where
  "toast_error U s \<equiv> on_world (ui_toast U False s)"

abbreviation revalidate :: "'w ui \<Rightarrow> string \<Rightarrow> ('w \<times> 'p, unit) io" where
  "revalidate U key \<equiv> on_world (ui_mutate U (Some key))"

definition in_quotes :: "string \<Rightarrow> string" where
  "in_quotes s = CHR 0x22 # s @ [CHR 0x22]"

section \<open>Storage\<close>

text \<open>A bucket is its name, a file its key: the handlers read nothing else of them.\<close>

record storage_page =
  sp_buckets :: "string list"
  sp_bucketPage :: int
  sp_selectedBucketName :: "string option"
  sp_showCreateModal :: bool
  sp_showUploadZone :: bool
  sp_newBucketName :: string
  sp_newBucketRegion :: string
  sp_newBucketPublic :: bool
  sp_creating :: bool
  sp_uploading :: bool
  sp_error :: string
  sp_bucketToDelete :: "string option"
  sp_fileToDelete :: "string option"

definition BUCKETS_PATH :: string where
  "BUCKETS_PATH = ''/v1/storage/buckets''"

definition BUCKETS_PAGE_SIZE :: int where
  "BUCKETS_PAGE_SIZE = 20"

definition buckets_key :: "int \<Rightarrow> string" where
  "buckets_key page = BUCKETS_PATH @ ''?page='' @ show_int page @ ''&pageSize='' @ show_int BUCKETS_PAGE_SIZE"

definition selectedBucket :: "storage_page \<Rightarrow> string option" where
  "selectedBucket p = (case sp_selectedBucketName p of None \<Rightarrow> None | Some n \<Rightarrow> List.find (\<lambda>b. b = n) (sp_buckets p))"

definition bucket_path :: "string \<Rightarrow> string" where
  "bucket_path name = BUCKETS_PATH @ ''/'' @ name"

definition files_path :: "string \<Rightarrow> string" where
  "files_path name = ''/v1/storage/buckets/'' @ name @ ''/files''"

definition filesPath :: "storage_page \<Rightarrow> string option" where
  "filesPath p = map_option files_path (selectedBucket p)"

definition bucket_form :: "storage_page \<Rightarrow> json" where
  "bucket_form p = JObj [(''name'', JStr (sp_newBucketName p)), (''region'', JStr (sp_newBucketRegion p)), (''isPublic'', JBool (sp_newBucketPublic p))]"

definition handleCreateBucket :: "'w ui \<Rightarrow> ('w \<times> storage_page, unit) io" where
  "handleCreateBucket U =
     await get_ctx (\<lambda>p.
     if sp_newBucketName p = [] then return ()
     else
       await (mod_ctx (\<lambda>p. p\<lparr>sp_creating := True, sp_error := []\<rparr>)) (\<lambda>_.
       try_finally
         (try_catch
           (await (on_world (api_post (ui_browser U) BUCKETS_PATH (Some (bucket_form p)))) (\<lambda>_.
            await (revalidate U (buckets_key (sp_bucketPage p))) (\<lambda>_.
            await (mod_ctx (\<lambda>p. p\<lparr>sp_showCreateModal := False, sp_newBucketName := [], sp_newBucketPublic := False\<rparr>)) (\<lambda>_.
            toast_success U (''Bucket '' @ in_quotes (sp_newBucketName p) @ '' created'')))))
           (\<lambda>err. await (mod_ctx (\<lambda>p. p\<lparr>sp_error := err_message err\<rparr>)) (\<lambda>_. toast_error U (err_message err))))
         (mod_ctx (\<lambda>p. p\<lparr>sp_creating := False\<rparr>))))"

definition confirmDeleteBucket :: "'w ui \<Rightarrow> ('w \<times> storage_page, unit) io" where
  "confirmDeleteBucket U =
     await get_ctx (\<lambda>p.
     case sp_bucketToDelete p of
       None \<Rightarrow> return ()
     | Some name \<Rightarrow>
         try_finally
           (try_catch
             (await (on_world (api_delete (ui_browser U) (bucket_path name))) (\<lambda>_.
              await (if sp_selectedBucketName p = Some name then mod_ctx (\<lambda>p. p\<lparr>sp_selectedBucketName := None\<rparr>) else return ()) (\<lambda>_.
              await (revalidate U (buckets_key (sp_bucketPage p))) (\<lambda>_.
              toast_success U (''Bucket '' @ in_quotes name @ '' deleted'')))))
             (\<lambda>err. toast_error U (err_message err)))
           (mod_ctx (\<lambda>p. p\<lparr>sp_bucketToDelete := None\<rparr>)))"

text \<open>\<open>file\<close> is the name of the chosen file; the form has the file and its key.\<close>

definition handleUpload :: "'w ui \<Rightarrow> string option \<Rightarrow> ('w \<times> storage_page, unit) io" where
  "handleUpload U chosen =
     await get_ctx (\<lambda>p.
     case (chosen, selectedBucket p) of
       (Some name, Some bucket) \<Rightarrow>
         await (mod_ctx (\<lambda>p. p\<lparr>sp_uploading := True\<rparr>)) (\<lambda>_.
         try_finally
           (try_catch
             (await (on_world (api_upload (ui_browser U) (files_path bucket) [(''file'', name), (''key'', name)])) (\<lambda>_.
              await (on_world (ui_mutate U (filesPath p))) (\<lambda>_.
              await (mod_ctx (\<lambda>p. p\<lparr>sp_showUploadZone := False\<rparr>)) (\<lambda>_.
              toast_success U (''Uploaded '' @ in_quotes name)))))
             (\<lambda>err. toast_error U (err_message err)))
           (mod_ctx (\<lambda>p. p\<lparr>sp_uploading := False\<rparr>)))
     | _ \<Rightarrow> return ())"

definition confirmDeleteFile :: "'w ui \<Rightarrow> ('w \<times> storage_page, unit) io" where
  "confirmDeleteFile U =
     await get_ctx (\<lambda>p.
     case (selectedBucket p, sp_fileToDelete p) of
       (Some bucket, Some key) \<Rightarrow>
         try_finally
           (try_catch
             (await (on_world (api_delete (ui_browser U) (files_path bucket @ ''/'' @ ui_encode U key))) (\<lambda>_.
              await (on_world (ui_mutate U (filesPath p))) (\<lambda>_.
              toast_success U (''Deleted '' @ in_quotes key))))
             (\<lambda>err. toast_error U (err_message err)))
           (mod_ctx (\<lambda>p. p\<lparr>sp_fileToDelete := None\<rparr>))
     | _ \<Rightarrow> return ())"

text \<open>The presigned link, asked for by the download and by the copy of the link.\<close>

definition presigned :: "'w ui \<Rightarrow> string \<Rightarrow> string \<Rightarrow> ('w, string) io" where
  "presigned U bucket key =
     await (api_post (ui_browser U) (''/v1/storage/buckets/'' @ bucket @ ''/presign'')
       (Some (JObj [(''key'', JStr key), (''expirySeconds'', JNum 3600), (''method'', JStr ''GET'')]))) (\<lambda>res.
     await (read_opt ''url'' res) (\<lambda>url. return (js_text_of url)))"

definition handleDownload :: "'w ui \<Rightarrow> string \<Rightarrow> ('w \<times> storage_page, unit) io" where
  "handleDownload U key =
     await get_ctx (\<lambda>p.
     case selectedBucket p of
       None \<Rightarrow> return ()
     | Some bucket \<Rightarrow>
         try_catch (await (on_world (presigned U bucket key)) (\<lambda>url. on_world (ui_open U url)))
           (\<lambda>err. toast_error U (err_message err)))"

definition handleCopyLink :: "'w ui \<Rightarrow> string \<Rightarrow> ('w \<times> storage_page, unit) io" where
  "handleCopyLink U key =
     await get_ctx (\<lambda>p.
     case selectedBucket p of
       None \<Rightarrow> return ()
     | Some bucket \<Rightarrow>
         try_catch
           (await (on_world (presigned U bucket key)) (\<lambda>url.
            await (on_world (ui_copy U url)) (\<lambda>_.
            toast_success U ''Presigned link copied to clipboard'')))
           (\<lambda>err. toast_error U (err_message err)))"

definition bucketTotalPages :: "int option \<Rightarrow> int" where
  "bucketTotalPages n = (case n of None \<Rightarrow> 1 | Some k \<Rightarrow> max 1 \<lceil>fdiv (of_int k) (of_int BUCKETS_PAGE_SIZE)\<rceil>)"

definition prev_page :: "int \<Rightarrow> int" where
  "prev_page page = max 1 (page - 1)"

definition next_page :: "int \<Rightarrow> int \<Rightarrow> int" where
  "next_page pages page = min pages (page + 1)"

section \<open>Alerts\<close>

text \<open>The form is the object that is posted; a rule is its id and name.\<close>

record alerts_page =
  al_isModalOpen :: bool
  al_name :: string
  al_condition :: string
  al_threshold :: json
  al_window :: json
  al_email :: bool
  al_webhook :: bool
  al_slack :: bool
  al_ruleToDelete :: "(string \<times> string) option"

definition NOTIF_BASE :: string where
  "NOTIF_BASE = ''/v1/notifications''"

definition rules_path :: string where
  "rules_path = NOTIF_BASE @ ''/alerts/rules''"

definition rule_path :: "string \<Rightarrow> string" where
  "rule_path ruleId = rules_path @ ''/'' @ ruleId"

definition alert_form :: "alerts_page \<Rightarrow> json" where
  "alert_form p = JObj [(''name'', JStr (al_name p)), (''condition'', JStr (al_condition p)), (''threshold'', al_threshold p),
     (''window'', al_window p),
     (''channels'', JObj [(''email'', JBool (al_email p)), (''webhook'', JBool (al_webhook p)), (''slack'', JBool (al_slack p))])]"

definition handleCreateRule :: "'w ui \<Rightarrow> ('w \<times> alerts_page, unit) io" where
  "handleCreateRule U =
     await get_ctx (\<lambda>p.
     try_catch
       (await (on_world (api_post (ui_browser U) rules_path (Some (alert_form p)))) (\<lambda>_.
        await (mod_ctx (\<lambda>p. p\<lparr>al_isModalOpen := False\<rparr>)) (\<lambda>_.
        await (swallow (revalidate U rules_path)) (\<lambda>_.
        toast_success U (''Rule '' @ in_quotes (al_name p) @ '' created'')))))
       (\<lambda>err. toast_error U (err_message err)))"

definition handleToggleRule :: "'w ui \<Rightarrow> string \<Rightarrow> bool \<Rightarrow> ('w \<times> alerts_page, unit) io" where
  "handleToggleRule U ruleId enabled =
     await (on_world (api_patch (ui_browser U) (rule_path ruleId) (Some (JObj [(''enabled'', JBool (\<not> enabled))])))) (\<lambda>_.
     swallow (revalidate U rules_path))"

definition confirmDeleteRule :: "'w ui \<Rightarrow> ('w \<times> alerts_page, unit) io" where
  "confirmDeleteRule U =
     await get_ctx (\<lambda>p.
     case al_ruleToDelete p of
       None \<Rightarrow> return ()
     | Some (ruleId, name) \<Rightarrow>
         try_finally
           (try_catch
             (await (on_world (api_delete (ui_browser U) (rule_path ruleId))) (\<lambda>_.
              await (swallow (revalidate U rules_path)) (\<lambda>_.
              toast_success U (''Rule '' @ in_quotes name @ '' deleted''))))
             (\<lambda>err. toast_error U (err_message err)))
           (mod_ctx (\<lambda>p. p\<lparr>al_ruleToDelete := None\<rparr>)))"

definition handleTestNotification :: "'w ui \<Rightarrow> ('w \<times> alerts_page, unit) io" where
  "handleTestNotification U =
     try_catch
       (await (on_world (api_post (ui_browser U) (NOTIF_BASE @ ''/test'') None)) (\<lambda>_.
        toast_success U ''Test notification triggered!''))
       (\<lambda>err. toast_error U (err_message err))"

section \<open>API keys\<close>

record keys_page =
  ky_newKeyName :: string
  ky_newKeyResult :: "json option"
  ky_creating :: bool
  ky_copied :: bool
  ky_error :: string
  ky_keyToRevoke :: "(string \<times> string) option"

definition KEYS_PATH :: string where
  "KEYS_PATH = ''/v1/auth/api-keys''"

text \<open>\<open>ago\<close> is the difference of the clock and the date, \<open>NaN\<close> for a text that is no date.\<close>

definition relativeTime :: "int js option \<Rightarrow> string" where
  "relativeTime ago =
     (case ago of
        None \<Rightarrow> ''Never used''
      | Some NaN \<Rightarrow> ''NaNd ago''
      | Some (Num diff) \<Rightarrow>
          (let mins = \<lfloor>fdiv (of_int diff) 60000\<rfloor>
           in if mins < 60 then show_int mins @ ''m ago''
              else (let hrs = \<lfloor>fdiv (of_int mins) 60\<rfloor>
                    in if hrs < 24 then show_int hrs @ ''h ago'' else show_int \<lfloor>fdiv (of_int hrs) 24\<rfloor> @ ''d ago'')))"

definition keys_handleCreate :: "'w ui \<Rightarrow> ('w \<times> keys_page, unit) io" where
  "keys_handleCreate U =
     await get_ctx (\<lambda>p.
     if ky_newKeyName p = [] then return ()
     else
       await (mod_ctx (\<lambda>p. p\<lparr>ky_creating := True, ky_error := []\<rparr>)) (\<lambda>_.
       try_finally
         (try_catch
           (await (on_world (api_post (ui_browser U) KEYS_PATH (Some (JObj [(''name'', JStr (ky_newKeyName p))])))) (\<lambda>result.
            await (on_world (read_opt ''key'' result)) (\<lambda>key.
            await (mod_ctx (\<lambda>p. p\<lparr>ky_newKeyResult := key\<rparr>)) (\<lambda>_.
            revalidate U KEYS_PATH))))
           (\<lambda>err. mod_ctx (\<lambda>p. p\<lparr>ky_error := err_message err\<rparr>)))
         (mod_ctx (\<lambda>p. p\<lparr>ky_creating := False\<rparr>))))"

text \<open>The write to the clipboard is not awaited.\<close>

definition copyKey :: "'w ui \<Rightarrow> string \<Rightarrow> ('w \<times> keys_page, unit) io" where
  "copyKey U key =
     await (swallow (on_world (ui_copy U key))) (\<lambda>_.
     await (mod_ctx (\<lambda>p. p\<lparr>ky_copied := True\<rparr>)) (\<lambda>_.
     toast_success U ''API key copied to clipboard''))"

definition confirmRevoke :: "'w ui \<Rightarrow> ('w \<times> keys_page, unit) io" where
  "confirmRevoke U =
     await get_ctx (\<lambda>p.
     case ky_keyToRevoke p of
       None \<Rightarrow> return ()
     | Some (keyId, name) \<Rightarrow>
         try_finally
           (try_catch
             (await (on_world (api_delete (ui_browser U) (KEYS_PATH @ ''/'' @ keyId))) (\<lambda>_.
              await (revalidate U KEYS_PATH) (\<lambda>_.
              toast_success U (''Revoked '' @ in_quotes name))))
             (\<lambda>err. toast_error U (err_message err)))
           (mod_ctx (\<lambda>p. p\<lparr>ky_keyToRevoke := None\<rparr>)))"

section \<open>CDN\<close>

record cdn_page =
  cp_purgeType :: string
  cp_bucket :: string
  cp_key :: string
  cp_purging :: bool
  cp_purgeResult :: "json option"
  cp_purgeError :: string
  cp_confirmPurgeAll :: bool

definition CACHE_STATS_PATH :: string where
  "CACHE_STATS_PATH = ''/v1/cache/stats''"

definition CACHE_HISTORY_PATH :: string where
  "CACHE_HISTORY_PATH = ''/v1/cache/history''"

definition purge_call :: "'w browser \<Rightarrow> cdn_page \<Rightarrow> ('w, json option) io" where
  "purge_call D p =
     (if cp_purgeType p = ''all'' then api_delete D ''/v1/cache/purge/all''
      else if cp_purgeType p = ''bucket'' then api_post D ''/v1/cache/purge/bucket'' (Some (JObj [(''bucket'', JStr (cp_bucket p))]))
      else if cp_purgeType p = ''prefix'' then
        api_post D ''/v1/cache/purge/prefix'' (Some (JObj [(''bucket'', JStr (cp_bucket p)), (''prefix'', JStr (cp_key p))]))
      else api_post D ''/v1/cache/purge'' (Some (JObj [(''bucket'', JStr (cp_bucket p)), (''key'', JStr (cp_key p))])))"

text \<open>\<open>v ?? 0\<close>, and the text of the toast, with a hyphen for its dash.\<close>

definition or_nought :: "json option \<Rightarrow> json" where
  "or_nought v = (case v of None \<Rightarrow> JNum 0 | Some j \<Rightarrow> if j = JNull then JNum 0 else j)"

definition purged_text :: "json option \<Rightarrow> string" where
  "purged_text keysDeleted = ''Cache purged - '' @ js_text (or_nought keysDeleted) @ '' keys deleted''"

definition page_executePurge :: "'w ui \<Rightarrow> ('w \<times> cdn_page, unit) io" where
  "page_executePurge U =
     await get_ctx (\<lambda>p.
     await (mod_ctx (\<lambda>p. p\<lparr>cp_purging := True, cp_purgeError := []\<rparr>)) (\<lambda>_.
     try_finally
       (try_catch
         (await (on_world (purge_call (ui_browser U) p)) (\<lambda>result.
          await (mod_ctx (\<lambda>p. p\<lparr>cp_purgeResult := result\<rparr>)) (\<lambda>_.
          await (revalidate U CACHE_HISTORY_PATH) (\<lambda>_.
          await (revalidate U CACHE_STATS_PATH) (\<lambda>_.
          await (on_world (read_opt ''keysDeleted'' result)) (\<lambda>keysDeleted.
          toast_success U (purged_text keysDeleted)))))))
         (\<lambda>err. await (mod_ctx (\<lambda>p. p\<lparr>cp_purgeError := err_message err\<rparr>)) (\<lambda>_. toast_error U (err_message err))))
       (mod_ctx (\<lambda>p. p\<lparr>cp_purging := False\<rparr>))))"

definition handlePurgeSubmit :: "'w ui \<Rightarrow> ('w \<times> cdn_page, unit) io" where
  "handlePurgeSubmit U =
     await get_ctx (\<lambda>p.
     if cp_purgeType p = ''all'' then mod_ctx (\<lambda>p. p\<lparr>cp_confirmPurgeAll := True\<rparr>)
     else swallow (page_executePurge U))"

text \<open>\<open>form\<close> is \<open>URLSearchParams.toString\<close>.\<close>

definition getUrl :: "((string \<times> string) list \<Rightarrow> string) \<Rightarrow> string option \<Rightarrow> string \<Rightarrow> string \<Rightarrow> string \<Rightarrow> string \<Rightarrow> string \<Rightarrow> string" where
  "getUrl form cdnEnv demoBucket demoKey demoW demoFmt demoQ =
     or_str cdnEnv ''http://localhost:8080'' @ ''/cdn/'' @ demoBucket @ ''/'' @ demoKey @ ''?'' @
     form ((if demoW = [] then [] else [(''w'', demoW)]) @ (if demoFmt = [] then [] else [(''fmt'', demoFmt)]) @
           (if demoQ = [] then [] else [(''q'', demoQ)]))"

section \<open>Settings\<close>

record settings_page =
  se_displayName :: string
  se_saving :: bool
  se_saved :: bool
  se_configForm :: "json option"
  se_configSaving :: bool
  se_configSaved :: bool
  se_configError :: string

definition PROFILE_PATH :: string where
  "PROFILE_PATH = ''/v1/auth/me''"

definition CONFIG_PATH :: string where
  "CONFIG_PATH = ''/config''"

definition handleSave :: "'w ui \<Rightarrow> ('w \<times> settings_page, unit) io" where
  "handleSave U =
     await get_ctx (\<lambda>p.
     await (mod_ctx (\<lambda>p. p\<lparr>se_saving := True, se_saved := False\<rparr>)) (\<lambda>_.
     try_finally
       (try_catch
         (await (on_world (api_patch (ui_browser U) PROFILE_PATH (Some (JObj [(''displayName'', JStr (se_displayName p))])))) (\<lambda>_.
          await (revalidate U PROFILE_PATH) (\<lambda>_.
          mod_ctx (\<lambda>p. p\<lparr>se_saved := True\<rparr>))))
         (\<lambda>err. on_world (ui_alert U (err_message err))))
       (mod_ctx (\<lambda>p. p\<lparr>se_saving := False\<rparr>))))"

definition handleSaveConfig :: "'w ui \<Rightarrow> ('w \<times> settings_page, unit) io" where
  "handleSaveConfig U =
     await get_ctx (\<lambda>p.
     case se_configForm p of
       None \<Rightarrow> return ()
     | Some configForm \<Rightarrow>
         await (mod_ctx (\<lambda>p. p\<lparr>se_configSaving := True, se_configError := [], se_configSaved := False\<rparr>)) (\<lambda>_.
         try_finally
           (try_catch
             (await (on_world (api_patch (ui_browser U) CONFIG_PATH (Some configForm))) (\<lambda>_.
              await (revalidate U CONFIG_PATH) (\<lambda>_.
              mod_ctx (\<lambda>p. p\<lparr>se_configSaved := True\<rparr>))))
             (\<lambda>err. mod_ctx (\<lambda>p. p\<lparr>se_configError := err_message err\<rparr>)))
           (mod_ctx (\<lambda>p. p\<lparr>se_configSaving := False\<rparr>))))"

section \<open>Live events\<close>

record live_events =
  le_isPaused :: bool
  le_events :: "json list"

text \<open>A render takes the events of the hook over unless the page is paused.\<close>

definition render_events :: "json list \<Rightarrow> live_events \<Rightarrow> live_events" where
  "render_events liveEvents s = (if \<not> le_isPaused s \<and> liveEvents \<noteq> le_events s then s\<lparr>le_events := liveEvents\<rparr> else s)"

definition event_shown :: "string \<Rightarrow> string \<Rightarrow> json \<Rightarrow> bool" where
  "event_shown filterService filterStatus e =
     (if filterService \<noteq> ''all'' \<and> jget ''service'' e \<noteq> Some (JStr filterService) then False
      else if filterStatus \<noteq> ''all'' then
        (let s = js_text_of (jget ''status'' e)
         in if filterStatus = ''2xx'' \<and> \<not> prefix ''2'' s then False
            else if filterStatus = ''4xx'' \<and> \<not> prefix ''4'' s then False
            else if filterStatus = ''5xx'' \<and> \<not> prefix ''5'' s then False
            else True)
      else True)"

definition filteredEvents :: "string \<Rightarrow> string \<Rightarrow> json list \<Rightarrow> json list" where
  "filteredEvents filterService filterStatus events = filter (event_shown filterService filterStatus) events"

record live_summary =
  ls_rps :: rat
  ls_cacheHit :: "int js"
  ls_avgLat :: "int js"

text \<open>The sum of the latencies is \<open>NaN\<close> when one is missing; a latency is a number.\<close>

definition latency_of :: "json \<Rightarrow> int js" where
  "latency_of e = (case jget ''latencyMs'' e of Some (JNum n) \<Rightarrow> Num n | _ \<Rightarrow> NaN)"

fun js_sum :: "int js \<Rightarrow> int js list \<Rightarrow> int js" where
  "js_sum acc [] = acc"
| "js_sum NaN (x # xs) = js_sum NaN xs"
| "js_sum (Num a) (NaN # xs) = js_sum NaN xs"
| "js_sum (Num a) (Num b # xs) = js_sum (Num (a + b)) xs"

definition computeSummary :: "json list \<Rightarrow> live_summary" where
  "computeSummary filtered =
     (if length filtered = 0 then \<lparr>ls_rps = 0, ls_cacheHit = Num 0, ls_avgLat = Num 0\<rparr>
      else
        (let n = of_nat (length filtered); hits = length (filter (\<lambda>e. jtruthy (jget ''cacheHit'' e)) filtered);
             latencies = js_sum (Num 0) (map latency_of filtered)
         in \<lparr>ls_rps = fdiv n 3, ls_cacheHit = js_map (\<lambda>r. math_round (fmul r 100)) (js_div (of_nat hits) n),
             ls_avgLat = js_map math_round (case latencies of NaN \<Rightarrow> NaN | Num x \<Rightarrow> js_div (of_int x) n)\<rparr>))"

section \<open>Health of the services\<close>

text \<open>
  The cards of the monitoring page and the sidebar: \<open>None\<close> is \<open>Checking...\<close>. \<open>health.services?.[name]?.status\<close>.
\<close>

definition gateway_card :: "json option \<Rightarrow> bool option" where
  "gateway_card health = (if jtruthy health then Some (jget ''status'' (the health) \<noteq> Some (JStr ''unhealthy'')) else None)"

definition opt_get :: "string \<Rightarrow> json option \<Rightarrow> json option" where
  "opt_get f v = (case v of None \<Rightarrow> None | Some j \<Rightarrow> if j = JNull then None else jget f j)"

definition service_card :: "string \<Rightarrow> json option \<Rightarrow> bool option" where
  "service_card name health =
     (if jtruthy health then Some (opt_get ''status'' (opt_get name (jget ''services'' (the health))) = Some (JStr ''up'')) else None)"

definition card_text :: "bool option \<Rightarrow> string" where
  "card_text up = (case up of None \<Rightarrow> ''Checking...'' | Some b \<Rightarrow> if b then ''Healthy'' else ''Down'')"

definition edge_online :: "int \<Rightarrow> int js \<Rightarrow> bool" where
  "edge_online now lastSeen = (case lastSeen of NaN \<Rightarrow> False | Num t \<Rightarrow> now - t < 5 * 60 * 1000)"

section \<open>Handlers that settle\<close>

definition feedback_ok :: "'w ui \<Rightarrow> bool" where
  "feedback_ok U \<longleftrightarrow> (\<forall>b s. returns (ui_toast U b s)) \<and> (\<forall>s. returns (ui_alert U s))"

lemma returns_mod_ctx [simp]: "returns (mod_ctx f)"
  by (simp add: returns_def)

lemma returns_on_world: "returns m \<Longrightarrow> returns (on_world m)"
  unfolding returns_def on_world_def by (auto split: prod.splits) (metis prod.inject)

lemma returns_toast: "feedback_ok U \<Longrightarrow> returns (on_world (ui_toast U b s))"
  by (simp add: feedback_ok_def returns_on_world)

lemma returns_alert: "feedback_ok U \<Longrightarrow> returns (on_world (ui_alert U s))"
  by (simp add: feedback_ok_def returns_on_world)

lemma returns_try_catch: "(\<And>e. returns (h e)) \<Longrightarrow> returns (try_catch m h)"
  unfolding returns_def try_catch_def by (auto split: prod.splits sum.splits)

text \<open>A \<open>try\<close> whose \<open>catch\<close> returns, with a \<open>finally\<close> that sets the state.\<close>

lemma finally_settles:
  assumes "\<And>e. returns (h e)" and "\<And>q. P (f q)"
  shows "\<exists>w' p'. try_finally (try_catch m h) (mod_ctx f) (w, p) = (Inr (), (w', p')) \<and> P p'"
proof -
  obtain a w1 where "try_catch m h (w, p) = (Inr a, w1)" using returns_try_catch [OF assms(1)] by (rule returnsE)
  then show ?thesis using assms(2) by (cases w1) (simp add: try_finally_def)
qed

lemma catch_settles:
  assumes "\<And>e. returns (h e)"
  shows "\<exists>w' p'. try_catch m h (w, p) = (Inr (), (w', p'))"
proof -
  obtain a w1 where "try_catch m h (w, p) = (Inr a, w1)" using returns_try_catch [OF assms] by (rule returnsE)
  then show ?thesis by (cases w1) simp
qed

lemmas handler_returns = returns_toast returns_alert

lemma await_toast:
  assumes "feedback_ok U"
  obtains w' where "\<And>k. await (on_world (ui_toast U b s)) k (w, p) = k () (w', p)" and "on_world (ui_toast U b s) (w, p) = (Inr (), (w', p))"
proof -
  have "returns (ui_toast U b s)" using assms by (simp add: feedback_ok_def)
  then obtain a w' where "ui_toast U b s w = (Inr a, w')" by (rule returnsE)
  then show thesis by (intro that [of w']) (simp_all add: await_def on_world_def)
qed

text \<open>How the form for a bucket ends.\<close>

definition posts_bucket :: "'w ui \<Rightarrow> storage_page \<Rightarrow> ('w, unit) io" where
  "posts_bucket U p =
     await (api_post (ui_browser U) BUCKETS_PATH (Some (bucket_form p))) (\<lambda>_. ui_mutate U (Some (buckets_key (sp_bucketPage p))))"

lemma create_bucket_failed:
  assumes U: "feedback_ok U" and name: "sp_newBucketName p \<noteq> []" and post: "posts_bucket U p w = (Inl e, w1)"
  shows "\<exists>w'. handleCreateBucket U (w, p) = (Inr (), (w', p\<lparr>sp_creating := False, sp_error := err_message e\<rparr>))"
proof -
  obtain w' where "on_world (ui_toast U False (err_message e)) (w1, p\<lparr>sp_creating := True, sp_error := err_message e\<rparr>) =
      (Inr (), (w', p\<lparr>sp_creating := True, sp_error := err_message e\<rparr>))"
    by (rule await_toast [OF U])
  then show ?thesis
    using name post
    by (auto simp: handleCreateBucket_def posts_bucket_def try_finally_def try_catch_def await_def on_world_def mod_ctx_def
        split: prod.splits sum.splits)
qed

lemma create_bucket_done:
  assumes U: "feedback_ok U" and name: "sp_newBucketName p \<noteq> []" and post: "posts_bucket U p w = (Inr (), w1)"
  shows "\<exists>w'. handleCreateBucket U (w, p) = (Inr (), (w', p\<lparr>sp_creating := False, sp_error := [],
      sp_showCreateModal := False, sp_newBucketName := [], sp_newBucketPublic := False\<rparr>))"
proof -
  let ?p = "p\<lparr>sp_creating := True, sp_error := [], sp_showCreateModal := False, sp_newBucketName := [], sp_newBucketPublic := False\<rparr>"
  obtain w' where "on_world (ui_toast U True (''Bucket '' @ in_quotes (sp_newBucketName p) @ '' created'')) (w1, ?p) = (Inr (), (w', ?p))"
    by (rule await_toast [OF U])
  then show ?thesis
    using name post
    by (auto simp: handleCreateBucket_def posts_bucket_def try_finally_def try_catch_def await_def on_world_def mod_ctx_def
        split: prod.splits sum.splits)
qed

lemma create_bucket_outcome:
  assumes U: "feedback_ok U" and post: "posts_bucket U p w = (r, w1)"
  shows "\<exists>w'. handleCreateBucket U (w, p) = (Inr (), (w',
          if sp_newBucketName p = [] then p
          else (case r of
             Inl e \<Rightarrow> p\<lparr>sp_creating := False, sp_error := err_message e\<rparr>
           | Inr u \<Rightarrow> p\<lparr>sp_creating := False, sp_error := [], sp_showCreateModal := False, sp_newBucketName := [], sp_newBucketPublic := False\<rparr>)))"
proof (cases "sp_newBucketName p = []")
  case True
  then show ?thesis by (simp add: handleCreateBucket_def)
next
  case False
  then show ?thesis using post create_bucket_failed [OF U False] create_bucket_done [OF U False] by (cases r) simp_all
qed

text \<open>How the form for a rule ends; the list is revalidated without waiting.\<close>

lemma create_rule_outcome:
  assumes U: "feedback_ok U" and post: "api_post (ui_browser U) rules_path (Some (alert_form q)) w = (r, w1)"
  shows "\<exists>w'. handleCreateRule U (w, q) = (Inr (), (w', case r of Inl e \<Rightarrow> q | Inr j \<Rightarrow> q\<lparr>al_isModalOpen := False\<rparr>))"
proof (cases r)
  case (Inl e)
  obtain w' where "on_world (ui_toast U False (err_message e)) (w1, q) = (Inr (), (w', q))" by (rule await_toast [OF U])
  then show ?thesis using post Inl by (simp add: handleCreateRule_def try_catch_def await_def on_world_def)
next
  case (Inr j)
  let ?q = "q\<lparr>al_isModalOpen := False\<rparr>"
  obtain w2 where "swallow (revalidate U rules_path) (w1, ?q) = (Inr (), (w2, ?q))"
    by (cases "ui_mutate U (Some rules_path) w1"; cases "fst (ui_mutate U (Some rules_path) w1)")
       (auto simp: swallow_def try_catch_def on_world_def return_def)
  moreover obtain w' where "on_world (ui_toast U True (''Rule '' @ in_quotes (al_name q) @ '' created'')) (w2, ?q) = (Inr (), (w', ?q))"
    by (rule await_toast [OF U])
  ultimately show ?thesis using post Inr by (simp add: handleCreateRule_def try_catch_def await_def on_world_def mod_ctx_def)
qed


definition web_ui :: "web ui" where
  "web_ui = \<lparr>ui_browser = web_browser, ui_mutate = (\<lambda>k. throw (JsError ''offline'')), ui_toast = (\<lambda>b s. return ()),
     ui_open = (\<lambda>u. return ()), ui_copy = (\<lambda>s. throw (JsError ''denied'')), ui_alert = (\<lambda>s. return ()), ui_encode = (\<lambda>s. s)\<rparr>"

lemma web_ui_ok: "feedback_ok web_ui"
  by (simp add: feedback_ok_def web_ui_def)

definition web_storage :: storage_page where
  "web_storage = \<lparr>sp_buckets = [''b''], sp_bucketPage = 1, sp_selectedBucketName = Some ''b'', sp_showCreateModal = True,
     sp_showUploadZone = False, sp_newBucketName = ''c'', sp_newBucketRegion = ''us-east-1'', sp_newBucketPublic = False,
     sp_creating = False, sp_uploading = False, sp_error = [], sp_bucketToDelete = Some ''b'', sp_fileToDelete = None\<rparr>"


section \<open>The summary of the live events\<close>

lemma computeSummary_percent: "\<exists>p \<in> {0..100}. ls_cacheHit (computeSummary es) = Num p"
proof -
  let ?r = "fdiv (of_nat (length (filter (\<lambda>e. jtruthy (jget ''cacheHit'' e)) es))) (of_nat (length es))"
  have r: "?r \<in> {0..1}"
    using dbl.fl_ratio [of "of_nat (length (filter (\<lambda>e. jtruthy (jget ''cacheHit'' e)) es))" "of_nat (length es)"]
    by (simp add: fdiv_def length_filter_le)
  then have "0 \<le> fmul ?r 100" "fmul ?r 100 \<le> 100"
    using js_fl_mono [of 0 "?r * 100"] js_fl_mono [of "?r * 100" 100] dbl.fl_int [of 100] dbl.fl_int [of 0]
    unfolding fmul_def by simp_all
  then have "math_round (fmul ?r 100) \<in> {0..100}"
    unfolding math_round_def by (auto simp: floor_le_iff le_floor_iff)
  then show ?thesis by (simp add: computeSummary_def Let_def)
qed

end
