(* ===== verification/Shared_Helpers.thy ===== *)
theory Shared_Helpers
  imports Storage_Multipart Cdn_Service "HOL-Library.List_Lexorder"
begin

text \<open>
  The helpers of \<open>packages/shared/src\<close>: the parts of an upload (\<open>phase4.ts\<close>), the headers, keys and
  purge patterns of a CDN cache (\<open>phase2.ts\<close>) and the country of an address (\<open>phase3.ts\<close>). The services
  have versions of their own of the first three; the parts are compared with those of the storage service.
\<close>

section \<open>Parts of a file\<close>

definition MULTIPART_PART_SIZE :: int where
  "MULTIPART_PART_SIZE = 5 * 1024 * 1024"

definition computePartCount :: "int \<Rightarrow> int" where
  "computePartCount totalSizeBytes =
     (if totalSizeBytes \<le> MULTIPART_PART_SIZE then 1
      else \<lceil>fdiv (of_int totalSizeBytes) (of_int MULTIPART_PART_SIZE)\<rceil>)"

record part_range =
  prg_start :: int
  prg_end :: int
  prg_size :: int

definition getPartRange :: "int \<Rightarrow> int \<Rightarrow> part_range" where
  "getPartRange partNumber totalSize =
     (let start = (partNumber - 1) * MULTIPART_PART_SIZE; stop = min (partNumber * MULTIPART_PART_SIZE) totalSize
      in \<lparr>prg_start = start, prg_end = stop, prg_size = stop - start\<rparr>)"

section \<open>Keys, patterns and headers\<close>

text \<open>
  The transforms are the properties that are set, with their values as text, \<open>None\<close> for \<open>undefined\<close>;
  their names are lower-case words, which \<open>localeCompare\<close> orders as the characters do.
\<close>

fun join_texts :: "string \<Rightarrow> string list \<Rightarrow> string" where
  "join_texts sep [] = []"
| "join_texts sep [s] = s"
| "join_texts sep (s # t # ts) = s @ sep @ join_texts sep (t # ts)"

definition transform_hash :: "(string \<times> string option) list option \<Rightarrow> string" where
  "transform_hash transforms =
     (case transforms of
        None \<Rightarrow> []
      | Some ts \<Rightarrow>
          if length ts > 0 then
            '':'' @ join_texts '','' (map (\<lambda>(k, v). k @ ''='' @ the v)
              (sort_key fst (filter (\<lambda>(k, v). v \<noteq> None) ts)))
          else [])"

definition buildCdnCacheKey :: "string \<Rightarrow> string \<Rightarrow> string \<Rightarrow> (string \<times> string option) list option \<Rightarrow> string" where
  "buildCdnCacheKey region bucket key transforms = ''cdn:'' @ region @ '':'' @ bucket @ ''/'' @ key @ transform_hash transforms"

definition buildPurgePattern :: "string \<Rightarrow> string option \<Rightarrow> string option \<Rightarrow> string" where
  "buildPurgePattern bucket key pre =
     (if truthy key then ''cdn:*:'' @ bucket @ ''/'' @ the key @ ''*''
      else if truthy pre then ''cdn:*:'' @ bucket @ ''/'' @ the pre @ ''*''
      else ''cdn:*:'' @ bucket @ ''/*'')"

record shared_cdn_response =
  sc_dataLength :: nat
  sc_contentType :: string
  sc_etag :: string
  sc_cacheHit :: bool
  sc_cacheLevel :: "string option"
  sc_remainingTTL :: int
  sc_region :: string

definition buildCacheHeaders :: "shared_cdn_response \<Rightarrow> (string \<times> string option) list" where
  "buildCacheHeaders r =
     [(''X-Cache'', Some (if sc_cacheHit r then ''HIT'' else ''MISS'')), (''X-Cache-Level'', sc_cacheLevel r),
      (''X-Edge-Region'', Some (sc_region r)), (''X-Cache-TTL'', Some (show_int (sc_remainingTTL r))),
      (''Cache-Control'', Some (''public, max-age='' @ show_int (sc_remainingTTL r) @ '', s-maxage='' @ show_int (sc_remainingTTL r))),
      (''ETag'', Some (CHR 0x22 # sc_etag r @ [CHR 0x22])), (''Content-Type'', Some (sc_contentType r)),
      (''Content-Length'', Some (show_nat (sc_dataLength r))), (''Vary'', Some ''Accept-Encoding, Accept'')]"

section \<open>Countries\<close>

definition simulateCountryFromIp :: "string \<Rightarrow> string" where
  "simulateCountryFromIp ip =
     (case parse_int (if hd (split_on (CHR ''.'') ip) = [] then ''0'' else hd (split_on (CHR ''.'') ip)) of
        NaN \<Rightarrow> ''CA''
      | Num firstOctet \<Rightarrow>
          if firstOctet \<le> 50 then ''IN'' else if firstOctet \<le> 100 then ''US'' else if firstOctet \<le> 130 then ''DE''
          else if firstOctet \<le> 160 then ''GB'' else if firstOctet \<le> 190 then ''JP'' else if firstOctet \<le> 220 then ''AU'' else ''CA'')"

section \<open>The parts make up the file\<close>

definition part_bytes :: "'a list \<Rightarrow> int \<Rightarrow> 'a list" where
  "part_bytes data n =
     (let r = getPartRange n (int (length data)) in take (nat (prg_size r)) (drop (nat (prg_start r)) data))"

lemma part_bytes_nat:
  assumes "int k * MULTIPART_PART_SIZE \<le> int (length data)"
  shows "part_bytes data (int k + 1) =
    take (min (Suc k * nat MULTIPART_PART_SIZE) (length data) - k * nat MULTIPART_PART_SIZE) (drop (k * nat MULTIPART_PART_SIZE) data)"
proof -
  have P: "0 < MULTIPART_PART_SIZE" by (simp add: MULTIPART_PART_SIZE_def)
  have s: "nat (int k * MULTIPART_PART_SIZE) = k * nat MULTIPART_PART_SIZE"
    using P by (simp add: nat_mult_distrib)
  have e: "nat (min ((int k + 1) * MULTIPART_PART_SIZE) (int (length data))) = min (Suc k * nat MULTIPART_PART_SIZE) (length data)"
  proof -
    have "(int k + 1) * MULTIPART_PART_SIZE = int (Suc k * nat MULTIPART_PART_SIZE)" using P by (simp add: distrib_right)
    then show ?thesis by (metis nat_int of_nat_min)
  qed
  have "nat (min ((int k + 1) * MULTIPART_PART_SIZE) (int (length data)) - int k * MULTIPART_PART_SIZE) =
      nat (min ((int k + 1) * MULTIPART_PART_SIZE) (int (length data))) - nat (int k * MULTIPART_PART_SIZE)"
    using P by (simp add: nat_diff_distrib')
  then show ?thesis by (simp only: part_bytes_def getPartRange_def Let_def part_range.select_convs add_diff_cancel_right' s e)
qed

lemma parts_prefix:
  assumes "0 < k \<Longrightarrow> (int k - 1) * MULTIPART_PART_SIZE \<le> int (length data)"
  shows "concat (map (\<lambda>n. part_bytes data (int n + 1)) [0..<k]) = take (k * nat MULTIPART_PART_SIZE) data"
  using assms
proof (induction k)
  case (Suc k)
  have P: "0 < MULTIPART_PART_SIZE" by (simp add: MULTIPART_PART_SIZE_def)
  have k: "int k * MULTIPART_PART_SIZE \<le> int (length data)" using Suc.prems by simp
  then have "(int k - 1) * MULTIPART_PART_SIZE \<le> int (length data)"
    using P by (simp add: left_diff_distrib)
  then have IH: "concat (map (\<lambda>n. part_bytes data (int n + 1)) [0..<k]) = take (k * nat MULTIPART_PART_SIZE) data"
    using Suc.IH by blast
  define a where "a = k * nat MULTIPART_PART_SIZE"
  have "int (k * nat MULTIPART_PART_SIZE) \<le> int (length data)" using k P by simp
  then have a: "a \<le> length data" "Suc k * nat MULTIPART_PART_SIZE = a + nat MULTIPART_PART_SIZE"
    by (simp_all only: of_nat_le_iff a_def mult_Suc add.commute)
  have "take a data @ take (min (a + nat MULTIPART_PART_SIZE) (length data) - a) (drop a data) =
      take (min (a + nat MULTIPART_PART_SIZE) (length data)) data"
    using a(1) by (simp flip: take_add)
  also have "\<dots> = take (a + nat MULTIPART_PART_SIZE) data" by (simp add: min_def)
  finally show ?case
    using IH part_bytes_nat [OF k] by (simp add: a(2) add.commute flip: a_def)
qed simp

lemma same_part_size: "MULTIPART_PART_SIZE = partSize"
  by (simp add: MULTIPART_PART_SIZE_def partSize_def)

text \<open>
  The parts of an upload are the file: for every file of 1 byte up to five petabytes the shared helper
  counts as many parts as the storage service expects, the range of each part has at least a byte and at
  most the size of a part, and the bytes of the ranges in order are those of the file.
\<close>

theorem part_ranges_partition:
  assumes "data \<noteq> []" and "int (length data) < 2 ^ 30 * partSize"
  shows "computePartCount (int (length data)) = partCount (int (length data)) \<and>
    concat (map (\<lambda>n. part_bytes data (int n + 1)) [0..<nat (computePartCount (int (length data)))]) = data \<and>
    (\<forall>n \<in> {1..computePartCount (int (length data))}.
       prg_size (getPartRange n (int (length data))) \<in> {1..MULTIPART_PART_SIZE})"
proof -
  let ?t = "int (length data)" and ?c = "partCount (int (length data))"
  have t: "1 \<le> ?t" using assms(1) by (cases data) simp_all
  note exact = partCount_exact [OF t assms(2), folded same_part_size]
  have c: "computePartCount ?t = ?c"
    by (simp add: computePartCount_def partCount_def same_part_size)
  have P: "0 < MULTIPART_PART_SIZE" by (simp add: MULTIPART_PART_SIZE_def)
  have "concat (map (\<lambda>n. part_bytes data (int n + 1)) [0..<nat ?c]) = take (nat ?c * nat MULTIPART_PART_SIZE) data"
    using exact(1,2) by (intro parts_prefix) simp
  moreover have "length data \<le> nat ?c * nat MULTIPART_PART_SIZE"
    using exact(1,3) P by (simp flip: of_nat_le_iff [where 'a = int])
  moreover have "prg_size (getPartRange n ?t) \<in> {1..MULTIPART_PART_SIZE}" if n: "1 \<le> n" "n \<le> ?c" for n
  proof -
    have "(n - 1) * MULTIPART_PART_SIZE \<le> (?c - 1) * MULTIPART_PART_SIZE"
      using n P by (intro mult_right_mono) simp_all
    then have "(n - 1) * MULTIPART_PART_SIZE < ?t" using exact(2) by simp
    moreover have "n * MULTIPART_PART_SIZE = (n - 1) * MULTIPART_PART_SIZE + MULTIPART_PART_SIZE"
      by (simp add: left_diff_distrib)
    ultimately show ?thesis using P by (simp add: getPartRange_def min_def Let_def)
  qed
  ultimately show ?thesis unfolding c by simp
qed

theorem part_ranges_partition_witness:
  "concat (map (\<lambda>n. part_bytes ''abc'' (int n + 1)) [0..<nat (computePartCount 3)]) = ''abc'' \<and> computePartCount 3 = partCount 3"
proof -
  have "int (length ''abc'') = 3" "''abc'' \<noteq> []" "int (length ''abc'') < 2 ^ 30 * partSize" by (simp_all add: partSize_def)
  then show ?thesis using part_ranges_partition [of "''abc''"] by metis
qed

section \<open>A purge pattern finds the keys it names\<close>

text \<open>Patterns in which a star stands for any text and every other character for itself.\<close>

fun star_match :: "string \<Rightarrow> string \<Rightarrow> bool" where
  "star_match [] k = (k = [])"
| "star_match (c # p) [] = (c = CHR ''*'' \<and> star_match p [])"
| "star_match (c # p) (d # k) = (if c = CHR ''*'' then star_match p (d # k) \<or> star_match (c # p) k else c = d \<and> star_match p k)"

lemma star_match_literal: "CHR ''*'' \<notin> set a \<Longrightarrow> star_match (a @ p) (a @ k) = star_match p k"
  by (induction a) auto

lemma star_match_skip: "star_match p k \<Longrightarrow> star_match (CHR ''*'' # p) (x @ k)"
proof (induction x)
  case Nil
  then show ?case by (cases k) auto
qed simp

lemma star_match_end: "star_match ''*'' k"
  by (induction k) auto

lemma purge_pattern_matches:
  assumes "CHR ''*'' \<notin> set bucket" and "CHR ''*'' \<notin> set key"
  shows "star_match (buildPurgePattern bucket (Some key) None) (buildCdnCacheKey region bucket key transforms)"
proof -
  have tail: "star_match ('':'' @ bucket @ ''/'' @ key @ ''*'') ('':'' @ bucket @ ''/'' @ key @ transform_hash transforms)"
    using assms star_match_literal [of "'':'' @ bucket @ ''/'' @ key" "''*''" "transform_hash transforms"] star_match_end by simp
  have "star_match (''cdn:'' @ ''*'' @ '':'' @ bucket @ ''/'' @ key @ ''*'')
      (''cdn:'' @ region @ '':'' @ bucket @ ''/'' @ key @ transform_hash transforms)"
    using star_match_literal [of "''cdn:''" "''*'' @ '':'' @ bucket @ ''/'' @ key @ ''*''"] star_match_skip [OF tail] by simp
  then show ?thesis
    using star_match_skip [OF tail] by (cases "key = []") (simp_all add: buildPurgePattern_def buildCdnCacheKey_def)
qed

end
