(* ===== verification/Platform_Sessions.thy ===== *)
theory Platform_Sessions
  imports Gateway_Auth Auth_Properties Auth_Routes Storage_Properties Dashboard_Client
begin

text \<open>
  Identities across services: from an API key that the auth service created, through the gateway, to the
  guard of the storage service; and from the dashboard's session, through its client, to the rotation
  of refresh tokens. What connects the services is HTTP: a route's value is a JSON body with a
  success, an exception a status with a message.
\<close>

section \<open>Routes over HTTP\<close>

definition error_status :: "exn \<Rightarrow> nat" where
  "error_status e = (case e of Http n m \<Rightarrow> n | JsError m \<Rightarrow> 500)"

definition error_body :: "exn \<Rightarrow> json" where
  "error_body e = JObj [(''statusCode'', JNum (int (error_status e))),
     (''message'', JStr (case e of Http n m \<Rightarrow> m | JsError m \<Rightarrow> ''Internal server error''))]"

definition http_answer :: "nat \<Rightarrow> ('a \<Rightarrow> json) \<Rightarrow> ('w, 'a) io \<Rightarrow> ('w, fetched) io" where
  "http_answer code enc m w =
     (case m w of
        (Inr a, w') \<Rightarrow> (Inr \<lparr>fe_status = code, fe_json = Some (enc a)\<rparr>, w')
      | (Inl e, w') \<Rightarrow> (Inr \<lparr>fe_status = error_status e, fe_json = Some (error_body e)\<rparr>, w'))"

definition pair_json :: "token_pair \<Rightarrow> json" where
  "pair_json p = JObj [(''accessToken'', JStr (accessToken p)), (''refreshToken'', JStr (refreshToken p)), (''expiresIn'', JNum (int (expiresIn p)))]"

definition identity_json :: "key_identity \<Rightarrow> json" where
  "identity_json i = jobject [(''sub'', Some (JStr (ki_sub i))), (''email'', Some (JStr (ki_email i))), (''role'', Some (JStr (ki_role i))),
     (''keyId'', ki_keyId i)]"

section \<open>From an API key to the storage service\<close>

text \<open>The gateway's \<open>fetch\<close> when the auth service answers it.\<close>

definition key_field :: "json \<Rightarrow> string option" where
  "key_field body = (case jget ''key'' body of Some (JStr s) \<Rightarrow> Some s | _ \<Rightarrow> None)"

definition auth_fetch :: "'w auth_deps \<Rightarrow> 'w fetcher" where
  "auth_fetch A url body w =
     (case json_parse body of
        None \<Rightarrow> (Inr (False, None), w)
      | Some j \<Rightarrow>
          (case validateApiKey_route A (key_field j) w of
             (Inr i, w') \<Rightarrow> (Inr (True, Some (identity_json i)), w')
           | (Inl e, w') \<Rightarrow> (Inr (False, Some (error_body e)), w')))"

text \<open>
  \<open>jsonwebtoken\<close> verifies what it signed with the same secret, and gives back the claims it was
  given; a token has no blank in it.
\<close>

definition jwt_ok :: "'w jwt \<Rightarrow> (string \<Rightarrow> string \<Rightarrow> json option) \<Rightarrow> bool" where
  "jwt_ok J verify \<longleftrightarrow>
     (\<forall>claims secret expiry w token w'. jwt_sign J claims secret expiry w = (Inr token, w') \<longrightarrow>
        CHR '' '' \<notin> set token \<and>
        (\<exists>decoded. verify token secret = Some decoded \<and> (\<forall>f. f \<noteq> ''iat'' \<and> f \<noteq> ''exp'' \<longrightarrow> jget f decoded = jget f claims)))"

lemma jwt_ok_verify:
  assumes "jwt_ok J verify" and "jwt_sign J claims secret expiry w = (Inr token, w')"
  shows "CHR '' '' \<notin> set token \<and>
    (\<exists>decoded. verify token secret = Some decoded \<and> (\<forall>f. f \<noteq> ''iat'' \<and> f \<noteq> ''exp'' \<longrightarrow> jget f decoded = jget f claims))"
  using assms unfolding jwt_ok_def by blast

lemma jget_jobject:
  "distinct (map fst kvs) \<Longrightarrow> jget f (jobject kvs) = (case map_of kvs f of None \<Rightarrow> None | Some v \<Rightarrow> v)"
proof (induction kvs)
  case (Cons kv kvs)
  obtain k v where kv: "kv = (k, v)" by fastforce
  have none: "map_of kvs k = None" using Cons.prems kv by (simp add: map_of_eq_None_iff)
  have "map_of (rev (map (\<lambda>(k, v). (k, the v)) (filter (\<lambda>(k, v). v \<noteq> None) kvs))) f =
      (case map_of kvs f of None \<Rightarrow> None | Some v \<Rightarrow> v)"
    using Cons.IH Cons.prems kv by simp
  then show ?case using none kv by (cases v) (auto simp: map_add_def split: option.split)
qed simp

text \<open>The token of the gateway, at the guard of the storage service.\<close>

lemma internal_token_accepted:
  assumes "internal_jwt J secret payload w = (Inr token, w')" and J: "jwt_ok J (se_verify E)"
    and same: "se_secret E = Some secret" and secret: "secret \<noteq> []"
  shows "as_user E (Some (bearer token)) handler = handler (js_text_of (jget ''sub'' payload))"
proof -
  obtain w3 w4 where sign: "jwt_sign J (jobject [(''sub'', jget ''sub'' payload), (''email'', jget ''email'' payload),
         (''role'', jget ''role'' payload)]) secret ''5m'' w3 = (Inr token, w4)"
    using assms(1) by (auto simp: internal_jwt_def await_eq_Inr_iff read_of_Inr simp del: jobject.simps)
  from jwt_ok_verify [OF J sign] obtain decoded where d: "CHR '' '' \<notin> set token" "se_verify E token secret = Some decoded"
    and f: "\<And>f. f \<noteq> ''iat'' \<Longrightarrow> f \<noteq> ''exp'' \<Longrightarrow> jget f decoded = jget f (jobject [(''sub'', jget ''sub'' payload),
         (''email'', jget ''email'' payload), (''role'', jget ''role'' payload)])"
    by blast
  have "jget ''sub'' decoded = jget ''sub'' payload"
    using f [of "''sub''"] by (simp add: jget_jobject del: jobject.simps split: option.split_asm)
  moreover have "split_on (CHR '' '') (bearer token) ! 1 = token"
    using d(1) by (simp add: bearer_def split_on_no_sep)
  moreover have "or_str (Some secret) ''fallback_secret'' = secret"
    using secret by (cases secret) (simp_all add: or_str_def)
  ultimately show ?thesis
    using d(2) same by (simp add: as_user_def for_user_def storage_guard_def bearer_def)
qed

text \<open>
  C4. An API key works for its owner, and for no one else, throughout the platform. Take a key that the
  auth service created for an active account, and a request with that key that passes the gateway,
  whatever its other headers: at the storage service, configured with the same secret, the guard
  accepts it and every handler runs for the owner of the key.
\<close>

theorem created_key_acts_for_owner:
  assumes A: "auth_platform A rd wr users put_users keys put_keys clk gen new_id verify"
    and user: "user \<in> set (users w0)" "u_isActive user" "distinct (map u_id (users w0))"
    and created: "createApiKey A (u_id user) name w0 = (Inr k, w)"
    and run: "auth_use cfg (auth_fetch A) J R S P (w, c) = (Inr Next, (w', c'))" and m: "rq_method c \<noteq> ''OPTIONS''"
    and key: "rq_headers c ''x-api-key'' = Some (ck_key k)" and secret: "cfg ''JWT_SECRET'' = Some (s # ss)"
    and J: "jwt_ok J (se_verify E)" and same: "se_secret E = Some (s # ss)"
  shows "as_user E (rq_headers c' ''authorization'') handler = handler (u_id user)"
proof -
  obtain k' w1 nid h where c: "createApiKey A (u_id user) name w0 = (Inr k', w1)" "prefix ''esk_'' (ck_key k')"
    "rd w1 = (rd w0)\<lparr>strs := (strs (rd w0))(lookup_key (ad_sha256 A (ck_key k')) \<mapsto> show_json (lookup_entry (u_id user) nid))\<rparr>"
    "users w1 = users w0"
    by (rule auth_platform.create_key_run [OF A]) blast
  with created have k: "k' = k" "w1 = w" by simp_all
  have "strs (rd w) (lookup_key (ad_sha256 A (ck_key k))) = Some (show_json (lookup_entry (u_id user) nid))"
    using c(3) by (simp add: k)
  then obtain w2 where v: "validateApiKey A (ck_key k) w =
      (Inr \<lparr>ki_sub = u_id user, ki_email = u_email user, ki_role = u_role user, ki_keyId = Some (JStr nid)\<rparr>, w2)"
    using auth_platform.validate_ok [OF A _ c(2) [unfolded k]] user c(4) k by metis
  have "ck_key k \<noteq> []" using c(2) k by auto
  then have path: "api_key_path cfg (auth_fetch A) J R S P (ck_key k) (w, c) = (Inr Next, (w', c'))"
    using key by (rule_tac auth_use_cases [OF run m]) (auto simp: truthy_iff neq_Nil_conv)
  obtain payload w3 where f: "auth_fetch A (validate_url cfg) (show_json (JObj [(''key'', JStr (ck_key k))])) w = (Inr (True, Some payload), w3)"
    and tok: "\<exists>token w1 w2. rq_headers c' ''authorization'' = Some (bearer token) \<and> internal_jwt J (s # ss) payload w1 = (Inr token, w2)"
    using secret by (rule_tac api_key_path_run [OF path]) auto
  have "jget ''key'' (JObj [(''key'', JStr (ck_key k))]) = Some (JStr (ck_key k))" by simp
  then have "payload = identity_json \<lparr>ki_sub = u_id user, ki_email = u_email user, ki_role = u_role user, ki_keyId = Some (JStr nid)\<rparr>"
    using f v unfolding auth_fetch_def json_parse_show by (simp add: validateApiKey_route_def key_field_def)
  then have "jget ''sub'' payload = Some (JStr (u_id user))"
    by (simp add: identity_json_def)
  moreover obtain token w4 w5 where "rq_headers c' ''authorization'' = Some (bearer token)"
    and t: "internal_jwt J (s # ss) payload w4 = (Inr token, w5)"
    using tok by blast
  moreover have "as_user E (Some (bearer token)) handler = handler (js_text_of (jget ''sub'' payload))"
    by (rule internal_token_accepted [OF t J same]) simp
  ultimately show ?thesis by (simp add: js_text_of_def)
qed

text \<open>Tokens without a signature, in base64, to run the gateway.\<close>

lemma b64_char_no_blank: "n < 64 \<Longrightarrow> b64_char n \<noteq> CHR '' ''"
  using b64_val_char [of n] by (auto simp: b64_val_def byte_def)

lemma b64_encode_no_blank: "CHR '' '' \<notin> set (b64_encode s)"
  by (induction s rule: b64_encode.induct) (auto simp: b64_char_no_blank [OF b64_digits(1), symmetric]
    b64_char_no_blank [OF b64_digits(2), symmetric] b64_char_no_blank [OF b64_digits(3), symmetric]
    b64_char_no_blank [OF b64_digits(4), symmetric] b64_char_no_blank [OF b64_digits(5), symmetric]
    b64_char_no_blank [OF b64_digits(6), symmetric])

definition plain_jwt :: "'a world_scheme jwt" where
  "plain_jwt = \<lparr>jwt_sign = (\<lambda>p s e. return (b64_encode (show_json p))),
     jwt_verify = (\<lambda>t s. case json_parse (b64_decode t) of None \<Rightarrow> throw (JsError ''jwt malformed'') | Some p \<Rightarrow> return p)\<rparr>"

definition plain_env :: storage_env where
  "plain_env = \<lparr>se_verify = (\<lambda>t s. json_parse (b64_decode t)), se_secret = Some ''s3cret''\<rparr>"

lemma plain_jwt_ok: "jwt_ok plain_jwt (se_verify plain_env)"
  by (auto simp: jwt_ok_def plain_jwt_def plain_env_def b64_encode_no_blank)


text \<open>The world of the accounts without a listing of the keyspace, so that it can be run.\<close>

definition run_deps :: "'a auth_world_scheme auth_deps" where
  "run_deps =
     \<lparr>ad_users = table_repo aw_users aw_put_users u_id (\<lambda>w x. x\<lparr>u_id := aw_fresh w\<rparr>),
      ad_keys = table_repo aw_keys aw_put_keys k_id (\<lambda>w x. x\<lparr>k_id := aw_fresh w, k_createdAt := w_now w\<rparr>),
      ad_redis = world_redis, ad_sys = world_sys, ad_sign = (\<lambda>p. return (show_json p)),
      ad_hash = (\<lambda>pw n. return (world_hash pw)), ad_compare = (\<lambda>pw h. return (h = world_hash pw)),
      ad_sha256 = (\<lambda>s. s), ad_config = Map.empty\<rparr>"

lemma run_deps_eq: "run_deps = world_deps\<lparr>ad_redis := world_redis\<rparr>"
  by (simp add: run_deps_def world_deps_def)

lemma other_redis:
  assumes "auth_platform A rd wr users put_users keys put_keys clk gen new_id verify" and "redis_server R rd wr"
  shows "auth_platform (A\<lparr>ad_redis := R\<rparr>) rd wr users put_users keys put_keys clk gen new_id verify"
  using assms by (simp add: auth_platform_def)

interpretation runs: auth_platform run_deps w_db put_db aw_users aw_put_users aw_keys aw_put_keys w_now next_uuid
  aw_fresh "\<lambda>pw h. h = world_hash pw"
  unfolding run_deps_eq by (rule other_redis [OF accounts.auth_platform_axioms mem.redis_server_axioms])

definition alice_key_request :: "created_key \<Rightarrow> http" where
  "alice_key_request k = \<lparr>rq_method = ''GET'', rq_headers = [''x-api-key'' \<mapsto> ck_key k, ''authorization'' \<mapsto> ''Bearer other''],
     rq_user = None, rs_headers = []\<rparr>"

lemma alice_key_run:
  "case createApiKey run_deps ''u1'' ''ci'' (accounts_at [alice] 5) of
     (Inr k, w) \<Rightarrow> fst (auth_use world_cfg (auth_fetch run_deps) plain_jwt world_redis world_sys world_prom (w, alice_key_request k)) = Inr Next
   | (Inl e, w) \<Rightarrow> False"
  by code_simp

theorem created_key_acts_for_owner_witness:
  "\<exists>k w w' c'. createApiKey run_deps ''u1'' ''ci'' (accounts_at [alice] 5) = (Inr k, w) \<and>
     auth_use world_cfg (auth_fetch run_deps) plain_jwt world_redis world_sys world_prom (w, alice_key_request k) = (Inr Next, (w', c')) \<and>
     as_user plain_env (rq_headers c' ''authorization'') (\<lambda>sub w. (Inr sub, w)) = (\<lambda>w :: world. (Inr ''u1'', w))"
proof -
  have id: "u_id alice = ''u1''" by (simp add: alice_def)
  obtain k w w' c' where c: "createApiKey run_deps (u_id alice) ''ci'' (accounts_at [alice] 5) = (Inr k, w)"
    and run: "auth_use world_cfg (auth_fetch run_deps) plain_jwt world_redis world_sys world_prom (w, alice_key_request k) = (Inr Next, (w', c'))"
    using alice_key_run unfolding id by (auto split: prod.splits sum.splits) (metis prod.collapse)
  have user: "alice \<in> set (aw_users (accounts_at [alice] 5))" "u_isActive alice" "distinct (map u_id (aw_users (accounts_at [alice] 5)))"
    by (simp_all add: accounts_at_def alice_def new_user_def)
  have "rq_method (alice_key_request k) \<noteq> ''OPTIONS''" "rq_headers (alice_key_request k) ''x-api-key'' = Some (ck_key k)"
    "world_cfg ''JWT_SECRET'' = Some ''s3cret''" "se_secret plain_env = Some ''s3cret''"
    by (simp_all add: alice_key_request_def world_cfg_def plain_env_def)
  note created_key_acts_for_owner [OF runs.auth_platform_axioms user c run this(1-3) plain_jwt_ok this(4)]
  then show ?thesis using c run unfolding id by blast
qed

section \<open>From the session of the dashboard to the rotation of refresh tokens\<close>

lemma refresh_refused:
  assumes "br_fetch B (refresh_request B rt) w = (Inr refused, w')" and "\<not> fe_ok refused"
  shows "refresh_retry B method path headers body rt w = (Inr None, w')"
  using assms by (simp add: refresh_retry_def try_catch_def await_def)

lemma refresh_granted:
  assumes ok: "browser_ok B st loc" and f: "br_fetch B (refresh_request B rt) w = (Inr granted, w')"
    and g: "fe_ok granted" "fe_json granted = Some j" "j \<noteq> JNull" and user: "au_user (st w') = Some user"
  obtains w2 where "br_dispatch B (SetCredentials user (jget ''accessToken'' j) (jget ''refreshToken'' j)) w' = (Inr (), w2)"
    and "st w2 = authReducer (SetCredentials user (jget ''accessToken'' j) (jget ''refreshToken'' j)) (st w')"
    and "\<And>retried w3. send B method path (with_token (jget ''accessToken'' j) headers) body w2 = (Inr retried, w3) \<Longrightarrow>
      refresh_retry B method path headers body rt w = (Inr (if fe_ok retried then Some retried else None), w3)"
proof -
  obtain w2 where w2: "br_dispatch B (SetCredentials user (jget ''accessToken'' j) (jget ''refreshToken'' j)) w' = (Inr (), w2)"
    "st w2 = authReducer (SetCredentials user (jget ''accessToken'' j) (jget ''refreshToken'' j)) (st w')"
    by (rule browser_dispatch [OF ok])
  have "refresh_retry B method path headers body rt w = (Inr (if fe_ok retried then Some retried else None), w3)"
    if "send B method path (with_token (jget ''accessToken'' j) headers) body w2 = (Inr retried, w3)" for retried w3
    using f g user w2 that browser_state [OF ok, of w']
    by (simp add: refresh_retry_def try_catch_def await_Inr read_json_def read_of_def Let_def)
  with w2 show thesis by (rule that) blast
qed

lemma session_renewed:
  assumes A: "auth_platform A rd wr users put_users keys put_keys clk gen new_id verify"
    and B: "browser_ok B st loc" and frame: "\<And>a u. rd (snd (br_dispatch B a u)) = rd u"
    and session: "refresh_parts rt = [uid, dev, n]" "dev \<noteq> []"
    and user: "user \<in> set (users w1)" "u_id user = uid" "u_isActive user" "distinct (map u_id (users w1))"
    and answer: "br_fetch B (refresh_request B (JStr rt)) w1 = http_answer 200 pair_json (refresh_route A \<lparr>rt_refreshToken = rt\<rparr> ua) w1"
    and apart: "st (snd (refresh_route A \<lparr>rt_refreshToken = rt\<rparr> ua w1)) = st w1"
    and stored: "strs (rd w1) (refresh_key uid dev) = Some rt" and usr: "au_user (st w1) = Some usr"
  obtains p w2 w3 where "refresh_route A \<lparr>rt_refreshToken = rt\<rparr> ua w1 = (Inr p, w2)"
    and "st w3 = authReducer (SetCredentials usr (Some (JStr (accessToken p))) (Some (JStr (refreshToken p)))) (st w1)"
    and "strs (rd w3) (refresh_key uid dev) = Some (refreshToken p)"
    and "\<And>retried w4. send B method path (with_token (Some (JStr (accessToken p))) headers) body w3 = (Inr retried, w4) \<Longrightarrow>
       refresh_retry B method path headers body (JStr rt) w1 = (Inr (if fe_ok retried then Some retried else None), w4)"
proof -
  obtain p w2 nonce where p: "refreshTokens A rt (case ua of None \<Rightarrow> [] | Some s \<Rightarrow> s) w1 = (Inr p, w2)"
    "rd w2 = open_session uid dev (clk w1) (refreshToken p) (drop_token uid dev (rd w1))"
    by (rule rotation_run [OF A session stored user])
  have st2: "st w2 = st w1" using apart p(1) by (simp add: refresh_route_def)
  have pair: "jget ''accessToken'' (pair_json p) = Some (JStr (accessToken p))" "jget ''refreshToken'' (pair_json p) = Some (JStr (refreshToken p))"
    by (simp_all add: pair_json_def)
  have f: "br_fetch B (refresh_request B (JStr rt)) w1 = (Inr \<lparr>fe_status = 200, fe_json = Some (pair_json p)\<rparr>, w2)"
    using p(1) by (simp add: answer http_answer_def refresh_route_def)
  have u2: "au_user (st w2) = Some usr" using usr st2 by simp
  obtain w3 where w3: "br_dispatch B (SetCredentials usr (Some (JStr (accessToken p))) (Some (JStr (refreshToken p)))) w2 = (Inr (), w3)"
    "st w3 = authReducer (SetCredentials usr (Some (JStr (accessToken p))) (Some (JStr (refreshToken p)))) (st w2)"
    and retry: "\<And>retried w4. send B method path (with_token (Some (JStr (accessToken p))) headers) body w3 = (Inr retried, w4) \<Longrightarrow>
       refresh_retry B method path headers body (JStr rt) w1 = (Inr (if fe_ok retried then Some retried else None), w4)"
    by (rule refresh_granted [OF B f _ _ _ u2, where j = "pair_json p" and path = path and headers = headers and body = body,
        unfolded pair, of "method"]) (simp_all add: fe_ok_def pair_json_def)
  have "rd w3 = rd w2" using frame [of _ w2] w3(1) by (metis snd_conv)
  then have "strs (rd w3) (refresh_key uid dev) = Some (refreshToken p)" by (simp add: p(2) open_session_token)
  with p(1) w3(2) retry st2 show thesis by (intro that [of p w2 w3]) (simp_all add: refresh_route_def)
qed

lemma session_refused:
  assumes A: "auth_platform A rd wr users put_users keys put_keys clk gen new_id verify"
    and parts: "refresh_parts rt = [uid, dev, n]" and no: "strs (rd w1) (refresh_key uid dev) \<noteq> Some rt"
    and answer: "br_fetch B (refresh_request B (JStr rt)) w1 = http_answer 200 pair_json (refresh_route A \<lparr>rt_refreshToken = rt\<rparr> ua) w1"
  shows "refresh_retry B method path headers body (JStr rt) w1 = (Inr None, w1)"
proof -
  from refused_token [OF A parts no, of "case ua of None \<Rightarrow> [] | Some s \<Rightarrow> s"]
  have "br_fetch B (refresh_request B (JStr rt)) w1 =
      (Inr \<lparr>fe_status = 401, fe_json = Some (error_body (Http 401 ''Invalid or expired refresh token''))\<rparr>, w1)"
    by (simp add: answer http_answer_def refresh_route_def error_status_def)
  then show ?thesis by (rule refresh_refused) (simp add: fe_ok_def)
qed

text \<open>
  C5. What the dashboard and the auth service promise each other, where a refresh gets from one to the other (the gateway
  does not let it pass: \<open>Gateway_Pipeline\<close>). An expired session is renewed as long as the browser has the token that the auth
  service has for the device. The request that met the 401 then goes out again with the tokens of a new pair, its
  caller gets that answer, and browser and service agree on the new token, so that the session can be
  renewed again. A token that another request of the same browser has already had rotated is
  refused: the request is \<open>Unauthorized\<close> and the session is thrown away, also when the other
  request has just put a new one into the store.
\<close>

theorem expired_session:
  assumes A: "auth_platform A rd wr users put_users keys put_keys clk gen new_id verify"
    and B: "browser_ok B st loc" and frame: "\<And>a u. rd (snd (br_dispatch B a u)) = rd u"
    and first: "send B method path (headers_of (au_accessToken (st w)) body) body w = (Inr res, w1)" "fe_status res = 401"
    and session: "au_refreshToken (st w) = Some (JStr rt)" "refresh_parts rt = [uid, dev, n]" "dev \<noteq> []"
    and user: "user \<in> set (users w1)" "u_id user = uid" "u_isActive user" "distinct (map u_id (users w1))"
    and answer: "br_fetch B (refresh_request B (JStr rt)) w1 = http_answer 200 pair_json (refresh_route A \<lparr>rt_refreshToken = rt\<rparr> ua) w1"
    and apart: "st (snd (refresh_route A \<lparr>rt_refreshToken = rt\<rparr> ua w1)) = st w1"
  shows "(strs (rd w1) (refresh_key uid dev) = Some rt \<and> au_user (st w1) \<noteq> None \<longrightarrow>
      (\<exists>p w2 w3. refresh_route A \<lparr>rt_refreshToken = rt\<rparr> ua w1 = (Inr p, w2) \<and>
         au_accessToken (st w3) = Some (JStr (accessToken p)) \<and> au_refreshToken (st w3) = Some (JStr (refreshToken p)) \<and>
         au_isAuthenticated (st w3) \<and> strs (rd w3) (refresh_key uid dev) = Some (refreshToken p) \<and>
         (\<forall>retried w4. send B method path (with_token (Some (JStr (accessToken p))) (headers_of (au_accessToken (st w)) body)) body w3
             = (Inr retried, w4) \<and> fe_ok retried \<longrightarrow> request B method path body w = result_of retried w4))) \<and>
    (strs (rd w1) (refresh_key uid dev) \<noteq> Some rt \<longrightarrow>
      (\<exists>w4. request B method path body w = (Inl unauthorized, w4) \<and> st w4 = initialState \<and> loc w4 = ''/login''))"
proof (intro conjI impI; (elim conjE)?)
  have "rt \<noteq> []" using session(2) by (auto simp: refresh_parts_def b64_decode_def map_filter_simps)
  then have rest: "request B method path body w =
      await (refresh_retry B method path (headers_of (au_accessToken (st w)) body) body (JStr rt)) (ending B) w1"
    unfolding request_401 [OF B first] using session(1) by (simp add: try_refresh_def)
  {
    assume stored: "strs (rd w1) (refresh_key uid dev) = Some rt" and "au_user (st w1) \<noteq> None"
    then obtain usr where usr: "au_user (st w1) = Some usr" by blast
    obtain p w2 w3 where p: "refresh_route A \<lparr>rt_refreshToken = rt\<rparr> ua w1 = (Inr p, w2)"
      "st w3 = authReducer (SetCredentials usr (Some (JStr (accessToken p))) (Some (JStr (refreshToken p)))) (st w1)"
      "strs (rd w3) (refresh_key uid dev) = Some (refreshToken p)"
      and retry: "\<And>retried w4. send B method path (with_token (Some (JStr (accessToken p))) (headers_of (au_accessToken (st w)) body)) body w3
           = (Inr retried, w4) \<Longrightarrow>
         refresh_retry B method path (headers_of (au_accessToken (st w)) body) body (JStr rt) w1 =
           (Inr (if fe_ok retried then Some retried else None), w4)"
      by (rule session_renewed [OF A B frame session(2,3) user answer apart stored usr]) blast
    then show "\<exists>p w2 w3. refresh_route A \<lparr>rt_refreshToken = rt\<rparr> ua w1 = (Inr p, w2) \<and>
         au_accessToken (st w3) = Some (JStr (accessToken p)) \<and> au_refreshToken (st w3) = Some (JStr (refreshToken p)) \<and>
         au_isAuthenticated (st w3) \<and> strs (rd w3) (refresh_key uid dev) = Some (refreshToken p) \<and>
         (\<forall>retried w4. send B method path (with_token (Some (JStr (accessToken p))) (headers_of (au_accessToken (st w)) body)) body w3
             = (Inr retried, w4) \<and> fe_ok retried \<longrightarrow> request B method path body w = result_of retried w4)"
      by (intro exI [of _ p] exI [of _ w2] exI [of _ w3]) (auto simp: rest await_Inr)
  next
    assume no: "strs (rd w1) (refresh_key uid dev) \<noteq> Some rt"
    obtain w4 where "ending B None w1 = (Inl unauthorized, w4)" "st w4 = initialState" "loc w4 = ''/login''"
      by (rule ending_None [OF B])
    then show "\<exists>w4. request B method path body w = (Inl unauthorized, w4) \<and> st w4 = initialState \<and> loc w4 = ''/login''"
      using session_refused [OF A session(2) no answer] by (simp add: rest await_Inr)
  }
qed

text \<open>
  A tab whose session is Alice's, before a service that answers 401 to the access token \<open>old\<close>; and the same
  tab after another request had its refresh token rotated.
\<close>

record tab_world = auth_world +
  tb_session :: auth_state
  tb_location :: string

definition tab_browser :: "tab_world browser" where
  "tab_browser =
     \<lparr>br_window = True, br_apiUrl = None, br_state = (\<lambda>w. (Inr (tb_session w), w)),
      br_dispatch = (\<lambda>a w. (Inr (), w\<lparr>tb_session := authReducer a (tb_session w)\<rparr>)),
      br_fetch = (\<lambda>q. if fq_url q = ''http://localhost:8080/v1/auth/refresh''
         then http_answer 200 pair_json (refresh_route run_deps \<lparr>rt_refreshToken = alice_token\<rparr> None)
         else return \<lparr>fe_status = (if map_of (fq_headers q) ''Authorization'' = Some ''Bearer old'' then 401 else 200),
                      fe_json = Some (JStr (fq_url q))\<rparr>),
      br_redirect = (\<lambda>u w. (Inr (), w\<lparr>tb_location := u\<rparr>))\<rparr>"

definition tab_at :: "rdb \<Rightarrow> tab_world" where
  "tab_at d =
     \<lparr>w_db = d, w_now = 5, w_uuid = 0, w_counts = [], w_topics = [], aw_users = [alice], aw_keys = [],
      tb_session = \<lparr>au_user = Some (None, None), au_accessToken = Some (JStr ''old''), au_refreshToken = Some (JStr alice_token),
        au_isAuthenticated = True\<rparr>, tb_location = ''/dashboard''\<rparr>"

lemma tab_browser_ok: "browser_ok tab_browser tb_session tb_location"
  by (simp add: browser_ok_def tab_browser_def)

lemma tab_apart:
  "tb_session (snd (refresh_route run_deps \<lparr>rt_refreshToken = alice_token\<rparr> None (tab_at (open_session ''u1'' ''dev'' 4 alice_token empty_db)))) =
    tb_session (tab_at (open_session ''u1'' ''dev'' 4 alice_token empty_db))"
  "tb_session (snd (refresh_route run_deps \<lparr>rt_refreshToken = alice_token\<rparr> None (tab_at (open_session ''u1'' ''dev'' 4 ''rotated'' empty_db)))) =
    tb_session (tab_at (open_session ''u1'' ''dev'' 4 ''rotated'' empty_db))"
  by code_simp+

lemma tab_renews:
  "case refresh_route run_deps \<lparr>rt_refreshToken = alice_token\<rparr> None (tab_at (open_session ''u1'' ''dev'' 4 alice_token empty_db)) of
     (Inr p, w) \<Rightarrow> accessToken p \<noteq> ''old'' | (Inl e, w) \<Rightarrow> False"
  by code_simp

lemma tab_rotated: "alice_token \<noteq> ''rotated''"
  by code_simp

theorem expired_session_witness:
  "(\<exists>w4. request tab_browser ''GET'' ''/v1/files'' (Json None) (tab_at (open_session ''u1'' ''dev'' 4 alice_token empty_db)) =
      (Inr (Some (JStr ''http://localhost:8080/v1/files'')), w4)) \<and>
   (\<exists>w4. request tab_browser ''GET'' ''/v1/files'' (Json None) (tab_at (open_session ''u1'' ''dev'' 4 ''rotated'' empty_db)) =
      (Inl unauthorized, w4) \<and> tb_session w4 = initialState)"
proof -
  have at: "tb_session (tab_at d) = \<lparr>au_user = Some (None, None), au_accessToken = Some (JStr ''old''),
       au_refreshToken = Some (JStr alice_token), au_isAuthenticated = True\<rparr>" "w_db (tab_at d) = d" for d
    by (simp_all add: tab_at_def)
  have send: "send tab_browser ''GET'' ''/v1/files'' (headers_of (Some (JStr ''old'')) (Json None)) (Json None) w =
      (Inr \<lparr>fe_status = 401, fe_json = Some (JStr ''http://localhost:8080/v1/files'')\<rparr>, w)" for w
    by (simp add: send_def tab_browser_def api_url_def or_str_def headers_of_def bearer_of_def js_text_of_def)
  have frame: "w_db (snd (br_dispatch tab_browser a u)) = w_db u" for a u by (simp add: tab_browser_def)
  have answer: "br_fetch tab_browser (refresh_request tab_browser (JStr alice_token)) w =
      http_answer 200 pair_json (refresh_route run_deps \<lparr>rt_refreshToken = alice_token\<rparr> None) w" for w
    by (simp add: refresh_request_def tab_browser_def api_url_def or_str_def)
  have user: "alice \<in> set (aw_users (tab_at d))" "u_id alice = ''u1''" "u_isActive alice" "distinct (map u_id (aw_users (tab_at d)))" for d
    by (simp_all add: tab_at_def alice_def new_user_def)
  have token: "au_refreshToken (tb_session (tab_at d)) = Some (JStr alice_token)" "dev \<noteq> [] \<Longrightarrow> dev \<noteq> []" for d and dev :: string
    by (simp_all add: at)
  have first: "send tab_browser ''GET'' ''/v1/files'' (headers_of (au_accessToken (tb_session (tab_at d))) (Json None)) (Json None) (tab_at d) =
      (Inr \<lparr>fe_status = 401, fe_json = Some (JStr ''http://localhost:8080/v1/files'')\<rparr>, tab_at d)" for d
    by (simp add: at send)
  note run = expired_session [OF runs.auth_platform_axioms tab_browser_ok frame first _ token(1) alice_token_parts _ user answer]
  let ?url = "JStr ''http://localhost:8080/v1/files''"
  have again: "send tab_browser ''GET'' ''/v1/files'' (with_token (Some (JStr t)) (headers_of (Some (JStr ''old'')) (Json None))) (Json None) w =
      (Inr \<lparr>fe_status = 200, fe_json = Some ?url\<rparr>, w)" if "t \<noteq> ''old''" for t w
    using that by (simp add: send_def tab_browser_def api_url_def or_str_def headers_of_def with_token_def bearer_of_def js_text_of_def)
  have answered: "fe_ok \<lparr>fe_status = 200, fe_json = Some j\<rparr>" "result_of \<lparr>fe_status = 200, fe_json = Some j\<rparr> w = (Inr (Some j), w)"
    for j and w :: tab_world by (simp_all add: fe_ok_def result_of_def read_json_def)
  from run [OF _ _ tab_apart(1)] obtain p w2 w3 where
    "refresh_route run_deps \<lparr>rt_refreshToken = alice_token\<rparr> None (tab_at (open_session ''u1'' ''dev'' 4 alice_token empty_db)) = (Inr p, w2)"
    "\<forall>retried w4. send tab_browser ''GET'' ''/v1/files'' (with_token (Some (JStr (accessToken p))) (headers_of (Some (JStr ''old'')) (Json None)))
       (Json None) w3 = (Inr retried, w4) \<and> fe_ok retried \<longrightarrow>
       request tab_browser ''GET'' ''/v1/files'' (Json None) (tab_at (open_session ''u1'' ''dev'' 4 alice_token empty_db)) = result_of retried w4"
    by (auto simp: open_session_token at)
  with again [of "accessToken p" w3] tab_renews answered
  have "request tab_browser ''GET'' ''/v1/files'' (Json None) (tab_at (open_session ''u1'' ''dev'' 4 alice_token empty_db)) =
      (Inr (Some ?url), w3)" by simp
  moreover from run [OF _ _ tab_apart(2)] have "\<exists>w4. request tab_browser ''GET'' ''/v1/files'' (Json None)
      (tab_at (open_session ''u1'' ''dev'' 4 ''rotated'' empty_db)) = (Inl unauthorized, w4) \<and> tb_session w4 = initialState"
    using tab_rotated by (auto simp: open_session_token at)
  ultimately show ?thesis by blast
qed

end
