(* ===== verification/Wire_Formats.thy ===== *)
theory Wire_Formats
  imports Gateway_Events Gateway_Resilience Cdn_Service Cache_Invalidation Storage_Multipart Platform_Sessions Dashboard_Pages
begin

text \<open>
  The interfaces that \<open>packages/shared\<close>, the websocket gateway and the dashboard declare for what
  goes over the wire, and what the services send. A declared type is data, checked against a JSON
  value: TypeScript checks it where the value is built, and nothing checks it where the text is
  parsed. \<open>violations\<close> are the fields that are missing or of another type.
\<close>

section \<open>Declared types\<close>

datatype ts_type =
    Str_t | Num_t | Bool_t | Unknown_t
  | Enum_t "string list"
  | Array_t ts_type
  | Record_t ts_type
  | Object_t "(string \<times> bool \<times> ts_type) list"

type_synonym interface = "(string \<times> bool \<times> ts_type) list"

text \<open>A field that is required, and one that may be absent.\<close>

definition req :: "string \<Rightarrow> ts_type \<Rightarrow> string \<times> bool \<times> ts_type" where
  "req f t = (f, False, t)"

definition opt :: "string \<Rightarrow> ts_type \<Rightarrow> string \<times> bool \<times> ts_type" where
  "opt f t = (f, True, t)"

fun has_type :: "ts_type \<Rightarrow> json \<Rightarrow> bool" where
  "has_type Str_t j = (case j of JStr s \<Rightarrow> True | _ \<Rightarrow> False)"
| "has_type Num_t j = (case j of JNum n \<Rightarrow> True | _ \<Rightarrow> False)"
| "has_type Bool_t j = (case j of JBool b \<Rightarrow> True | _ \<Rightarrow> False)"
| "has_type Unknown_t j = True"
| "has_type (Enum_t names) j = (case j of JStr s \<Rightarrow> s \<in> set names | _ \<Rightarrow> False)"
| "has_type (Array_t t) j = (case j of JArr js \<Rightarrow> list_all (has_type t) js | _ \<Rightarrow> False)"
| "has_type (Record_t t) j = (case j of JObj kvs \<Rightarrow> list_all (\<lambda>(k, v). has_type t v) kvs | _ \<Rightarrow> False)"
| "has_type (Object_t fs) j = list_all (\<lambda>(f, optional, t). case jget f j of None \<Rightarrow> optional | Some v \<Rightarrow> has_type t v) fs"

definition violations :: "interface \<Rightarrow> json \<Rightarrow> string list" where
  "violations I j = map fst (filter (\<lambda>(f, optional, t). \<not> (case jget f j of None \<Rightarrow> optional | Some v \<Rightarrow> has_type t v)) I)"

lemma violations_Nil [simp]: "violations [] j = []"
  by (simp add: violations_def)

lemma violations_req [simp]:
  "violations (req f t # I) j = (case jget f j of None \<Rightarrow> [f] | Some v \<Rightarrow> if has_type t v then [] else [f]) @ violations I j"
  by (simp add: violations_def req_def split: option.split)

lemma violations_opt [simp]:
  "violations (opt f t # I) j = (case jget f j of None \<Rightarrow> [] | Some v \<Rightarrow> if has_type t v then [] else [f]) @ violations I j"
  by (simp add: violations_def opt_def split: option.split)

lemma has_type_interface: "has_type (Object_t I) j \<longleftrightarrow> violations I j = []"
  by (auto simp: violations_def list_all_iff filter_empty_conv)

text \<open>A field of a value of the declared type can be read, and has the type declared for it.\<close>

lemma typed_field:
  assumes "violations I j = []" and "req f t \<in> set I"
  obtains v where "jget f j = Some v" and "has_type t v"
  using assms by (auto simp: violations_def req_def filter_empty_conv split: option.splits)

section \<open>The interfaces\<close>

subsection \<open>\<open>packages/shared\<close>\<close>

definition UserRole :: "string list" where
  "UserRole = [''admin'', ''user'', ''viewer'']"

definition JwtPayload :: interface where
  "JwtPayload = [req ''sub'' Str_t, req ''email'' Str_t, req ''role'' (Enum_t UserRole), opt ''iat'' Num_t, opt ''exp'' Num_t]"

definition TokenPair :: interface where
  "TokenPair = [req ''accessToken'' Str_t, req ''refreshToken'' Str_t, req ''expiresIn'' Num_t]"

definition RequestEventDto :: interface where
  "RequestEventDto =
     [req ''time'' Str_t, req ''service'' Str_t, req ''method'' Str_t, req ''path'' Str_t, req ''status'' Num_t,
      req ''latencyMs'' Num_t, opt ''userId'' Str_t, req ''ip'' Str_t, opt ''country'' Str_t, req ''cacheHit'' Bool_t,
      req ''bytes'' Num_t, opt ''edgeRegion'' Str_t, req ''requestId'' Str_t, opt ''userAgent'' Str_t, opt ''referer'' Str_t]"

definition StorageEventType :: "string list" where
  "StorageEventType = [''bucket.created'', ''bucket.deleted'', ''file.uploaded'', ''file.downloaded'', ''file.deleted'', ''presign.generated'']"

definition StorageEventDto :: interface where
  "StorageEventDto =
     [req ''time'' Str_t, req ''type'' (Enum_t StorageEventType), req ''userId'' Str_t, req ''bucket'' Str_t, opt ''key'' Str_t,
      opt ''sizeBytes'' Num_t, opt ''contentType'' Str_t, req ''requestId'' Str_t]"

definition DlqMessage :: interface where
  "DlqMessage =
     [req ''id'' Str_t, req ''originalTopic'' Str_t, req ''originalMessage'' Unknown_t, req ''error'' Str_t, req ''attempt'' Num_t,
      req ''maxAttempts'' Num_t, req ''timestamp'' Str_t, req ''retryAfter'' Str_t, opt ''permanent'' Bool_t]"

definition PurgeRecord :: interface where
  "PurgeRecord =
     [req ''purgeId'' Str_t, req ''type'' (Enum_t [''file'', ''bucket'', ''prefix'', ''all'']), req ''target'' Str_t, req ''keysDeleted'' Num_t,
      req ''regions'' (Array_t Str_t), req ''durationMs'' Num_t, req ''timestamp'' Str_t, opt ''requestedBy'' Str_t]"

definition CircuitState :: "string list" where
  "CircuitState = [''CLOSED'', ''OPEN'', ''HALF_OPEN'']"

definition ServiceHealthStatus :: "string list" where
  "ServiceHealthStatus = [''up'', ''down'', ''degraded'']"

definition ServiceHealthInfo :: interface where
  "ServiceHealthInfo =
     [req ''status'' (Enum_t ServiceHealthStatus), opt ''circuitState'' (Enum_t CircuitState), opt ''latencyMs'' Num_t,
      req ''lastChecked'' Str_t, opt ''error'' Str_t]"

definition GatewayHealthResponse :: interface where
  "GatewayHealthResponse =
     [req ''status'' (Enum_t [''healthy'', ''degraded'', ''unhealthy'']), req ''uptime'' Num_t,
      req ''services'' (Record_t (Object_t ServiceHealthInfo)),
      req ''kafka'' (Object_t [req ''status'' (Enum_t [''connected'', ''disconnected'']), req ''producerReady'' Bool_t]),
      req ''timestamp'' Str_t, req ''version'' Str_t]"

subsection \<open>The websocket gateway and the dashboard\<close>

text \<open>They declare types of their own under the same names.\<close>

definition ws_RequestEventDto :: interface where
  "ws_RequestEventDto = [req ''id'' Str_t, req ''url'' Str_t, req ''status'' Num_t, req ''durationMs'' Num_t, req ''timestamp'' Str_t]"

definition ws_StorageEventDto :: interface where
  "ws_StorageEventDto = [req ''fileId'' Str_t, req ''action'' Str_t, req ''timestamp'' Str_t]"

definition live_RequestEventDto :: interface where
  "live_RequestEventDto =
     [req ''time'' Str_t, req ''service'' Str_t, req ''method'' Str_t, req ''path'' Str_t, req ''status'' Num_t,
      req ''latencyMs'' Num_t, req ''ip'' Str_t, req ''cacheHit'' Bool_t, req ''bytes'' Num_t, opt ''edgeRegion'' Str_t]"

section \<open>Request events\<close>

text \<open>What the event of a finished request says of the cache and of the size of the response.\<close>

definition served_from_cache :: "finished \<Rightarrow> bool" where
  "served_from_cache r \<longleftrightarrow>
     (if truthy (getHeader ''X-Cache'' (fin_headers r)) then getHeader ''X-Cache'' (fin_headers r)
      else getHeader ''x-cache-hit'' (fin_headers r)) = Some ''HIT''"

definition content_bytes :: "finished \<Rightarrow> int" where
  "content_bytes r =
     (case getHeader ''content-length'' (fin_headers r) of
        None \<Rightarrow> 0
      | Some s \<Rightarrow> if s = [] then 0 else (case parse_int s of NaN \<Rightarrow> 0 | Num n \<Rightarrow> n))"

definition user_of :: "finished \<Rightarrow> json option" where
  "user_of r = or_json (if fin_user r = None then None else jget ''sub'' (the (fin_user r))) None"

definition bytes_value :: "finished \<Rightarrow> json" where
  "bytes_value r = json_of_num (if truthy (getHeader ''content-length'' (fin_headers r))
     then parse_int (the (getHeader ''content-length'' (fin_headers r))) else Num 0)"

lemma request_event_get:
  "jget f (request_event F r t l e) =
     (case map_of [(''time'', Some (JStr (iso_string F t))), (''service'', Some (JStr (service_of_path (fin_url r)))),
         (''method'', Some (JStr (fin_method r))), (''path'', Some (JStr (fin_url r))),
         (''status'', Some (JNum (int (fin_status r)))), (''latencyMs'', Some (JNum l)), (''userId'', user_of r),
         (''ip'', Some (JStr (or_str (fin_ip r) ''unknown''))), (''cacheHit'', Some (JBool (served_from_cache r))),
         (''bytes'', Some (bytes_value r)), (''edgeRegion'', Some (JStr (or_str e ''global'')))] f of
       None \<Rightarrow> None | Some v \<Rightarrow> v)"
  unfolding request_event_def Let_def user_of_def [symmetric] served_from_cache_def [symmetric] bytes_value_def [symmetric]
  by (rule jget_jobject) simp

lemma request_event_object: "request_event F r t l e \<noteq> JNull"
  by (simp add: request_event_def Let_def)

lemma bytes_value_plain:
  "(if jtruthy (Some (bytes_value r)) then bytes_value r else JNum 0) = JNum (content_bytes r)"
  by (auto simp: bytes_value_def content_bytes_def split: option.split js.split)

section \<open>The report of the gateway\<close>

text \<open>The report on the wire.\<close>

fun status_name :: "service_status \<Rightarrow> string" where
  "status_name Up = ''up''"
| "status_name Down = ''down''"
| "status_name Degraded_service = ''degraded''"

fun health_name :: "health \<Rightarrow> string" where
  "health_name Healthy = ''healthy''"
| "health_name Degraded = ''degraded''"
| "health_name Unhealthy = ''unhealthy''"

fun circuit_name :: "circuit \<Rightarrow> string" where
  "circuit_name CLOSED = ''CLOSED''"
| "circuit_name OPEN = ''OPEN''"
| "circuit_name HALF_OPEN = ''HALF_OPEN''"

definition info_json :: "service_info \<Rightarrow> json" where
  "info_json i = JObj [(''status'', JStr (status_name (si_status i))), (''circuitState'', JStr (circuit_name (si_circuit i))),
     (''latencyMs'', JNum (si_latency i))]"

definition report_json :: "numfmt \<Rightarrow> health_report \<Rightarrow> json" where
  "report_json F rep = JObj [(''status'', JStr (health_name (hr_status rep))), (''uptime'', JNum (hr_uptime rep)),
     (''services'', JObj (map (\<lambda>(name, i). (name, info_json i)) (hr_services rep))),
     (''kafka'', JObj [(''status'', JStr (if hr_kafka_connected rep then ''connected'' else ''disconnected'')),
        (''producerReady'', JBool (hr_kafka_connected rep))]),
     (''timestamp'', JStr (iso_string F (hr_timestamp rep)))]"

section \<open>What the services send, against what is declared\<close>

text \<open>The event of a finished request, with the fields that need not have their types: \<open>userId\<close> and \<open>bytes\<close>.\<close>

lemma bytes_value_cases: "bytes_value r = JNull \<or> (\<exists>n. bytes_value r = JNum n)"
  by (cases "if truthy (getHeader ''content-length'' (fin_headers r))
     then parse_int (the (getHeader ''content-length'' (fin_headers r))) else Num 0") (simp_all add: bytes_value_def)

lemma gateway_event_violations:
  "violations RequestEventDto (request_event F r t l e) =
     (case user_of r of None \<Rightarrow> [] | Some v \<Rightarrow> if has_type Str_t v then [] else [''userId'']) @
     (if has_type Num_t (bytes_value r) then [] else [''bytes'']) @ [''requestId'']"
  "violations live_RequestEventDto (request_event F r t l e) = (if has_type Num_t (bytes_value r) then [] else [''bytes''])"
  "violations ws_RequestEventDto (request_event F r t l e) = [''id'', ''url'', ''durationMs'', ''timestamp'']"
  by (simp_all add: RequestEventDto_def live_RequestEventDto_def ws_RequestEventDto_def request_event_get del: has_type.simps
      split: option.split)
    (simp_all split: option.split)

text \<open>What the edge adds to an event: nothing to that of a failed request, the region and the type to that of a served one.\<close>

definition edge_extras :: "(string \<times> json) list set" where
  "edge_extras = {[]} \<union> {[(''edgeRegion'', JStr g), (''contentType'', JStr ct)] | g ct. True}"

lemma cdn_event_violations:
  assumes "extra \<in> edge_extras"
  shows "violations RequestEventDto (cdn_event D q now ms st hit n extra) = [''requestId'']"
    and "violations live_RequestEventDto (cdn_event D q now ms st hit n extra) = []"
    and "violations ws_RequestEventDto (cdn_event D q now ms st hit n extra) = [''id'', ''url'', ''durationMs'', ''timestamp'']"
  using assms
  by (auto simp: edge_extras_def RequestEventDto_def live_RequestEventDto_def ws_RequestEventDto_def cdn_event_def)

text \<open>The summary of the live page over typed events.\<close>

lemma typed_latency:
  assumes "''latencyMs'' \<notin> set (violations live_RequestEventDto e)"
  obtains n where "latency_of e = Num n"
proof -
  have "''latencyMs'' \<in> set (violations live_RequestEventDto e)" if "\<And>n. jget ''latencyMs'' e \<noteq> Some (JNum n)"
    using that by (cases "jget ''latencyMs'' e") (auto simp: live_RequestEventDto_def split: json.split)
  then obtain n where "jget ''latencyMs'' e = Some (JNum n)" using assms by blast
  then show thesis by (intro that [of n]) (simp add: latency_of_def)
qed

lemma js_sum_Num: "js_sum (Num a) (map Num ns) = Num (a + sum_list ns)"
  by (induction ns arbitrary: a) (simp_all add: add.assoc)

lemma typed_summary:
  assumes "\<forall>e \<in> set es. set (violations live_RequestEventDto e) \<subseteq> {''bytes''}"
  obtains n where "ls_avgLat (computeSummary es) = Num n"
proof (cases "es = []")
  case True
  then show thesis by (intro that [of 0]) (simp_all add: computeSummary_def)
next
  case False
  have "\<exists>ns. map latency_of es = map Num ns"
    using assms
  proof (induction es)
    case (Cons e es)
    from Cons.prems have "''latencyMs'' \<notin> set (violations live_RequestEventDto e)" by auto
    then obtain n where "latency_of e = Num n" by (rule typed_latency)
    moreover obtain ns where "map latency_of es = map Num ns" using Cons by auto
    ultimately show ?case by (intro exI [of _ "n # ns"]) simp
  qed simp
  then obtain ns where "js_sum (Num 0) (map latency_of es) = Num (sum_list ns)" by (auto simp: js_sum_Num)
  then show thesis
    using False by (intro that [of "math_round (fdiv (of_int (sum_list ns)) (of_nat (length es)))"]) (simp_all add: computeSummary_def Let_def)
qed

text \<open>
  C33. The events of the gateway and all those of the edge, of served and of failed requests, have the type that the live page
  declares, but for the size of a response of the gateway whose \<open>content-length\<close> is no number; over such events the page never shows
  \<open>NaN\<close>: under every filter the average latency is a number and the share of the cache is one between 0 and 100.
  None of these events has the type that \<open>packages/shared\<close> declares for them: nobody sends a \<open>requestId\<close>, which is all that the edge's
  lack, and the gateway's may have a user or a size of another type. Nor have they the type that the websocket gateway
  declares, of which they lack all fields but one.
\<close>

theorem request_events_typed:
  shows "violations live_RequestEventDto (request_event F r t l region) = (if bytes_value r = JNull then [''bytes''] else []) \<and>
    violations RequestEventDto (request_event F r t l region) =
      (case user_of r of None \<Rightarrow> [] | Some v \<Rightarrow> if has_type Str_t v then [] else [''userId'']) @
      (if bytes_value r = JNull then [''bytes''] else []) @ [''requestId''] \<and>
    violations ws_RequestEventDto (request_event F r t l region) = [''id'', ''url'', ''durationMs'', ''timestamp''] \<and>
    (\<forall>extra \<in> edge_extras. violations live_RequestEventDto (cdn_event D q now ms st hit n extra) = [] \<and>
      violations RequestEventDto (cdn_event D q now ms st hit n extra) = [''requestId''] \<and>
      violations ws_RequestEventDto (cdn_event D q now ms st hit n extra) = [''id'', ''url'', ''durationMs'', ''timestamp'']) \<and>
    (\<forall>es service status. (\<forall>e \<in> set es. set (violations live_RequestEventDto e) \<subseteq> {''bytes''}) \<longrightarrow>
      (\<exists>avg. ls_avgLat (computeSummary (filteredEvents service status es)) = Num avg) \<and>
      (\<exists>share \<in> {0..100}. ls_cacheHit (computeSummary (filteredEvents service status es)) = Num share))"
proof (intro conjI allI impI)
  fix es service status
  assume "\<forall>e \<in> set es. set (violations live_RequestEventDto e) \<subseteq> {''bytes''}"
  then have "\<forall>e \<in> set (filteredEvents service status es). set (violations live_RequestEventDto e) \<subseteq> {''bytes''}"
    by (simp add: filteredEvents_def)
  then obtain avg where "ls_avgLat (computeSummary (filteredEvents service status es)) = Num avg" by (rule typed_summary)
  then show "\<exists>avg. ls_avgLat (computeSummary (filteredEvents service status es)) = Num avg" ..
  show "\<exists>share \<in> {0..100}. ls_cacheHit (computeSummary (filteredEvents service status es)) = Num share"
    by (rule computeSummary_percent)
qed (use bytes_value_cases [of r] in \<open>auto simp: gateway_event_violations cdn_event_violations\<close>)

theorem request_events_typed_witness:
  "\<exists>avg share. ls_avgLat (computeSummary (filteredEvents ''all'' ''all''
     [request_event world_numfmt \<lparr>fin_method = ''GET'', fin_url = ''/v1/files'', fin_ip = None, fin_user = None, fin_status = 200, fin_headers = []\<rparr>
        100 7 None])) = Num avg \<and> ls_cacheHit (computeSummary (filteredEvents ''all'' ''all''
     [request_event world_numfmt \<lparr>fin_method = ''GET'', fin_url = ''/v1/files'', fin_ip = None, fin_user = None, fin_status = 200, fin_headers = []\<rparr>
        100 7 None])) = Num share \<and> share \<in> {0..100}"
proof -
  let ?r = "\<lparr>fin_method = ''GET'', fin_url = ''/v1/files'', fin_ip = None, fin_user = None, fin_status = 200, fin_headers = []\<rparr>"
  let ?e = "request_event world_numfmt ?r 100 7 None"
  note T = request_events_typed [of world_numfmt ?r 100 7 None]
  have "violations live_RequestEventDto ?e = (if bytes_value ?r = JNull then [''bytes''] else [])"
    by (rule conjunct1 [OF T])
  then have typed: "\<forall>e \<in> set [?e]. set (violations live_RequestEventDto e) \<subseteq> {''bytes''}" by auto
  have all: "\<forall>es service status. (\<forall>e \<in> set es. set (violations live_RequestEventDto e) \<subseteq> {''bytes''}) \<longrightarrow>
      (\<exists>avg. ls_avgLat (computeSummary (filteredEvents service status es)) = Num avg) \<and>
      (\<exists>share \<in> {0..100}. ls_cacheHit (computeSummary (filteredEvents service status es)) = Num share)"
    by (rule conjunct2 [OF conjunct2 [OF conjunct2 [OF conjunct2 [OF T]]]])
  show ?thesis using all [THEN spec, of "[?e]", THEN spec, of "''all''", THEN spec, of "''all''", THEN mp, OF typed] by blast
qed

text \<open>The other messages, one by one.\<close>

lemma token_violations:
  "violations TokenPair (pair_json p) = []"
  "violations JwtPayload (jwt_payload user) = (if u_role user \<in> set UserRole then [] else [''role''])"
  by (simp_all add: TokenPair_def pair_json_def JwtPayload_def jwt_payload_def)

lemma dlq_violations:
  "violations DlqMessage (dlq_message topic j err attempt time) =
     [''id''] @ (if attempt = NaN then [''attempt''] else []) @ [''maxAttempts'', ''retryAfter'']"
  by (cases attempt) (simp_all add: DlqMessage_def dlq_message_def)

lemma storage_violations:
  "violations StorageEventDto (uploaded_event s) = [''time'', ''userId'', ''requestId'']"
  "violations ws_StorageEventDto (uploaded_event s) = [''fileId'', ''action'', ''timestamp'']"
  by (simp_all add: StorageEventDto_def StorageEventType_def ws_StorageEventDto_def uploaded_event_def)

lemma record_json_get:
  assumes "fst ` set (pc_details r) \<subseteq> K" and "f \<notin> K"
  shows "jget f (record_json r) =
    map_of [(''keysDeleted'', JNum (int (pc_keysDeleted r))), (''purgeId'', JStr (pc_purgeId r)), (''timestamp'', JStr (pc_timestamp r)),
       (''type'', JStr (pc_type r))] f"
proof -
  have "f \<notin> fst ` set (rev (pc_details r))" using assms by auto
  then have none: "map_of (rev (pc_details r)) f = None" by (simp only: map_of_eq_None_iff not_False_eq_True)
  show ?thesis by (simp add: record_json_def event_payload_def map_add_def none)
qed

lemma purge_violations:
  assumes "pc_type r \<in> {''file'', ''bucket'', ''prefix'', ''all''}" and "fst ` set (pc_details r) \<subseteq> {''bucket'', ''key'', ''prefix''}"
  shows "violations PurgeRecord (record_json r) = [''target'', ''regions'', ''durationMs'']"
proof -
  note get = record_json_get [OF assms(2)]
  show ?thesis using assms(1) by (auto simp: PurgeRecord_def get)
qed

lemma health_violations:
  assumes "hr_services rep \<noteq> []"
  shows "violations GatewayHealthResponse (report_json F rep) = [''services'', ''version'']"
proof -
  have "violations ServiceHealthInfo (info_json i) = [''lastChecked'']" for i
    by (cases "si_status i"; cases "si_circuit i")
       (simp_all add: ServiceHealthInfo_def info_json_def ServiceHealthStatus_def CircuitState_def)
  then have "\<not> has_type (Object_t ServiceHealthInfo) (info_json i)" for i
    unfolding has_type_interface by simp
  then have services: "\<not> has_type (Record_t (Object_t ServiceHealthInfo)) (JObj (map (\<lambda>(name, i). (name, info_json i)) (hr_services rep)))"
    using assms by (cases "hr_services rep") (auto simp del: has_type.simps(8))
  show ?thesis
    using services by (cases "hr_status rep") (simp_all add: GatewayHealthResponse_def report_json_def has_type_interface del: has_type.simps(7,8))
qed

text \<open>
  The other messages against the types that \<open>packages/shared\<close> declares for them. Token pairs have their
  type, and so have the claims of a token whose user has one of the three roles, which every new account has. Four
  kinds of message do not have theirs, whatever they carry: a dead letter (no id and no number of attempts
  allowed, and the time of its retry is a delay in milliseconds), the event of a finished upload (no time,
  user or request), the record of a purge (no target, regions or duration) and the report of the
  gateway (no version, and no service says when it was checked).
\<close>

theorem messages_typed:
  shows "violations TokenPair (pair_json p) = [] \<and>
    (violations JwtPayload (jwt_payload user) = [] \<longleftrightarrow> u_role user \<in> set UserRole) \<and> u_role new_user \<in> set UserRole \<and>
    violations DlqMessage (dlq_message topic j err (Num k) time) = [''id'', ''maxAttempts'', ''retryAfter''] \<and>
    violations StorageEventDto (uploaded_event s) = [''time'', ''userId'', ''requestId''] \<and>
    violations PurgeRecord (record_json \<lparr>pc_purgeId = pid, pc_type = ''file'', pc_details = [(''bucket'', JStr b), (''key'', JStr key)],
        pc_timestamp = time, pc_keysDeleted = n\<rparr>) = [''target'', ''regions'', ''durationMs''] \<and>
    violations GatewayHealthResponse (report_json F (rep\<lparr>hr_services := service # services\<rparr>)) = [''services'', ''version'']"
  by (intro conjI) (simp_all add: token_violations dlq_violations storage_violations purge_violations health_violations new_user_def UserRole_def)

end
