(* ===== verification/Dead_Letters.thy ===== *)
theory Dead_Letters
  imports Gateway_Events "HOL-Library.While_Combinator"
begin

text \<open>
  The consumer of the dead-letter topics as a loop (\<open>apps/gateway/src/events/dlq.service.ts\<close>): it handles the
  messages of every topic whose name ends in \<open>.dlq\<close> in the order in which the broker has them, and among them the
  letters it writes itself when a retry fails. The broker is a parameter; \<open>held\<close> is what it has in each topic.
\<close>

definition is_dlq :: "string \<Rightarrow> bool" where
  "is_dlq topic \<longleftrightarrow> suffix ''.dlq'' topic"

definition letters :: "(string \<times> string) list \<Rightarrow> string list" where
  "letters held = map snd (filter (\<lambda>(topic, m). is_dlq topic) held)"

text \<open>From offset \<open>i\<close> until there is no further message; \<open>None\<close> is a consumer that never gets there.\<close>

definition subscribeAndRetry ::
  "numfmt \<Rightarrow> 'w kafka \<Rightarrow> 'w sys \<Rightarrow> 'w prom \<Rightarrow> (rat \<Rightarrow> ('w, unit) io) \<Rightarrow> ('w \<Rightarrow> (string \<times> string) list) \<Rightarrow> nat \<times> 'w \<Rightarrow> (nat \<times> 'w) option" where
  "subscribeAndRetry F K S P sleep held =
     while_option (\<lambda>(i, w). i < length (letters (held w)))
       (\<lambda>(i, w). (Suc i, snd (eachMessage F K S P sleep (Some (letters (held w) ! i)) w)))"

text \<open>A broker keeps what it has; a send adds its message or fails without one.\<close>

definition broker_ok :: "'w kafka \<Rightarrow> ('w \<Rightarrow> (string \<times> string) list) \<Rightarrow> bool" where
  "broker_ok K held \<longleftrightarrow>
     (\<forall>t m w. case kafka_send K t m w of (Inr u, w') \<Rightarrow> held w' = held w @ [(t, m)] | (Inl e, w') \<Rightarrow> held w' = held w)"

lemma broker_send:
  assumes "broker_ok K held" and "kafka_send K t m w = (r, w')"
  shows "held w' = (case r of Inl e \<Rightarrow> held w | Inr u \<Rightarrow> held w @ [(t, m)])"
proof -
  have "case kafka_send K t m w of (Inr u, w') \<Rightarrow> held w' = held w @ [(t, m)] | (Inl e, w') \<Rightarrow> held w' = held w"
    by (rule assms(1) [unfolded broker_ok_def, THEN spec, THEN spec, THEN spec])
  then show ?thesis using assms(2) by (simp split: sum.splits)
qed

lemma letters_append [simp]: "letters (held @ [(t, m)]) = letters held @ (if is_dlq t then [m] else [])"
  by (simp add: letters_def)

lemma dlq_topic_is_dlq [simp]: "is_dlq (dlq_topic t)"
  by (simp add: is_dlq_def dlq_topic_def suffix_def)

text \<open>The letters of the service, and how often one can still be handled.\<close>

definition letter :: "string \<Rightarrow> bool" where
  "letter m \<longleftrightarrow> (\<exists>topic data err a ts. \<not> is_dlq topic \<and> 0 \<le> a \<and> m = show_json (dlq_message topic data err (Num a) ts))"

definition tries :: "string \<Rightarrow> nat" where
  "tries m = (case json_parse m of
      Some j \<Rightarrow> (case jget ''attempt'' j of Some (JNum a) \<Rightarrow> if a < 3 then nat (4 - a) else 1 | _ \<Rightarrow> 1)
    | None \<Rightarrow> 1)"

lemma tries_letter: "tries (show_json (dlq_message topic data err (Num a) ts)) = (if a < 3 then nat (4 - a) else 1)"
  unfolding tries_def json_parse_show by simp

lemma tries_bounds:
  assumes "letter m"
  shows "0 < tries m" and "tries m \<le> 4"
  using assms by (auto simp: letter_def tries_letter)

lemma handled_letter:
  assumes S: "sys_ok S clk gen held" and P: "prom_ok P held" and sleep: "\<And>t. quiet held (sleep t)" and B: "broker_ok K held"
    and m: "letter m"
  obtains new where "letters (held (snd (eachMessage F K S P sleep (Some m) w))) = letters (held w) @ new"
    and "\<forall>n \<in> set new. letter n" and "sum_list (map tries new) < tries m"
proof -
  obtain topic data err a ts where t: "\<not> is_dlq topic" "0 \<le> a" "m = show_json (dlq_message topic data err (Num a) ts)"
    using m by (auto simp: letter_def)
  obtain w' where run: "eachMessage F K S P sleep (Some m) w = (Inr (), w')"
    and done_with: "3 \<le> a \<longrightarrow> held w' = held w"
    and retried: "a < 3 \<longrightarrow> (\<exists>w1. held w1 = held w \<and>
        (case kafka_send K topic (original_value data) w1 of
           (Inr u, w2) \<Rightarrow> held w' = held w2
         | (Inl e, w2) \<Rightarrow> held w' = held (snd (kafka_send K (dlq_topic topic) (show_json
             (dlq_message topic data (error_text ''Retry failed'' e) (Num (a + 1)) (iso_string F (clk w2)))) w2))))"
    using dead_letter_run [OF S P _ t(2), where sleep = sleep and F = F and K = K and topic = topic and data = data and err = err and ts = ts and w = w, OF sleep]
    unfolding t(3) [symmetric] by (elim exE conjE) (rule that)
  have pos: "0 < tries m" by (rule tries_bounds [OF m])
  show thesis
  proof (cases "3 \<le> a")
    case True
    then show thesis using run done_with pos by (intro that [of "[]"]) simp_all
  next
    case False
    then obtain w1 where w1: "held w1 = held w"
      "case kafka_send K topic (original_value data) w1 of
           (Inr u, w2) \<Rightarrow> held w' = held w2
         | (Inl e, w2) \<Rightarrow> held w' = held (snd (kafka_send K (dlq_topic topic) (show_json
             (dlq_message topic data (error_text ''Retry failed'' e) (Num (a + 1)) (iso_string F (clk w2)))) w2))"
      using retried by auto
    obtain r w2 where r: "kafka_send K topic (original_value data) w1 = (r, w2)" by fastforce
    note sent = broker_send [OF B r]
    show thesis
    proof (cases r)
      case (Inr u)
      then show thesis using run w1 r sent pos t(1) by (intro that [of "[]"]) simp_all
    next
      case (Inl e)
      define n where "n = show_json (dlq_message topic data (error_text ''Retry failed'' e) (Num (a + 1)) (iso_string F (clk w2)))"
      obtain q w3 where q: "kafka_send K (dlq_topic topic) n w2 = (q, w3)" by fastforce
      have "held w' = held w3" using w1(2) r Inl q by (simp add: n_def)
      then have "letters (held w') = letters (held w) @ (case q of Inl _ \<Rightarrow> [] | Inr _ \<Rightarrow> [n])"
        using broker_send [OF B q] sent Inl w1(1) by (simp split: sum.split)
      moreover have "letter n" unfolding letter_def n_def using t(1,2)
        by (intro exI [of _ topic] exI [of _ data] exI [of _ "error_text ''Retry failed'' e"] exI [of _ "a + 1"]
             exI [of _ "iso_string F (clk w2)"]) simp
      moreover have "tries n < tries m" using False t(2,3) by (simp add: n_def tries_letter)
      ultimately show thesis using run pos by (intro that) (auto split: sum.split)
    qed
  qed
qed

text \<open>The loop ends: what is left to handle gets less with every letter.\<close>

lemma loop_step:
  assumes S: "sys_ok S clk gen held" and P: "prom_ok P held" and sleep: "\<And>t. quiet held (sleep t)" and B: "broker_ok K held"
    and i: "i < length (letters (held w))" and good: "\<forall>m \<in> set (drop i (letters (held w))). letter m"
    and w': "w' = snd (eachMessage F K S P sleep (Some (letters (held w) ! i)) w)"
  shows "\<forall>m \<in> set (drop (Suc i) (letters (held w'))). letter m"
    and "sum_list (map tries (drop (Suc i) (letters (held w')))) < sum_list (map tries (drop i (letters (held w))))"
    and "Suc i \<le> length (letters (held w'))"
proof -
  have cut: "drop i (letters (held w)) = letters (held w) ! i # drop (Suc i) (letters (held w))"
    using i by (simp add: Cons_nth_drop_Suc)
  have m: "letter (letters (held w) ! i)" using good cut by simp
  obtain new where "letters (held w') = letters (held w) @ new" "\<forall>n \<in> set new. letter n"
      "sum_list (map tries new) < tries (letters (held w) ! i)"
    unfolding w' by (rule handled_letter [OF S P sleep B m])
  with i good show "\<forall>m \<in> set (drop (Suc i) (letters (held w'))). letter m"
    and "sum_list (map tries (drop (Suc i) (letters (held w')))) < sum_list (map tries (drop i (letters (held w))))"
    and "Suc i \<le> length (letters (held w'))"
    by (auto simp: cut)
qed

text \<open>
  C11. The dead letters run out. Whatever the broker does with each send, the consumer that starts with letters of
  the service ahead of it reaches the end of its topics, although it adds to them itself: it handles no
  letter more than four times, and all that it has written is handled as well when it stops.
\<close>

theorem dead_letters_run_out:
  assumes S: "sys_ok S clk gen held" and P: "prom_ok P held" and sleep: "\<And>t. quiet held (sleep t)" and B: "broker_ok K held"
    and good: "\<forall>m \<in> set (drop i (letters (held w))). letter m" and i: "i \<le> length (letters (held w))"
  shows "\<exists>n w'. subscribeAndRetry F K S P sleep held (i, w) = Some (n, w') \<and> n = length (letters (held w')) \<and>
    n - i \<le> 4 * (length (letters (held w)) - i)"
proof -
  define left where "left = (\<lambda>(i, w). sum_list (map tries (drop i (letters (held w)))))"
  define ok where "ok = (\<lambda>(j, u). i \<le> j \<and> j \<le> length (letters (held u)) \<and> (\<forall>m \<in> set (drop j (letters (held u))). letter m) \<and>
     j + left (j, u) \<le> i + left (i, w))"
  define more where "more = (\<lambda>(j, u). j < length (letters (held u)))"
  define step where "step = (\<lambda>(j, u). (Suc j, snd (eachMessage F K S P sleep (Some (letters (held u) ! j)) u)))"
  have loop: "subscribeAndRetry F K S P sleep held = while_option more step"
    by (simp add: subscribeAndRetry_def more_def step_def)
  have go: "ok (step s) \<and> left (step s) < left s" if "ok s" "more s" for s
    using that loop_step [where sleep = sleep and F = F and i = "fst s" and w = "snd s" and w' = "snd (step s)", OF S P sleep B]
    by (cases s) (auto simp: ok_def more_def step_def left_def)
  have start: "ok (i, w)" using good i by (simp add: ok_def)
  obtain n w' where n: "while_option more step (i, w) = Some (n, w')"
    using measure_while_option_Some [of ok more step left, OF go start] by auto
  have "ok (n, w')" by (rule while_option_rule [where P = ok, OF _ n start]) (rule conjunct1 [OF go])
  then have "n - i \<le> left (i, w)" "n \<le> length (letters (held w'))" by (auto simp: ok_def)
  moreover have "\<not> n < length (letters (held w'))" using while_option_stop [OF n] by (simp add: more_def)
  moreover have "left (i, w) \<le> 4 * (length (letters (held w)) - i)"
  proof -
    have "sum_list (map tries ms) \<le> 4 * length ms" if "\<forall>m \<in> set ms. letter m" for ms
      using that by (induction ms) (use tries_bounds(2) in fastforce)+
    from this [OF good] show ?thesis by (simp add: left_def)
  qed
  ultimately show ?thesis
    unfolding loop using n by (intro exI [of _ n] exI [of _ w']) simp
qed

definition one_letter :: string where
  "one_letter = show_json (dlq_message ''request.events'' (JNum 1) ''x'' (Num 0) ''0'')"

lemma one_letter: "letter one_letter"
proof -
  have "\<not> is_dlq ''request.events''" by code_simp
  then show ?thesis unfolding letter_def one_letter_def
    by (intro exI [of _ "''request.events''"] exI [of _ "JNum 1"] exI [of _ "''x''"] exI [of _ 0] exI [of _ "''0''"]) simp
qed

definition dlq_world :: world where
  "dlq_world = (world_at 5)\<lparr>w_topics := [(dlq_topic ''request.events'', one_letter)]\<rparr>"

lemma dlq_world_letters: "letters (w_topics dlq_world) = [one_letter]"
  by (simp add: letters_def dlq_world_def)

theorem dead_letters_run_out_witness:
  "\<exists>n w'. subscribeAndRetry world_numfmt half_kafka world_sys world_prom (\<lambda>_. return ()) w_topics (0, dlq_world) = Some (n, w') \<and> n \<le> 4"
proof -
  have B: "broker_ok half_kafka w_topics" by (simp add: broker_ok_def half_kafka_def)
  have good: "\<forall>m \<in> set (drop 0 (letters (w_topics dlq_world))). letter m"
    unfolding dlq_world_letters by (simp add: one_letter)
  have "\<exists>n w'. subscribeAndRetry world_numfmt half_kafka world_sys world_prom (\<lambda>_. return ()) w_topics (0, dlq_world) = Some (n, w') \<and>
      n = length (letters (w_topics w')) \<and> n - 0 \<le> 4 * (length (letters (w_topics dlq_world)) - 0)"
    by (rule dead_letters_run_out [where sleep = "\<lambda>_. return ()", OF world_topics_ok _ B good]) simp_all
  then show ?thesis unfolding dlq_world_letters by auto
qed

end
