(* ===== verification/Metrics.thy ===== *)
theory Metrics
  imports Gateway_Events Cdn_Service Cache_Invalidation Notifications
begin

text \<open>
  The Prometheus collectors that the services register (\<open>metrics/metrics.service.ts\<close> of the gateway, the edge,
  the cache service, the notification, auth, analytics and websocket services) and the counts they record. \<open>prom-client\<close>
  throws when a collector is used with another number of label values than it was registered with,
  and when a counter is decreased.
\<close>

section \<open>Registries\<close>

datatype collector = Counter | Gauge | Histogram

type_synonym registry = "(string \<times> collector \<times> string list) list"

definition gateway_metrics :: registry where
  "gateway_metrics =
     [(''gateway_requests_total'', Counter, [''method'', ''path'', ''status'', ''service'']),
      (''gateway_request_duration_seconds'', Histogram, []),
      (''gateway_rate_limit_hits_total'', Counter, [''algorithm'']),
      (''gateway_upstream_errors_total'', Counter, [''service'']),
      (''gateway_dlq_messages_total'', Counter, [''topic'', ''reason'']),
      (''gateway_dlq_retry_success_total'', Counter, []),
      (''gateway_dlq_permanent_failure_total'', Counter, [])]"

definition cdn_metrics :: registry where
  "cdn_metrics =
     [(''cdn_requests_total'', Counter, [''region'', ''bucket'', ''cache_result'', ''format'']),
      (''cdn_request_duration_seconds'', Histogram, [''region'']),
      (''cdn_cache_size_bytes'', Gauge, [''region'']),
      (''cdn_bandwidth_bytes_total'', Counter, [''region'']),
      (''cdn_image_transforms_total'', Counter, [''format'', ''from_format'']),
      (''cdn_image_optimization_bytes_saved_total'', Counter, [''format'']),
      (''cdn_origin_fetch_duration_seconds'', Histogram, [''region''])]"

definition cache_metrics :: registry where
  "cache_metrics =
     [(''cache_purge_operations_total'', Counter, [''type'']),
      (''cache_purge_keys_deleted_total'', Counter, []),
      (''cache_purge_duration_seconds'', Histogram, [])]"

definition notification_metrics :: registry where
  "notification_metrics =
     [(''notifications_sent_total'', Counter, [''channel'']),
      (''notifications_failed_total'', Counter, [''channel'']),
      (''alerts_triggered_total'', Counter, [''rule_name'', ''condition'']),
      (''alert_check_duration_seconds'', Histogram, [])]"

definition auth_metrics :: registry where
  "auth_metrics =
     [(''auth_requests_total'', Counter, []), (''auth_logins_total'', Counter, []), (''auth_failures_total'', Counter, [])]"

definition analytics_metrics :: registry where
  "analytics_metrics =
     [(''analytics_events_ingested_total'', Counter, [''topic'']),
      (''analytics_query_duration_seconds'', Histogram, [''query_type'']),
      (''analytics_kafka_consumer_lag'', Gauge, []),
      (''analytics_batch_size'', Histogram, [])]"

definition ws_metrics :: registry where
  "ws_metrics =
     [(''ws_connections_total'', Gauge, []), (''ws_messages_sent_total'', Counter, [''event_type'']), (''ws_rooms'', Gauge, [''room''])]"

section \<open>The checks of the client\<close>

definition checked :: "registry \<Rightarrow> 'w prom \<Rightarrow> 'w prom" where
  "checked R P =
     \<lparr>prom_inc = (\<lambda>name labels k.
        if (\<exists>names. map_of R name = Some (Counter, names) \<and> length labels = length names) \<and> 0 \<le> k then prom_inc P name labels k
        else throw (JsError ''Invalid number of arguments'')),
      prom_observe = (\<lambda>name labels x.
        if \<exists>names. map_of R name = Some (Histogram, names) \<and> length labels = length names then prom_observe P name labels x
        else throw (JsError ''Invalid number of arguments''))\<rparr>"

lemma checked_inc [simp]:
  "map_of R name = Some (Counter, names) \<Longrightarrow> length labels = length names \<Longrightarrow> 0 \<le> k \<Longrightarrow>
    prom_inc (checked R P) name labels k = prom_inc P name labels k"
  by (simp add: checked_def)

lemma checked_observe [simp]:
  "map_of R name = Some (Histogram, names) \<Longrightarrow> length labels = length names \<Longrightarrow>
    prom_observe (checked R P) name labels x = prom_observe P name labels x"
  by (simp add: checked_def)

section \<open>The gateway and the cache service\<close>

lemma gateway_checked:
  "recordRequest (checked gateway_metrics P) m p st s = recordRequest P m p st s"
  "recordLatency (checked gateway_metrics P) x = recordLatency P x"
  "recordRateLimitHit (checked gateway_metrics P) a = recordRateLimitHit P a"
  "recordDlqMessage (checked gateway_metrics P) t r = recordDlqMessage P t r"
  "recordDlqRetrySuccess (checked gateway_metrics P) = recordDlqRetrySuccess P"
  "recordDlqPermanentFailure (checked gateway_metrics P) = recordDlqPermanentFailure P"
  by (simp_all add: recordRequest_def recordLatency_def recordRateLimitHit_def recordDlqMessage_def recordDlqRetrySuccess_def
      recordDlqPermanentFailure_def gateway_metrics_def)

lemma cache_checked: "recordPurgeOperation (checked cache_metrics P) kind x n = recordPurgeOperation P kind x n"
  by (simp add: recordPurgeOperation_def cache_metrics_def)

section \<open>The edge\<close>

definition edge_checked :: "'w cdn_deps \<Rightarrow> 'w cdn_deps" where
  "edge_checked D = D\<lparr>cd_prom := checked cdn_metrics (cd_prom D)\<rparr>"

lemma edge_checked_simps [simp]:
  "cd_prom (edge_checked D) = checked cdn_metrics (cd_prom D)" "cd_sys (edge_checked D) = cd_sys D"
  "cd_redis (edge_checked D) = cd_redis D" "cdn_region (edge_checked D) = cdn_region D" "cdn_key (edge_checked D) = cdn_key D"
  "image_transform (edge_checked D) = image_transform D" "origin_url (edge_checked D) = origin_url D"
  "cd_fetch (edge_checked D) = cd_fetch D" "cd_ttl (edge_checked D) = cd_ttl D" "cd_ttlSeconds (edge_checked D) = cd_ttlSeconds D"
  "cd_fmt (edge_checked D) = cd_fmt D" "cd_edgeRegion (edge_checked D) = cd_edgeRegion D" "cd_kafka (edge_checked D) = cd_kafka D"
  "cdn_event (edge_checked D) = cdn_event D" "cdn_headers (edge_checked D) = cdn_headers D"
  by (auto simp: edge_checked_def cdn_region_def cdn_key_def image_transform_def origin_url_def cdn_event_def cdn_headers_def fun_eq_iff)

lemma edge_counts:
  "prom_observe (checked cdn_metrics P) ''cdn_origin_fetch_duration_seconds'' [r] x = prom_observe P ''cdn_origin_fetch_duration_seconds'' [r] x"
  "prom_inc (checked cdn_metrics P) ''cdn_bandwidth_bytes_total'' [r] (int n) = prom_inc P ''cdn_bandwidth_bytes_total'' [r] (int n)"
  by (simp_all add: cdn_metrics_def)

lemma recordMetrics_checked [simp]: "recordMetrics (edge_checked D) = recordMetrics D"
  by (simp add: recordMetrics_def cdn_metrics_def fun_eq_iff)

lemma optimise_checked [simp]: "optimise (edge_checked D) = optimise D"
  by (intro ext) (simp add: optimise_def cdn_metrics_def cong: if_cong split: option.split)

lemma fetch_origin_checked [simp]: "fetch_origin (edge_checked D) = fetch_origin D"
  by (intro ext) (unfold fetch_origin_def edge_checked_simps edge_counts optimise_checked, rule refl)

lemma from_origin_checked [simp]: "from_origin (edge_checked D) = from_origin D"
  by (intro ext) (simp add: from_origin_def)

lemma from_redis_checked [simp]: "from_redis (edge_checked D) = from_redis D"
  by (intro ext) (unfold from_redis_def edge_checked_simps recordMetrics_checked, rule refl)

lemma serveFile_checked [simp]: "serveFile (edge_checked D) = serveFile D"
  by (intro ext) (unfold serveFile_def edge_checked_simps recordMetrics_checked from_redis_checked from_origin_checked, rule refl)

lemma served_checked [simp]: "served (edge_checked D) = served D"
  by (intro ext) (unfold served_def edge_checked_simps edge_counts, rule refl)

lemma handleFileRequest_checked: "handleFileRequest (edge_checked D) = handleFileRequest D"
  by (intro ext) (unfold handleFileRequest_def edge_checked_simps serveFile_checked served_checked, rule refl)

section \<open>The notifications\<close>

definition notify_checked :: "'w notify_deps \<Rightarrow> 'w notify_deps" where
  "notify_checked D = D\<lparr>nd_prom := checked notification_metrics (nd_prom D)\<rparr>"

lemma notify_checked_simps [simp]:
  "nd_prom (notify_checked D) = checked notification_metrics (nd_prom D)" "nd_sys (notify_checked D) = nd_sys D"
  "nd_fmt (notify_checked D) = nd_fmt D" "nd_get (notify_checked D) = nd_get D" "nd_random_id (notify_checked D) = nd_random_id D"
  "nd_config (notify_checked D) = nd_config D" "sendEmail (notify_checked D) = sendEmail D" "sendWebhook (notify_checked D) = sendWebhook D"
  "sendSlack (notify_checked D) = sendSlack D" "conf (notify_checked D) = conf D" "summary_url (notify_checked D) = summary_url D"
  "debounced (notify_checked D) = debounced D"
  by (auto simp: notify_checked_def sendEmail_def sendWebhook_def sendSlack_def conf_def summary_url_def debounced_def fun_eq_iff)

lemma notify_counts:
  "prom_inc (checked notification_metrics P) ''notifications_sent_total'' [c] 1 = prom_inc P ''notifications_sent_total'' [c] 1"
  "prom_inc (checked notification_metrics P) ''notifications_failed_total'' [c] 1 = prom_inc P ''notifications_failed_total'' [c] 1"
  "prom_inc (checked notification_metrics P) ''alerts_triggered_total'' [a, b] 1 = prom_inc P ''alerts_triggered_total'' [a, b] 1"
  "prom_observe (checked notification_metrics P) ''alert_check_duration_seconds'' [] x = prom_observe P ''alert_check_duration_seconds'' [] x"
  by (simp_all add: notification_metrics_def)

lemma send_channel_checked [simp]: "send_channel (notify_checked D) = send_channel D"
  by (intro ext) (unfold send_channel_def notify_checked_simps, rule refl)

lemma send_all_checked [simp]: "send_all (notify_checked D) alert chs rec = send_all D alert chs rec"
proof (induction chs arbitrary: rec)
  case (Cons ch chs)
  show ?case unfolding send_all.simps notify_checked_simps notify_counts send_channel_checked Cons.IH by (rule refl)
qed simp

lemma dispatch_checked [simp]: "dispatch (notify_checked D) = dispatch D"
  by (intro ext) (unfold dispatch_def notify_checked_simps send_all_checked, rule refl)

lemma raise_alert_checked [simp]: "raise_alert (notify_checked D) = raise_alert D"
  by (intro ext) (unfold raise_alert_def notify_checked_simps notify_counts dispatch_checked, rule refl)

lemma check_rule_checked [simp]: "check_rule (notify_checked D) = check_rule D"
  by (intro ext) (unfold check_rule_def notify_checked_simps raise_alert_checked, rule refl)

lemma checkAlerts_checked: "checkAlerts (notify_checked D) = checkAlerts D"
  by (unfold checkAlerts_def notify_checked_simps notify_counts check_rule_checked, rule refl)

section \<open>Counts and registrations\<close>

lemma registries_distinct:
  "list_all (\<lambda>R. distinct (map fst R))
     [gateway_metrics, cdn_metrics, cache_metrics, notification_metrics, auth_metrics, analytics_metrics, ws_metrics]"
  by code_simp

text \<open>
  No count of the services can fail for its collector. No registry gets a name twice, which it would
  refuse; and with the checks of \<open>prom-client\<close> on the collectors as they are registered, every count of the
  gateway, a purge of the cache service, a request for a file at the edge, and the check and the
  dispatch of alerts do exactly what they do without them.
\<close>

theorem counts_registered:
  shows "list_all (\<lambda>R. distinct (map fst R))
      [gateway_metrics, cdn_metrics, cache_metrics, notification_metrics, auth_metrics, analytics_metrics, ws_metrics] \<and>
    recordRequest (checked gateway_metrics P) m p st s = recordRequest P m p st s \<and>
    recordLatency (checked gateway_metrics P) x = recordLatency P x \<and>
    recordRateLimitHit (checked gateway_metrics P) a = recordRateLimitHit P a \<and>
    recordDlqMessage (checked gateway_metrics P) t r = recordDlqMessage P t r \<and>
    recordDlqRetrySuccess (checked gateway_metrics P) = recordDlqRetrySuccess P \<and>
    recordDlqPermanentFailure (checked gateway_metrics P) = recordDlqPermanentFailure P \<and>
    recordPurgeOperation (checked cache_metrics P) kind x n = recordPurgeOperation P kind x n \<and>
    handleFileRequest (D\<lparr>cd_prom := checked cdn_metrics (cd_prom D)\<rparr>) = handleFileRequest D \<and>
    checkAlerts (N\<lparr>nd_prom := checked notification_metrics (nd_prom N)\<rparr>) = checkAlerts N \<and>
    dispatch (N\<lparr>nd_prom := checked notification_metrics (nd_prom N)\<rparr>) = dispatch N"
  using registries_distinct gateway_checked [of P] cache_checked [of P] handleFileRequest_checked [of D] checkAlerts_checked [of N] dispatch_checked [of N]
  unfolding edge_checked_def notify_checked_def by blast

end
