(* ===== verification/Session_Race.thy ===== *)
theory Session_Race
  imports Platform_Sessions
begin

text \<open>
  Several requests of the dashboard at once (\<open>apps/dashboard/src/lib/api.ts\<close>): between two \<open>await\<close>s of one request
  the others run, and all of them share the session in the store and the refresh token that the auth
  service has for the device. A step takes one request from one \<open>await\<close> to the next.
\<close>

section \<open>Requests in flight\<close>

text \<open>
  \<open>Sent\<close>: the first answer is awaited, with the refresh token read at the start; \<open>Refreshing\<close>: the answer
  to the refresh; \<open>Granted\<close>: its body, with the new tokens; \<open>Retrying\<close>: the answer to the retry; \<open>Ended\<close>: with an answer,
  or \<open>Unauthorized\<close>.
\<close>

datatype flight = Idle | Sent "json option" | Refreshing string | Granted string string | Retrying | Ended bool

record tab =
  ta_flights :: "nat \<Rightarrow> flight"
  ta_store :: auth_state
  ta_server :: "string option"
  ta_used :: "string set"

definition to_phase :: "nat \<Rightarrow> flight \<Rightarrow> tab \<Rightarrow> tab" where
  "to_phase i p s = s\<lparr>ta_flights := (ta_flights s)(i := p)\<rparr>"

definition signed_out :: "nat \<Rightarrow> tab \<Rightarrow> tab" where
  "signed_out i s = (to_phase i (Ended False) s)\<lparr>ta_store := authReducer Logout (ta_store s)\<rparr>"

text \<open>
  The refresh is granted for the token the service has, which it replaces by one that it has never
  used; it fails for any other, or without an answer from the service. An answer may be lost on its way back, too:
  the token is then replaced, and the refresh still fails.
\<close>

inductive tab_step :: "tab \<Rightarrow> tab \<Rightarrow> bool" where
  start: "ta_flights s i = Idle \<Longrightarrow> tab_step s (to_phase i (Sent (au_refreshToken (ta_store s))) s)"
| answered: "ta_flights s i = Sent r \<Longrightarrow> tab_step s (to_phase i (Ended True) s)"
| no_token: "ta_flights s i = Sent r \<Longrightarrow> \<not> jtruthy r \<Longrightarrow> tab_step s (signed_out i s)"
| expired: "ta_flights s i = Sent (Some (JStr rt)) \<Longrightarrow> rt \<noteq> [] \<Longrightarrow> tab_step s (to_phase i (Refreshing rt) s)"
| granted: "ta_flights s i = Refreshing rt \<Longrightarrow> ta_server s = Some rt \<Longrightarrow> new \<notin> ta_used s \<Longrightarrow>
    tab_step s ((to_phase i (Granted access new) s)\<lparr>ta_server := Some new, ta_used := insert new (ta_used s)\<rparr>)"
| refused: "ta_flights s i = Refreshing rt \<Longrightarrow> ta_server s \<noteq> Some rt \<Longrightarrow> tab_step s (signed_out i s)"
| failed: "ta_flights s i = Refreshing rt \<Longrightarrow> tab_step s (signed_out i s)"
| lost: "ta_flights s i = Refreshing rt \<Longrightarrow> ta_server s = Some rt \<Longrightarrow> new \<notin> ta_used s \<Longrightarrow>
    tab_step s (s\<lparr>ta_server := Some new, ta_used := insert new (ta_used s)\<rparr>)"
| stored: "ta_flights s i = Granted access new \<Longrightarrow>
    tab_step s ((to_phase i Retrying s)\<lparr>ta_store := (case au_user (ta_store s) of None \<Rightarrow> ta_store s
       | Some user \<Rightarrow> authReducer (SetCredentials user (Some (JStr access)) (Some (JStr new))) (ta_store s))\<rparr>)"
| retried: "ta_flights s i = Retrying \<Longrightarrow> tab_step s (to_phase i (Ended True) s)"
| retry_failed: "ta_flights s i = Retrying \<Longrightarrow> tab_step s (signed_out i s)"

lemma phase_simps [simp]:
  "ta_flights (to_phase i p s) = (ta_flights s)(i := p)" "ta_store (to_phase i p s) = ta_store s"
  "ta_server (to_phase i p s) = ta_server s" "ta_used (to_phase i p s) = ta_used s"
  "ta_flights (signed_out i s) = (ta_flights s)(i := Ended False)" "ta_store (signed_out i s) = initialState"
  "ta_server (signed_out i s) = ta_server s" "ta_used (signed_out i s) = ta_used s"
  by (simp_all add: to_phase_def signed_out_def)

lemma no_user [simp]: "au_user initialState = None"
  by (simp add: initialState_def)

section \<open>The client's request is such a flight\<close>

text \<open>
  The steps of the other requests, and what they may do while one request awaits something. \<open>view\<close> takes from the world the tab
  as the others leave it; the phase of the request itself is not part of the world, but where its code stands.
\<close>

definition others :: "nat \<Rightarrow> tab \<Rightarrow> tab \<Rightarrow> bool" where
  "others i s s' \<longleftrightarrow> tab_step s s' \<and> ta_flights s' i = ta_flights s i"

definition undisturbed :: "nat \<Rightarrow> tab \<Rightarrow> tab \<Rightarrow> bool" where
  "undisturbed i s s' \<longleftrightarrow> (\<forall>p. (others i)\<^sup>*\<^sup>* (to_phase i p s) (to_phase i p s'))"

definition failure :: "exn + fetched \<Rightarrow> bool" where
  "failure r \<longleftrightarrow> (case r of Inl e \<Rightarrow> \<exists>m. e = JsError m | Inr res \<Rightarrow> \<not> fe_ok res)"

definition grants :: "string \<Rightarrow> string \<Rightarrow> exn + fetched \<Rightarrow> bool" where
  "grants access new r \<longleftrightarrow> (\<exists>res j. r = Inr res \<and> fe_ok res \<and> fe_json res = Some j \<and>
     jget ''accessToken'' j = Some (JStr access) \<and> jget ''refreshToken'' j = Some (JStr new))"

text \<open>The auth service's own answer to a refresh is of these two kinds: the pair of tokens, with when it expires, or an error.\<close>

lemma service_refuses_or_grants:
  assumes "http_answer 200 pair_json (refresh_route A dto ua) w = (r, w')"
  shows "(\<exists>p. refresh_route A dto ua w = (Inr p, w') \<and> grants (accessToken p) (refreshToken p) r) \<or>
    (\<exists>e. refresh_route A dto ua w = (Inl e, w') \<and> r = Inr \<lparr>fe_status = error_status e, fe_json = Some (error_body e)\<rparr> \<and>
       (error_status e \<ge> 400 \<longrightarrow> failure r))"
  using assms by (auto simp: http_answer_def grants_def failure_def pair_json_def fe_ok_def split: prod.splits sum.splits)

text \<open>
  A browser in such a tab: the store and the redirect do what they say, an ordinary request changes nothing of the tab by
  itself, and the refresh replaces the token the service has, if it is that one, and answers with the new one or fails.
\<close>

definition rotated :: "string \<Rightarrow> tab \<Rightarrow> tab" where
  "rotated new s = s\<lparr>ta_server := Some new, ta_used := insert new (ta_used s)\<rparr>"

definition in_tab :: "nat \<Rightarrow> 'w browser \<Rightarrow> ('w \<Rightarrow> tab) \<Rightarrow> bool" where
  "in_tab i D view \<longleftrightarrow> br_window D \<and>
     (\<forall>w. br_state D w = (Inr (ta_store (view w)), w)) \<and>
     (\<forall>a w. \<exists>w'. br_dispatch D a w = (Inr (), w') \<and> view w' = (view w)\<lparr>ta_store := authReducer a (ta_store (view w))\<rparr>) \<and>
     (\<forall>p w. \<exists>w'. br_redirect D p w = (Inr (), w') \<and> view w' = view w) \<and>
     (\<forall>q w. (\<forall>rt. q \<noteq> refresh_request D rt) \<longrightarrow>
        (\<exists>r w'. br_fetch D q w = (r, w') \<and> (\<forall>e. r = Inl e \<longrightarrow> (\<exists>m. e = JsError m)) \<and> undisturbed i (view w) (view w'))) \<and>
     (\<forall>rt w. \<exists>r w' s1 s2. br_fetch D (refresh_request D (JStr rt)) w = (r, w') \<and> undisturbed i (view w) s1 \<and> undisturbed i s2 (view w') \<and>
        (failure r \<and> s2 = s1 \<or>
         (\<exists>access new. ta_server s1 = Some rt \<and> new \<notin> ta_used s1 \<and> s2 = rotated new s1 \<and> (failure r \<or> grants access new r))))"

lemma rotated_phase: "to_phase i p (rotated new s) = (to_phase i p s)\<lparr>ta_server := Some new, ta_used := insert new (ta_used s)\<rparr>"
  by (cases s) (simp add: rotated_def to_phase_def)

lemma phase_store: "to_phase i p (s\<lparr>ta_store := x\<rparr>) = (to_phase i p s)\<lparr>ta_store := x\<rparr>"
  by (cases s) (simp add: to_phase_def)

lemma same_store: "(to_phase i p s)\<lparr>ta_store := ta_store s\<rparr> = to_phase i p s"
  by (cases s) (simp add: to_phase_def)

lemma phase_twice: "to_phase i p (to_phase i q s) = to_phase i p s"
  by (simp add: to_phase_def)

text \<open>How the parts of a request move its flight.\<close>

abbreviation tab_run :: "tab \<Rightarrow> tab \<Rightarrow> bool" where
  "tab_run \<equiv> tab_step\<^sup>*\<^sup>*"

lemma undisturbed_run: "undisturbed i s s' \<Longrightarrow> tab_run (to_phase i p s) (to_phase i p s')"
  unfolding undisturbed_def by (rule rtranclp_mono [THEN predicate2D, of "others i"]) (auto simp: others_def)

lemma in_tab_state: "in_tab i D view \<Longrightarrow> br_window D" "in_tab i D view \<Longrightarrow> br_state D w = (Inr (ta_store (view w)), w)"
  by (simp_all add: in_tab_def)

lemma in_tab_sign_out:
  assumes "in_tab i D view"
  shows "\<exists>w'. await (br_dispatch D Logout) (\<lambda>_. await (br_redirect D ''/login'') (\<lambda>_. k)) w = k w' \<and>
    view w' = (view w)\<lparr>ta_store := initialState\<rparr>"
proof -
  obtain w1 where w1: "br_dispatch D Logout w = (Inr (), w1)" "view w1 = (view w)\<lparr>ta_store := authReducer Logout (ta_store (view w))\<rparr>"
    using assms unfolding in_tab_def by blast
  obtain w2 where w2: "br_redirect D ''/login'' w1 = (Inr (), w2)" "view w2 = view w1"
    using assms unfolding in_tab_def by blast
  show ?thesis using w1 w2 by (intro exI [of _ w2]) (simp add: await_def)
qed

lemma in_tab_send:
  assumes "in_tab i D view" and "path \<noteq> ''/v1/auth/refresh''"
  shows "\<exists>r w'. send D m path headers body w = (r, w') \<and> (\<forall>e. r = Inl e \<longrightarrow> (\<exists>m. e = JsError m)) \<and> undisturbed i (view w) (view w')"
proof -
  have "\<lparr>fq_method = m, fq_url = api_url D path, fq_headers = headers, fq_body = body_of body\<rparr> \<noteq> refresh_request D rt" for rt
    using assms(2) by (simp add: refresh_request_def api_url_def)
  then show ?thesis using assms(1) unfolding in_tab_def send_def by blast
qed

lemma in_tab_refresh:
  assumes "in_tab i D view"
  shows "\<exists>r w'. br_fetch D (refresh_request D (JStr rt)) w = (r, w') \<and>
    (failure r \<and> tab_run (to_phase i (Refreshing rt) (view w)) (to_phase i (Refreshing rt) (view w')) \<or>
     (\<exists>access new. grants access new r \<and> tab_run (to_phase i (Refreshing rt) (view w)) (to_phase i (Granted access new) (view w'))))"
proof -
  obtain r w' s1 s2 where run: "br_fetch D (refresh_request D (JStr rt)) w = (r, w')" "undisturbed i (view w) s1" "undisturbed i s2 (view w')"
      and how: "failure r \<and> s2 = s1 \<or> (\<exists>access new. ta_server s1 = Some rt \<and> new \<notin> ta_used s1 \<and> s2 = rotated new s1 \<and> (failure r \<or> grants access new r))"
    using assms unfolding in_tab_def by meson
  have before: "tab_run (to_phase i (Refreshing rt) (view w)) (to_phase i (Refreshing rt) s1)" using run(2) by (rule undisturbed_run)
  have after: "tab_run (to_phase i p s2) (to_phase i p (view w'))" for p using run(3) by (rule undisturbed_run)
  from how show ?thesis
  proof (elim disjE exE conjE)
    assume "failure r" "s2 = s1"
    then show ?thesis using run(1) before after by (meson rtranclp_trans)
  next
    fix access new assume g: "ta_server s1 = Some rt" "new \<notin> ta_used s1" "s2 = rotated new s1" "failure r"
    have "tab_step (to_phase i (Refreshing rt) s1) (to_phase i (Refreshing rt) s2)"
      using lost [of "to_phase i (Refreshing rt) s1" i rt new] g(1,2) by (simp add: g(3) rotated_phase)
    then show ?thesis using run(1) g(4) before after by (meson converse_rtranclp_into_rtranclp rtranclp_trans)
  next
    fix access new assume g: "ta_server s1 = Some rt" "new \<notin> ta_used s1" "s2 = rotated new s1" "grants access new r"
    have "tab_step (to_phase i (Refreshing rt) s1) (to_phase i (Granted access new) s2)"
      using granted [of "to_phase i (Refreshing rt) s1" i rt new access] g(1,2) by (simp add: g(3) rotated_phase) (simp add: to_phase_def)
    then show ?thesis using run(1) g(4) before after by (meson converse_rtranclp_into_rtranclp rtranclp_trans)
  qed
qed

text \<open>The refresh and the retry, up to the last phase before the request ends; without a result the session may be gone already.\<close>

definition ends_at :: "nat \<Rightarrow> string \<Rightarrow> tab \<Rightarrow> tab \<Rightarrow> fetched option \<Rightarrow> bool" where
  "ends_at i rt s s' r \<longleftrightarrow>
     (case r of
        Some res \<Rightarrow> tab_run (to_phase i (Refreshing rt) s) (to_phase i Retrying s')
      | None \<Rightarrow> \<exists>p s1. p \<in> {Refreshing rt, Retrying} \<and> tab_run (to_phase i (Refreshing rt) s) (to_phase i p s1) \<and>
          s'\<lparr>ta_store := initialState\<rparr> = s1\<lparr>ta_store := initialState\<rparr>)"

lemma ends_at_None:
  "tab_run (to_phase i (Refreshing rt) s) (to_phase i p s1) \<Longrightarrow> p \<in> {Refreshing rt, Retrying} \<Longrightarrow> s' = s1 \<or> s' = s1\<lparr>ta_store := initialState\<rparr> \<Longrightarrow>
    ends_at i rt s s' None"
  unfolding ends_at_def option.case by (intro exI [of _ p] exI [of _ s1]) auto

lemma stored_step:
  assumes "s' = s\<lparr>ta_store := (case au_user (ta_store s) of None \<Rightarrow> ta_store s
    | Some user \<Rightarrow> authReducer (SetCredentials user (Some (JStr access)) (Some (JStr new))) (ta_store s))\<rparr>"
  shows "tab_step (to_phase i (Granted access new) s) (to_phase i Retrying s')"
  using stored [of "to_phase i (Granted access new) s" i access new] unfolding assms
  by (cases "au_user (ta_store s)") (simp_all add: phase_store phase_twice same_store)

lemma in_tab_store:
  assumes "in_tab i D view"
  shows "\<exists>w'. await (br_state D) (\<lambda>s. await (case au_user s of None \<Rightarrow> return () | Some user \<Rightarrow> br_dispatch D (SetCredentials user a b)) k) w = k () w' \<and>
    view w' = (view w)\<lparr>ta_store := (case au_user (ta_store (view w)) of None \<Rightarrow> ta_store (view w)
      | Some user \<Rightarrow> authReducer (SetCredentials user a b) (ta_store (view w)))\<rparr>"
proof -
  have state: "br_state D w = (Inr (ta_store (view w)), w)" using assms by (rule in_tab_state)
  show ?thesis
  proof (cases "au_user (ta_store (view w))")
    case None
    then show ?thesis by (intro exI [of _ w]) (simp add: await_def state return_def)
  next
    case (Some user)
    obtain w' where "br_dispatch D (SetCredentials user a b) w = (Inr (), w')"
        "view w' = (view w)\<lparr>ta_store := authReducer (SetCredentials user a b) (ta_store (view w))\<rparr>"
      using assms unfolding in_tab_def by blast
    then show ?thesis using Some by (intro exI [of _ w']) (simp add: await_def state)
  qed
qed

text \<open>The session is stored, and the request sent once more.\<close>

definition store_and_retry :: "'w browser \<Rightarrow> string \<Rightarrow> string \<Rightarrow> (string \<times> string) list \<Rightarrow> request_payload \<Rightarrow> string \<Rightarrow> string \<Rightarrow> ('w, fetched option) io" where
  "store_and_retry D m path headers body access new =
     await (br_state D) (\<lambda>s.
     await (case au_user s of None \<Rightarrow> return ()
        | Some user \<Rightarrow> br_dispatch D (SetCredentials user (Some (JStr access)) (Some (JStr new)))) (\<lambda>_.
     await (send D m path (with_token (Some (JStr access)) headers) body) (\<lambda>retryRes.
     return (if fe_ok retryRes then Some retryRes else None))))"

lemma granted_flight:
  assumes D: "in_tab i D view" and path: "path \<noteq> ''/v1/auth/refresh''"
  shows "\<exists>q w'. store_and_retry D m path headers body access new w = (q, w') \<and>
    tab_run (to_phase i (Granted access new) (view w)) (to_phase i Retrying (view w'))"
proof -
  obtain w2 where w2: "store_and_retry D m path headers body access new w =
        await (send D m path (with_token (Some (JStr access)) headers) body) (\<lambda>retryRes. return (if fe_ok retryRes then Some retryRes else None)) w2"
      "view w2 = (view w)\<lparr>ta_store := (case au_user (ta_store (view w)) of None \<Rightarrow> ta_store (view w)
        | Some user \<Rightarrow> authReducer (SetCredentials user (Some (JStr access)) (Some (JStr new))) (ta_store (view w)))\<rparr>"
    unfolding store_and_retry_def using in_tab_store [OF D] by blast
  obtain r2 w3 where r2: "send D m path (with_token (Some (JStr access)) headers) body w2 = (r2, w3)" "undisturbed i (view w2) (view w3)"
    using in_tab_send [OF D path] by blast
  have "tab_step (to_phase i (Granted access new) (view w)) (to_phase i Retrying (view w2))" using w2(2) by (rule stored_step)
  then have "tab_run (to_phase i (Granted access new) (view w)) (to_phase i Retrying (view w3))"
    using undisturbed_run [OF r2(2)] by (rule converse_rtranclp_into_rtranclp)
  then show ?thesis unfolding w2(1) using r2(1) by (cases r2) (auto simp: await_def return_def)
qed

lemma granted_continues:
  assumes "grants access new r" and "br_fetch D (refresh_request D t) w = (r, w1)"
  shows "refresh_retry D m path headers body t w =
    try_catch (\<lambda>_. store_and_retry D m path headers body access new w1) (\<lambda>_. await (br_dispatch D Logout) (\<lambda>_. await (br_redirect D ''/login'') (\<lambda>_. return None))) w"
proof -
  obtain res j where res: "r = Inr res" "fe_ok res" "fe_json res = Some j"
      and tok: "jget ''accessToken'' j = Some (JStr access)" "jget ''refreshToken'' j = Some (JStr new)"
    using assms(1) by (auto simp: grants_def)
  from tok(1) have "j \<noteq> JNull" by auto
  then show ?thesis
    unfolding refresh_retry_def try_catch_def await_def [of "br_fetch D _"] assms(2) res(1) prod.case sum.case store_and_retry_def
    by (simp add: res(2) read_json_def res(3) read_of_def return_apply Let_def tok(1)) (unfold tok(2), rule refl)
qed

lemma refresh_retry_flight:
  assumes D: "in_tab i D view" and path: "path \<noteq> ''/v1/auth/refresh''"
  shows "\<exists>r w'. refresh_retry D m path headers body (JStr rt) w = (Inr r, w') \<and> ends_at i rt (view w) (view w') r"
proof -
  let ?out = "\<lambda>_ :: exn. await (br_dispatch D Logout) (\<lambda>_. await (br_redirect D ''/login'') (\<lambda>_. return (None :: fetched option)))"
  have out: "\<exists>w'. ?out undefined u = (Inr None, w') \<and> view w' = (view u)\<lparr>ta_store := initialState\<rparr>" for u
    using in_tab_sign_out [OF D, of "return (None :: fetched option)" u] by (auto simp: return_def)
  obtain r w1 where r: "br_fetch D (refresh_request D (JStr rt)) w = (r, w1)" and
      how: "failure r \<and> tab_run (to_phase i (Refreshing rt) (view w)) (to_phase i (Refreshing rt) (view w1)) \<or>
       (\<exists>access new. grants access new r \<and> tab_run (to_phase i (Refreshing rt) (view w)) (to_phase i (Granted access new) (view w1)))"
    using in_tab_refresh [OF D] by blast
  from how show ?thesis
  proof (elim disjE conjE exE)
    assume f: "failure r" and run: "tab_run (to_phase i (Refreshing rt) (view w)) (to_phase i (Refreshing rt) (view w1))"
    show ?thesis
    proof (cases r)
      case (Inl e)
      have "refresh_retry D m path headers body (JStr rt) w = ?out e w1"
        unfolding refresh_retry_def try_catch_def await_def [of "br_fetch D _"] r Inl by simp
      then show ?thesis using ends_at_None [OF run] out [of w1] by auto
    next
      case (Inr res)
      then have "\<not> fe_ok res" using f by (simp add: failure_def)
      then show ?thesis using r Inr ends_at_None [OF run] by (simp add: refresh_retry_def try_catch_def await_def return_def)
    qed
  next
    fix access new assume g: "grants access new r" and run: "tab_run (to_phase i (Refreshing rt) (view w)) (to_phase i (Granted access new) (view w1))"
    obtain q w2 where q: "store_and_retry D m path headers body access new w1 = (q, w2)"
        "tab_run (to_phase i (Granted access new) (view w1)) (to_phase i Retrying (view w2))"
      using granted_flight [OF D path] by blast
    have retrying: "tab_run (to_phase i (Refreshing rt) (view w)) (to_phase i Retrying (view w2))"
      using run q(2) by (rule rtranclp_trans)
    show ?thesis
      unfolding granted_continues [OF g r] try_catch_def q(1) prod.case
      using ends_at_None [OF retrying] retrying out [of w2] by (cases q; cases "projr q") (auto simp: ends_at_def split: option.split)
  qed
qed

text \<open>The ends of a request.\<close>

lemma result_of_end: "\<exists>r. result_of res w = (r, w) \<and> r \<noteq> Inl unauthorized"
  by (simp add: result_of_def read_json_def await_def return_def throw_def unauthorized_def split: option.split)

lemma other_answer_end:
  assumes "fe_status res \<noteq> 401"
  shows "\<exists>r. request_rest D st m path body w res w1 = (r, w1) \<and> r \<noteq> Inl unauthorized"
proof (cases "fe_ok res")
  case True
  then show ?thesis using assms result_of_end [of res w1] by (simp add: request_rest_def)
next
  case False
  define j where "j = (case fe_json res of None \<Rightarrow> JObj [(''message'', JStr ''Request failed'')] | Some j \<Rightarrow> j)"
  show ?thesis
    unfolding request_rest_def Let_def j_def [symmetric] using assms False
    by (cases "j = JNull") (simp_all add: read_of_def await_def throw_def return_def unauthorized_def)
qed

lemma unauthorized_end:
  assumes "in_tab i D view"
  shows "\<exists>w'. await (br_dispatch D Logout) (\<lambda>_. await (br_redirect D ''/login'') (\<lambda>_. throw unauthorized)) w = (Inl unauthorized, w') \<and>
    view w' = (view w)\<lparr>ta_store := initialState\<rparr>"
  using in_tab_sign_out [OF assms, of "throw unauthorized" w] by (simp add: throw_def)

lemma phase_signed_out: "signed_out i (to_phase i p s) = to_phase i (Ended False) (s\<lparr>ta_store := initialState\<rparr>)"
  by (simp add: signed_out_def phase_twice phase_store)

text \<open>After a 401, with the refresh token that was read at the start.\<close>

lemma refused_flight:
  assumes D: "in_tab i D view" and p: "p \<in> {Refreshing rt, Retrying} \<or> p = Sent t \<and> \<not> jtruthy t"
    and s: "(view w)\<lparr>ta_store := initialState\<rparr> = s\<lparr>ta_store := initialState\<rparr>"
  shows "\<exists>w'. ending D None w = (Inl unauthorized, w') \<and> tab_step (to_phase i p s) (to_phase i (Ended False) (view w'))"
proof -
  obtain w' where w': "ending D None w = (Inl unauthorized, w')" "view w' = (view w)\<lparr>ta_store := initialState\<rparr>"
    using unauthorized_end [OF D, of w] unfolding ending_def option.case by (elim exE conjE)
  have "tab_step (to_phase i p s) (signed_out i (to_phase i p s))"
    using p by (auto intro: failed retry_failed no_token)
  then show ?thesis using w' unfolding phase_signed_out s [symmetric] by auto
qed

lemma expired_flight:
  assumes D: "in_tab i D view" and path: "path \<noteq> ''/v1/auth/refresh''" and token: "case t of None \<Rightarrow> True | Some t \<Rightarrow> \<exists>rt. t = JStr rt"
  shows "\<exists>r w'. await (if jtruthy t then refresh_retry D m path h body (the t) else return None) (ending D) w = (r, w') \<and>
    tab_run (to_phase i (Sent t) (view w)) (to_phase i (Ended (r \<noteq> Inl unauthorized)) (view w'))"
proof (cases "jtruthy t")
  case False
  then show ?thesis using refused_flight [OF D, of "Sent t" _ t w "view w"] by fastforce
next
  case True
  then obtain t' where t': "t = Some t'" by (cases t) simp_all
  obtain rt where "t' = JStr rt" using token unfolding t' option.case by (rule exE)
  with True t' have rt: "t = Some (JStr rt)" "rt \<noteq> []" by simp_all
  have "tab_step (to_phase i (Sent t) (view w)) (to_phase i (Refreshing rt) (to_phase i (Sent t) (view w)))"
    by (rule tab_step.expired) (simp_all add: rt)
  then have refreshing: "tab_run (to_phase i (Sent t) (view w)) (to_phase i (Refreshing rt) (view w))"
    unfolding phase_twice by (rule r_into_rtranclp)
  obtain q w2 where q: "refresh_retry D m path h body (JStr rt) w = (Inr q, w2)" "ends_at i rt (view w) (view w2) q"
    using refresh_retry_flight [OF D path] by blast
  have ends: "await (if jtruthy t then refresh_retry D m path h body (the t) else return None) (ending D) w = ending D q w2"
    using True q(1) by (simp add: rt await_Inr)
  show ?thesis
  proof (cases q)
    case (Some retryRes)
    have "tab_step (to_phase i Retrying (view w2)) (to_phase i (Ended True) (to_phase i Retrying (view w2)))"
      by (rule retried) simp
    moreover have "tab_run (to_phase i (Sent t) (view w)) (to_phase i Retrying (view w2))"
      using refreshing q(2) unfolding Some ends_at_def option.case by (rule rtranclp_trans)
    ultimately have "tab_run (to_phase i (Sent t) (view w)) (to_phase i (Ended True) (view w2))"
      unfolding phase_twice by (meson rtranclp.rtrancl_into_rtrancl)
    moreover obtain r where "result_of retryRes w2 = (r, w2)" "r \<noteq> Inl unauthorized"
      using result_of_end [of retryRes w2] by (elim exE conjE)
    ultimately show ?thesis unfolding ends Some ending_Some by auto
  next
    case None
    obtain p s1 where p: "p \<in> {Refreshing rt, Retrying}" "tab_run (to_phase i (Refreshing rt) (view w)) (to_phase i p s1)"
        "(view w2)\<lparr>ta_store := initialState\<rparr> = s1\<lparr>ta_store := initialState\<rparr>"
      using q(2) unfolding None ends_at_def option.case by (elim exE conjE)
    obtain w3 where w3: "ending D None w2 = (Inl unauthorized, w3)" "tab_step (to_phase i p s1) (to_phase i (Ended False) (view w3))"
      using refused_flight [OF D _ p(3)] p(1) by blast
    then have "tab_run (to_phase i (Sent t) (view w)) (to_phase i (Ended False) (view w3))"
      using refreshing p(2) by (meson rtranclp.rtrancl_into_rtrancl rtranclp_trans)
    then show ?thesis unfolding ends None using w3(1) by auto
  qed
qed

text \<open>
  C29. The client's requests are the flights of this relation. In a browser whose other requests take their steps while this one
  awaits an answer, a request that starts with a refresh token or without one runs along the relation: it starts idle, ends,
  and reaches the tab that the steps reach. It ends without an answer exactly when it throws \<open>Unauthorized\<close>. So what holds of all runs
  of the relation holds of the requests.
\<close>

theorem request_refines_flight:
  assumes D: "in_tab i D view" and path: "path \<noteq> ''/v1/auth/refresh''"
    and token: "case au_refreshToken (ta_store (view w)) of None \<Rightarrow> True | Some t \<Rightarrow> \<exists>rt. t = JStr rt"
    and run: "request D m path body w = (r, w')" and idle: "ta_flights (view w) i = Idle"
  shows "tab_run (view w) (to_phase i (Ended (r \<noteq> Inl unauthorized)) (view w'))"
proof -
  let ?r = "au_refreshToken (ta_store (view w))" and ?h = "headers_of (au_accessToken (ta_store (view w))) body"
  have start: "tab_step (view w) (to_phase i (Sent ?r) (view w))" using idle by (rule start)
  obtain r1 w1 where r1: "send D m path ?h body w = (r1, w1)" "\<And>e. r1 = Inl e \<Longrightarrow> \<exists>m. e = JsError m" "undisturbed i (view w) (view w1)"
    using in_tab_send [OF D path] by blast
  have sent: "tab_run (view w) (to_phase i (Sent ?r) (view w1))"
    using start undisturbed_run [OF r1(3)] by (rule converse_rtranclp_into_rtranclp)
  have answer: "tab_run (view w) (to_phase i (Ended True) (view w1))"
    using sent answered [of "to_phase i (Sent ?r) (view w1)" i ?r] by (simp add: phase_twice rtranclp.rtrancl_into_rtrancl)
  show ?thesis
  proof (cases r1)
    case (Inl e)
    then have "request D m path body w = (Inl e, w1)" using in_tab_state [OF D] r1(1) by (simp add: request_def await_def return_def Let_def)
    moreover have "e \<noteq> unauthorized" using r1(2) Inl by (auto simp: unauthorized_def)
    ultimately show ?thesis using answer run by simp
  next
    case (Inr res)
    have rest: "request D m path body w = request_rest D (\<lambda>w. ta_store (view w)) m path body w res w1"
      using in_tab_state [OF D] r1(1) Inr by (simp add: request_def request_rest_def await_Inr Let_def)
    show ?thesis
    proof (cases "fe_status res = 401")
      case False
      obtain r' where "request D m path body w = (r', w1)" "r' \<noteq> Inl unauthorized"
        using other_answer_end [OF False, of D "\<lambda>w. ta_store (view w)" m path body w w1] unfolding rest by (elim exE conjE)
      then show ?thesis using answer run by simp
    next
      case True
      have "request D m path body w = await (if jtruthy ?r then refresh_retry D m path ?h body (the ?r) else return None) (ending D) w1"
        unfolding rest request_rest_def ending_def [abs_def] using True by simp
      moreover obtain r' w2 where "await (if jtruthy ?r then refresh_retry D m path ?h body (the ?r) else return None) (ending D) w1 = (r', w2)"
          "tab_run (to_phase i (Sent ?r) (view w1)) (to_phase i (Ended (r' \<noteq> Inl unauthorized)) (view w2))"
        using expired_flight [OF D path token, where m = m and h = ?h and body = body and w = w1] by (elim exE conjE)
      ultimately show ?thesis using sent run by (simp add: rtranclp_trans)
    qed
  qed
qed

section \<open>One token, two refreshes\<close>

text \<open>A token that was used and that the service does not have any more: it never has it again.\<close>

definition stale :: "string \<Rightarrow> tab \<Rightarrow> bool" where
  "stale rt s \<longleftrightarrow> rt \<in> ta_used s \<and> ta_server s \<noteq> Some rt"

definition doomed :: "string \<Rightarrow> nat \<Rightarrow> tab \<Rightarrow> bool" where
  "doomed rt k s \<longleftrightarrow> ta_flights s k = Refreshing rt \<and> stale rt s"

definition racing :: "string \<Rightarrow> nat \<Rightarrow> nat \<Rightarrow> tab \<Rightarrow> bool" where
  "racing rt i j s \<longleftrightarrow> rt \<in> ta_used s \<and>
     (let both = ta_flights s i = Refreshing rt \<and> ta_flights s j = Refreshing rt; one = doomed rt i s \<or> doomed rt j s
      in (ta_store s = initialState \<or> both \<or> one) \<and> (both \<or> one \<or> ta_flights s i = Ended False \<or> ta_flights s j = Ended False))"

lemma racing_step:
  assumes "tab_step s s'" and "racing rt i j s" and "i \<noteq> j"
  shows "racing rt i j s'"
  using assms
  by (induction rule: tab_step.induct) (auto simp: racing_def doomed_def stale_def Let_def split: if_splits option.splits)

lemma doomed_step:
  assumes "tab_step s s'" and "doomed rt j s \<or> ta_flights s j = Ended False \<and> ta_store s = initialState"
  shows "doomed rt j s' \<or> ta_flights s' j = Ended False \<and> ta_store s' = initialState"
  using assms by (induction rule: tab_step.induct) (auto simp: doomed_def stale_def split: option.splits)

text \<open>
  C30. Two requests that meet a 401 with the same refresh token cost the session. Whatever else the tab has in flight, and in whatever
  order the answers come: once both have ended, at most one of them has its answer and nobody is
  signed in, although the service granted the refresh to one of them. The same holds for one request alone whose
  token another one has had rotated. Nothing brings the session back but a new login.
\<close>

theorem two_refreshes_lose_the_session:
  assumes run: "tab_step\<^sup>*\<^sup>* s s'" and used: "rt \<in> ta_used s" and j: "ta_flights s j = Refreshing rt" "ta_flights s' j = Ended b"
  shows "(i \<noteq> j \<and> ta_flights s i = Refreshing rt \<and> ta_flights s' i = Ended a \<longrightarrow> ta_store s' = initialState \<and> \<not> (a \<and> b)) \<and>
    (ta_server s \<noteq> Some rt \<longrightarrow> ta_store s' = initialState \<and> \<not> b)"
proof (intro conjI impI; (elim conjE)?)
  {
    assume i: "i \<noteq> j" "ta_flights s i = Refreshing rt" "ta_flights s' i = Ended a"
    have "racing rt i j s" using i(2) j(1) used by (simp add: racing_def)
    with run have "racing rt i j s'" by (induction rule: rtranclp_induct) (auto intro: racing_step [OF _ _ i(1)])
    then show "ta_store s' = initialState" "\<not> (a \<and> b)" using i(3) j(2) by (auto simp: racing_def doomed_def Let_def)
  next
    assume "ta_server s \<noteq> Some rt"
    then have "doomed rt j s \<or> ta_flights s j = Ended False \<and> ta_store s = initialState"
      using j(1) used by (simp add: doomed_def stale_def)
    with run have "doomed rt j s' \<or> ta_flights s' j = Ended False \<and> ta_store s' = initialState"
      by (induction rule: rtranclp_induct) (auto dest: doomed_step)
    then show "ta_store s' = initialState" "\<not> b" using j(2) by (auto simp: doomed_def)
  }
qed

text \<open>Two requests of a page: the refresh of the first is granted, the second one is refused.\<close>

definition two_in_flight :: tab where
  "two_in_flight =
     \<lparr>ta_flights = (\<lambda>i. if i < 2 then Refreshing ''old'' else Idle),
      ta_store = \<lparr>au_user = Some (None, None), au_accessToken = Some (JStr ''expired''), au_refreshToken = Some (JStr ''old''), au_isAuthenticated = True\<rparr>,
      ta_server = Some ''old'', ta_used = {''old''}\<rparr>"

theorem two_refreshes_lose_the_session_witness:
  "\<exists>s'. tab_step\<^sup>*\<^sup>* two_in_flight s' \<and> ta_server s' = Some ''new'' \<and> ta_flights s' 0 = Ended True \<and> ta_flights s' 1 = Ended False \<and> ta_store s' = initialState"
proof -
  define s1 where "s1 = (to_phase 0 (Granted ''access'' ''new'') two_in_flight)\<lparr>ta_server := Some ''new'', ta_used := insert ''new'' (ta_used two_in_flight)\<rparr>"
  define s2 where "s2 = (to_phase 0 Retrying s1)\<lparr>ta_store := (case au_user (ta_store s1) of None \<Rightarrow> ta_store s1
       | Some user \<Rightarrow> authReducer (SetCredentials user (Some (JStr ''access'')) (Some (JStr ''new''))) (ta_store s1))\<rparr>"
  define s3 where "s3 = to_phase 0 (Ended True) s2"
  define s4 where "s4 = signed_out 1 s3"
  have other: "(''new'' :: string) \<noteq> ''old''" by code_simp
  then have "tab_step two_in_flight s1" unfolding s1_def by (intro granted [where rt = "''old''"]) (simp_all add: two_in_flight_def)
  moreover have "tab_step s1 s2" unfolding s2_def by (rule stored) (simp add: s1_def)
  moreover have "tab_step s2 s3" unfolding s3_def by (rule retried) (simp add: s2_def)
  moreover have "tab_step s3 s4" unfolding s4_def by (rule refused [where rt = "''old''"]) (use other in \<open>simp_all add: s3_def s2_def s1_def two_in_flight_def\<close>)
  ultimately have run: "tab_step\<^sup>*\<^sup>* two_in_flight s4" by (meson rtranclp.rtrancl_into_rtrancl rtranclp.rtrancl_refl)
  have "ta_flights s4 0 = Ended True" "ta_flights s4 1 = Ended False" "ta_server s4 = Some ''new''"
    by (simp_all add: s4_def s3_def s2_def s1_def)
  moreover have "ta_flights two_in_flight 0 = Refreshing ''old''" "ta_flights two_in_flight 1 = Refreshing ''old''" "''old'' \<in> ta_used two_in_flight"
    by (simp_all add: two_in_flight_def)
  ultimately have "ta_store s4 = initialState"
    using two_refreshes_lose_the_session [OF run, of "''old''" 1 False 0 True] by simp
  with run \<open>ta_flights s4 0 = Ended True\<close> \<open>ta_flights s4 1 = Ended False\<close> \<open>ta_server s4 = Some ''new''\<close> show ?thesis by blast
qed

text \<open>
  A browser whose world is the tab: the service accepts the access token \<open>access\<close>, and grants the refresh for the token
  it has.
\<close>

definition access_header :: "fetch_request \<Rightarrow> bool" where
  "access_header q \<longleftrightarrow> map_of (fq_headers q) ''Authorization'' = Some (bearer_of (Some (JStr ''access'')))"

definition next_token :: "string \<Rightarrow> string" where
  "next_token rt = CHR ''x'' # rt"

definition lone_answer :: "fetch_request \<Rightarrow> fetched" where
  "lone_answer q = (if access_header q then \<lparr>fe_status = 200, fe_json = Some (JStr ''data'')\<rparr> else \<lparr>fe_status = 401, fe_json = None\<rparr>)"

definition lone_pair :: "string \<Rightarrow> json" where
  "lone_pair rt = pair_json \<lparr>accessToken = ''access'', refreshToken = next_token rt, expiresIn = 900\<rparr>"

definition lone_url :: string where
  "lone_url = ''http://localhost:8080/v1/auth/refresh''"

definition lone_refresh :: "string \<Rightarrow> fetch_request" where
  "lone_refresh rt = \<lparr>fq_method = ''POST'', fq_url = lone_url, fq_headers = [(''Content-Type'', ''application/json'')],
     fq_body = Text (show_json (JObj [(''refreshToken'', JStr rt)]))\<rparr>"

definition lone_fetch :: "fetch_request \<Rightarrow> (tab, fetched) io" where
  "lone_fetch q s =
     (case ta_server s of
        None \<Rightarrow> (Inr (lone_answer q), s)
      | Some rt \<Rightarrow>
          if q = lone_refresh rt \<and> next_token rt \<notin> ta_used s
          then (Inr \<lparr>fe_status = 200, fe_json = Some (lone_pair rt)\<rparr>, rotated (next_token rt) s)
          else (Inr (lone_answer q), s))"

definition lone_browser :: "tab browser" where
  "lone_browser =
     \<lparr>br_window = True, br_apiUrl = None, br_state = (\<lambda>s. (Inr (ta_store s), s)),
      br_dispatch = (\<lambda>a s. (Inr (), s\<lparr>ta_store := authReducer a (ta_store s)\<rparr>)), br_fetch = lone_fetch, br_redirect = (\<lambda>p. return ())\<rparr>"

lemma lone_refresh_request: "refresh_request lone_browser (JStr rt) = lone_refresh rt"
  by (simp add: refresh_request_def lone_refresh_def lone_url_def api_url_def lone_browser_def)

lemma lone_refresh_inj: "lone_refresh rt = lone_refresh rt' \<Longrightarrow> rt = rt'"
proof -
  assume "lone_refresh rt = lone_refresh rt'"
  then have "json_parse (show_json (JObj [(''refreshToken'', JStr rt)])) = json_parse (show_json (JObj [(''refreshToken'', JStr rt')]))"
    by (simp add: lone_refresh_def)
  then show ?thesis unfolding json_parse_show by simp
qed

lemma undisturbed_refl: "undisturbed i s s"
  by (simp add: undisturbed_def)

lemma lone_refused: "failure (Inr (lone_answer (lone_refresh rt)))"
  by (simp add: failure_def lone_answer_def access_header_def lone_refresh_def fe_ok_def)

lemma lone_in_tab: "in_tab i lone_browser (\<lambda>s. s)"
proof -
  have other: "\<exists>r w'. br_fetch lone_browser q w = (r, w') \<and> (\<forall>e. r = Inl e \<longrightarrow> (\<exists>m. e = JsError m)) \<and> undisturbed i w w'"
    if "\<forall>rt. q \<noteq> refresh_request lone_browser rt" for q w
  proof -
    have "q \<noteq> lone_refresh rt" for rt using that lone_refresh_request by metis
    then have "lone_fetch q w = (Inr (lone_answer q), w)" by (simp add: lone_fetch_def split: option.split)
    then show ?thesis by (simp add: lone_browser_def undisturbed_refl)
  qed
  have refresh: "\<exists>r w' s1 s2. lone_fetch (lone_refresh rt) w = (r, w') \<and> undisturbed i w s1 \<and> undisturbed i s2 w' \<and>
        (failure r \<and> s2 = s1 \<or>
         (\<exists>access new. ta_server s1 = Some rt \<and> new \<notin> ta_used s1 \<and> s2 = rotated new s1 \<and> (failure r \<or> grants access new r)))" for rt w
  proof (cases "ta_server w = Some rt \<and> next_token rt \<notin> ta_used w")
    case True
    let ?r = "Inr \<lparr>fe_status = 200, fe_json = Some (lone_pair rt)\<rparr> :: exn + fetched"
    have "lone_fetch (lone_refresh rt) w = (?r, rotated (next_token rt) w)" using True by (simp add: lone_fetch_def)
    moreover have "grants ''access'' (next_token rt) ?r" by (simp add: grants_def fe_ok_def lone_pair_def pair_json_def)
    ultimately show ?thesis using True undisturbed_refl by blast
  next
    case False
    then have "lone_fetch (lone_refresh rt) w = (Inr (lone_answer (lone_refresh rt)), w)"
      using lone_refresh_inj by (auto simp: lone_fetch_def split: option.split)
    then show ?thesis using lone_refused undisturbed_refl by blast
  qed
  show ?thesis
    unfolding in_tab_def
    using other refresh by (simp add: lone_refresh_request) (simp add: lone_browser_def return_def)
qed

definition lone_start :: tab where
  "lone_start = two_in_flight\<lparr>ta_flights := \<lambda>i. Idle\<rparr>"

lemma next_token_new: "next_token ''old'' \<noteq> ''old''" and other_text: "(''access'' :: string) \<noteq> ''expired''"
  by code_simp+

lemma lone_run: "\<exists>w'. request lone_browser ''GET'' ''/x'' (Json None) lone_start = (Inr (Some (JStr ''data'')), w') \<and> ta_server w' = Some (next_token ''old'')"
proof -
  let ?h = "headers_of (Some (JStr ''expired'')) (Json None)" and ?s = "rotated (next_token ''old'') lone_start"
  have nots: "\<lparr>fq_method = ''GET'', fq_url = u, fq_headers = h, fq_body = b\<rparr> \<noteq> lone_refresh rt" for u h b rt
    by (simp add: lone_refresh_def)
  have send: "send lone_browser ''GET'' ''/x'' h (Json None) s = (Inr (lone_answer \<lparr>fq_method = ''GET'', fq_url = api_url lone_browser ''/x'', fq_headers = h, fq_body = No_body\<rparr>), s)" for h s
    using nots by (simp add: send_def lone_browser_def lone_fetch_def split: option.split)
  have first: "lone_answer \<lparr>fq_method = m, fq_url = u, fq_headers = ?h, fq_body = b\<rparr> = \<lparr>fe_status = 401, fe_json = None\<rparr>" for m u b
    using other_text by (simp add: lone_answer_def access_header_def headers_of_def bearer_of_def js_text_of_def)
  have second: "lone_answer \<lparr>fq_method = m, fq_url = u, fq_headers = with_token (Some (JStr ''access'')) ?h, fq_body = b\<rparr> =
      \<lparr>fe_status = 200, fe_json = Some (JStr ''data'')\<rparr>" for m u b
    by (simp add: lone_answer_def access_header_def with_token_def update_conv')
  have granted: "lone_fetch (lone_refresh ''old'') lone_start =
      (Inr \<lparr>fe_status = 200, fe_json = Some (lone_pair ''old'')\<rparr>, ?s)"
    using next_token_new by (simp add: lone_fetch_def lone_start_def two_in_flight_def)
  let ?w = "?s\<lparr>ta_store := authReducer (SetCredentials (None, None) (Some (JStr ''access'')) (Some (JStr (next_token ''old'')))) (ta_store ?s)\<rparr>"
  have state: "br_state lone_browser s = (Inr (ta_store s), s)" "br_dispatch lone_browser a s = (Inr (), s\<lparr>ta_store := authReducer a (ta_store s)\<rparr>)"
      "br_fetch lone_browser = lone_fetch" "br_window lone_browser" for s a
    by (simp_all add: lone_browser_def)
  have user: "au_user (ta_store ?s) = Some (None, None)" by (simp add: rotated_def lone_start_def two_in_flight_def)
  have retry: "store_and_retry lone_browser ''GET'' ''/x'' ?h (Json None) ''access'' (next_token ''old'') ?s =
      (Inr (Some \<lparr>fe_status = 200, fe_json = Some (JStr ''data'')\<rparr>), ?w)"
    unfolding store_and_retry_def
    by (simp add: await_Inr [OF state(1)] user await_Inr [OF state(2)] await_Inr [OF send] second fe_ok_def return_def del: authReducer.simps)
  let ?r = "Inr \<lparr>fe_status = 200, fe_json = Some (lone_pair ''old'')\<rparr> :: exn + fetched"
  have fetched: "br_fetch lone_browser (refresh_request lone_browser (JStr ''old'')) lone_start = (?r, ?s)"
    unfolding state(3) lone_refresh_request by (rule granted)
  have grant: "grants ''access'' (next_token ''old'') ?r" by (simp add: grants_def fe_ok_def lone_pair_def pair_json_def)
  have refreshed: "refresh_retry lone_browser ''GET'' ''/x'' ?h (Json None) (JStr ''old'') lone_start =
      (Inr (Some \<lparr>fe_status = 200, fe_json = Some (JStr ''data'')\<rparr>), ?w)"
    unfolding granted_continues [OF grant fetched] try_catch_def retry by simp
  have tokens: "au_accessToken (ta_store lone_start) = Some (JStr ''expired'')" "au_refreshToken (ta_store lone_start) = Some (JStr ''old'')"
    by (simp_all add: lone_start_def two_in_flight_def)
  have "request lone_browser ''GET'' ''/x'' (Json None) lone_start = (Inr (Some (JStr ''data'')), ?w)"
    unfolding request_def
    by (simp add: state(4) await_Inr [OF state(1)] tokens Let_def await_Inr [OF send] first await_Inr refreshed result_of_def read_json_def return_def
         del: authReducer.simps)
  then show ?thesis by (simp add: rotated_def)
qed

theorem request_refines_flight_witness:
  "\<exists>w'. request lone_browser ''GET'' ''/x'' (Json None) lone_start = (Inr (Some (JStr ''data'')), w') \<and> ta_server w' = Some (next_token ''old'') \<and>
    tab_run lone_start (to_phase 0 (Ended True) w')"
proof -
  obtain w' where w': "request lone_browser ''GET'' ''/x'' (Json None) lone_start = (Inr (Some (JStr ''data'')), w')" "ta_server w' = Some (next_token ''old'')"
    using lone_run by blast
  have path: "''/x'' \<noteq> ''/v1/auth/refresh''" by code_simp
  show ?thesis
    using request_refines_flight [OF lone_in_tab [of 0] path _ w'(1)] w' by (simp add: lone_start_def two_in_flight_def)
qed

end
