(* ===== verification/Dashboard_Overview.thy ===== *)
theory Dashboard_Overview
  imports Dashboard_Pages Analytics_Reports
begin

text \<open>
  The overview and the analytics page of the dashboard (\<open>app/dashboard/page.tsx\<close>, \<open>analytics/page.tsx\<close>) over the
  reports of the analytics service: what the service sends as JSON, how the overview loads it, and the texts both pages
  show. A report that reaches a page has no type there (\<open>any\<close>), so the pages read fields of a JSON value by name. Printing for a
  locale (\<open>toLocaleString\<close>) and \<open>formatBytes\<close> are parameters; SWR, which loads and keeps the data of the
  analytics page, is one too: a page gets any data the requests may have answered, or none.
\<close>

section \<open>Reports as JSON\<close>

text \<open>JSON whose numbers are doubles.\<close>

datatype wire = Wnull | Wbool bool | Wnum rat | Wstr string | Warr "wire list" | Wobj "(string \<times> wire) list"

fun wire_of :: "json \<Rightarrow> wire" where
  "wire_of JNull = Wnull"
| "wire_of (JBool b) = Wbool b"
| "wire_of (JNum n) = Wnum (of_int n)"
| "wire_of (JStr s) = Wstr s"
| "wire_of (JArr xs) = Warr (map wire_of xs)"
| "wire_of (JObj kvs) = Wobj (map (map_prod (\<lambda>k. k) wire_of) kvs)"

text \<open>What \<open>JSON.stringify\<close> writes: \<open>NaN\<close> and an invalid date are \<open>null\<close>, a date is its text, and a field that is undefined is left out.\<close>

fun dwire :: "numfmt \<Rightarrow> dval option \<Rightarrow> wire option" where
  "dwire F None = None"
| "dwire F (Some (Plain j)) = Some (wire_of j)"
| "dwire F (Some (Real x)) = Some (Wnum x)"
| "dwire F (Some (Time NaN)) = Some Wnull"
| "dwire F (Some (Time (Num t))) = Some (Wstr (iso_string F t))"

fun qwire :: "rat js \<Rightarrow> wire option" where
  "qwire NaN = Some Wnull"
| "qwire (Num x) = Some (Wnum x)"

definition iwire :: "int js \<Rightarrow> wire option" where
  "iwire x = qwire (js_map of_int x)"

definition wobject :: "(string \<times> wire option) list \<Rightarrow> wire" where
  "wobject kvs = Wobj (map (\<lambda>(k, v). (k, the v)) (filter (\<lambda>(k, v). v \<noteq> None) kvs))"

definition summary_wire :: "numfmt \<Rightarrow> summary_stats \<Rightarrow> wire" where
  "summary_wire F s =
     wobject [(''totalRequests'', iwire (su_totalRequests s)), (''cacheHitRatio'', qwire (su_cacheHitRatio s)),
       (''avgLatency'', qwire (su_avgLatency s)), (''p95Latency'', qwire (su_p95Latency s)),
       (''totalBandwidthBytes'', iwire (su_totalBandwidthBytes s)), (''errorRate'', qwire (su_errorRate s)),
       (''activeUsers'', iwire (su_activeUsers s)), (''windowMinutes'', iwire (Num (su_windowMinutes s))),
       (''generatedAt'', dwire F (Some (Time (Num (su_generatedAt s)))))]"

definition point_wire :: "numfmt \<Rightarrow> point \<Rightarrow> wire" where
  "point_wire F p = wobject [(''t'', dwire F (pt_t p)), (''value'', iwire (pt_value p))]"

definition edge_wire :: "numfmt \<Rightarrow> edge_stat \<Rightarrow> wire" where
  "edge_wire F e =
     wobject [(''region'', dwire F (es_region e)), (''requests'', iwire (es_requests e)), (''cacheHitRatio'', qwire (es_cacheHitRatio e)),
       (''avgLatencyMs'', qwire (es_avgLatencyMs e)), (''lastSeen'', dwire F (es_lastSeen e))]"

definition cache_wire :: "cache_ratio \<Rightarrow> wire" where
  "cache_wire c =
     wobject [(''hitRatio'', qwire (ch_hitRatio c)), (''hits'', iwire (ch_hits c)), (''misses'', iwire (ch_misses c)),
       (''cachedBytes'', iwire (ch_cachedBytes c))]"

definition latency_wire :: "percentiles \<Rightarrow> wire" where
  "latency_wire c = wobject [(''p50'', qwire (pc_p50 c)), (''p95'', qwire (pc_p95 c)), (''p99'', qwire (pc_p99 c))]"

definition errors_wire :: "error_rate \<Rightarrow> wire" where
  "errors_wire e = wobject [(''errorRate'', qwire (er_errorRate e)), (''total'', iwire (er_total e)), (''errors'', iwire (er_errors e))]"

definition path_wire :: "numfmt \<Rightarrow> dval option \<times> int js \<times> rat js \<Rightarrow> wire" where
  "path_wire F r = (case r of (path, n, avg) \<Rightarrow> wobject [(''path'', dwire F path), (''count'', iwire n), (''avgLatency'', qwire avg)])"

definition geo_wire :: "numfmt \<Rightarrow> dval option \<times> int js \<times> rat js \<Rightarrow> wire" where
  "geo_wire F r = (case r of (country, n, pct) \<Rightarrow> wobject [(''country'', dwire F country), (''count'', iwire n), (''pct'', qwire pct)])"

definition event_wire :: "numfmt \<Rightarrow> event_entity \<Rightarrow> wire" where
  "event_wire F e =
     wobject [(''time'', dwire F (ee_time e)), (''service'', dwire F (ee_service e)), (''method'', dwire F (ee_method e)),
       (''path'', dwire F (ee_path e)), (''status'', dwire F (ee_status e)), (''latencyMs'', dwire F (ee_latencyMs e)),
       (''userId'', dwire F (ee_userId e)), (''ip'', dwire F (ee_ip e)), (''country'', dwire F (ee_country e)),
       (''cacheHit'', dwire F (ee_cacheHit e)), (''bytes'', dwire F (ee_bytes e)), (''edgeRegion'', dwire F (ee_edgeRegion e)),
       (''requestId'', dwire F (ee_requestId e))]"

definition wlist :: "('a \<Rightarrow> wire) \<Rightarrow> 'a list \<Rightarrow> wire" where
  "wlist enc xs = Warr (map enc xs)"

text \<open>
  \<open>api.get(url)\<close> for the reports the two pages ask for: the route of the path, with the text of the one parameter
  the pages send with it.
\<close>

definition url_path :: "string \<Rightarrow> string" where
  "url_path url = takeWhile (\<lambda>c. c \<noteq> CHR ''?'') url"

definition url_param :: "string \<Rightarrow> string option" where
  "url_param url =
     (case dropWhile (\<lambda>c. c \<noteq> CHR ''?'') url of [] \<Rightarrow> None | _ # q \<Rightarrow> Some (tl (dropWhile (\<lambda>c. c \<noteq> CHR ''='') q)))"

definition sends :: "('a \<Rightarrow> wire) \<Rightarrow> ('w, 'a) io \<Rightarrow> ('w, wire) io" where
  "sends enc m = await m (\<lambda>a. return (enc a))"

definition report_routes :: "'w analytics_deps \<Rightarrow> string option \<Rightarrow> (string \<times> ('w, wire) io) list" where
  "report_routes D v =
     (let F = an_fmt D
      in [(''/v1/analytics/summary'', sends (summary_wire F) (summary_route D v)),
          (''/v1/analytics/events/recent'', sends (wlist (event_wire F)) (recentEvents_route D v)),
          (''/v1/analytics/requests/rate'', sends (wlist (point_wire F)) (rate_route D v)),
          (''/v1/analytics/cache/ratio/timeseries'', sends (wlist (point_wire F)) (cacheSeries_route D v)),
          (''/v1/analytics/edges'', sends (wlist (edge_wire F)) (edges_route D v)),
          (''/v1/analytics/latency/percentiles'', sends latency_wire (latency_route D v)),
          (''/v1/analytics/cache/ratio'', sends cache_wire (cacheRatio_route D v)),
          (''/v1/analytics/geo'', sends (wlist (geo_wire F)) (geo_route D v)),
          (''/v1/analytics/requests/top-paths'', sends (wlist (path_wire F)) (topPaths_route D v None)),
          (''/v1/analytics/errors'', sends errors_wire (errors_route D v))])"

definition analytics_get :: "'w analytics_deps \<Rightarrow> string \<Rightarrow> ('w, wire) io" where
  "analytics_get D url =
     (case map_of (report_routes D (url_param url)) (url_path url) of None \<Rightarrow> throw (Http 404 ''Not Found'') | Some m \<Rightarrow> m)"

section \<open>Values as the pages read them\<close>

fun wget :: "string \<Rightarrow> wire \<Rightarrow> wire option" where
  "wget f (Wobj kvs) = map_of (rev kvs) f"
| "wget f _ = None"

text \<open>\<open>v.f\<close>, which throws for \<open>null\<close>.\<close>

definition member_of :: "string \<Rightarrow> wire \<Rightarrow> ('w, wire option) io" where
  "member_of f v = (if v = Wnull then throw (JsError ''Cannot read properties of null'') else return (wget f v))"

fun wtruthy :: "wire option \<Rightarrow> bool" where
  "wtruthy None = False"
| "wtruthy (Some Wnull) = False"
| "wtruthy (Some (Wbool b)) = b"
| "wtruthy (Some (Wnum x)) = (x \<noteq> 0)"
| "wtruthy (Some (Wstr s)) = (s \<noteq> [])"
| "wtruthy (Some (Warr xs)) = True"
| "wtruthy (Some (Wobj kvs)) = True"

definition wor :: "wire option \<Rightarrow> wire \<Rightarrow> wire" where
  "wor v d = (if wtruthy v then the v else d)"

fun wire_text :: "numfmt \<Rightarrow> wire \<Rightarrow> string" and wire_join :: "numfmt \<Rightarrow> wire list \<Rightarrow> string" where
  "wire_text F Wnull = ''null''"
| "wire_text F (Wbool b) = (if b then ''true'' else ''false'')"
| "wire_text F (Wnum x) = num_to_string F (Num x)"
| "wire_text F (Wstr s) = s"
| "wire_text F (Warr xs) = wire_join F xs"
| "wire_text F (Wobj kvs) = ''[object Object]''"
| "wire_join F [] = []"
| "wire_join F [x] = (if x = Wnull then [] else wire_text F x)"
| "wire_join F (x # y # ys) = (if x = Wnull then [] else wire_text F x) @ CHR '','' # wire_join F (y # ys)"

definition text_of_wire :: "numfmt \<Rightarrow> wire option \<Rightarrow> string" where
  "text_of_wire F v = (case v of None \<Rightarrow> ''undefined'' | Some x \<Rightarrow> wire_text F x)"

fun to_number :: "numfmt \<Rightarrow> wire option \<Rightarrow> rat js" where
  "to_number F None = NaN"
| "to_number F (Some Wnull) = Num 0"
| "to_number F (Some (Wbool b)) = Num (if b then 1 else 0)"
| "to_number F (Some (Wnum x)) = Num x"
| "to_number F (Some (Wstr s)) = number_of_string F s"
| "to_number F (Some (Warr xs)) = number_of_string F (wire_join F xs)"
| "to_number F (Some (Wobj kvs)) = NaN"

text \<open>\<open>v.toLocaleString()\<close>: a method call, which throws when there is no value.\<close>

definition locale_text :: "(wire \<Rightarrow> string) \<Rightarrow> wire option \<Rightarrow> ('w, string) io" where
  "locale_text L v =
     (case v of None \<Rightarrow> throw (JsError ''Cannot read properties of undefined'')
      | Some x \<Rightarrow> if x = Wnull then throw (JsError ''Cannot read properties of null'') else return (L x))"

text \<open>
  \<open>x.toFixed(d)\<close> for numbers below \<open>10 ^ 21\<close>: the multiple of \<open>10 ^ - d\<close> that is nearest, the larger one of two.
\<close>

definition fixed_digits :: "nat \<Rightarrow> nat \<Rightarrow> string" where
  "fixed_digits d n =
     (let s = show_nat n; padded = replicate (Suc d - length s) (CHR ''0'') @ s; k = length padded - d
      in if d = 0 then s else take k padded @ CHR ''.'' # drop k padded)"

definition fixed_nat :: "nat \<Rightarrow> rat \<Rightarrow> nat" where
  "fixed_nat d x = nat \<lfloor>\<bar>x\<bar> * 10 ^ d + 1 / 2\<rfloor>"

definition to_fixed :: "nat \<Rightarrow> rat \<Rightarrow> string" where
  "to_fixed d x = (if x < 0 then ''-'' else '''') @ fixed_digits d (fixed_nat d x)"

fun js_to_fixed :: "nat \<Rightarrow> rat js \<Rightarrow> string" where
  "js_to_fixed d NaN = ''NaN''"
| "js_to_fixed d (Num x) = to_fixed d x"

definition percent_text :: "nat \<Rightarrow> rat js \<Rightarrow> string" where
  "percent_text d x = js_to_fixed d (js_map (\<lambda>r. fmul r 100) x) @ ''%''"

definition rounded_text :: "rat js \<Rightarrow> string" where
  "rounded_text x = (case js_map math_round x of NaN \<Rightarrow> ''NaN'' | Num n \<Rightarrow> show_int n)"

section \<open>The overview\<close>

text \<open>The two kinds of report it asks for: one object (\<open>api.get<any>\<close>), and a list (\<open>api.get<any[]>\<close>).\<close>

record 'w report_client =
  rc_get :: "string \<Rightarrow> ('w, wire) io"
  rc_list :: "string \<Rightarrow> ('w, wire list) io"

record overview =
  ov_loading :: bool
  ov_summary :: wire
  ov_recentEvents :: "wire list"
  ov_rateData :: "wire list"
  ov_cacheRatioSeries :: "wire list"
  ov_edges :: "wire list"

definition overview_init :: overview where
  "overview_init = \<lparr>ov_loading = True, ov_summary = Wnull, ov_recentEvents = [], ov_rateData = [], ov_cacheRatioSeries = [], ov_edges = []\<rparr>"

text \<open>
  \<open>Promise.all\<close>: all five requests go out; the first that fails rejects the whole, and the others
  run to their end without being looked at.
\<close>

definition attempt :: "('w, 'a) io \<Rightarrow> ('w \<times> 'p, exn + 'a) io" where
  "attempt m = (\<lambda>(w, p). case m w of (r, w') \<Rightarrow> (Inr r, (w', p)))"

definition fetchData :: "'w report_client \<Rightarrow> ('w \<times> overview, unit) io" where
  "fetchData api =
     await (attempt (rc_get api ''/v1/analytics/summary'')) (\<lambda>sumData.
     await (attempt (rc_list api ''/v1/analytics/events/recent?limit=10'')) (\<lambda>events.
     await (attempt (rc_list api ''/v1/analytics/requests/rate?window=60'')) (\<lambda>rate.
     await (attempt (rc_list api ''/v1/analytics/cache/ratio/timeseries?window=60'')) (\<lambda>cacheSeries.
     await (attempt (rc_list api ''/v1/analytics/edges?window=60'')) (\<lambda>edgeStats.
     await (case (sumData, events, rate, cacheSeries, edgeStats) of
              (Inr s, Inr e, Inr r, Inr c, Inr g) \<Rightarrow>
                mod_ctx (\<lambda>p. p\<lparr>ov_summary := s, ov_recentEvents := e, ov_rateData := r, ov_cacheRatioSeries := c, ov_edges := g\<rparr>)
            | _ \<Rightarrow> return ()) (\<lambda>_.
     mod_ctx (\<lambda>p. p\<lparr>ov_loading := False\<rparr>)))))))"

definition spinner :: "overview \<Rightarrow> bool" where
  "spinner p \<longleftrightarrow> ov_loading p \<and> \<not> wtruthy (Some (ov_summary p))"

definition overview_stats :: "overview \<Rightarrow> wire" where
  "overview_stats p =
     wor (Some (ov_summary p))
       (Wobj [(''totalRequests'', Wnum 0), (''cacheHitRatio'', Wnum 0), (''totalBandwidthBytes'', Wnum 0), (''errorRate'', Wnum 0)])"

definition hitRatio :: "numfmt \<Rightarrow> overview \<Rightarrow> string" where
  "hitRatio F p = percent_text 1 (to_number F (wget ''cacheHitRatio'' (overview_stats p)))"

definition errorRatio :: "numfmt \<Rightarrow> overview \<Rightarrow> string" where
  "errorRatio F p = percent_text 2 (to_number F (wget ''errorRate'' (overview_stats p)))"

text \<open>\<open>+x.toFixed(1)\<close>\<close>

definition tenth :: "rat \<Rightarrow> rat" where
  "tenth x = (if x < 0 then - fdiv (of_nat (fixed_nat 1 x)) 10 else fdiv (of_nat (fixed_nat 1 x)) 10)"

definition liveRPS :: "numfmt \<Rightarrow> overview \<Rightarrow> ('w, rat js) io" where
  "liveRPS F p =
     (if ov_rateData p = [] then return (Num 0)
      else await (member_of ''value'' (last (ov_rateData p))) (\<lambda>v. return (js_map (\<lambda>x. tenth (fdiv x 60)) (to_number F v))))"

text \<open>
  The cards with the numbers of the summary; a \<open>Map\<close> for the chart keeps the last entry of a key. A point of the chart is its time,
  the requests and the cache hits.
\<close>

definition stat_cards :: "numfmt \<Rightarrow> (wire \<Rightarrow> string) \<Rightarrow> (wire option \<Rightarrow> string) \<Rightarrow> overview \<Rightarrow> ('w, (string \<times> string) list) io" where
  "stat_cards F L formatBytes p =
     await (locale_text L (wget ''totalRequests'' (overview_stats p))) (\<lambda>requests.
     return [(''Total Requests'', requests), (''Cache Hit Ratio'', hitRatio F p),
             (''Bandwidth Served'', formatBytes (wget ''totalBandwidthBytes'' (overview_stats p))), (''Error Rate'', errorRatio F p)])"

definition chartData :: "numfmt \<Rightarrow> overview \<Rightarrow> (wire option \<times> wire option \<times> wire) list" where
  "chartData F p =
     (let cacheRatioByBucket = map_of (rev (map (\<lambda>c. (text_of_wire F (wget ''t'' c), wget ''value'' c)) (ov_cacheRatioSeries p)));
          hits_at = (\<lambda>t. case cacheRatioByBucket t of Some (Some v) \<Rightarrow> if v = Wnull then Wnum 0 else v | _ \<Rightarrow> Wnum 0)
      in map (\<lambda>d. (wget ''t'' d, wget ''value'' d, hits_at (text_of_wire F (wget ''t'' d)))) (ov_rateData p))"

text \<open>\<open>new Date(v).getTime()\<close>; lists and objects, which the reports do not send there, are read as no date.\<close>

fun date_time :: "numfmt \<Rightarrow> wire option \<Rightarrow> int js" where
  "date_time F (Some Wnull) = Num 0"
| "date_time F (Some (Wbool b)) = Num (if b then 1 else 0)"
| "date_time F (Some (Wnum x)) = Num (if x < 0 then \<lceil>x\<rceil> else \<lfloor>x\<rfloor>)"
| "date_time F (Some (Wstr s)) = date_parse F s"
| "date_time F v = NaN"

record edge_props =
  ep_name :: string
  ep_region :: "wire option"
  ep_status :: string
  ep_cacheHit :: string
  ep_requests :: string
  ep_latency :: string

definition edge_card :: "numfmt \<Rightarrow> (wire \<Rightarrow> string) \<Rightarrow> int \<Rightarrow> wire \<Rightarrow> ('w, edge_props) io" where
  "edge_card F L now edge =
     await (member_of ''lastSeen'' edge) (\<lambda>lastSeen.
     (let isOnline = (case date_time F lastSeen of NaN \<Rightarrow> False | Num t \<Rightarrow> now - t < 5 * 60 * 1000) in
      await (locale_text L (wget ''requests'' edge)) (\<lambda>requests.
      return \<lparr>ep_name = ''Edge '' @ text_of_wire F (wget ''region'' edge), ep_region = wget ''region'' edge,
              ep_status = (if isOnline then ''online'' else ''offline''),
              ep_cacheHit = rounded_text (js_map (\<lambda>r. fmul r 100) (to_number F (wget ''cacheHitRatio'' edge))) @ ''%'',
              ep_requests = requests, ep_latency = rounded_text (to_number F (wget ''avgLatencyMs'' edge)) @ ''ms''\<rparr>)))"

section \<open>The analytics page\<close>

definition BASE :: string where
  "BASE = ''/v1/analytics''"

definition TIME_RANGES :: "(string \<times> string) list" where
  "TIME_RANGES = [(''1h'', ''60''), (''6h'', ''360''), (''24h'', ''1440''), (''7d'', ''10080'')]"

text \<open>The keys of the seven hooks, which are the URLs they load.\<close>

definition summary_key :: "string \<Rightarrow> string" where
  "summary_key windowTime = BASE @ ''/summary?window='' @ windowTime"

definition rate_key :: "string \<Rightarrow> string" where
  "rate_key windowTime = BASE @ ''/requests/rate?window='' @ windowTime"

definition latency_key :: "string \<Rightarrow> string" where
  "latency_key windowTime = BASE @ ''/latency/percentiles?window='' @ windowTime"

definition cache_key_of :: "string \<Rightarrow> string" where
  "cache_key_of windowTime = BASE @ ''/cache/ratio?window='' @ windowTime"

definition geo_key :: "string \<Rightarrow> string" where
  "geo_key windowTime = BASE @ ''/geo?window='' @ windowTime"

definition paths_key :: "string \<Rightarrow> string" where
  "paths_key windowTime = BASE @ ''/requests/top-paths?window='' @ windowTime"

definition errors_key :: "string \<Rightarrow> string" where
  "errors_key windowTime = BASE @ ''/errors?window='' @ windowTime"

text \<open>The data of the hooks; \<open>None\<close> until a request has answered.\<close>

record analytics_data =
  ad_summary :: "wire option"
  ad_summaryError :: bool
  ad_rate :: "wire option"
  ad_latency :: "wire option"
  ad_cache :: "wire option"
  ad_geo :: "wire option"
  ad_paths :: "wire option"
  ad_errors :: "wire option"

definition rows_of :: "wire option \<Rightarrow> wire list" where
  "rows_of v = (case v of Some (Warr xs) \<Rightarrow> xs | _ \<Rightarrow> [])"

definition latencySeries :: "numfmt \<Rightarrow> int \<Rightarrow> analytics_data \<Rightarrow> wire list" where
  "latencySeries F now d =
     (if wtruthy (ad_latency d)
      then [Wobj ((''t'', Wstr (iso_string F now)) # (case ad_latency d of Some (Wobj kvs) \<Rightarrow> kvs | _ \<Rightarrow> []))] else [])"

definition PIE_DATA :: "analytics_data \<Rightarrow> (string \<times> wire) list" where
  "PIE_DATA d =
     (let cacheRatio = wor (ad_cache d) (Wobj [(''hits'', Wnum 0), (''misses'', Wnum 0), (''hitRatio'', Wnum 0)])
      in [(''Cache Hit'', wor (wget ''hits'' cacheRatio) (Wnum 0)), (''Cache Miss'', wor (wget ''misses'' cacheRatio) (Wnum 0))])"

definition kpis :: "numfmt \<Rightarrow> (wire \<Rightarrow> string) \<Rightarrow> analytics_data \<Rightarrow> ('w, (string \<times> string) list) io" where
  "kpis F L d =
     (let summary = wor (ad_summary d) (Wobj [(''totalRequests'', Wnum 0), (''cacheHitRatio'', Wnum 0), (''p95Latency'', Wnum 0),
                      (''totalBandwidthBytes'', Wnum 0), (''errorRate'', Wnum 0)]);
          field = (\<lambda>f. to_number F (wget f summary))
      in await (locale_text L (wget ''totalRequests'' summary)) (\<lambda>requests.
         return [(''Total Requests'', requests), (''Cache Hit Rate'', percent_text 1 (field ''cacheHitRatio'')),
           (''P95 Latency'', rounded_text (field ''p95Latency'') @ ''ms''),
           (''Bandwidth'', js_to_fixed 2 (js_map (\<lambda>b. fdiv b (1024 * 1024)) (field ''totalBandwidthBytes'')) @ '' MB''),
           (''Error Rate'', percent_text 2 (field ''errorRate''))]))"

definition kpi_text :: "analytics_data \<Rightarrow> string \<Rightarrow> string" where
  "kpi_text d v = (if \<not> wtruthy (ad_summary d) \<and> \<not> ad_summaryError d then ''...'' else v)"

definition pie_row :: "(wire \<Rightarrow> string) \<Rightarrow> string \<times> wire \<Rightarrow> ('w, string \<times> string) io" where
  "pie_row L e = await (locale_text L (Some (snd e))) (\<lambda>v. return (fst e, v))"

text \<open>A row of each list; a row that is \<open>null\<close> throws.\<close>

definition geo_row :: "numfmt \<Rightarrow> (wire \<Rightarrow> string) \<Rightarrow> wire \<Rightarrow> ('w, wire \<times> string) io" where
  "geo_row F L geo =
     await (member_of ''country'' geo) (\<lambda>country.
     await (locale_text L (wget ''requests'' geo)) (\<lambda>requests.
     return (wor country (Wstr ''Unknown''), requests @ '' ('' @ text_of_wire F (wget ''pct'' geo) @ ''%)'')))"

definition path_row :: "numfmt \<Rightarrow> (wire \<Rightarrow> string) \<Rightarrow> wire \<Rightarrow> ('w, wire option \<times> string \<times> string) io" where
  "path_row F L p =
     await (member_of ''path'' p) (\<lambda>path.
     await (locale_text L (wget ''count'' p)) (\<lambda>n.
     return (path, n, rounded_text (to_number F (wget ''avgLatency'' p)) @ ''ms'')))"

definition error_row :: "(wire \<Rightarrow> string) \<Rightarrow> wire \<Rightarrow> ('w, wire option \<times> string) io" where
  "error_row L e =
     await (member_of ''status'' e) (\<lambda>status. await (locale_text L (wget ''count'' e)) (\<lambda>n. return (status, n)))"

fun map_io :: "('a \<Rightarrow> ('w, 'b) io) \<Rightarrow> 'a list \<Rightarrow> ('w, 'b list) io" where
  "map_io f [] = return []"
| "map_io f (x # xs) = await (f x) (\<lambda>y. await (map_io f xs) (\<lambda>ys. return (y # ys)))"

record analytics_view =
  av_kpis :: "(string \<times> string) list"
  av_requests :: "wire list"
  av_pie :: "(string \<times> string) list"
  av_latency :: "wire list"
  av_geo :: "(wire \<times> string) list"
  av_paths :: "(wire option \<times> string \<times> string) list"
  av_errors :: "(wire option \<times> string) list"

text \<open>The page, in the order it computes its parts; an exception leaves nothing of it.\<close>

definition AnalyticsPage :: "numfmt \<Rightarrow> (wire \<Rightarrow> string) \<Rightarrow> int \<Rightarrow> analytics_data \<Rightarrow> ('w, analytics_view) io" where
  "AnalyticsPage F L now d =
     await (kpis F L d) (\<lambda>cards.
     await (map_io (pie_row L) (PIE_DATA d)) (\<lambda>pie.
     await (map_io (geo_row F L) (rows_of (ad_geo d))) (\<lambda>geo.
     await (map_io (path_row F L) (rows_of (ad_paths d))) (\<lambda>paths.
     await (map_io (error_row L) (rows_of (ad_errors d))) (\<lambda>errors.
     return \<lparr>av_kpis = map (map_prod (\<lambda>l. l) (kpi_text d)) cards, av_requests = rows_of (ad_rate d), av_pie = pie,
             av_latency = latencySeries F now d, av_geo = geo, av_paths = paths, av_errors = errors\<rparr>)))))"

end
