(* ===== verification/Overview_Properties.thy ===== *)
theory Overview_Properties
  imports Dashboard_Overview
begin

text \<open>
  What the overview and the analytics page of the dashboard show, given the table of requests that the analytics service
  reports on.
\<close>

section \<open>What the overview shows of a table of requests\<close>

text \<open>The pages talk to the analytics service; its lists come as lists.\<close>

definition analytics_client :: "'w analytics_deps \<Rightarrow> 'w report_client" where
  "analytics_client D =
     \<lparr>rc_get = analytics_get D, rc_list = (\<lambda>url. await (analytics_get D url) (\<lambda>v. return (rows_of (Some v))))\<rparr>"

text \<open>Every query has an answer, with a row where a query without groups asks for one, and nothing changes by reading.\<close>

definition answering :: "'w analytics_deps \<Rightarrow> bool" where
  "answering D \<longleftrightarrow>
     (\<forall>t ps w. \<exists>rs. an_query D t ps w = (Inr rs, w)) \<and>
     (\<forall>n w w'. an_query D (latency_sql n) [] w \<noteq> (Inr [], w')) \<and> (\<forall>n w w'. an_query D (users_sql n) [] w \<noteq> (Inr [], w')) \<and>
     (\<forall>w. \<exists>t. date_now (an_sys D) w = (Inr t, w))"

text \<open>A reader returns and leaves the world as it is.\<close>

definition reads :: "('w, 'a) io \<Rightarrow> bool" where
  "reads m \<longleftrightarrow> (\<forall>w. \<exists>a. m w = (Inr a, w))"

named_theorems reader

lemma reads_return [reader]: "reads (return a)"
  by (simp add: reads_def)

lemma reads_await [reader]: "reads m \<Longrightarrow> (\<And>a. reads (k a)) \<Longrightarrow> reads (await m k)"
  unfolding reads_def await_def by (metis (no_types, lifting) old.prod.case old.sum.simps(6))

lemma readsE:
  assumes "reads m"
  obtains a where "m w = (Inr a, w)"
  using assms unfolding reads_def by blast

lemma answering_query [reader]: "answering D \<Longrightarrow> reads (an_query D t ps)"
  by (simp add: answering_def reads_def)

lemma answering_now [reader]: "answering D \<Longrightarrow> reads (date_now (an_sys D))"
  by (simp add: answering_def reads_def)

lemma reads_sends [reader]: "reads m \<Longrightarrow> reads (sends enc m)"
  unfolding sends_def by (intro reader)

lemma reads_rate [reader]: "answering D \<Longrightarrow> reads (getRequestRate D n)"
  unfolding getRequestRate_def by (intro reader)

lemma reads_series [reader]: "answering D \<Longrightarrow> reads (getCacheHitRatioTimeSeries D n)"
  unfolding getCacheHitRatioTimeSeries_def by (intro reader)

lemma reads_edges [reader]: "answering D \<Longrightarrow> reads (getEdgeStats D n)"
  unfolding getEdgeStats_def by (intro reader)

lemma reads_recent [reader]: "answering D \<Longrightarrow> reads (getRecentEvents D n)"
  unfolding getRecentEvents_def by (intro reader)

lemma one_row:
  assumes "answering D" and "\<And>w w'. an_query D t [] w \<noteq> (Inr [], w')"
  shows "reads (await (an_query D t []) (\<lambda>rs. await (first_row rs) (\<lambda>r. return (k r))))"
  unfolding reads_def
proof
  fix w
  obtain rs where rs: "an_query D t [] w = (Inr rs, w)"
    using answering_query [OF assms(1)] by (rule readsE)
  then obtain r rs' where "rs = r # rs'" using assms(2) by (cases rs) auto
  then show "\<exists>a. await (an_query D t []) (\<lambda>rs. await (first_row rs) (\<lambda>r. return (k r))) w = (Inr a, w)"
    using rs by (simp add: await_def first_row_def return_def)
qed

lemma reads_percentiles [reader]: "answering D \<Longrightarrow> reads (getLatencyPercentiles D n)"
  unfolding getLatencyPercentiles_def by (rule one_row) (simp_all add: answering_def)

lemma reads_users [reader]: "answering D \<Longrightarrow> reads (getActiveUsers D n)"
  unfolding getActiveUsers_def by (rule one_row) (simp_all add: answering_def)

lemma int_param_none [simp]: "int_param d None = return d"
  by (simp add: int_param_def)

lemma decimal_texts: "decimal_int ''10''" "decimal_int ''60''" "parse_int ''10'' = Num 10" "parse_int ''60'' = Num 60"
  by code_simp+

lemma int_param_texts [simp]: "int_param d (Some ''10'') = return 10" "int_param d (Some ''60'') = return 60"
  by (simp_all add: int_param_def decimal_texts)

text \<open>The URLs of the overview reach their routes.\<close>

lemma overview_urls:
  "url_path ''/v1/analytics/summary'' = ''/v1/analytics/summary''" "url_param ''/v1/analytics/summary'' = None"
  "url_path ''/v1/analytics/events/recent?limit=10'' = ''/v1/analytics/events/recent''" "url_param ''/v1/analytics/events/recent?limit=10'' = Some ''10''"
  "url_path ''/v1/analytics/requests/rate?window=60'' = ''/v1/analytics/requests/rate''" "url_param ''/v1/analytics/requests/rate?window=60'' = Some ''60''"
  "url_path ''/v1/analytics/cache/ratio/timeseries?window=60'' = ''/v1/analytics/cache/ratio/timeseries''"
  "url_param ''/v1/analytics/cache/ratio/timeseries?window=60'' = Some ''60''"
  "url_path ''/v1/analytics/edges?window=60'' = ''/v1/analytics/edges''" "url_param ''/v1/analytics/edges?window=60'' = Some ''60''"
  by code_simp+

lemma overview_reports:
  "analytics_get D ''/v1/analytics/summary'' = sends (summary_wire (an_fmt D)) (getSummaryStats D 1440)"
  "analytics_get D ''/v1/analytics/events/recent?limit=10'' = sends (wlist (event_wire (an_fmt D))) (getRecentEvents D 10)"
  "analytics_get D ''/v1/analytics/requests/rate?window=60'' = sends (wlist (point_wire (an_fmt D))) (getRequestRate D 60)"
  "analytics_get D ''/v1/analytics/cache/ratio/timeseries?window=60'' = sends (wlist (point_wire (an_fmt D))) (getCacheHitRatioTimeSeries D 60)"
  "analytics_get D ''/v1/analytics/edges?window=60'' = sends (wlist (edge_wire (an_fmt D))) (getEdgeStats D 60)"
  unfolding analytics_get_def overview_urls report_routes_def Let_def
  by (simp_all add: summary_route_def recentEvents_route_def rate_route_def cacheSeries_route_def edges_route_def)

text \<open>The share of some events among all.\<close>

definition share :: "('a \<Rightarrow> bool) \<Rightarrow> 'a list \<Rightarrow> rat" where
  "share P xs = (if xs = [] then 0 else fdiv (of_nat (length (filter P xs))) (of_nat (length xs)))"

lemma cache_share:
  assumes "event_table D table now like" and "recent = filter (in_window (now w) m) (table w)"
  shows "\<exists>c. getCacheHitRatio D m w = (Inr c, w) \<and> ch_hitRatio c = Num (share row_hit recent) \<and>
    ch_hits c = Num (int (length (filter row_hit recent))) \<and> ch_misses c = Num (int (length (filter (\<lambda>r. \<not> row_hit r) recent)))"
  using event_table.cache_report [OF assms] unfolding share_def by fastforce

lemma error_share:
  assumes "event_table D table now like" and "recent = filter (in_window (now w) m) (table w)"
  shows "\<exists>e. getErrorRate D m w = (Inr e, w) \<and> er_errorRate e = Num (share row_failed recent) \<and> er_total e = Num (int (length recent))"
  using event_table.error_report [OF assms] unfolding share_def by fastforce

lemma summary_run:
  assumes T: "event_table D table now like" and A: "answering D" and recent: "recent = filter (in_window (now w) m) (table w)"
  shows "\<exists>s. getSummaryStats D m w = (Inr s, w) \<and> su_totalRequests s = Num (int (length recent)) \<and>
    su_cacheHitRatio s = Num (share row_hit recent) \<and> su_errorRate s = Num (share row_failed recent)"
proof -
  obtain c where c: "getCacheHitRatio D m w = (Inr c, w)" "ch_hitRatio c = Num (share row_hit recent)"
    using cache_share [OF T recent] by blast
  obtain e where e: "getErrorRate D m w = (Inr e, w)" "er_errorRate e = Num (share row_failed recent)" "er_total e = Num (int (length recent))"
    using error_share [OF T recent] by blast
  obtain l where l: "getLatencyPercentiles D m w = (Inr l, w)" using reads_percentiles [OF A] by (rule readsE)
  obtain u where u: "getActiveUsers D m w = (Inr u, w)" using reads_users [OF A] by (rule readsE)
  obtain b where b: "an_query D (bytes_sql m) [] w = (Inr b, w)" using answering_query [OF A] by (rule readsE)
  obtain a where a: "an_query D (avg_sql m) [] w = (Inr a, w)" using answering_query [OF A] by (rule readsE)
  obtain t where t: "date_now (an_sys D) w = (Inr t, w)" using answering_now [OF A] by (rule readsE)
  show ?thesis
    by (simp add: getSummaryStats_def await_def c e l u b a t return_def)
qed

lemma list_reads:
  assumes "answering D"
  shows "reads (rc_list (analytics_client D) ''/v1/analytics/events/recent?limit=10'')"
    and "reads (rc_list (analytics_client D) ''/v1/analytics/requests/rate?window=60'')"
    and "reads (rc_list (analytics_client D) ''/v1/analytics/cache/ratio/timeseries?window=60'')"
    and "reads (rc_list (analytics_client D) ''/v1/analytics/edges?window=60'')"
  unfolding analytics_client_def report_client.select_convs overview_reports
  by (intro reader assms)+

lemma attempt_step: "m w = (r, w') \<Longrightarrow> await (attempt m) k (w, p) = k r (w', p)"
  by (simp add: await_def attempt_def)

lemma fetchData_results:
  assumes "rc_get api ''/v1/analytics/summary'' w = (s, w)"
    and "rc_list api ''/v1/analytics/events/recent?limit=10'' w = (e, w)" and "rc_list api ''/v1/analytics/requests/rate?window=60'' w = (r, w)"
    and "rc_list api ''/v1/analytics/cache/ratio/timeseries?window=60'' w = (c, w)" and "rc_list api ''/v1/analytics/edges?window=60'' w = (g, w)"
  shows "fetchData api (w, p) = (Inr (), (w, (case (s, e, r, c, g) of
      (Inr s, Inr e, Inr r, Inr c, Inr g) \<Rightarrow> p\<lparr>ov_summary := s, ov_recentEvents := e, ov_rateData := r, ov_cacheRatioSeries := c, ov_edges := g\<rparr>
    | _ \<Rightarrow> p)\<lparr>ov_loading := False\<rparr>))"
  unfolding fetchData_def
  by (simp add: attempt_step assms) (simp add: await_def mod_ctx_def return_def split: sum.split)

lemma fetchData_run:
  assumes "reads (rc_list api ''/v1/analytics/events/recent?limit=10'')" and "reads (rc_list api ''/v1/analytics/requests/rate?window=60'')"
    and "reads (rc_list api ''/v1/analytics/cache/ratio/timeseries?window=60'')" and "reads (rc_list api ''/v1/analytics/edges?window=60'')"
    and s: "rc_get api ''/v1/analytics/summary'' w = (Inr s, w)"
  shows "\<exists>e r c g. fetchData api (w, p) = (Inr (), (w, p\<lparr>ov_summary := s, ov_recentEvents := e, ov_rateData := r, ov_cacheRatioSeries := c,
         ov_edges := g, ov_loading := False\<rparr>))"
proof -
  obtain e where e: "rc_list api ''/v1/analytics/events/recent?limit=10'' w = (Inr e, w)" using assms(1) by (rule readsE)
  obtain r where r: "rc_list api ''/v1/analytics/requests/rate?window=60'' w = (Inr r, w)" using assms(2) by (rule readsE)
  obtain c where c: "rc_list api ''/v1/analytics/cache/ratio/timeseries?window=60'' w = (Inr c, w)" using assms(3) by (rule readsE)
  obtain g where g: "rc_list api ''/v1/analytics/edges?window=60'' w = (Inr g, w)" using assms(4) by (rule readsE)
  show ?thesis
    using fetchData_results [OF s e r c g, of p] by auto
qed

text \<open>A round in which a request fails leaves what the page shows, and ends the loading.\<close>

lemma fetchData_failed:
  assumes "rc_get api ''/v1/analytics/summary'' w = (s, w)"
    and "rc_list api ''/v1/analytics/events/recent?limit=10'' w = (e, w)" and "rc_list api ''/v1/analytics/requests/rate?window=60'' w = (r, w)"
    and "rc_list api ''/v1/analytics/cache/ratio/timeseries?window=60'' w = (c, w)" and "rc_list api ''/v1/analytics/edges?window=60'' w = (g, w)"
    and "isl s \<or> isl e \<or> isl r \<or> isl c \<or> isl g"
  shows "fetchData api (w, p) = (Inr (), (w, p\<lparr>ov_loading := False\<rparr>))"
  using assms(6) unfolding fetchData_results [OF assms(1-5)] by (auto split: sum.split)

lemma to_fixed_ends: "to_fixed 1 0 = ''0.0''" "to_fixed 1 100 = ''100.0''" "to_fixed 2 0 = ''0.00''"
  by code_simp+

lemma share_none: "filter P xs = [] \<Longrightarrow> fmul (share P xs) 100 = 0"
  by (simp add: share_def fmul_def fdiv_def)

lemma share_all: "xs \<noteq> [] \<Longrightarrow> filter P xs = xs \<Longrightarrow> fmul (share P xs) 100 = 100"
  using dbl.fl_int [of 1] dbl.fl_int [of 100] by (simp add: share_def fmul_def fdiv_def)

lemma qwire_some [simp]: "qwire x \<noteq> None" and iwire_some [simp]: "iwire y \<noteq> None"
  by (cases x; simp) (cases y; simp add: iwire_def)

lemma wobject_get:
  assumes "distinct (map fst kvs)" and "(f, v) \<in> set kvs"
  shows "wget f (wobject kvs) = v"
proof -
  define ys where "ys = rev (map (\<lambda>(k, v). (k, the v)) (filter (\<lambda>(k, v). v \<noteq> None) kvs))"
  have d: "distinct (map fst ys)"
    using distinct_map_filter [OF assms(1), of "\<lambda>(k, v). v \<noteq> None"] by (simp add: ys_def rev_map [symmetric] comp_def case_prod_unfold)
  have same: "wget f (wobject kvs) = map_of ys f" by (simp add: wobject_def ys_def)
  have only: "u = v" if "(f, u) \<in> set kvs" for u
    using that assms map_of_is_SomeI [OF assms(1)] by (metis option.inject)
  show ?thesis
  proof (cases v)
    case None
    then have "f \<notin> fst ` set ys" using only by (force simp: ys_def)
    then show ?thesis using same None by (simp add: map_of_eq_None_iff)
  next
    case (Some a)
    then have "(f, a) \<in> set ys" using assms(2) by (force simp: ys_def)
    then show ?thesis using same Some d by simp
  qed
qed

text \<open>The fields of a summary are found under the names the pages ask for.\<close>

lemma summary_fields:
  "wget ''totalRequests'' (summary_wire F s) = iwire (su_totalRequests s)" "wget ''cacheHitRatio'' (summary_wire F s) = qwire (su_cacheHitRatio s)"
  "wget ''p95Latency'' (summary_wire F s) = qwire (su_p95Latency s)"
  "wget ''totalBandwidthBytes'' (summary_wire F s) = iwire (su_totalBandwidthBytes s)" "wget ''errorRate'' (summary_wire F s) = qwire (su_errorRate s)"
  "wtruthy (Some (summary_wire F s))"
  unfolding summary_wire_def
  by (rule wobject_get, code_simp, simp add: qwire_some iwire_some)+ (simp add: wobject_def)

text \<open>
  C34. The overview shows what the table holds. When the analytics service answers, one round of loading returns, ends the
  loading state and puts on the cards the number of requests of the last day (the request for the summary names no window, and the
  route's default is 1440 minutes), the share of cache hits with one digit and the share of failures with two digits after the
  point: for an empty table 0.0\% and 0.00\%, and 100.0\% when every request was a hit.
\<close>

theorem overview_shows_table:
  assumes T: "event_table D table now like" and A: "answering D" and recent: "recent = filter (in_window (now w) 1440) (table w)"
  shows "\<exists>p'. fetchData (analytics_client D) (w, p) = (Inr (), (w, p')) \<and> \<not> ov_loading p' \<and>
    stat_cards F L formatBytes p' w' =
      (Inr [(''Total Requests'', L (Wnum (of_nat (length recent)))),
            (''Cache Hit Ratio'', to_fixed 1 (fmul (share row_hit recent) 100) @ ''%''),
            (''Bandwidth Served'', formatBytes (wget ''totalBandwidthBytes'' (ov_summary p'))),
            (''Error Rate'', to_fixed 2 (fmul (share row_failed recent) 100) @ ''%'')], w') \<and>
    (filter row_hit recent = [] \<longrightarrow> hitRatio F p' = ''0.0%'') \<and> (recent \<noteq> [] \<longrightarrow> filter row_hit recent = recent \<longrightarrow> hitRatio F p' = ''100.0%'') \<and>
    (filter row_failed recent = [] \<longrightarrow> errorRatio F p' = ''0.00%'')"
proof -
  obtain s where s: "getSummaryStats D 1440 w = (Inr s, w)" "su_totalRequests s = Num (int (length recent))"
      "su_cacheHitRatio s = Num (share row_hit recent)" "su_errorRate s = Num (share row_failed recent)"
    using summary_run [OF T A recent] by blast
  define v where "v = summary_wire (an_fmt D) s"
  have got: "rc_get (analytics_client D) ''/v1/analytics/summary'' w = (Inr v, w)"
    unfolding analytics_client_def report_client.select_convs overview_reports
    by (simp add: sends_def await_def s(1) return_def v_def)
  obtain p' where p': "fetchData (analytics_client D) (w, p) = (Inr (), (w, p'))" "\<not> ov_loading p'" "ov_summary p' = v"
    using fetchData_run [OF list_reads [OF A] got] by fastforce
  have stats: "overview_stats p' = v"
    using summary_fields(6) [of "an_fmt D" s] by (simp add: overview_stats_def wor_def p'(3) v_def)
  have ratios: "hitRatio F p' = to_fixed 1 (fmul (share row_hit recent) 100) @ ''%''" "errorRatio F p' = to_fixed 2 (fmul (share row_failed recent) 100) @ ''%''"
    by (simp_all add: hitRatio_def errorRatio_def stats percent_text_def) (simp_all add: v_def summary_fields s)
  have cards: "stat_cards F L formatBytes p' w' = (Inr [(''Total Requests'', L (Wnum (of_nat (length recent)))),
      (''Cache Hit Ratio'', hitRatio F p'), (''Bandwidth Served'', formatBytes (wget ''totalBandwidthBytes'' v)), (''Error Rate'', errorRatio F p')], w')"
    by (simp add: stat_cards_def stats) (simp add: v_def summary_fields s locale_text_def iwire_def)
  show ?thesis
    using p' by (intro exI [of _ p']) (simp add: cards ratios share_none share_all to_fixed_ends del: One_nat_def)
qed

section \<open>When the analytics page shows anything\<close>

text \<open>The URLs of the hooks reach their routes, whatever the range is.\<close>

lemma page_urls:
  "url_path (summary_key r) = ''/v1/analytics/summary''" "url_param (summary_key r) = Some r"
  "url_path (rate_key r) = ''/v1/analytics/requests/rate''" "url_param (rate_key r) = Some r"
  "url_path (latency_key r) = ''/v1/analytics/latency/percentiles''" "url_param (latency_key r) = Some r"
  "url_path (cache_key_of r) = ''/v1/analytics/cache/ratio''" "url_param (cache_key_of r) = Some r"
  "url_path (geo_key r) = ''/v1/analytics/geo''" "url_param (geo_key r) = Some r"
  "url_path (paths_key r) = ''/v1/analytics/requests/top-paths''" "url_param (paths_key r) = Some r"
  "url_path (errors_key r) = ''/v1/analytics/errors''" "url_param (errors_key r) = Some r"
  by (simp_all add: url_path_def url_param_def BASE_def summary_key_def rate_key_def latency_key_def cache_key_of_def geo_key_def
      paths_key_def errors_key_def)

lemma page_reports:
  "analytics_get D (summary_key r) = sends (summary_wire (an_fmt D)) (summary_route D (Some r))"
  "analytics_get D (cache_key_of r) = sends cache_wire (cacheRatio_route D (Some r))"
  "analytics_get D (geo_key r) = sends (wlist (geo_wire (an_fmt D))) (geo_route D (Some r))"
  "analytics_get D (paths_key r) = sends (wlist (path_wire (an_fmt D))) (topPaths_route D (Some r) None)"
  "analytics_get D (errors_key r) = sends errors_wire (errors_route D (Some r))"
  unfolding analytics_get_def page_urls report_routes_def Let_def by simp_all

text \<open>What a hook may hold: nothing yet, or an answer to its URL at some time.\<close>

definition sent :: "'w analytics_deps \<Rightarrow> string \<Rightarrow> wire \<Rightarrow> bool" where
  "sent D url v \<longleftrightarrow> (\<exists>w w'. analytics_get D url w = (Inr v, w'))"

definition loaded :: "'w analytics_deps \<Rightarrow> string \<Rightarrow> analytics_data \<Rightarrow> bool" where
  "loaded D r d \<longleftrightarrow>
     list_all (\<lambda>(v, key). \<forall>x. v = Some x \<longrightarrow> sent D (key r) x)
       [(ad_summary d, summary_key), (ad_rate d, rate_key), (ad_latency d, latency_key), (ad_cache d, cache_key_of), (ad_geo d, geo_key),
        (ad_paths d, paths_key), (ad_errors d, errors_key)]"

lemma sent_by: "analytics_get D url = sends enc m \<Longrightarrow> sent D url v \<Longrightarrow> \<exists>a. v = enc a"
  unfolding sent_def sends_def
proof (elim exE)
  fix w w' assume "analytics_get D url = await m (\<lambda>a. return (enc a))" "analytics_get D url w = (Inr v, w')"
  then show "\<exists>a. v = enc a" by (cases "m w"; cases "fst (m w)") (auto simp: await_def return_def)
qed

lemma loaded_values:
  assumes "loaded D r d"
  shows "ad_summary d = Some v \<Longrightarrow> \<exists>s. v = summary_wire (an_fmt D) s"
    and "x \<in> set (rows_of (ad_geo d)) \<Longrightarrow> \<exists>g. x = geo_wire (an_fmt D) g"
    and "x \<in> set (rows_of (ad_paths d)) \<Longrightarrow> \<exists>g. x = path_wire (an_fmt D) g"
    and "rows_of (ad_errors d) = []"
proof -
  have s: "sent D (summary_key r) v" if "ad_summary d = Some v" for v using assms that by (simp add: loaded_def)
  have g: "sent D (geo_key r) v" if "ad_geo d = Some v" for v using assms that by (simp add: loaded_def)
  have p: "sent D (paths_key r) v" if "ad_paths d = Some v" for v using assms that by (simp add: loaded_def)
  have e: "sent D (errors_key r) v" if "ad_errors d = Some v" for v using assms that by (simp add: loaded_def)
  show "ad_summary d = Some v \<Longrightarrow> \<exists>s. v = summary_wire (an_fmt D) s"
    using sent_by [OF page_reports(1) s] by blast
  show "\<exists>g. x = geo_wire (an_fmt D) g" if x: "x \<in> set (rows_of (ad_geo d))"
  proof (cases "ad_geo d")
    case (Some v)
    then show ?thesis using sent_by [OF page_reports(3) g [OF Some]] x by (auto simp: rows_of_def wlist_def simp del: split_paired_Ex)
  qed (use x in \<open>simp add: rows_of_def\<close>)
  show "\<exists>g. x = path_wire (an_fmt D) g" if x: "x \<in> set (rows_of (ad_paths d))"
  proof (cases "ad_paths d")
    case (Some v)
    then show ?thesis using sent_by [OF page_reports(4) p [OF Some]] x by (auto simp: rows_of_def wlist_def simp del: split_paired_Ex)
  qed (use x in \<open>simp add: rows_of_def\<close>)
  show "rows_of (ad_errors d) = []"
  proof (cases "ad_errors d")
    case (Some v)
    then show ?thesis using sent_by [OF page_reports(5) e [OF Some]] by (auto simp: rows_of_def errors_wire_def wobject_def)
  qed (simp add: rows_of_def)
qed

text \<open>A value that can be printed for a locale.\<close>

definition printable :: "wire option \<Rightarrow> bool" where
  "printable v \<longleftrightarrow> v \<noteq> None \<and> v \<noteq> Some Wnull"

lemma locale_text_run:
  "printable v \<Longrightarrow> locale_text L v w = (Inr (L (the v)), w)" "\<not> printable v \<Longrightarrow> \<exists>s. locale_text L v w = (Inl (JsError s), w)"
  by (auto simp: locale_text_def printable_def return_def throw_def split: option.split)

lemma map_io_ok: "(\<And>x. x \<in> set xs \<Longrightarrow> \<exists>y. f x w = (Inr y, w)) \<Longrightarrow> \<exists>ys. map_io f xs w = (Inr ys, w)"
proof (induction xs)
  case (Cons x xs)
  obtain y where "f x w = (Inr y, w)" using Cons.prems by fastforce
  moreover obtain ys where "map_io f xs w = (Inr ys, w)" using Cons.IH Cons.prems by fastforce
  ultimately show ?case by (simp add: await_def return_def)
qed (simp add: return_def)

lemma map_io_fails:
  assumes "\<And>x. x \<in> set xs \<Longrightarrow> (\<exists>y. f x w = (Inr y, w)) \<or> (\<exists>s. f x w = (Inl (JsError s), w))"
    and "x \<in> set xs" and "\<nexists>y. f x w = (Inr y, w)"
  shows "\<exists>s. map_io f xs w = (Inl (JsError s), w)"
  using assms
proof (induction xs)
  case (Cons z zs)
  show ?case
  proof (cases "\<exists>y. f z w = (Inr y, w)")
    case True
    then have "x \<in> set zs" using Cons.prems(2,3) by auto
    then obtain s where "map_io f zs w = (Inl (JsError s), w)" using Cons.IH Cons.prems(1,3) by fastforce
    then show ?thesis using True by (auto simp: await_def)
  next
    case False
    then obtain s where "f z w = (Inl (JsError s), w)" using Cons.prems(1) [of z] by auto
    then show ?thesis by (simp add: await_def)
  qed
qed simp

lemma wobject_missing: "f \<notin> fst ` set kvs \<Longrightarrow> wget f (wobject kvs) = None"
  by (force simp: wobject_def map_of_eq_None_iff)

lemma wobject_not_null [simp]: "wobject kvs \<noteq> Wnull"
  by (simp add: wobject_def)

lemma geo_row_throws: "\<exists>s. geo_row F L (geo_wire G g) w = (Inl (JsError s), w)"
proof -
  have "wget ''requests'' (geo_wire G g) = None"
    unfolding geo_wire_def by (auto simp: wobject_missing split: prod.split)
  moreover have "geo_wire G g \<noteq> Wnull" by (simp add: geo_wire_def split: prod.split)
  ultimately show ?thesis by (simp add: geo_row_def member_of_def locale_text_def await_def return_def throw_def)
qed

lemma path_row_run:
  assumes "x = path_wire G g"
  shows "printable (wget ''count'' x) \<Longrightarrow> \<exists>y. path_row F L x w = (Inr y, w)"
    and "\<not> printable (wget ''count'' x) \<Longrightarrow> \<exists>s. path_row F L x w = (Inl (JsError s), w)"
proof -
  have x: "x \<noteq> Wnull" using assms by (simp add: path_wire_def split: prod.split)
  show "\<exists>y. path_row F L x w = (Inr y, w)" if "printable (wget ''count'' x)"
    by (simp add: path_row_def member_of_def x await_def return_def locale_text_run(1) [OF that])
  show "\<exists>s. path_row F L x w = (Inl (JsError s), w)" if n: "\<not> printable (wget ''count'' x)"
    using locale_text_run(2) [OF n, of L w] by (auto simp: path_row_def member_of_def x await_def return_def)
qed

lemma wor_printable: "v \<noteq> Wnull \<Longrightarrow> printable (Some (wor u v))"
  by (cases u rule: wtruthy.cases) (auto simp: wor_def printable_def)

lemma pie_runs: "\<exists>pie. map_io (pie_row L) (PIE_DATA d) w = (Inr pie, w)"
  by (rule map_io_ok)
     (auto simp: PIE_DATA_def pie_row_def Let_def await_def return_def locale_text_run(1) wor_printable)

text \<open>
  C35. The analytics page comes up exactly when the geographic report is empty, the summary has a number of requests, and every
  path of the list has a count: whatever answers of the analytics service its hooks hold. One row of the geographic report takes the whole page
  down, since the page reads its field \<open>requests\<close> and the service calls it \<open>count\<close>. And the table of errors is always
  empty: the route answers an object, the page expects a list.
\<close>

theorem analytics_page_comes_up:
  assumes "loaded D r d"
  shows "((\<exists>v. AnalyticsPage F L t d w = (Inr v, w)) \<longleftrightarrow>
      rows_of (ad_geo d) = [] \<and> (wtruthy (ad_summary d) \<longrightarrow> printable (wget ''totalRequests'' (the (ad_summary d)))) \<and>
      (\<forall>p \<in> set (rows_of (ad_paths d)). printable (wget ''count'' p))) \<and>
    (\<forall>v. AnalyticsPage F L t d w = (Inr v, w) \<longrightarrow> av_errors v = [] \<and> av_geo v = []) \<and>
    ((\<nexists>v. AnalyticsPage F L t d w = (Inr v, w)) \<longrightarrow> (\<exists>s. AnalyticsPage F L t d w = (Inl (JsError s), w)))"
proof -
  let ?summary = "wor (ad_summary d) (Wobj [(''totalRequests'', Wnum 0), (''cacheHitRatio'', Wnum 0), (''p95Latency'', Wnum 0),
                      (''totalBandwidthBytes'', Wnum 0), (''errorRate'', Wnum 0)])"
  have total: "printable (wget ''totalRequests'' ?summary) \<longleftrightarrow> (wtruthy (ad_summary d) \<longrightarrow> printable (wget ''totalRequests'' (the (ad_summary d))))"
    by (simp add: wor_def printable_def)
  obtain pie where pie: "map_io (pie_row L) (PIE_DATA d) w = (Inr pie, w)"
    using pie_runs [of L d w] by blast
  show ?thesis
  proof (cases "printable (wget ''totalRequests'' ?summary)")
    case False
    obtain s where "kpis F L d w = (Inl (JsError s), w)"
      using locale_text_run(2) [OF False, of L w] by (auto simp: kpis_def Let_def await_def)
    then have "AnalyticsPage F L t d w = (Inl (JsError s), w)" by (simp add: AnalyticsPage_def await_def)
    then show ?thesis using False total by simp
  next
    case True
    obtain cards where cards: "kpis F L d w = (Inr cards, w)"
      by (auto simp: kpis_def Let_def await_def locale_text_run(1) [OF True] return_def)
    show ?thesis
    proof (cases "rows_of (ad_geo d)")
      case (Cons g gs)
      have "\<exists>s. geo_row F L x w = (Inl (JsError s), w)" if "x \<in> set (rows_of (ad_geo d))" for x
        using geo_row_throws loaded_values(2) [OF assms that] by metis
      then obtain s where "map_io (geo_row F L) (rows_of (ad_geo d)) w = (Inl (JsError s), w)"
        using map_io_fails [of "rows_of (ad_geo d)" "geo_row F L" w g] Cons by fastforce
      then have "AnalyticsPage F L t d w = (Inl (JsError s), w)" by (simp add: AnalyticsPage_def await_def cards pie)
      then show ?thesis using Cons by simp
    next
      case Nil
      have row: "printable (wget ''count'' x) \<Longrightarrow> \<exists>y. path_row F L x w = (Inr y, w)"
          "\<not> printable (wget ''count'' x) \<Longrightarrow> \<exists>s. path_row F L x w = (Inl (JsError s), w)" if "x \<in> set (rows_of (ad_paths d))" for x
        using path_row_run loaded_values(3) [OF assms that] by metis+
      show ?thesis
      proof (cases "\<forall>p \<in> set (rows_of (ad_paths d)). printable (wget ''count'' p)")
        case counts: True
        obtain paths where "map_io (path_row F L) (rows_of (ad_paths d)) w = (Inr paths, w)"
          using map_io_ok [of "rows_of (ad_paths d)" "path_row F L" w] row(1) counts by blast
        then have "\<exists>v. AnalyticsPage F L t d w = (Inr v, w) \<and> av_errors v = [] \<and> av_geo v = []"
          by (simp add: AnalyticsPage_def await_def cards pie Nil loaded_values(4) [OF assms] return_def)
        then show ?thesis using counts Nil total True by auto
      next
        case False
        then obtain p where p: "p \<in> set (rows_of (ad_paths d))" "\<not> printable (wget ''count'' p)" by blast
        have "\<nexists>y. path_row F L p w = (Inr y, w)" using row(2) [OF p] by auto
        then obtain s where "map_io (path_row F L) (rows_of (ad_paths d)) w = (Inl (JsError s), w)"
          using map_io_fails [of "rows_of (ad_paths d)" "path_row F L" w p] row p(1) by metis
        then have "AnalyticsPage F L t d w = (Inl (JsError s), w)" by (simp add: AnalyticsPage_def await_def cards pie Nil return_def)
        then show ?thesis using False by simp
      qed
    qed
  qed
qed

section \<open>In the world\<close>

lemma world_query_reads: "\<exists>rs. world_query t ps w = (Inr rs, w)"
  unfolding world_query_def Let_def by (simp split: option.split dval.split json.split)

lemma latency_row: "world_query (latency_sql n) [] w = (Inr [[]], w)" and users_row: "world_query (users_sql n) [] w = (Inr [[]], w)"
  by (rule other_queries, blast)+

lemma world_answers: "answering world_analytics"
  unfolding answering_def world_analytics_def analytics_deps.select_convs
  by (simp add: world_query_reads latency_row users_row) (simp add: world_sys_def)

definition plain_number :: "wire \<Rightarrow> string" where
  "plain_number v = (case v of Wnum x \<Rightarrow> show_int \<lfloor>x\<rfloor> | _ \<Rightarrow> ''?'')"

lemma half: "fmul (fdiv 1 2) 100 = 50"
proof -
  have "representable (1 / 2)" unfolding representable_def
    by (intro exI [of _ 1] exI [of _ "- 1"]) simp
  then have e: "fdiv 1 2 * 100 = 50" by (simp add: fdiv_def js_fl_representable)
  show ?thesis using dbl.fl_int [of 50] unfolding fmul_def e by simp
qed

lemma half_texts: "to_fixed 1 50 = ''50.0''" "to_fixed 2 50 = ''50.00''"
proof -
  have n: "fixed_nat 1 50 = 500" "fixed_nat 2 50 = 5000"
    using floor_unique [of 500 "1001 / 2 :: rat"] floor_unique [of 5000 "10001 / 2 :: rat"] by (simp_all add: fixed_nat_def)
  have c: "char_of (53 :: nat) = CHR ''5''" "char_of (48 :: nat) = CHR ''0''" by code_simp+
  have digits: "show_nat 500 = ''500''" "show_nat 5000 = ''5000''"
    by (simp_all add: show_nat.simps [of 5000] show_nat.simps [of 500] show_nat.simps [of 50] show_nat.simps [of 5] digit_char_def c)
  have d: "fixed_digits 1 500 = ''50.0''" "fixed_digits 2 5000 = ''50.00''"
    unfolding fixed_digits_def digits by simp_all
  show "to_fixed 1 50 = ''50.0''" "to_fixed 2 50 = ''50.00''" unfolding to_fixed_def n d by simp_all
qed

lemma plain_two: "plain_number (Wnum 2) = ''2''"
proof -
  have "show_int 2 = ''2''" by code_simp
  then show ?thesis by (simp add: plain_number_def)
qed

theorem overview_shows_table_witness:
  "\<exists>p'. fetchData (analytics_client world_analytics) (log_world_of [row1, row2], overview_init) = (Inr (), (log_world_of [row1, row2], p')) \<and>
    stat_cards world_numfmt plain_number (\<lambda>v. ''-'') p' () =
      (Inr [(''Total Requests'', ''2''), (''Cache Hit Ratio'', ''50.0%''), (''Bandwidth Served'', ''-''), (''Error Rate'', ''50.00%'')], ())"
proof -
  have recent: "[row1, row2] = filter (in_window (w_now (log_world_of [row1, row2])) 1440) (lw_rows (log_world_of [row1, row2]))"
    by (simp add: log_world_of_def world.defs world_at_def in_window_def row_time_def row1_def row2_def)
  have rows: "filter row_hit [row1, row2] = [row2]" "filter row_failed [row1, row2] = [row1]"
    by (simp_all add: row_hit_def row_failed_def row_status_def row1_def row2_def)
  have "share row_hit [row1, row2] = fdiv 1 2" "share row_failed [row1, row2] = fdiv 1 2"
    unfolding share_def rows by simp_all
  then show ?thesis
    using overview_shows_table [OF logs.event_table_axioms world_answers recent, of overview_init world_numfmt plain_number "\<lambda>v. ''-''" "()"]
    by (auto simp: half half_texts plain_two simp del: One_nat_def)
qed

text \<open>A service whose geographic report has a row.\<close>

definition geo_query :: "string \<Rightarrow> dval list \<Rightarrow> (world, row list) io" where
  "geo_query t ps =
     return (if t = geo_sql 60 then [[(''country'', Plain (JStr ''DE'')), (''count'', Plain (JNum 3)), (''pct'', Plain (JStr ''100.00''))]] else [])"

definition geo_deps :: "world analytics_deps" where
  "geo_deps = \<lparr>an_query = geo_query, an_insert = (\<lambda>xs. return ()), an_sys = world_sys, an_fmt = world_numfmt\<rparr>"

definition geo_data :: "wire option \<Rightarrow> analytics_data" where
  "geo_data geo = \<lparr>ad_summary = None, ad_summaryError = False, ad_rate = None, ad_latency = None, ad_cache = None, ad_geo = geo, ad_paths = None, ad_errors = None\<rparr>"

theorem analytics_page_comes_up_witness:
  "(\<exists>g. sent geo_deps (geo_key ''60'') (Warr [g]) \<and> wget ''count'' g = Some (Wnum 3) \<and>
      (\<exists>s. AnalyticsPage world_numfmt plain_number 0 (geo_data (Some (Warr [g]))) () = (Inl (JsError s), ()))) \<and>
   (\<exists>v. AnalyticsPage world_numfmt plain_number 0 (geo_data None) () = (Inr v, ()))"
proof -
  let ?g = "geo_wire world_numfmt (Some (Plain (JStr ''DE'')), Num 3, float_or_zero world_numfmt (Some (Plain (JStr ''100.00''))))"
  have three: "int_col world_numfmt (Some (Plain (JNum 3))) = Num 3"
    by code_simp
  have "analytics_get geo_deps (geo_key ''60'') (world_at 0) = (Inr (Warr [?g]), world_at 0)"
    unfolding page_reports geo_route_def int_param_texts await_return
    by (simp add: sends_def getGeoDistribution_def geo_deps_def geo_query_def await_def return_def wlist_def three)
  then have sent: "sent geo_deps (geo_key ''60'') (Warr [?g])" unfolding sent_def by blast
  have data: "loaded geo_deps ''60'' (geo_data (Some (Warr [?g])))" "loaded geo_deps ''60'' (geo_data None)"
    using sent by (simp_all add: loaded_def geo_data_def)
  have "wget ''count'' ?g = Some (Wnum 3)"
    unfolding geo_wire_def prod.case by (rule wobject_get) (simp_all add: iwire_def)
  moreover have "\<exists>s. AnalyticsPage world_numfmt plain_number 0 (geo_data (Some (Warr [?g]))) () = (Inl (JsError s), ())"
    using analytics_page_comes_up [OF data(1), of world_numfmt plain_number 0 "()"] by (auto simp: geo_data_def rows_of_def)
  moreover have "\<exists>v. AnalyticsPage world_numfmt plain_number 0 (geo_data None) () = (Inr v, ())"
    using analytics_page_comes_up [OF data(2), of world_numfmt plain_number 0 "()"] by (auto simp: geo_data_def rows_of_def)
  ultimately show ?thesis using sent by blast
qed

end
