(* ===== verification/Live_Updates.thy ===== *)
theory Live_Updates
  imports Realtime
begin

text \<open>
  A tab of the dashboard and the websocket gateway over time: \<open>lib/websocket.ts\<close> and the mounting and unmounting of the hooks
  (\<open>apps/dashboard/src/hooks\<close>), against the rooms of \<open>events.gateway.ts\<close>. Of Socket.IO, three documented things are written out: a
  connection starts in no room, what a client emits without a connection is kept and sent when it comes up, and \<open>socket.off(event)\<close>
  takes every listener of the event away. Each hook is mounted at most once at a time, as the dashboard does.
\<close>

section \<open>A tab and its connection\<close>

record live =
  lv_up :: bool
  lv_queue :: "(string \<times> string list) list"
  lv_rooms :: "string set"
  lv_listeners :: "string set"
  lv_maxEvents :: nat
  lv_events :: "json list"
  lv_alerts :: "json list"
  lv_metrics :: realtime_state

text \<open>An event that arrives, at the listeners that the hooks have registered.\<close>

definition receive :: "string \<Rightarrow> ws_data \<Rightarrow> live \<Rightarrow> live" where
  "receive e d s =
     (if e \<notin> lv_listeners s then s
      else case d of
        Event j \<Rightarrow>
          if e = ''request_event'' then s\<lparr>lv_events := useRealtimeEvents_on (lv_maxEvents s) j (lv_events s)\<rparr>
          else if e = ''alert_triggered'' then s\<lparr>lv_alerts := useRealtimeAlerts_on j (lv_alerts s)\<rparr> else s
      | Metrics m \<Rightarrow>
          if e = ''metrics_update'' then s\<lparr>lv_metrics := useRealtimeMetrics_on (Metrics_update d) (lv_metrics s)\<rparr> else s)"

fun reaches :: "string \<Rightarrow> ws_target \<Rightarrow> live \<Rightarrow> bool" where
  "reaches client (Client c) s = (lv_up s \<and> c = client)"
| "reaches client (Room r) s = (lv_up s \<and> r \<in> lv_rooms s)"
| "reaches client Everyone s = lv_up s"

text \<open>The gateway, as this tab knows it: its operations on the tab's connection.\<close>

definition live_ws :: "live sys \<Rightarrow> numfmt \<Rightarrow> string \<Rightarrow> live ws_deps" where
  "live_ws S F client =
     \<lparr>ws_join = (\<lambda>c r s. (Inr (), if c = client then s\<lparr>lv_rooms := insert r (lv_rooms s)\<rparr> else s)),
      ws_leave = (\<lambda>c r s. (Inr (), if c = client then s\<lparr>lv_rooms := lv_rooms s - {r}\<rparr> else s)),
      ws_emit = (\<lambda>t e d s. (Inr (), if reaches client t s then receive e d s else s)),
      ws_count = return 1, ws_sys = S, ws_fmt = F\<rparr>"

text \<open>A message of the client, at the gateway; \<open>emit\<close> keeps it while there is no connection.\<close>

definition serve :: "live ws_deps \<Rightarrow> string \<Rightarrow> string \<times> string list \<Rightarrow> live \<Rightarrow> live" where
  "serve D client m s =
     (if fst m = ''subscribe'' then snd (handleSubscribe D client (snd m) s)
      else if fst m = ''unsubscribe'' then snd (handleUnsubscribe D client (snd m) s) else s)"

definition emit :: "live ws_deps \<Rightarrow> string \<Rightarrow> string \<Rightarrow> string list \<Rightarrow> live \<Rightarrow> live" where
  "emit D client e rooms s = (if lv_up s then serve D client (e, rooms) s else s\<lparr>lv_queue := lv_queue s @ [(e, rooms)]\<rparr>)"

definition subscribeToRoom :: "live ws_deps \<Rightarrow> string \<Rightarrow> string \<Rightarrow> live \<Rightarrow> live" where
  "subscribeToRoom D client room = emit D client ''subscribe'' [room]"

definition unsubscribeFromRoom :: "live ws_deps \<Rightarrow> string \<Rightarrow> string \<Rightarrow> live \<Rightarrow> live" where
  "unsubscribeFromRoom D client room = emit D client ''unsubscribe'' [room]"

definition listen :: "string list \<Rightarrow> live \<Rightarrow> live" where
  "listen es s = s\<lparr>lv_listeners := lv_listeners s \<union> set es\<rparr>"

definition off :: "string list \<Rightarrow> live \<Rightarrow> live" where
  "off es s = s\<lparr>lv_listeners := lv_listeners s - set es\<rparr>"

section \<open>The hooks\<close>

definition mountEvents :: "live ws_deps \<Rightarrow> string \<Rightarrow> nat \<Rightarrow> live \<Rightarrow> live" where
  "mountEvents D client maxEvents s =
     listen [''request_event''] (subscribeToRoom D client ''events'' (s\<lparr>lv_events := [], lv_maxEvents := maxEvents\<rparr>))"

definition unmountEvents :: "live ws_deps \<Rightarrow> string \<Rightarrow> live \<Rightarrow> live" where
  "unmountEvents D client s = unsubscribeFromRoom D client ''events'' (off [''request_event''] s)"

definition mountAlerts :: "live ws_deps \<Rightarrow> string \<Rightarrow> live \<Rightarrow> live" where
  "mountAlerts D client s = listen [''alert_triggered''] (subscribeToRoom D client ''alerts'' (s\<lparr>lv_alerts := []\<rparr>))"

definition unmountAlerts :: "live ws_deps \<Rightarrow> string \<Rightarrow> live \<Rightarrow> live" where
  "unmountAlerts D client s = unsubscribeFromRoom D client ''alerts'' (off [''alert_triggered''] s)"

definition mountMetrics :: "live ws_deps \<Rightarrow> string \<Rightarrow> live \<Rightarrow> live" where
  "mountMetrics D client s =
     (let s' = listen [''connect'', ''disconnect'', ''metrics_update''] (subscribeToRoom D client ''metrics'' s)
      in s'\<lparr>lv_metrics := \<lparr>rs_metrics = None, rs_connected = lv_up s'\<rparr>\<rparr>)"

definition unmountMetrics :: "live ws_deps \<Rightarrow> string \<Rightarrow> live \<Rightarrow> live" where
  "unmountMetrics D client s = unsubscribeFromRoom D client ''metrics'' (off [''metrics_update'', ''connect'', ''disconnect''] s)"

section \<open>The connection\<close>

definition connection_event :: "string \<Rightarrow> socket_event \<Rightarrow> live \<Rightarrow> live" where
  "connection_event e v s = (if e \<in> lv_listeners s then s\<lparr>lv_metrics := useRealtimeMetrics_on v (lv_metrics s)\<rparr> else s)"

definition comes_up :: "live ws_deps \<Rightarrow> string \<Rightarrow> live \<Rightarrow> live" where
  "comes_up D client s =
     (let s' = snd (handleConnection D client (s\<lparr>lv_up := True, lv_rooms := {}, lv_queue := []\<rparr>))
      in connection_event ''connect'' Connect (fold (serve D client) (lv_queue s) s'))"

definition goes_down :: "string \<Rightarrow> live \<Rightarrow> live" where
  "goes_down client s =
     connection_event ''disconnect'' Disconnect (snd (handleDisconnect client (s\<lparr>lv_up := False, lv_rooms := {}\<rparr>)))"

datatype live_action =
    MountEvents nat | UnmountEvents | MountAlerts | UnmountAlerts | MountMetrics | UnmountMetrics | Line_up | Line_down
  | Publish string "string option" | Purge string string | Tick realtime_metrics

text \<open>What the gateway relays from Kafka and Redis, and its metrics, go to the rooms.\<close>

fun act :: "live ws_deps \<Rightarrow> string \<Rightarrow> live_action \<Rightarrow> live \<Rightarrow> live" where
  "act D client (MountEvents n) s = mountEvents D client n s"
| "act D client UnmountEvents s = unmountEvents D client s"
| "act D client MountAlerts s = mountAlerts D client s"
| "act D client UnmountAlerts s = unmountAlerts D client s"
| "act D client MountMetrics s = mountMetrics D client s"
| "act D client UnmountMetrics s = unmountMetrics D client s"
| "act D client Line_up s = (if lv_up s then s else comes_up D client s)"
| "act D client Line_down s = (if lv_up s then goes_down client s else s)"
| "act D client (Publish topic message) s = fst (snd (ws_eachMessage D topic message (s, [])))"
| "act D client (Purge channel message) s = snd (ws_onPurge D channel message s)"
| "act D client (Tick m) s = snd (emitMetricsUpdate D m s)"

definition act_all :: "live ws_deps \<Rightarrow> string \<Rightarrow> live_action list \<Rightarrow> live \<Rightarrow> live" where
  "act_all D client acts = fold (act D client) acts"

section \<open>Rooms\<close>

text \<open>What a message does to the rooms, and nothing else.\<close>

definition step_rooms :: "string \<times> string list \<Rightarrow> string set \<Rightarrow> string set" where
  "step_rooms m rooms =
     (if fst m = ''subscribe'' then rooms \<union> set (snd m) else if fst m = ''unsubscribe'' then rooms - set (snd m) else rooms)"

lemma joins: "for_each rooms (\<lambda>room. ws_join (live_ws S F c) c room) s = (Inr (), s\<lparr>lv_rooms := lv_rooms s \<union> set rooms\<rparr>)"
  by (induction rooms arbitrary: s) (simp_all add: return_def await_def live_ws_def Un_commute insert_commute)

lemma leaves: "for_each rooms (\<lambda>room. ws_leave (live_ws S F c) c room) s = (Inr (), s\<lparr>lv_rooms := lv_rooms s - set rooms\<rparr>)"
proof (induction rooms arbitrary: s)
  case (Cons r rooms)
  then show ?case by (simp add: await_def live_ws_def Diff_insert2 [symmetric] Diff_insert [symmetric])
qed (simp add: return_def)

lemma serve_rooms: "serve (live_ws S F c) c m s = s\<lparr>lv_rooms := step_rooms m (lv_rooms s)\<rparr>"
  by (simp add: serve_def step_rooms_def handleSubscribe_def handleUnsubscribe_def joins leaves await_def return_def)

lemma fold_serve: "fold (serve (live_ws S F c) c) q s = s\<lparr>lv_rooms := fold step_rooms q (lv_rooms s)\<rparr>"
  by (induction q arbitrary: s) (simp_all add: serve_rooms)

lemma emit_eq:
  "emit (live_ws S F c) c e rs s =
     (if lv_up s then s\<lparr>lv_rooms := step_rooms (e, rs) (lv_rooms s)\<rparr> else s\<lparr>lv_queue := lv_queue s @ [(e, rs)]\<rparr>)"
  by (simp add: emit_def serve_rooms)

text \<open>What goes out to a room.\<close>

definition relay :: "string \<Rightarrow> string \<Rightarrow> ws_data \<Rightarrow> live \<Rightarrow> live" where
  "relay r e d s = (if lv_up s \<and> r \<in> lv_rooms s then receive e d s else s)"

lemma emit_to_room: "ws_emit (live_ws S F c) (Room r) e d s = (Inr (), relay r e d s)"
  by (simp add: live_ws_def relay_def)

definition relayed :: "(string \<times> string) set" where
  "relayed = {(''events'', ''request_event''), (''storage'', ''storage_event''), (''alerts'', ''alert_triggered''), (''cdn'', ''cache_purged'')}"

lemma relayed_rooms: "(''events'', ''request_event'') \<in> relayed" "(''storage'', ''storage_event'') \<in> relayed"
    "(''alerts'', ''alert_triggered'') \<in> relayed" "(''cdn'', ''cache_purged'') \<in> relayed"
  by (simp_all add: relayed_def)

lemma publish_request:
  assumes clock: "\<And>s. date_now S s = (Inr (clk s), s)" and j: "json_parse t = Some j"
  shows "fst (snd (ws_eachMessage (live_ws S F c) ''request.events'' (Some t) (s, []))) = relay ''events'' ''request_event'' (Event j) s"
proof -
  have sys: "ws_sys (live_ws S F c) = S" by (simp add: live_ws_def)
  show ?thesis
    by (simp add: ws_eachMessage_def j emitRequestEvent_def on_world_def emit_to_room sys clock await_def try_catch_def read_of_def
        throw_def return_def mod_ctx_def)
qed

lemma publish_effect:
  assumes clock: "\<And>s. date_now S s = (Inr (clk s), s)"
  shows "fst (snd (ws_eachMessage (live_ws S F c) topic m (s, []))) = s \<or>
    (\<exists>r e j. (r, e) \<in> relayed \<and> fst (snd (ws_eachMessage (live_ws S F c) topic m (s, []))) = relay r e (Event j) s)"
proof (cases m)
  case None
  then show ?thesis by (simp add: ws_eachMessage_def return_def)
next
  case t: (Some t)
  show ?thesis
  proof (cases "json_parse t")
    case None
    then show ?thesis by (simp add: ws_eachMessage_def t try_catch_def throw_def return_def)
  next
    case j: (Some j)
    consider "topic = ''request.events''" | "topic = ''storage.events''" | "topic = ''alerts.triggered''"
      | "topic \<noteq> ''request.events''" "topic \<noteq> ''storage.events''" "topic \<noteq> ''alerts.triggered''"
      by blast
    then show ?thesis
    proof cases
      case 1
      then show ?thesis using publish_request [OF clock j] relayed_rooms(1) t by blast
    next
      case 2
      then have "fst (snd (ws_eachMessage (live_ws S F c) topic m (s, []))) = relay ''storage'' ''storage_event'' (Event j) s"
        by (simp add: ws_eachMessage_def t j emitStorageEvent_def on_world_def emit_to_room try_catch_def)
      then show ?thesis using relayed_rooms(2) by blast
    next
      case 3
      then have "fst (snd (ws_eachMessage (live_ws S F c) topic m (s, []))) = relay ''alerts'' ''alert_triggered'' (Event j) s"
        by (simp add: ws_eachMessage_def t j emitAlert_def on_world_def emit_to_room try_catch_def)
      then show ?thesis using relayed_rooms(3) by blast
    next
      case 4
      then have "fst (snd (ws_eachMessage (live_ws S F c) topic m (s, []))) = s"
        by (simp add: ws_eachMessage_def t j try_catch_def return_def)
      then show ?thesis by blast
    qed
  qed
qed

lemma purge_effect: "snd (ws_onPurge (live_ws S F c) channel m s) = s \<or>
    (\<exists>r e j. (r, e) \<in> relayed \<and> snd (ws_onPurge (live_ws S F c) channel m s) = relay r e (Event j) s)"
proof (cases "channel = ''cache:invalidate'' \<and> json_parse m \<noteq> None")
  case True
  then obtain j where "json_parse m = Some j" by blast
  then have "snd (ws_onPurge (live_ws S F c) channel m s) = relay ''cdn'' ''cache_purged'' (Event j) s"
    using True by (simp add: ws_onPurge_def emitCachePurge_def emit_to_room try_catch_def)
  then show ?thesis using relayed_rooms(4) by blast
next
  case False
  then have "snd (ws_onPurge (live_ws S F c) channel m s) = s"
    by (auto simp: ws_onPurge_def try_catch_def return_def throw_def)
  then show ?thesis by blast
qed

text \<open>The rooms the tab is in, or will be in when its connection comes up.\<close>

definition membership :: "live \<Rightarrow> string set" where
  "membership s = (if lv_up s then lv_rooms s else fold step_rooms (lv_queue s) {})"

definition queue_ok :: "live \<Rightarrow> bool" where
  "queue_ok s \<longleftrightarrow> (lv_up s \<longrightarrow> lv_queue s = [])"

fun act_rooms :: "bool \<Rightarrow> live_action \<Rightarrow> string set \<Rightarrow> string set" where
  "act_rooms up (MountEvents n) rooms = insert ''events'' rooms"
| "act_rooms up UnmountEvents rooms = rooms - {''events''}"
| "act_rooms up MountAlerts rooms = insert ''alerts'' rooms"
| "act_rooms up UnmountAlerts rooms = rooms - {''alerts''}"
| "act_rooms up MountMetrics rooms = insert ''metrics'' rooms"
| "act_rooms up UnmountMetrics rooms = rooms - {''metrics''}"
| "act_rooms up Line_down rooms = (if up then {} else rooms)"
| "act_rooms up a rooms = rooms"

lemma receive_keeps: "lv_up (receive e d s) = lv_up s" "lv_queue (receive e d s) = lv_queue s" "lv_rooms (receive e d s) = lv_rooms s"
    "lv_listeners (receive e d s) = lv_listeners s"
  by (simp_all add: receive_def split: ws_data.split)

lemma relay_keeps [simp]: "lv_up (relay r e d s) = lv_up s" "lv_queue (relay r e d s) = lv_queue s" "lv_rooms (relay r e d s) = lv_rooms s"
    "lv_listeners (relay r e d s) = lv_listeners s"
  by (simp_all add: relay_def receive_keeps)

lemma connection_event_keeps [simp]: "lv_up (connection_event e v s) = lv_up s" "lv_queue (connection_event e v s) = lv_queue s"
    "lv_rooms (connection_event e v s) = lv_rooms s" "lv_listeners (connection_event e v s) = lv_listeners s"
    "lv_events (connection_event e v s) = lv_events s" "lv_alerts (connection_event e v s) = lv_alerts s"
    "lv_maxEvents (connection_event e v s) = lv_maxEvents s"
  by (simp_all add: connection_event_def)

lemma receive_other: "receive ''connected'' (Event j) s = s"
  by (simp add: receive_def)

lemma comes_up_eq:
  assumes clock: "\<And>s. date_now S s = (Inr (clk s), s)"
  shows "comes_up (live_ws S F c) c s =
    connection_event ''connect'' Connect (s\<lparr>lv_up := True, lv_queue := [], lv_rooms := fold step_rooms (lv_queue s) {}\<rparr>)"
proof -
  have "snd (handleConnection (live_ws S F c) c u) = u" for u
    by (simp add: handleConnection_def live_ws_def clock await_def receive_other)
  then show ?thesis by (simp add: comes_up_def Let_def fold_serve)
qed

lemma goes_down_eq: "goes_down c s = connection_event ''disconnect'' Disconnect (s\<lparr>lv_up := False, lv_rooms := {}\<rparr>)"
  by (simp add: goes_down_def handleDisconnect_def return_def)

lemma step_rooms_texts: "step_rooms (''subscribe'', [r]) rooms = insert r rooms" "step_rooms (''unsubscribe'', [r]) rooms = rooms - {r}"
  by (simp_all add: step_rooms_def)

lemmas hook_defs = mountEvents_def unmountEvents_def mountAlerts_def unmountAlerts_def mountMetrics_def unmountMetrics_def
  subscribeToRoom_def unsubscribeFromRoom_def emit_eq listen_def off_def step_rooms_texts

definition emission :: "live \<Rightarrow> live \<Rightarrow> bool" where
  "emission s s' \<longleftrightarrow> s' = s \<or> (\<exists>r e j. (r, e) \<in> relayed \<and> s' = relay r e (Event j) s) \<or>
     (\<exists>m. s' = relay ''metrics'' ''metrics_update'' (Metrics m) s)"

lemma act_emission:
  assumes "\<And>s. date_now S s = (Inr (clk s), s)"
  shows "emission s (act (live_ws S F c) c (Publish topic m) s)" "emission s (act (live_ws S F c) c (Purge channel t) s)"
    "emission s (act (live_ws S F c) c (Tick d) s)"
  using publish_effect [OF assms, of F c topic m s] purge_effect [of S F c channel t s]
  by (auto simp: emission_def emitMetricsUpdate_def emit_to_room)

lemma emission_keeps:
  assumes "emission s s'"
  shows "lv_up s' = lv_up s" "lv_queue s' = lv_queue s" "lv_rooms s' = lv_rooms s" "lv_listeners s' = lv_listeners s"
  using assms by (auto simp: emission_def)

lemma membership_act:
  assumes clock: "\<And>s. date_now S s = (Inr (clk s), s)" and q: "queue_ok s"
  shows "queue_ok (act (live_ws S F c) c a s) \<and> membership (act (live_ws S F c) c a s) = act_rooms (lv_up s) a (membership s)"
proof -
  have out: "queue_ok s' \<and> membership s' = membership s" if "emission s s'" for s'
    using q emission_keeps [OF that] by (simp add: queue_ok_def membership_def)
  show ?thesis
  proof (cases a)
    case (Publish topic m)
    show ?thesis using out [OF act_emission(1) [OF clock]] unfolding Publish act_rooms.simps .
  next
    case (Purge channel t)
    show ?thesis using out [OF act_emission(2) [OF clock]] unfolding Purge act_rooms.simps .
  next
    case (Tick d)
    show ?thesis using out [OF act_emission(3) [OF clock]] unfolding Tick act_rooms.simps .
  next
    case Line_up
    then show ?thesis using q by (simp add: comes_up_eq [OF clock] queue_ok_def membership_def)
  next
    case Line_down
    then show ?thesis using q by (simp add: goes_down_eq queue_ok_def membership_def)
  qed (use q in \<open>auto simp: hook_defs queue_ok_def membership_def Let_def\<close>)
qed

text \<open>What the hooks hold changes only by what comes to their rooms.\<close>

lemma membership_room: "queue_ok s \<Longrightarrow> r \<notin> membership s \<Longrightarrow> \<not> (lv_up s \<and> r \<in> lv_rooms s)"
  by (auto simp: membership_def)

lemma relay_absent: "queue_ok s \<Longrightarrow> r \<notin> membership s \<Longrightarrow> relay r e d s = s"
  using membership_room [of s r] by (auto simp: relay_def)

lemma relay_other:
  "e \<noteq> ''request_event'' \<Longrightarrow> lv_events (relay r e d s) = lv_events s"
  "e \<noteq> ''alert_triggered'' \<Longrightarrow> lv_alerts (relay r e d s) = lv_alerts s"
  "e \<noteq> ''metrics_update'' \<Longrightarrow> lv_metrics (relay r e d s) = lv_metrics s"
  by (simp_all add: relay_def receive_def split: ws_data.split)

lemma relay_connected: "rs_connected (lv_metrics (relay r e d s)) = rs_connected (lv_metrics s)"
  by (simp add: relay_def receive_def split: ws_data.split)

lemma relayed_event: "(r, ''request_event'') \<in> relayed \<Longrightarrow> r = ''events''" "(r, ''alert_triggered'') \<in> relayed \<Longrightarrow> r = ''alerts''"
    "(r, ''metrics_update'') \<notin> relayed"
  by (auto simp: relayed_def)

lemma relayed_deaf:
  assumes "(r, e) \<in> relayed" and q: "queue_ok s"
  shows "''events'' \<notin> membership s \<Longrightarrow> lv_events (relay r e d s) = lv_events s"
    and "''alerts'' \<notin> membership s \<Longrightarrow> lv_alerts (relay r e d s) = lv_alerts s"
    and "lv_metrics (relay r e d s) = lv_metrics s"
proof -
  show "lv_events (relay r e d s) = lv_events s" if "''events'' \<notin> membership s"
    using relayed_event(1) relay_absent [OF q that] relay_other(1) assms(1) by (cases "e = ''request_event''") auto
  show "lv_alerts (relay r e d s) = lv_alerts s" if "''alerts'' \<notin> membership s"
    using relayed_event(2) relay_absent [OF q that] relay_other(2) assms(1) by (cases "e = ''alert_triggered''") auto
  show "lv_metrics (relay r e d s) = lv_metrics s"
    using relayed_event(3) relay_other(3) assms(1) by metis
qed

lemma emission_deaf:
  assumes em: "emission s s'" and q: "queue_ok s"
  shows "''events'' \<notin> membership s \<Longrightarrow> lv_events s' = lv_events s"
    and "''alerts'' \<notin> membership s \<Longrightarrow> lv_alerts s' = lv_alerts s"
    and "''metrics'' \<notin> membership s \<Longrightarrow> lv_metrics s' = lv_metrics s"
    and "rs_connected (lv_metrics s') = rs_connected (lv_metrics s)"
proof -
  have other: "lv_events (relay r ''metrics_update'' d s) = lv_events s" "lv_alerts (relay r ''metrics_update'' d s) = lv_alerts s" for r d
    by (rule relay_other, code_simp)+
  consider (same) "s' = s" | (event) r e j where "(r, e) \<in> relayed" "s' = relay r e (Event j) s"
    | (tick) m where "s' = relay ''metrics'' ''metrics_update'' (Metrics m) s"
    using em unfolding emission_def by blast
  then have "(''events'' \<notin> membership s \<longrightarrow> lv_events s' = lv_events s) \<and> (''alerts'' \<notin> membership s \<longrightarrow> lv_alerts s' = lv_alerts s) \<and>
    (''metrics'' \<notin> membership s \<longrightarrow> lv_metrics s' = lv_metrics s) \<and> rs_connected (lv_metrics s') = rs_connected (lv_metrics s)"
  proof cases
    case same
    then show ?thesis by simp
  next
    case event
    then show ?thesis using relayed_deaf [OF event(1) q] by (simp add: relay_connected)
  next
    case tick
    then show ?thesis using other relay_absent [OF q, of "''metrics''"] by (simp add: relay_connected)
  qed
  then show "''events'' \<notin> membership s \<Longrightarrow> lv_events s' = lv_events s" "''alerts'' \<notin> membership s \<Longrightarrow> lv_alerts s' = lv_alerts s"
    "''metrics'' \<notin> membership s \<Longrightarrow> lv_metrics s' = lv_metrics s" "rs_connected (lv_metrics s') = rs_connected (lv_metrics s)"
    by blast+
qed

lemma act_deaf:
  assumes clock: "\<And>s. date_now S s = (Inr (clk s), s)" and q: "queue_ok s"
  shows "''events'' \<notin> membership s \<Longrightarrow> \<forall>n. a \<noteq> MountEvents n \<Longrightarrow> lv_events (act (live_ws S F c) c a s) = lv_events s"
    and "''alerts'' \<notin> membership s \<Longrightarrow> a \<noteq> MountAlerts \<Longrightarrow> lv_alerts (act (live_ws S F c) c a s) = lv_alerts s"
    and "''metrics'' \<notin> membership s \<Longrightarrow> a \<noteq> MountMetrics \<Longrightarrow> rs_metrics (lv_metrics (act (live_ws S F c) c a s)) = rs_metrics (lv_metrics s)"
proof -
  note [simp] = comes_up_eq [OF clock] goes_down_eq connection_event_def hook_defs Let_def
  note em = act_emission [OF clock, THEN emission_deaf(1), OF q] act_emission [OF clock, THEN emission_deaf(2), OF q]
    act_emission [OF clock, THEN emission_deaf(3), OF q]
  show "lv_events (act (live_ws S F c) c a s) = lv_events s" if "''events'' \<notin> membership s" "\<forall>n. a \<noteq> MountEvents n"
    using that em by (cases a) (simp_all del: act.simps(9-11))
  show "lv_alerts (act (live_ws S F c) c a s) = lv_alerts s" if "''alerts'' \<notin> membership s" "a \<noteq> MountAlerts"
    using that em by (cases a) (simp_all del: act.simps(9-11))
  show "rs_metrics (lv_metrics (act (live_ws S F c) c a s)) = rs_metrics (lv_metrics s)" if "''metrics'' \<notin> membership s" "a \<noteq> MountMetrics"
    using that em by (cases a) (simp_all del: act.simps(9-11))
qed

text \<open>The state of the connection, as the indicator knows it.\<close>

definition indicated :: "live \<Rightarrow> bool" where
  "indicated s \<longleftrightarrow> ''connect'' \<in> lv_listeners s \<and> ''disconnect'' \<in> lv_listeners s \<and> rs_connected (lv_metrics s) = lv_up s"

lemma listener_texts: "''connect'' \<noteq> ''request_event''" "''disconnect'' \<noteq> ''request_event''" "''connect'' \<noteq> ''alert_triggered''"
    "''disconnect'' \<noteq> ''alert_triggered''"
  by code_simp+

lemma indicated_act:
  assumes clock: "\<And>s. date_now S s = (Inr (clk s), s)" and q: "queue_ok s" and i: "indicated s" and a: "a \<noteq> UnmountMetrics"
  shows "indicated (act (live_ws S F c) c a s)"
proof -
  have out: "indicated s'" if "emission s s'" for s'
    using i emission_keeps [OF that] emission_deaf(4) [OF that q] by (simp add: indicated_def)
  note em = act_emission [OF clock, THEN out]
  note [simp] = comes_up_eq [OF clock] goes_down_eq connection_event_def hook_defs Let_def indicated_def
  show ?thesis using i a em listener_texts by (cases a) (simp_all del: act.simps(9-11))
qed

lemma act_all_Cons: "act_all D c (a # acts) s = act_all D c acts (act D c a s)"
  by (simp add: act_all_def)

lemma act_all_queue:
  assumes clock: "\<And>s. date_now S s = (Inr (clk s), s)"
  shows "queue_ok s \<Longrightarrow> queue_ok (act_all (live_ws S F c) c acts s)"
  by (induction acts arbitrary: s) (simp_all add: act_all_def membership_act [OF clock])

text \<open>Deaf for a room, and for good as long as no hook of that room mounts.\<close>

lemma act_rooms_deaf:
  "''events'' \<notin> rooms \<Longrightarrow> \<forall>n. a \<noteq> MountEvents n \<Longrightarrow> ''events'' \<notin> act_rooms up a rooms"
  "''alerts'' \<notin> rooms \<Longrightarrow> a \<noteq> MountAlerts \<Longrightarrow> ''alerts'' \<notin> act_rooms up a rooms"
  "''metrics'' \<notin> rooms \<Longrightarrow> a \<noteq> MountMetrics \<Longrightarrow> ''metrics'' \<notin> act_rooms up a rooms"
  by (cases a; simp)+

lemma act_all_invariant:
  assumes clock: "\<And>s. date_now S s = (Inr (clk s), s)"
    and step: "\<And>a s. a \<in> set acts \<Longrightarrow> queue_ok s \<Longrightarrow> I s \<Longrightarrow> I (act (live_ws S F c) c a s)"
  shows "queue_ok s \<Longrightarrow> I s \<Longrightarrow> I (act_all (live_ws S F c) c acts s)"
  using step
proof (induction acts arbitrary: s)
  case (Cons a acts)
  then show ?case using membership_act [OF clock Cons.prems(1), of F c a] by (simp add: act_all_Cons)
qed (simp add: act_all_def)

lemma kept_while_absent:
  assumes clock: "\<And>s. date_now S s = (Inr (clk s), s)"
    and act: "\<And>a u. queue_ok u \<Longrightarrow> r \<notin> membership u \<Longrightarrow> \<not> M a \<Longrightarrow> v (act (live_ws S F c) c a u) = v u"
    and rooms: "\<And>up a rooms. r \<notin> rooms \<Longrightarrow> \<not> M a \<Longrightarrow> r \<notin> act_rooms up a rooms"
    and "queue_ok s" and "r \<notin> membership s" and acts: "\<And>a. a \<in> set acts \<Longrightarrow> \<not> M a"
  shows "r \<notin> membership (act_all (live_ws S F c) c acts s) \<and> v (act_all (live_ws S F c) c acts s) = v s"
proof (rule act_all_invariant [OF clock, where I = "\<lambda>u. r \<notin> membership u \<and> v u = v s"])
  fix a u assume a: "a \<in> set acts" "queue_ok u" "r \<notin> membership u \<and> v u = v s"
  then show "r \<notin> membership (act (live_ws S F c) c a u) \<and> v (act (live_ws S F c) c a u) = v s"
    using membership_act [OF clock a(2), of F c a] act [OF a(2) _ acts [OF a(1)]] rooms [OF _ acts [OF a(1)]] by simp
qed (use assms(4,5) in simp_all)

lemma stays_deaf:
  assumes clock: "\<And>s. date_now S s = (Inr (clk s), s)" and q: "queue_ok s"
  shows "''events'' \<notin> membership s \<Longrightarrow> \<forall>n. MountEvents n \<notin> set acts \<Longrightarrow>
      ''events'' \<notin> membership (act_all (live_ws S F c) c acts s) \<and> lv_events (act_all (live_ws S F c) c acts s) = lv_events s"
    and "''alerts'' \<notin> membership s \<Longrightarrow> MountAlerts \<notin> set acts \<Longrightarrow>
      ''alerts'' \<notin> membership (act_all (live_ws S F c) c acts s) \<and> lv_alerts (act_all (live_ws S F c) c acts s) = lv_alerts s"
    and "''metrics'' \<notin> membership s \<Longrightarrow> MountMetrics \<notin> set acts \<Longrightarrow> ''metrics'' \<notin> membership (act_all (live_ws S F c) c acts s) \<and>
      rs_metrics (lv_metrics (act_all (live_ws S F c) c acts s)) = rs_metrics (lv_metrics s)"
    and "indicated s \<Longrightarrow> UnmountMetrics \<notin> set acts \<Longrightarrow> indicated (act_all (live_ws S F c) c acts s)"
proof -
  show "''events'' \<notin> membership (act_all (live_ws S F c) c acts s) \<and> lv_events (act_all (live_ws S F c) c acts s) = lv_events s"
    if "''events'' \<notin> membership s" "\<forall>n. MountEvents n \<notin> set acts"
    by (rule kept_while_absent [OF clock, where M = "\<lambda>a. \<exists>n. a = MountEvents n"])
       (use that q act_deaf(1) [OF clock] act_rooms_deaf(1) in blast)+
  show "''alerts'' \<notin> membership (act_all (live_ws S F c) c acts s) \<and> lv_alerts (act_all (live_ws S F c) c acts s) = lv_alerts s"
    if "''alerts'' \<notin> membership s" "MountAlerts \<notin> set acts"
    by (rule kept_while_absent [OF clock, where M = "\<lambda>a. a = MountAlerts"])
       (use that q act_deaf(2) [OF clock] act_rooms_deaf(2) in blast)+
  show "''metrics'' \<notin> membership (act_all (live_ws S F c) c acts s) \<and>
      rs_metrics (lv_metrics (act_all (live_ws S F c) c acts s)) = rs_metrics (lv_metrics s)"
    if "''metrics'' \<notin> membership s" "MountMetrics \<notin> set acts"
    by (rule kept_while_absent [OF clock, where M = "\<lambda>a. a = MountMetrics" and v = "\<lambda>s. rs_metrics (lv_metrics s)"])
       (use that q act_deaf(3) [OF clock] act_rooms_deaf(3) in blast)+
  show "indicated (act_all (live_ws S F c) c acts s)" if "indicated s" "UnmountMetrics \<notin> set acts"
    by (rule act_all_invariant [OF clock _ q]) (use that indicated_act [OF clock] in metis)+
qed

text \<open>
  C36. A tab that lost its connection never hears again. The hooks subscribe when they mount, and nothing subscribes when the
  connection comes back, which starts in no room: whatever happens from then on, the list of live events, the alerts and the
  metrics stay as they are until the hook in question mounts anew, which the indicator in the header does only when the page is
  loaded. The indicator still says that the tab is live whenever the connection is up.
\<close>

theorem reconnected_tab_is_deaf:
  fixes S :: "live sys" and F :: numfmt and client :: string
  assumes clock: "\<And>s. date_now S s = (Inr (clk s), s)" and up: "lv_up s" "lv_queue s = []" and i: "indicated s"
    and acts: "UnmountMetrics \<notin> set acts" "MountMetrics \<notin> set acts"
  defines "s' \<equiv> act_all (live_ws S F client) client (Line_down # acts) s"
  shows "rs_metrics (lv_metrics s') = rs_metrics (lv_metrics s) \<and> rs_connected (lv_metrics s') = lv_up s' \<and>
    ((\<forall>n. MountEvents n \<notin> set acts) \<longrightarrow> lv_events s' = lv_events s) \<and> (MountAlerts \<notin> set acts \<longrightarrow> lv_alerts s' = lv_alerts s)"
proof -
  let ?D = "live_ws S F client"
  define u where "u = act ?D client Line_down s"
  have s': "s' = act_all ?D client acts u" by (simp add: s'_def u_def act_all_Cons)
  have q: "queue_ok s" "queue_ok u" and none: "membership u = {}"
    using up membership_act [OF clock, of s F client Line_down] by (simp_all add: queue_ok_def u_def del: act.simps)
  have same: "lv_events u = lv_events s" "lv_alerts u = lv_alerts s" "rs_metrics (lv_metrics u) = rs_metrics (lv_metrics s)"
    using up(1) by (simp_all add: u_def goes_down_eq connection_event_def)
  have "indicated u" using indicated_act [OF clock q(1) i] by (simp add: u_def del: act.simps)
  then have "indicated s'" unfolding s' using stays_deaf(4) [OF clock q(2)] acts(1) by blast
  then show ?thesis
    using stays_deaf(1-3) [OF clock q(2), of acts F client] none same acts(2) unfolding s' indicated_def by simp
qed

text \<open>A hook that hears: in its room, or on the way there, and listening.\<close>

definition hearing :: "nat \<Rightarrow> live \<Rightarrow> bool" where
  "hearing n s \<longleftrightarrow> ''events'' \<in> membership s \<and> ''request_event'' \<in> lv_listeners s \<and> lv_maxEvents s = n"

lemma emission_max: "emission s s' \<Longrightarrow> lv_maxEvents s' = lv_maxEvents s"
  by (auto simp: emission_def relay_def receive_def split: ws_data.split)

lemma hearing_act:
  assumes clock: "\<And>s. date_now S s = (Inr (clk s), s)" and q: "queue_ok s" and h: "hearing n s"
    and a: "a \<noteq> Line_down" "a \<noteq> UnmountEvents" "\<forall>m. a \<noteq> MountEvents m"
  shows "hearing n (act (live_ws S F c) c a s)"
proof -
  have rooms: "''events'' \<in> membership (act (live_ws S F c) c a s)"
    using membership_act [OF clock q, of F c a] h a by (cases a) (simp_all add: hearing_def)
  have out: "''request_event'' \<in> lv_listeners s' \<and> lv_maxEvents s' = n" if "emission s s'" for s'
    using h emission_keeps [OF that] emission_max [OF that] by (simp add: hearing_def)
  note em = act_emission [OF clock, THEN out]
  have "''request_event'' \<in> lv_listeners (act (live_ws S F c) c a s) \<and> lv_maxEvents (act (live_ws S F c) c a s) = n"
    using h a em by (cases a) (simp_all add: hearing_def hook_defs Let_def comes_up_eq [OF clock] del: act.simps(9-11))
  with rooms show ?thesis by (simp add: hearing_def)
qed

lemma hearing_mount:
  assumes clock: "\<And>s. date_now S s = (Inr (clk s), s)" and q: "queue_ok s"
  shows "hearing n (act (live_ws S F c) c (MountEvents n) s)"
  using membership_act [OF clock q, of F c "MountEvents n"] by (simp add: hearing_def hook_defs)

text \<open>
  C37. A mounted hook hears everything while its connection lasts, also when it mounted before there was one: an event that the gateway
  takes from Kafka is put at the front of its list, which keeps the newest ones up to its number. A hook that mounts anew hears again,
  whatever was before.
\<close>

theorem mounted_hook_hears:
  fixes S :: "live sys" and F :: numfmt and client :: string and n :: nat
  assumes clock: "\<And>s. date_now S s = (Inr (clk s), s)" and q: "queue_ok s"
    and acts: "Line_down \<notin> set acts" "UnmountEvents \<notin> set acts" "\<forall>m. MountEvents m \<notin> set acts"
  defines "s' \<equiv> act_all (live_ws S F client) client (MountEvents n # acts) s"
  assumes up: "lv_up s'"
  shows "lv_events (act (live_ws S F client) client (Publish ''request.events'' (Some (show_json j))) s') = take n (j # lv_events s')"
proof -
  let ?D = "live_ws S F client"
  let ?u = "act ?D client (MountEvents n) s"
  have "hearing n s'"
    unfolding s'_def act_all_Cons
  proof (rule act_all_invariant [OF clock])
    show "queue_ok ?u" using membership_act [OF clock q] by blast
    show "hearing n ?u" using clock q by (rule hearing_mount)
    show "hearing n (act ?D client a v)" if "a \<in> set acts" "queue_ok v" "hearing n v" for a v
      using hearing_act [OF clock that(2,3)] that(1) acts by metis
  qed
  then have "''events'' \<in> lv_rooms s'" "''request_event'' \<in> lv_listeners s'" "lv_maxEvents s' = n"
    using up by (simp_all add: hearing_def membership_def)
  then show ?thesis
    using publish_request [OF clock json_parse_show, of F client j s'] up
    by (simp add: relay_def receive_def useRealtimeEvents_on_def newest_def)
qed

text \<open>The page of live events is open, the connection is lost and comes back.\<close>

definition still_clock :: "live sys" where
  "still_clock = \<lparr>date_now = return 0, uuid_v4 = return ''id''\<rparr>"

definition page_load :: live where
  "page_load = \<lparr>lv_up = False, lv_queue = [], lv_rooms = {}, lv_listeners = {}, lv_maxEvents = 0, lv_events = [], lv_alerts = [],
     lv_metrics = \<lparr>rs_metrics = None, rs_connected = False\<rparr>\<rparr>"

definition live_page :: live where
  "live_page = act_all (live_ws still_clock world_numfmt ''tab'') ''tab'' [MountMetrics, MountEvents 100, Line_up] page_load"

lemma still_clock: "date_now still_clock s = (Inr 0, s)"
  by (simp add: still_clock_def return_def)

lemma live_page: "lv_up live_page" "lv_queue live_page = []" "indicated live_page" "lv_events live_page = []"
  by (simp_all add: live_page_def act_all_def page_load_def hook_defs Let_def comes_up_eq [OF still_clock] connection_event_def indicated_def)

lemma up_again: "lv_up (act_all (live_ws still_clock world_numfmt ''tab'') ''tab'' [Line_down, Line_up, Publish ''request.events'' (Some (show_json j))] live_page)"
proof -
  let ?D = "live_ws still_clock world_numfmt ''tab''"
  have "lv_up (act ?D ''tab'' Line_up (act ?D ''tab'' Line_down live_page))"
    using live_page(1) by (simp add: goes_down_eq comes_up_eq [OF still_clock])
  then show ?thesis
    using emission_keeps(1) [OF act_emission(1) [OF still_clock]] by (simp add: act_all_def del: act.simps)
qed

theorem reconnected_tab_is_deaf_witness:
  "let s' = act_all (live_ws still_clock world_numfmt ''tab'') ''tab'' [Line_down, Line_up, Publish ''request.events'' (Some (show_json (JNum 1)))] live_page
   in rs_connected (lv_metrics s') \<and> lv_events s' = []"
  using reconnected_tab_is_deaf [OF still_clock live_page(1-3), of "[Line_up, Publish ''request.events'' (Some (show_json (JNum 1)))]" world_numfmt "''tab''"]
    up_again [of "JNum 1"] live_page(4)
  unfolding Let_def by simp

theorem mounted_hook_hears_witness:
  "lv_events (act (live_ws still_clock world_numfmt ''tab'') ''tab'' (Publish ''request.events'' (Some (show_json (JNum 1))))
     (act_all (live_ws still_clock world_numfmt ''tab'') ''tab'' [MountEvents 5, Line_up] page_load)) = [JNum 1]"
proof -
  let ?s = "act_all (live_ws still_clock world_numfmt ''tab'') ''tab'' [MountEvents 5, Line_up] page_load"
  have s: "queue_ok page_load" "lv_up ?s" "lv_events ?s = []"
    by (simp_all add: act_all_def page_load_def hook_defs comes_up_eq [OF still_clock] connection_event_def queue_ok_def)
  show ?thesis
    using mounted_hook_hears [OF still_clock s(1), where acts = "[Line_up]" and n = 5 and F = world_numfmt and client = "''tab''" and j = "JNum 1"] s(2,3)
    by simp
qed

end
