(* ===== verification/Dashboard_Layout.thy ===== *)
theory Dashboard_Layout
  imports Overview_Properties Live_Updates
begin

text \<open>
  The frame around the pages of the dashboard (\<open>app/dashboard/layout.tsx\<close>, \<open>app/page.tsx\<close>, \<open>lib/nav-items.ts\<close>, and the
  components \<open>CommandPalette\<close>, \<open>ThemeToggle\<close> and \<open>RealtimeIndicator\<close>): which pages it links to, what it shows to whom, and its
  effects on the location. The effects of React run after a rendering whose dependencies have changed; \<open>usePathname\<close> is the
  location of the tab. Icons and styling are left out.
\<close>

section \<open>Navigation\<close>

record nav_item =
  ni_label :: string
  ni_href :: string
  ni_section :: string
  ni_badge :: "string option"

definition NAV_ITEMS :: "nav_item list" where
  "NAV_ITEMS =
     (let item = (\<lambda>label href section. \<lparr>ni_label = label, ni_href = href, ni_section = section, ni_badge = None\<rparr>)
      in [item ''Overview'' ''/dashboard'' ''Platform'', item ''Storage'' ''/dashboard/storage'' ''Platform'',
          item ''CDN'' ''/dashboard/cdn'' ''Platform'', item ''API Keys'' ''/dashboard/api-keys'' ''Platform'',
          item ''Analytics'' ''/dashboard/analytics'' ''Observability'',
          (item ''Live Events'' ''/dashboard/events'' ''Observability'')\<lparr>ni_badge := Some ''Live''\<rparr>,
          item ''Alerts'' ''/dashboard/alerts'' ''Observability'', item ''Edge Servers'' ''/dashboard/edges'' ''Observability'',
          item ''Logs'' ''/dashboard/logs'' ''Observability'', item ''Monitoring'' ''/dashboard/monitoring'' ''System'',
          item ''Settings'' ''/dashboard/settings'' ''System''])"

definition SECTIONS :: "string list" where
  "SECTIONS = [''Platform'', ''Observability'', ''System'']"

text \<open>A section of the sidebar: its items, each with whether it is the page at hand.\<close>

definition SidebarNav :: "string \<Rightarrow> (string \<times> (nav_item \<times> bool) list) list" where
  "SidebarNav pathname =
     map (\<lambda>section. (section, map (\<lambda>item. (item, pathname = ni_href item)) (filter (\<lambda>i. ni_section i = section) NAV_ITEMS))) SECTIONS"

definition crumbs :: "string \<Rightarrow> string list" where
  "crumbs pathname = filter (\<lambda>p. p \<noteq> []) (split_on (CHR ''/'') pathname)"

text \<open>The breadcrumbs: whether the first one is a link, and the texts of the others.\<close>

definition breadcrumbs :: "string \<Rightarrow> bool \<times> string list" where
  "breadcrumbs pathname =
     (length (crumbs pathname) > 1, map (map (\<lambda>c. if c = CHR ''-'' then CHR '' '' else c)) (drop 1 (crumbs pathname)))"

definition page_label :: "string \<Rightarrow> string" where
  "page_label pathname =
     (case find (\<lambda>i. ni_href i = pathname) NAV_ITEMS of Some i \<Rightarrow> or_str (Some (ni_label i)) ''Dashboard'' | None \<Rightarrow> ''Dashboard'')"

section \<open>What the frame shows\<close>

definition ServiceHealthCard :: "json option \<Rightarrow> (string \<times> bool option) list" where
  "ServiceHealthCard healthData =
     [(''API Gateway'', gateway_card healthData), (''Storage'', service_card ''storage-service'' healthData),
      (''Analytics'', service_card ''analytics-service'' healthData)]"

text \<open>The name and the role in the menu, from \<open>user?.email || 'User'\<close> and \<open>user?.role || 'user'\<close>.\<close>

definition menu_text :: "string \<Rightarrow> json option \<Rightarrow> string" where
  "menu_text fallback v = (if jtruthy v then js_text (the v) else fallback)"

definition UserMenu :: "(json option \<times> json option) option \<Rightarrow> string \<times> string" where
  "UserMenu user =
     (menu_text ''User'' (case user of None \<Rightarrow> None | Some (email, role) \<Rightarrow> email),
      menu_text ''user'' (case user of None \<Rightarrow> None | Some (email, role) \<Rightarrow> role) @ '' role'')"

text \<open>\<open>None\<close> is the text that the tab is connecting.\<close>

definition RealtimeIndicator :: "realtime_state \<Rightarrow> string option" where
  "RealtimeIndicator s =
     (if rs_connected s
      then Some (''Live '' @ (case rs_metrics s of Some (Metrics m) \<Rightarrow> to_fixed 1 (rm_requestsPerSec m) | _ \<Rightarrow> ''0'') @ '' req/s'')
      else None)"

definition toggle_theme :: "string option \<Rightarrow> string" where
  "toggle_theme t = (if t = Some ''dark'' then ''light'' else ''dark'')"

text \<open>The frame with the page in it; \<open>None\<close> is the empty screen.\<close>

record 'p frame_view =
  fv_nav :: "(string \<times> (nav_item \<times> bool) list) list"
  fv_health :: "(string \<times> bool option) list"
  fv_menu :: "string \<times> string"
  fv_crumbs :: "bool \<times> string list"
  fv_label :: string
  fv_page :: 'p

record frame =
  fr_mounted :: bool
  fr_session :: auth_state
  fr_path :: string
  fr_palette :: bool
  fr_theme :: "string option"
  fr_opened :: "string list"

definition DashboardLayout :: "frame \<Rightarrow> json option \<Rightarrow> 'p \<Rightarrow> 'p frame_view option" where
  "DashboardLayout s healthData children =
     (if \<not> fr_mounted s \<or> \<not> au_isAuthenticated (fr_session s) then None
      else Some \<lparr>fv_nav = SidebarNav (fr_path s), fv_health = ServiceHealthCard healthData, fv_menu = UserMenu (au_user (fr_session s)),
                 fv_crumbs = breadcrumbs (fr_path s), fv_label = page_label (fr_path s), fv_page = children\<rparr>)"

text \<open>What the frame asks for: its own health report, if somebody is signed in.\<close>

definition health_key :: "frame \<Rightarrow> string option" where
  "health_key s = (if au_isAuthenticated (fr_session s) then Some ''/health'' else None)"

section \<open>What happens in the frame\<close>

definition home_path :: "auth_state \<Rightarrow> string" where
  "home_path a = (if au_isAuthenticated a then ''/dashboard'' else ''/login'')"

definition guard_effect :: "frame \<Rightarrow> frame" where
  "guard_effect s = (if fr_mounted s \<and> \<not> au_isAuthenticated (fr_session s) then s\<lparr>fr_path := ''/login''\<rparr> else s)"

text \<open>After a change: the effect runs if one of its dependencies has another value.\<close>

definition settle :: "frame \<Rightarrow> frame \<Rightarrow> frame" where
  "settle old new =
     (if fr_mounted old = fr_mounted new \<and> au_isAuthenticated (fr_session old) = au_isAuthenticated (fr_session new) then new
      else guard_effect new)"

definition handleLogout :: "frame \<Rightarrow> frame" where
  "handleLogout s = s\<lparr>fr_session := authReducer Logout (fr_session s), fr_path := ''/login''\<rparr>"

text \<open>\<open>runCommand\<close> of the palette, with its commands.\<close>

datatype command = Go string | Toggle_theme | Sign_out | Open_link string

definition runCommand :: "command \<Rightarrow> frame \<Rightarrow> frame" where
  "runCommand c s =
     (let s' = s\<lparr>fr_palette := False\<rparr>
      in case c of
        Go href \<Rightarrow> s'\<lparr>fr_path := href\<rparr>
      | Toggle_theme \<Rightarrow> s'\<lparr>fr_theme := Some (toggle_theme (fr_theme s'))\<rparr>
      | Sign_out \<Rightarrow> handleLogout s'
      | Open_link url \<Rightarrow> s'\<lparr>fr_opened := fr_opened s' @ [url]\<rparr>)"

definition MONITORING_LINKS :: "(string \<times> string) list" where
  "MONITORING_LINKS =
     [(''Open Grafana'', ''http://localhost:3200''), (''Open Prometheus'', ''http://localhost:9090''), (''Open Jaeger'', ''http://localhost:16686'')]"

definition commands :: "(string \<times> command) list" where
  "commands =
     map (\<lambda>i. (ni_label i, Go (ni_href i))) NAV_ITEMS @ [(''toggle theme'', Toggle_theme), (''sign out logout'', Sign_out)]
       @ map (\<lambda>(label, url). (label, Open_link url)) MONITORING_LINKS"

text \<open>
  The menus and the palette are there only while the frame is shown; anything in the tab may dispatch to the store, the
  API client among them.
\<close>

datatype frame_event = Mounted | Dispatched auth_action | Followed string | Menu_logout | Key bool bool string | Command command | Themed

definition frame_shown :: "frame \<Rightarrow> bool" where
  "frame_shown s \<longleftrightarrow> DashboardLayout s None () \<noteq> None"

fun frame_change :: "frame_event \<Rightarrow> frame \<Rightarrow> frame" where
  "frame_change Mounted s = s\<lparr>fr_mounted := True\<rparr>"
| "frame_change (Dispatched a) s = s\<lparr>fr_session := authReducer a (fr_session s)\<rparr>"
| "frame_change (Followed href) s = (if frame_shown s then s\<lparr>fr_path := href\<rparr> else s)"
| "frame_change Menu_logout s = (if frame_shown s then handleLogout s else s)"
| "frame_change (Key meta ctrl k) s = (if frame_shown s \<and> (meta \<or> ctrl) \<and> k = ''k'' then s\<lparr>fr_palette := \<not> fr_palette s\<rparr> else s)"
| "frame_change (Command c) s = (if frame_shown s \<and> fr_palette s then runCommand c s else s)"
| "frame_change Themed s = (if frame_shown s then s\<lparr>fr_theme := Some (toggle_theme (fr_theme s))\<rparr> else s)"

definition frame_step :: "frame_event \<Rightarrow> frame \<Rightarrow> frame" where
  "frame_step e s = settle s (frame_change e s)"

section \<open>Nothing is shown to nobody\<close>

lemma frame_shown_iff [simp]: "frame_shown s \<longleftrightarrow> fr_mounted s \<and> au_isAuthenticated (fr_session s)"
  by (simp add: frame_shown_def DashboardLayout_def)

definition guarded_frame :: "frame \<Rightarrow> bool" where
  "guarded_frame s \<longleftrightarrow> (fr_mounted s \<and> \<not> au_isAuthenticated (fr_session s) \<longrightarrow> fr_path s = ''/login'')"

lemma signed_off [simp]: "\<not> au_isAuthenticated initialState"
  by (simp add: initialState_def)

lemma guard_effect_guarded: "guarded_frame (guard_effect s)"
  by (auto simp: guarded_frame_def guard_effect_def)

lemma settle_guarded: "guarded_frame s \<Longrightarrow> (frame_shown s \<or> fr_path new = fr_path s) \<Longrightarrow> guarded_frame (settle s new)"
  by (auto simp: settle_def guard_effect_guarded) (auto simp: guarded_frame_def)

lemma frame_step_guarded: "guarded_frame s \<Longrightarrow> guarded_frame (frame_step e s)"
  unfolding frame_step_def by (rule settle_guarded) (assumption, cases e, simp_all)

text \<open>A step that ends the session, from anywhere.\<close>

lemma frame_step_ends:
  assumes "fr_mounted s" and "guarded_frame s" and "\<not> au_isAuthenticated (fr_session (frame_change e s))"
  shows "fr_path (frame_step e s) = ''/login'' \<and> fr_session (frame_step e s) = fr_session (frame_change e s) \<and> fr_mounted (frame_step e s)"
proof -
  have "fr_mounted (frame_change e s)"
    using assms(1) by (cases e) (simp_all add: handleLogout_def runCommand_def Let_def split: command.split)
  moreover have "guarded_frame (frame_step e s)" using assms(2) by (rule frame_step_guarded)
  moreover have "fr_session (frame_step e s) = fr_session (frame_change e s)" "fr_mounted (frame_step e s) = fr_mounted (frame_change e s)"
    by (simp_all add: frame_step_def settle_def guard_effect_def)
  ultimately show ?thesis using assms(3) by (simp add: guarded_frame_def)
qed

text \<open>
  C38. The pages of the dashboard are for those who are signed in. Whatever happens in a tab after it is loaded, with any session kept from
  before: the frame and the page in it are on the screen only if the store says that somebody is signed in, the health of the
  services is asked for only then, and once the frame has been mounted without a session the location is the login page. Signing out by the
  menu, by the palette or by the API client, which dispatches a logout when a session cannot be renewed, empties the screen at once.
\<close>

theorem layout_guards_pages:
  fixes es :: "frame_event list" and page :: 'p
  assumes "\<not> fr_mounted s"
  defines "s' \<equiv> fold frame_step es s"
  shows "(DashboardLayout s' h page \<noteq> None \<longrightarrow> au_isAuthenticated (fr_session s')) \<and>
    (health_key s' \<noteq> None \<longrightarrow> au_isAuthenticated (fr_session s')) \<and>
    (fr_mounted s' \<and> \<not> au_isAuthenticated (fr_session s') \<longrightarrow> fr_path s' = ''/login'') \<and>
    (frame_shown s' \<longrightarrow> (\<forall>e \<in> {Menu_logout, Dispatched Logout}. DashboardLayout (frame_step e s') h page = None \<and>
        fr_path (frame_step e s') = ''/login'' \<and> fr_session (frame_step e s') = initialState)) \<and>
    (frame_shown s' \<and> fr_palette s' \<longrightarrow> DashboardLayout (frame_step (Command Sign_out) s') h page = None \<and>
        fr_path (frame_step (Command Sign_out) s') = ''/login'' \<and> fr_session (frame_step (Command Sign_out) s') = initialState)"
proof -
  have "guarded_frame (fold frame_step es u)" if "guarded_frame u" for u
    using that by (induction es arbitrary: u) (simp_all add: frame_step_guarded)
  then have g: "guarded_frame s'" using assms(1) by (simp add: s'_def guarded_frame_def)
  have "DashboardLayout (frame_step e s') h page = None \<and> fr_path (frame_step e s') = ''/login'' \<and> fr_session (frame_step e s') = initialState"
    if "frame_shown s'" "fr_session (frame_change e s') = initialState" for e
    using frame_step_ends [OF _ g, of e] that by (simp add: DashboardLayout_def)
  then show ?thesis
    using g by (auto simp: DashboardLayout_def health_key_def guarded_frame_def handleLogout_def runCommand_def Let_def)
qed

text \<open>The sidebar has every page once, under its section, and marks the one at hand.\<close>

lemma sidebar_complete:
  "mset (concat (map (\<lambda>(section, items). map fst items) (SidebarNav p))) = mset NAV_ITEMS"
  "distinct (map ni_href NAV_ITEMS)" "distinct (map fst commands)"
  by (simp_all add: SidebarNav_def SECTIONS_def NAV_ITEMS_def commands_def MONITORING_LINKS_def Let_def)

definition loaded_tab :: frame where
  "loaded_tab =
     \<lparr>fr_mounted = False, fr_session = \<lparr>au_user = Some (Some (JStr ''a@b.c''), None), au_accessToken = Some (JStr ''t''), au_refreshToken = None,
        au_isAuthenticated = True\<rparr>, fr_path = ''/dashboard/api-keys'', fr_palette = False, fr_theme = None, fr_opened = []\<rparr>"

theorem layout_guards_pages_witness:
  "breadcrumbs ''/dashboard/api-keys'' = (True, [''api keys'']) \<and>
   frame_shown (frame_step Mounted loaded_tab) \<and>
   (let s = frame_step Menu_logout (frame_step Mounted loaded_tab)
    in DashboardLayout s None () = None \<and> fr_path s = ''/login'' \<and> fr_session s = initialState)"
proof -
  have start: "\<not> fr_mounted loaded_tab" by (simp add: loaded_tab_def)
  have on: "frame_shown (frame_step Mounted loaded_tab)"
    by (simp add: loaded_tab_def frame_step_def settle_def guard_effect_def)
  have "breadcrumbs ''/dashboard/api-keys'' = (True, [''api keys''])" by code_simp
  then show ?thesis
    using on layout_guards_pages [OF start, of "[Mounted]" None "()"] by (simp add: Let_def del: frame_shown_iff)
qed

end
