(* ===== verification/Gateway_Pipeline.thy ===== *)
theory Gateway_Pipeline
  imports Gateway_Events Platform_Sessions
begin

text \<open>
  A request on its way through the whole gateway, as \<open>apps/gateway/src/app.module.ts\<close> puts it together: the logging
  middleware, the cache of CDN responses, the authentication with its exclusions, and the routes of the controllers. How Nest
  and Express match a path against a pattern is a parameter; what is used of it is \<open>paths_ok\<close>. Preflight requests (\<open>OPTIONS\<close>)
  are answered by \<open>enableCors\<close> before any of this.
\<close>

section \<open>The parts of the gateway\<close>

record 'w gateway =
  gw_fmt :: numfmt
  gw_cfg :: "string \<Rightarrow> string option"
  gw_redis :: "'w redis"
  gw_sys :: "'w sys"
  gw_prom :: "'w prom"
  gw_jwt :: "'w jwt"
  gw_fetch :: "'w fetcher"
  gw_get :: "string \<Rightarrow> ('w, bool) io"
  gw_breaker :: "'w opossum"
  gw_forward :: "http \<Rightarrow> 'w forwarder"
  gw_axios :: "'w axios"
  gw_host :: "string \<Rightarrow> string option"
  gw_md5 :: "string \<Rightarrow> string"
  gw_register :: "('w, string) io"
  gw_startTime :: int
  gw_matches :: "string \<Rightarrow> string \<Rightarrow> bool"
  gw_param :: "string \<Rightarrow> string \<Rightarrow> string"

text \<open>
  A request as Express has it: \<open>originalUrl\<close>, \<open>path\<close>, the query as \<open>URLSearchParams\<close> prints it, the headers by their
  lower-case names, and the body as \<open>json()\<close> reads it, which the routes of \<open>config\<close> use.
\<close>

record incoming =
  in_method :: string
  in_url :: string
  in_path :: string
  in_query :: string
  in_headers :: "string \<Rightarrow> string option"
  in_ip :: "string option"
  in_json :: json

datatype outcome =
    Refused nat string
  | Routed answer
  | Health_report health_report
  | Probe string
  | Metrics_page string
  | Settings platform_config
  | Breaker_list "(string \<times> circuit \<times> circuit_stats) list"
  | Reset_done string
  | No_route

section \<open>Middleware and routes\<close>

definition logging_use :: "'w sys \<Rightarrow> http \<Rightarrow> ('w, http \<times> int) io" where
  "logging_use S c =
     await (uuid_v4 S) (\<lambda>requestId.
     await (date_now S) (\<lambda>startTime.
     return (c\<lparr>rq_headers := (rq_headers c)(''x-request-id'' \<mapsto> requestId)\<rparr>, startTime)))"

definition public_routes :: "string list" where
  "public_routes = [''v1/auth/register'', ''v1/auth/login'', ''health'', ''metrics'', ''cdn/(.*)'']"

definition excluded :: "'w gateway \<Rightarrow> string \<Rightarrow> bool" where
  "excluded G path \<longleftrightarrow> list_ex (\<lambda>r. gw_matches G r path) public_routes"

definition is_get :: "string \<Rightarrow> bool" where
  "is_get m \<longleftrightarrow> m = ''GET'' \<or> m = ''HEAD''"

definition user_role :: "http \<Rightarrow> json option" where
  "user_role c = (case rq_user c of None \<Rightarrow> None | Some user \<Rightarrow> jget ''role'' user)"

text \<open>The routes of the controllers, in the order in which the modules register them; \<open>hs\<close> are the headers set so far.\<close>

definition proxy_routes :: "'w gateway \<Rightarrow> incoming \<Rightarrow> http \<Rightarrow> headers \<Rightarrow> (bool \<times> ('w \<times> breakers, outcome) io) list" where
  "proxy_routes G q c hs =
     (let matches = (\<lambda>p. gw_matches G p (in_path q));
          cdn = cdn_handleRequest (gw_cfg G) (gw_host G) (gw_axios G) (in_method q) (in_url q) (rq_headers c) hs
      in [(matches ''cdn/*'',
           await (proxyCdn (gw_breaker G) (gw_cfg G) (gw_forward G c) cdn (gw_redis G) (gw_sys G) (gw_prom G) (in_ip q))
             (\<lambda>a. return (Routed a))),
          (matches ''v1/:service/*'',
           await (proxyAll (gw_fmt G) (gw_breaker G) (gw_cfg G) (gw_forward G c) cdn (gw_redis G) (gw_sys G) (gw_prom G)
               (gw_param G ''v1/:service/*'' (in_path q)) (in_ip q) (rq_user c))
             (\<lambda>a. return (Routed a)))])"

definition resilience_routes :: "'w gateway \<Rightarrow> incoming \<Rightarrow> (bool \<times> ('w \<times> breakers, outcome) io) list" where
  "resilience_routes G q =
     (let matches = (\<lambda>p. gw_matches G p (in_path q))
      in [(is_get (in_method q) \<and> matches ''resilience/circuit-breakers'', await (getStatus (gw_breaker G)) (\<lambda>s. return (Breaker_list s))),
          (in_method q = ''POST'' \<and> matches ''resilience/reset/:service'',
           await (reset_route (gw_breaker G) (gw_param G ''resilience/reset/:service'' (in_path q))) (\<lambda>m. return (Reset_done m)))])"

definition metrics_routes :: "'w gateway \<Rightarrow> incoming \<Rightarrow> (bool \<times> ('w \<times> breakers, outcome) io) list" where
  "metrics_routes G q =
     [(is_get (in_method q) \<and> gw_matches G ''metrics'' (in_path q), await (on_world (gw_register G)) (\<lambda>t. return (Metrics_page t)))]"

definition health_routes :: "'w gateway \<Rightarrow> incoming \<Rightarrow> (bool \<times> ('w \<times> breakers, outcome) io) list" where
  "health_routes G q =
     (let get = (\<lambda>p. is_get (in_method q) \<and> gw_matches G p (in_path q))
      in [(get ''health'',
           await (check_health (gw_breaker G) (gw_sys G) (gw_cfg G) (gw_get G) (gw_startTime G)) (\<lambda>r. return (Health_report r))),
          (get ''health/ready'', return (Probe ''ready'')),
          (get ''health/live'', return (Probe ''live''))])"

definition config_routes :: "'w gateway \<Rightarrow> incoming \<Rightarrow> http \<Rightarrow> (bool \<times> ('w \<times> breakers, outcome) io) list" where
  "config_routes G q c =
     (let matches = gw_matches G ''config'' (in_path q)
      in [(is_get (in_method q) \<and> matches, await (on_world (getConfig (gw_redis G))) (\<lambda>s. return (Settings s))),
          (in_method q = ''PATCH'' \<and> matches,
           await (on_world (config_update_route (gw_fmt G) (gw_redis G) (user_role c) (in_json q))) (\<lambda>s. return (Settings s)))])"

definition local_routes :: "'w gateway \<Rightarrow> incoming \<Rightarrow> http \<Rightarrow> (bool \<times> ('w \<times> breakers, outcome) io) list" where
  "local_routes G q c = resilience_routes G q @ metrics_routes G q @ health_routes G q @ config_routes G q c"

fun first_route :: "(bool \<times> ('w, outcome) io) list \<Rightarrow> ('w, outcome) io" where
  "first_route [] = return No_route"
| "first_route ((b, handler) # routes) = (if b then handler else first_route routes)"

definition gateway_route :: "'w gateway \<Rightarrow> incoming \<Rightarrow> http \<Rightarrow> headers \<Rightarrow> ('w \<times> breakers, outcome) io" where
  "gateway_route G q c hs = first_route (proxy_routes G q c hs @ local_routes G q c)"

text \<open>\<open>run_with m c\<close> runs \<open>m\<close> on a context of its own; \<open>with_held c m\<close> runs \<open>m\<close> on a context that stays as it is.\<close>

definition run_with :: "('w \<times> 'c, 'a) io \<Rightarrow> 'c \<Rightarrow> ('w, 'a \<times> 'c) io" where
  "run_with m c w = (case m (w, c) of (Inl e, (w', c')) \<Rightarrow> (Inl e, w') | (Inr a, (w', c')) \<Rightarrow> (Inr (a, c'), w'))"

definition with_held :: "'c \<Rightarrow> ('w \<times> 'c, 'a) io \<Rightarrow> ('w, 'a) io" where
  "with_held c m w = (case m (w, c) of (r, (w', c')) \<Rightarrow> (r, w'))"

definition authenticated :: "'w gateway \<Rightarrow> incoming \<Rightarrow> http \<Rightarrow> ('w, mw \<times> http) io" where
  "authenticated G q c =
     (if excluded G (in_path q) then return (Next, c)
      else run_with (auth_use (gw_cfg G) (gw_fetch G) (gw_jwt G) (gw_redis G) (gw_sys G) (gw_prom G)) c)"

definition gateway_rest :: "'w gateway \<Rightarrow> incoming \<Rightarrow> http \<Rightarrow> headers \<Rightarrow> ('w \<times> breakers, outcome \<times> http) io" where
  "gateway_rest G q c hs =
     await (on_world (authenticated G q c)) (\<lambda>(m, c'). case m of
       Reply code message \<Rightarrow> return (Refused code message, c')
     | Next \<Rightarrow> await (gateway_route G q c' hs) (\<lambda>out. return (out, c')))"

text \<open>
  The response that the middleware of the cache sees; on a path of the CDN it is the one of the CDN route, or a refusal.
\<close>

definition message_response :: "nat \<Rightarrow> string \<Rightarrow> headers \<Rightarrow> response" where
  "message_response code message hs =
     \<lparr>status = code, hdrs = setHeader ''Content-Type'' ''application/json; charset=utf-8'' hs,
      body = show_json (JObj [(''message'', JStr message)])\<rparr>"

fun response_of :: "headers \<Rightarrow> outcome \<Rightarrow> response" where
  "response_of hs (Routed (Cdn r)) = r"
| "response_of hs (Routed (Answered code message extra)) = message_response code message (set_headers extra hs)"
| "response_of hs (Refused code message) = message_response code message hs"
| "response_of hs _ = \<lparr>status = 200, hdrs = hs, body = []\<rparr>"

definition cdn_through_cache :: "'w gateway \<Rightarrow> incoming \<Rightarrow> http \<Rightarrow> ('w \<times> breakers, response) io" where
  "cdn_through_cache G q c =
     await get_ctx (\<lambda>bs.
     on_world (cdn_cache_use (gw_redis G) (gw_md5 G) (in_method q) (in_path q) (in_query q) (\<lambda>hs.
       with_held bs (await (gateway_rest G q c hs) (\<lambda>(out, c'). return (response_of hs out))))))"

definition gateway_handle :: "'w gateway \<Rightarrow> incoming \<Rightarrow> ('w \<times> breakers, outcome \<times> http) io" where
  "gateway_handle G q =
     await (on_world (logging_use (gw_sys G) \<lparr>rq_method = in_method q, rq_headers = in_headers q, rq_user = None, rs_headers = []\<rparr>))
       (\<lambda>(c, startTime).
     if is_get (in_method q) \<and> gw_matches G ''cdn/*'' (in_path q)
     then await (cdn_through_cache G q c) (\<lambda>r. return (Routed (Cdn r), c))
     else gateway_rest G q c [])"

section \<open>Which paths are public\<close>

text \<open>
  What Nest and Express document of patterns: one without a parameter or a star stands for itself, whatever the case of the
  letters and with or without a slash at the end; a star, and \<open>(.*)\<close>, stands for any rest.
\<close>

definition literal_path :: "string \<Rightarrow> string \<Rightarrow> bool" where
  "literal_path p path \<longleftrightarrow> map to_lower path = ''/'' @ p \<or> map to_lower path = ''/'' @ p @ ''/''"

definition cdn_path :: "string \<Rightarrow> bool" where
  "cdn_path path \<longleftrightarrow> prefix ''/cdn/'' (map to_lower path)"

definition paths_ok :: "(string \<Rightarrow> string \<Rightarrow> bool) \<Rightarrow> bool" where
  "paths_ok matches \<longleftrightarrow>
     (\<forall>p \<in> {''v1/auth/register'', ''v1/auth/login'', ''health'', ''metrics''}. \<forall>path. matches p path = literal_path p path) \<and>
     (\<forall>p \<in> {''cdn/*'', ''cdn/(.*)''}. \<forall>path. matches p path = cdn_path path)"

definition public_path :: "string \<Rightarrow> bool" where
  "public_path path \<longleftrightarrow> cdn_path path \<or> list_ex (\<lambda>p. literal_path p path) [''v1/auth/register'', ''v1/auth/login'', ''health'', ''metrics'']"

lemma excluded_public: "paths_ok (gw_matches G) \<Longrightarrow> excluded G path = public_path path"
  by (auto simp: paths_ok_def excluded_def public_routes_def public_path_def)

lemma cdn_matches: "paths_ok (gw_matches G) \<Longrightarrow> gw_matches G ''cdn/*'' path \<Longrightarrow> public_path path"
  by (simp add: paths_ok_def public_path_def)

section \<open>What a request meets on its way\<close>

lemma run_with_Inr: "run_with m c w = (Inr (a, c'), w') \<longleftrightarrow> m (w, c) = (Inr a, (w', c'))"
  by (auto simp: run_with_def split: prod.splits sum.splits)

lemma on_world_InrE:
  assumes "on_world m (w, c) = (Inr a, wc')"
  obtains w' where "m w = (Inr a, w')" and "wc' = (w', c)"
  using assms by (auto simp: on_world_def split: prod.splits)

text \<open>What vouches for a request at this gateway, and the worlds between which its middleware runs.\<close>

abbreviation gw_vouched :: "'w gateway \<Rightarrow> (string \<Rightarrow> string option) \<Rightarrow> json \<Rightarrow> 'w \<Rightarrow> 'w \<Rightarrow> bool" where
  "gw_vouched G \<equiv> vouched (gw_cfg G) (gw_fetch G) (gw_jwt G) (gw_redis G) (gw_sys G) (gw_prom G)"

definition logged :: "'w gateway \<Rightarrow> 'w \<Rightarrow> 'w \<Rightarrow> bool" where
  "logged G w w' \<longleftrightarrow> (\<exists>i t w1. uuid_v4 (gw_sys G) w = (Inr i, w1) \<and> date_now (gw_sys G) w1 = (Inr t, w'))"

lemma vouched_request_id:
  "gw_vouched G (headers(''x-request-id'' \<mapsto> i)) payload w w' = gw_vouched G headers payload w w'"
  by (simp add: vouched_def)

lemma auth_use_refuses:
  assumes "auth_use cfg fetch J R S P (w, c) = (Inr (Reply code message), (w', c'))" and "rq_method c \<noteq> ''OPTIONS''"
  shows "code \<in> {401, 429, 500}"
proof -
  have "auth_answer cfg (Reply code message)"
    using assms by (rule_tac auth_use_cases [OF assms]) (auto dest: api_key_path_answer bearer_path_answer)
  then show ?thesis by (auto simp: auth_answer_def)
qed

lemma first_route_Inr:
  "first_route routes w = (Inr out, w') \<Longrightarrow> out = No_route \<or> (\<exists>handler. (True, handler) \<in> set routes \<and> handler w = (Inr out, w'))"
  by (induction routes rule: first_route.induct) (auto split: if_splits)

lemma local_routes_answer:
  assumes "(True, handler) \<in> set (local_routes G q c)" and "handler w = (Inr out, w')"
  shows "out \<noteq> Routed a"
  using assms by (auto simp: local_routes_def resilience_routes_def metrics_routes_def health_routes_def config_routes_def Let_def await_eq_Inr_iff)

text \<open>A proxy takes over only what the window of the address, and the bucket of the user, let in on the way from \<open>w\<close> to \<open>w'\<close>.\<close>

definition let_in :: "'w gateway \<Rightarrow> string option \<Rightarrow> json option \<Rightarrow> 'w \<Rightarrow> 'w \<Rightarrow> bool" where
  "let_in G ip user w w' \<longleftrightarrow>
     (\<exists>r w1. slidingWindow (gw_redis G) (gw_sys G) (gw_prom G) (or_str ip ''unknown'') (Num 100) 60000 w = (Inr r, w1) \<and> allowed r \<and>
       (if jtruthy (user_sub user)
        then \<exists>r2. tokenBucket (gw_fmt G) (gw_redis G) (gw_sys G) (gw_prom G) (js_text (the (user_sub user))) 100 10 w1 = (Inr r2, w') \<and> allowed r2
        else w' = w1))"

lemma proxied_let_in:
  assumes "proxyAll (gw_fmt G) CB cfg forward cdn (gw_redis G) (gw_sys G) (gw_prom G) service ip user (w, bs) = (Inr Proxied, wb')"
  shows "\<exists>w'. let_in G ip user w w' \<and> proxy_handle CB cfg forward cdn service (w', bs) = (Inr Proxied, wb')"
  using proxyAll_limited [OF assms] unfolding let_in_def by (elim disjE exE conjE) (simp, simp, blast)

lemma gateway_route_proxied:
  assumes P: "paths_ok (gw_matches G)" and path: "\<not> public_path (in_path q)"
    and run: "gateway_route G q c hs (w, bs) = (Inr (Routed Proxied), wb')"
  shows "\<exists>w'. let_in G (in_ip q) (rq_user c) w w'"
proof -
  have "\<not> gw_matches G ''cdn/*'' (in_path q)" using cdn_matches [OF P] path by blast
  then have "\<exists>handler. (True, handler) \<in> set (proxy_routes G q c hs) \<and> handler (w, bs) = (Inr (Routed Proxied), wb')"
    using first_route_Inr [OF run [unfolded gateway_route_def]] local_routes_answer [of _ G q c "(w, bs)" _ wb'] by fastforce
  then show ?thesis using \<open>\<not> gw_matches G ''cdn/*'' (in_path q)\<close>
    by (auto simp: proxy_routes_def Let_def await_eq_Inr_iff dest!: proxied_let_in)
qed

lemma gateway_rest_eq:
  "gateway_rest G q c hs (w, bs) =
     (case authenticated G q c w of
        (Inl e, w1) \<Rightarrow> (Inl e, (w1, bs))
      | (Inr (Reply code message, c'), w1) \<Rightarrow> (Inr (Refused code message, c'), (w1, bs))
      | (Inr (Next, c'), w1) \<Rightarrow>
          (case gateway_route G q c' hs (w1, bs) of (Inl e, u) \<Rightarrow> (Inl e, u) | (Inr out, u) \<Rightarrow> (Inr (out, c'), u)))"
  by (simp add: gateway_rest_def await_def on_world_def split: prod.split sum.split mw.split)

lemma gateway_handle_eq:
  assumes "\<not> gw_matches G ''cdn/*'' (in_path q)"
  shows "gateway_handle G q (w, bs) =
    (case logging_use (gw_sys G) \<lparr>rq_method = in_method q, rq_headers = in_headers q, rq_user = None, rs_headers = []\<rparr> w of
       (Inl e, w1) \<Rightarrow> (Inl e, (w1, bs)) | (Inr (c, t), w1) \<Rightarrow> gateway_rest G q c [] (w1, bs))"
  using assms by (simp add: gateway_handle_def await_def on_world_def split: prod.split sum.split)

lemma gateway_handleE:
  assumes "gateway_handle G q (w, bs) = (Inr (out, c), wb')" and "\<not> gw_matches G ''cdn/*'' (in_path q)"
  obtains c1 t w1 where
    "logging_use (gw_sys G) \<lparr>rq_method = in_method q, rq_headers = in_headers q, rq_user = None, rs_headers = []\<rparr> w = (Inr (c1, t), w1)"
    and "gateway_rest G q c1 [] (w1, bs) = (Inr (out, c), wb')"
proof -
  obtain r w1 where log: "logging_use (gw_sys G)
      \<lparr>rq_method = in_method q, rq_headers = in_headers q, rq_user = None, rs_headers = []\<rparr> w = (r, w1)" by fastforce
  show thesis
  proof (cases r)
    case (Inl e)
    then show thesis using assms(1) by (simp add: gateway_handle_eq [OF assms(2)] log)
  next
    case (Inr ct)
    then show thesis using assms(1) that log by (cases ct) (simp add: gateway_handle_eq [OF assms(2)])
  qed
qed

lemma gateway_restE:
  assumes "gateway_rest G q c hs (w, bs) = (Inr (out, c'), wb')" and "\<not> excluded G (in_path q)"
  obtains code message w' where "out = Refused code message"
      and "auth_use (gw_cfg G) (gw_fetch G) (gw_jwt G) (gw_redis G) (gw_sys G) (gw_prom G) (w, c) = (Inr (Reply code message), (w', c'))"
    | w1 where "auth_use (gw_cfg G) (gw_fetch G) (gw_jwt G) (gw_redis G) (gw_sys G) (gw_prom G) (w, c) = (Inr Next, (w1, c'))"
      and "gateway_route G q c' hs (w1, bs) = (Inr out, wb')"
proof -
  have auth: "authenticated G q c = run_with (auth_use (gw_cfg G) (gw_fetch G) (gw_jwt G) (gw_redis G) (gw_sys G) (gw_prom G)) c"
    using assms(2) by (simp add: authenticated_def)
  from assms(1) show thesis
    unfolding gateway_rest_eq auth
    by (auto simp: run_with_Inr split: prod.splits sum.splits mw.splits intro: that)
qed

lemma logging_useE:
  assumes "logging_use (gw_sys G) c w = (Inr (c1, t), w1)"
  obtains i where "c1 = c\<lparr>rq_headers := (rq_headers c)(''x-request-id'' \<mapsto> i)\<rparr>" and "logged G w w1"
  using assms by (auto simp: logging_use_def logged_def await_eq_Inr_iff)

text \<open>
  C2. What the gateway lets through. Preflight requests (\<open>OPTIONS\<close>) apart, outside registration, login, the health report, the
  metrics and the CDN, a request that is not refused with 401, 429 or 500 carries as its user the payload that vouches for the
  API key or the token of the request as it came, and the window of that user, under the configured limit, allowed this
  request; and if it then goes on to a service, the window of its address at 100 a minute allowed it, too, and so did the bucket
  of the user. All these are calls of this very run, one after the other. This is so for every route of every controller,
  whatever the clients do.
\<close>

theorem gateway_guards_routes:
  assumes P: "paths_ok (gw_matches G)" and run: "gateway_handle G q (w, bs) = (Inr (out, c), wb')"
    and q: "in_method q \<noteq> ''OPTIONS''" "\<not> public_path (in_path q)"
  shows "(\<exists>code message. out = Refused code message \<and> code \<in> {401, 429, 500}) \<or>
    (\<exists>payload w1 w2. rq_user c = Some payload \<and> logged G w w1 \<and> gw_vouched G (in_headers q) payload w1 w2 \<and>
       (out = Routed Proxied \<longrightarrow> (\<exists>w3. let_in G (in_ip q) (Some payload) w2 w3)))"
proof -
  let ?c = "\<lparr>rq_method = in_method q, rq_headers = in_headers q, rq_user = None, rs_headers = []\<rparr>"
  have cdn: "\<not> gw_matches G ''cdn/*'' (in_path q)" using cdn_matches [OF P] q(2) by blast
  from run obtain c1 t w1 where log: "logging_use (gw_sys G) ?c w = (Inr (c1, t), w1)"
    and rest: "gateway_rest G q c1 [] (w1, bs) = (Inr (out, c), wb')"
    by (rule gateway_handleE [OF _ cdn])
  obtain i where c1: "c1 = ?c\<lparr>rq_headers := (rq_headers ?c)(''x-request-id'' \<mapsto> i)\<rparr>" and w1: "logged G w w1"
    using log by (rule logging_useE)
  then have m: "rq_method c1 \<noteq> ''OPTIONS''" using q(1) by simp
  have "\<not> excluded G (in_path q)" using excluded_public [OF P] q(2) by simp
  with rest show ?thesis
  proof (cases rule: gateway_restE)
    case (1 code message w')
    have "code \<in> {401, 429, 500}" using 1(2) m by (rule auth_use_refuses)
    with 1(1) show ?thesis by blast
  next
    case (2 w2)
    obtain payload where user: "rq_user c = Some payload" and v: "gw_vouched G (rq_headers c1) payload w1 w2"
      using auth_use_vouched [OF 2(1) m] by blast
    from v have "gw_vouched G (in_headers q) payload w1 w2" by (simp add: c1 vouched_request_id)
    moreover have "\<exists>w3. let_in G (in_ip q) (rq_user c) w2 w3" if "out = Routed Proxied"
      using gateway_route_proxied [OF P q(2)] 2(2) that by blast
    ultimately show ?thesis using user w1 by metis
  qed
qed

section \<open>Requests without credentials\<close>

definition anonymous :: "(string \<Rightarrow> string option) \<Rightarrow> bool" where
  "anonymous headers \<longleftrightarrow> \<not> truthy (headers ''x-api-key'') \<and>
     (truthy (headers ''authorization'') \<longrightarrow> \<not> prefix ''Bearer '' (the (headers ''authorization'')))"

text \<open>Such a request is refused before anything but the UUID and the clock has been used.\<close>

lemma anonymous_refused:
  assumes P: "paths_ok (gw_matches G)" and q: "in_method q \<noteq> ''OPTIONS''" "\<not> public_path (in_path q)" "anonymous (in_headers q)"
    and S: "uuid_v4 (gw_sys G) w = (Inr i, w1)" "date_now (gw_sys G) w1 = (Inr t, w2)"
  shows "\<exists>c. gateway_handle G q (w, bs) = (Inr (Refused 401 ''Unauthorized - Missing or invalid token'', c), (w2, bs)) \<and> rq_user c = None"
proof -
  define c where "c = \<lparr>rq_method = in_method q, rq_headers = (in_headers q)(''x-request-id'' \<mapsto> i), rq_user = None, rs_headers = []\<rparr>"
  have "\<not> gw_matches G ''cdn/*'' (in_path q)" using cdn_matches [OF P] q(2) by blast
  moreover have "logging_use (gw_sys G) \<lparr>rq_method = in_method q, rq_headers = in_headers q, rq_user = None, rs_headers = []\<rparr> w =
      (Inr (c, t), w2)"
    by (simp add: logging_use_def await_def S c_def)
  ultimately have handle: "gateway_handle G q (w, bs) = gateway_rest G q c [] (w2, bs)"
    by (simp add: gateway_handle_eq)
  have "auth_use (gw_cfg G) (gw_fetch G) (gw_jwt G) (gw_redis G) (gw_sys G) (gw_prom G) (w2, c) =
      (Inr (Reply 401 ''Unauthorized - Missing or invalid token''), (w2, c))"
    using q(1,3) by (auto simp: auth_use_def c_def anonymous_def Let_def await_def get_ctx_def)
  then have "authenticated G q c w2 = (Inr (Reply 401 ''Unauthorized - Missing or invalid token'', c), w2)"
    using excluded_public [OF P] q(2) by (simp add: authenticated_def run_with_Inr)
  then have "gateway_rest G q c [] (w2, bs) = (Inr (Refused 401 ''Unauthorized - Missing or invalid token'', c), (w2, bs))"
    by (simp add: gateway_rest_eq)
  then show ?thesis by (simp add: handle c_def)
qed

text \<open>The probes of a cluster come without credentials; the paths they ask for are not among the public ones.\<close>

lemma probes_not_public: "\<not> public_path ''/health/ready''" "\<not> public_path ''/health/live''" "public_path ''/health''"
  by code_simp+

lemma refresh_not_public: "\<not> public_path ''/v1/auth/refresh''" "public_path ''/v1/auth/login''"
  by code_simp+

section \<open>The refresh of a session, through the gateway\<close>

text \<open>
  A request of the browser as the gateway gets it: the address of the API is that of the gateway, and the browser adds headers
  of its own.
\<close>

definition browser_header :: "(string \<times> string) list \<Rightarrow> (string \<Rightarrow> string option) \<Rightarrow> string \<Rightarrow> string option" where
  "browser_header headers extra n =
     (case find (\<lambda>(k, v). map to_lower k = n) headers of Some (k, v) \<Rightarrow> Some v | None \<Rightarrow> extra n)"

definition browser_request :: "'w browser \<Rightarrow> (string \<Rightarrow> string option) \<Rightarrow> string option \<Rightarrow> fetch_request \<Rightarrow> incoming" where
  "browser_request B extra ip r =
     (let url = drop (length (api_url B [])) (fq_url r)
      in \<lparr>in_method = fq_method r, in_url = url, in_path = takeWhile (\<lambda>c. c \<noteq> CHR ''?'') url,
          in_query = drop 1 (dropWhile (\<lambda>c. c \<noteq> CHR ''?'') url), in_headers = browser_header (fq_headers r) extra,
          in_ip = ip, in_json = JNull\<rparr>)"

text \<open>The answer over HTTP; \<open>answer\<close> is that of everything but the refusals, the services' answers among it.\<close>

definition over_gateway :: "(outcome \<Rightarrow> fetched) \<Rightarrow> 'w gateway \<Rightarrow> incoming \<Rightarrow> ('w \<times> breakers, fetched) io" where
  "over_gateway answer G q u =
     (case gateway_handle G q u of
        (Inl e, u') \<Rightarrow> (Inr \<lparr>fe_status = error_status e, fe_json = Some (error_body e)\<rparr>, u')
      | (Inr (Refused code message, c), u') \<Rightarrow> (Inr \<lparr>fe_status = code, fe_json = Some (JObj [(''message'', JStr message)])\<rparr>, u')
      | (Inr (out, c), u') \<Rightarrow> (Inr (answer out), u'))"

lemma refresh_as_received:
  "in_path (browser_request B extra ip (refresh_request B rt)) = ''/v1/auth/refresh''"
  "in_method (browser_request B extra ip (refresh_request B rt)) = ''POST''"
  "in_headers (browser_request B extra ip (refresh_request B rt)) = browser_header [(''Content-Type'', ''application/json'')] extra"
  by (simp_all add: browser_request_def refresh_request_def api_url_def Let_def)

lemma refresh_anonymous:
  assumes "extra ''authorization'' = None" and "extra ''x-api-key'' = None"
  shows "anonymous (browser_header [(''Content-Type'', ''application/json'')] extra)"
proof -
  have "map to_lower ''Content-Type'' \<noteq> ''authorization''" "map to_lower ''Content-Type'' \<noteq> ''x-api-key''" by code_simp+
  then show ?thesis using assms by (simp add: anonymous_def browser_header_def)
qed

text \<open>
  C3. No session is ever renewed through the gateway. The refresh of an expired session carries the refresh token in its body
  and no credentials in its headers, and its path is not among the public ones: the gateway answers 401 without asking the auth
  service, whatever the token and whatever that service has stored. So the request that met the 401 ends with
  \<open>Unauthorized\<close>, the session in the store is thrown away and the user is on the login page.
\<close>

theorem refresh_stops_at_gateway:
  fixes B :: "('w \<times> breakers) browser" and G :: "'w gateway"
  assumes B: "browser_ok B st loc"
    and first: "send B method path (headers_of (au_accessToken (st u)) load) load u = (Inr res, (w1, bs))" "fe_status res = 401"
    and session: "au_refreshToken (st u) = Some rt"
    and gateway: "\<And>v. br_fetch B (refresh_request B rt) v = over_gateway answer G (browser_request B extra ip (refresh_request B rt)) v"
    and G: "paths_ok (gw_matches G)" "returns (uuid_v4 (gw_sys G))" "returns (date_now (gw_sys G))"
    and extra: "extra ''authorization'' = None" "extra ''x-api-key'' = None"
  shows "(\<exists>w2. br_fetch B (refresh_request B rt) (w1, bs) =
      (Inr \<lparr>fe_status = 401, fe_json = Some (JObj [(''message'', JStr ''Unauthorized - Missing or invalid token'')])\<rparr>, (w2, bs))) \<and>
    (\<exists>u'. request B method path load u = (Inl unauthorized, u') \<and> st u' = initialState \<and> loc u' = ''/login'')"
proof -
  let ?q = "browser_request B extra ip (refresh_request B rt)"
  obtain i v1 where i: "uuid_v4 (gw_sys G) w1 = (Inr i, v1)" using G(2) by (rule returnsE)
  obtain t w2 where t: "date_now (gw_sys G) v1 = (Inr t, w2)" using G(3) by (rule returnsE)
  have q: "in_method ?q \<noteq> ''OPTIONS''" "\<not> public_path (in_path ?q)" "anonymous (in_headers ?q)"
    using refresh_anonymous [OF extra] by (simp_all add: refresh_as_received refresh_not_public)
  obtain c where "gateway_handle G ?q (w1, bs) = (Inr (Refused 401 ''Unauthorized - Missing or invalid token'', c), (w2, bs))"
    using anonymous_refused [OF G(1) q i t] by blast
  then have refused: "br_fetch B (refresh_request B rt) (w1, bs) =
      (Inr \<lparr>fe_status = 401, fe_json = Some (JObj [(''message'', JStr ''Unauthorized - Missing or invalid token'')])\<rparr>, (w2, bs))"
    by (simp add: gateway over_gateway_def)
  have "\<exists>v. try_refresh B (st u) method path load (w1, bs) = (Inr None, v)"
    using refresh_refused [OF refused] session by (auto simp: try_refresh_def fe_ok_def)
  then obtain v where "request B method path load u = ending B None v"
    unfolding request_401 [OF B first] by (auto simp: await_def)
  moreover obtain u' where "ending B None v = (Inl unauthorized, u')" "st u' = initialState" "loc u' = ''/login''"
    by (rule ending_None [OF B])
  ultimately show ?thesis using refused by auto
qed

section \<open>A gateway that runs\<close>

definition path_parts :: "string \<Rightarrow> string list" where
  "path_parts path = drop 1 (split_on (CHR ''/'') (map to_lower path))"

definition run_match :: "string \<Rightarrow> string \<Rightarrow> bool" where
  "run_match p path =
     (if p = ''cdn/*'' \<or> p = ''cdn/(.*)'' then cdn_path path
      else if p = ''v1/:service/*'' then length (path_parts path) \<ge> 3 \<and> hd (path_parts path) = ''v1''
      else if p = ''resilience/reset/:service'' then length (path_parts path) = 3 \<and> take 2 (path_parts path) = [''resilience'', ''reset'']
      else literal_path p path)"

lemma run_match_ok: "paths_ok run_match"
  by (simp add: paths_ok_def run_match_def)

definition run_gateway :: "tab_world gateway" where
  "run_gateway =
     \<lparr>gw_fmt = world_numfmt, gw_cfg = world_cfg, gw_redis = world_redis, gw_sys = world_sys, gw_prom = world_prom, gw_jwt = plain_jwt,
      gw_fetch = auth_fetch run_deps, gw_get = (\<lambda>_. return True),
      gw_breaker = \<lparr>cb_new = (\<lambda>_. return 0), cb_fire = (\<lambda>_ m. m), cb_close = (\<lambda>_. return ()), cb_opened = (\<lambda>_ _. False),
        cb_half_open = (\<lambda>_ _. False), cb_stats = (\<lambda>_ _. \<lparr>successes = 0, failures = 0, rejects = 0, fallbacks = 0, fires = 0\<rparr>),
        cb_code = (\<lambda>_. None)\<rparr>,
      gw_forward = (\<lambda>_ _ _ _. return ()), gw_axios = (\<lambda>_ _ _. throw (JsError ''offline'')), gw_host = (\<lambda>_. None), gw_md5 = id,
      gw_register = return [], gw_startTime = 0, gw_matches = run_match, gw_param = (\<lambda>p path. path_parts path ! (if p = ''v1/:service/*'' then 1 else 2))\<rparr>"

definition bucket_list :: incoming where
  "bucket_list =
     \<lparr>in_method = ''GET'', in_url = ''/v1/storage/buckets?page=1'', in_path = ''/v1/storage/buckets'', in_query = ''page=1'',
      in_headers = [''authorization'' \<mapsto> bearer (b64_encode (show_json (JObj [(''id'', JStr ''u1'')])))], in_ip = Some ''10.0.0.1'', in_json = JNull\<rparr>"

definition run_world :: "tab_world \<times> breakers" where
  "run_world = (tab_at empty_db, [(''storage-service'', 0)])"

lemma bucket_list_runs:
  "case gateway_handle run_gateway bucket_list run_world of (Inr (out, c), u) \<Rightarrow> out = Routed Proxied | (Inl e, u) \<Rightarrow> False"
  by code_simp

theorem gateway_guards_routes_witness:
  "\<exists>c payload u w1 w2 w3. gateway_handle run_gateway bucket_list run_world = (Inr (Routed Proxied, c), u) \<and>
     rq_user c = Some payload \<and> logged run_gateway (fst run_world) w1 \<and> gw_vouched run_gateway (in_headers bucket_list) payload w1 w2 \<and>
     let_in run_gateway (Some ''10.0.0.1'') (Some payload) w2 w3"
proof -
  obtain c u where run: "gateway_handle run_gateway bucket_list (tab_at empty_db, [(''storage-service'', 0)]) = (Inr (Routed Proxied, c), u)"
    using bucket_list_runs by (auto simp: run_world_def split: prod.splits sum.splits)
  have P: "paths_ok (gw_matches run_gateway)" by (simp add: run_gateway_def run_match_ok)
  have "\<not> public_path (in_path bucket_list)" "in_method bucket_list \<noteq> ''OPTIONS''" "in_ip bucket_list = Some ''10.0.0.1''"
    by code_simp+
  with gateway_guards_routes [OF P run] show ?thesis using run by (auto simp: run_world_def)
qed

text \<open>A tab whose first request met a 401, before this gateway.\<close>

definition gate_base :: "(tab_world \<times> breakers) browser" where
  "gate_base =
     \<lparr>br_window = True, br_apiUrl = None, br_state = (\<lambda>(w, bs). (Inr (tb_session w), (w, bs))),
      br_dispatch = (\<lambda>a (w, bs). (Inr (), (w\<lparr>tb_session := authReducer a (tb_session w)\<rparr>, bs))),
      br_fetch = (\<lambda>_. return \<lparr>fe_status = 401, fe_json = None\<rparr>),
      br_redirect = (\<lambda>l (w, bs). (Inr (), (w\<lparr>tb_location := l\<rparr>, bs)))\<rparr>"

definition gate_browser :: "(tab_world \<times> breakers) browser" where
  "gate_browser = gate_base\<lparr>br_fetch := (\<lambda>r.
     if fq_url r = api_url gate_base ''/v1/auth/refresh''
     then over_gateway (\<lambda>_. \<lparr>fe_status = 200, fe_json = Some JNull\<rparr>) run_gateway (browser_request gate_base Map.empty None r)
     else br_fetch gate_base r)\<rparr>"

lemma gate_browser_url: "api_url gate_browser = api_url gate_base"
  by (simp add: gate_browser_def api_url_def fun_eq_iff)

lemma gate_browser_ok: "browser_ok gate_browser (tb_session \<circ> fst) (tb_location \<circ> fst)"
  by (auto simp: browser_ok_def gate_browser_def gate_base_def)

theorem refresh_stops_at_gateway_witness:
  "\<exists>u'. request gate_browser ''GET'' ''/v1/storage/buckets'' (Json None) (tab_at (open_session ''u1'' ''dev'' 4 alice_token empty_db), []) =
      (Inl unauthorized, u') \<and> tb_session (fst u') = initialState \<and> tb_location (fst u') = ''/login''"
proof -
  let ?w = "tab_at (open_session ''u1'' ''dev'' 4 alice_token empty_db)"
  have session: "au_refreshToken ((tb_session \<circ> fst) (?w, [])) = Some (JStr alice_token)" by (simp add: tab_at_def)
  have "api_url gate_base ''/v1/storage/buckets'' \<noteq> api_url gate_base ''/v1/auth/refresh''" by (simp add: api_url_def)
  then have first: "send gate_browser ''GET'' ''/v1/storage/buckets'' (headers_of (au_accessToken ((tb_session \<circ> fst) (?w, []))) (Json None)) (Json None) (?w, []) =
      (Inr \<lparr>fe_status = 401, fe_json = None\<rparr>, (?w, []))"
    by (simp add: send_def gate_browser_url) (simp add: gate_browser_def gate_base_def)
  have gateway: "br_fetch gate_browser (refresh_request gate_browser (JStr alice_token)) v =
      over_gateway (\<lambda>_. \<lparr>fe_status = 200, fe_json = Some JNull\<rparr>) run_gateway
        (browser_request gate_browser Map.empty None (refresh_request gate_browser (JStr alice_token))) v" for v
    by (simp add: browser_request_def refresh_request_def gate_browser_url) (simp add: gate_browser_def browser_request_def)
  have G: "paths_ok (gw_matches run_gateway)" "returns (uuid_v4 (gw_sys run_gateway))" "returns (date_now (gw_sys run_gateway))"
    by (simp_all add: run_gateway_def run_match_ok returns_def world_sys_def)
  show ?thesis
    using refresh_stops_at_gateway [OF gate_browser_ok first _ session gateway G] by auto
qed

end
