(* ===== verification/Alerts_View.thy ===== *)
theory Alerts_View
  imports Alerting Gateway_Resilience Overview_Properties
begin

text \<open>
  What the alerts page of the dashboard (\<open>app/dashboard/alerts/page.tsx\<close>) shows of what the notification service answers: the
  answers as JSON, the three tables, and the exceptions of rendering, which leave nothing of the page. React shows strings and
  numbers, nothing for \<open>null\<close>, \<open>undefined\<close> and booleans, the elements of an array one after the other, and throws for an object.
  Dates printed for a locale are a parameter.
\<close>

section \<open>The answers of the service\<close>

definition rule_wire :: "alert_rule \<Rightarrow> wire" where
  "rule_wire r =
     wobject [(''id'', Some (Wstr (ru_id r))), (''name'', Some (Wstr (ru_name r))), (''condition'', Some (Wstr (condition_name (ru_condition r)))),
       (''threshold'', Some (Wnum (ru_threshold r))), (''windowMinutes'', Some (Wnum (of_int (ru_windowMinutes r)))),
       (''channels'', Some (wire_of (ru_channels r))), (''enabled'', Some (Wbool (ru_enabled r)))]"

definition alert_wire :: "numfmt \<Rightarrow> alert_record \<Rightarrow> wire" where
  "alert_wire F a =
     wobject [(''id'', Some (Wstr (alert_record.al_id a))), (''ruleId'', Some (Wstr (al_ruleId a))), (''ruleName'', Some (Wstr (al_ruleName a))),
       (''condition'', Some (Wstr (condition_name (alert_record.al_condition a)))), (''threshold'', Some (Wnum (alert_record.al_threshold a))),
       (''currentValue'', Some (Wnum (al_currentValue a))), (''message'', Some (Wstr (al_message a))),
       (''timestamp'', Some (Wstr (iso_string F (al_timestamp a))))]"

definition sent_wire :: "numfmt \<Rightarrow> notification_record \<Rightarrow> wire" where
  "sent_wire F n =
     wobject [(''id'', Some (Wstr (nr_id n))), (''alertId'', Some (Wstr (nr_alertId n))), (''channels'', Some (wire_of (nr_channels n))),
       (''status'', Some (Wstr (nr_status n))), (''timestamp'', Some (Wstr (iso_string F (nr_timestamp n)))), (''error'', map_option Wstr (nr_error n))]"

fun arg_wire :: "arg \<Rightarrow> wire" where
  "arg_wire (Given s) = Wstr s"
| "arg_wire (Default n) = Wnum (of_int n)"

definition page_wire :: "('a \<Rightarrow> wire) \<Rightarrow> 'a js_page \<Rightarrow> wire" where
  "page_wire enc p =
     wobject [(''data'', Some (wlist enc (pg_data p))), (''total'', Some (Wnum (of_nat (pg_total p)))),
       (''page'', Some (arg_wire (pg_page p))), (''pageSize'', Some (arg_wire (pg_pageSize p)))]"

text \<open>The three answers, for the paths as the page asks for them, without a query.\<close>

definition rules_answer :: "numfmt \<Rightarrow> alerting \<Rightarrow> wire" where
  "rules_answer F c = page_wire rule_wire (listRules_route F None None c)"

definition alerts_answer :: "numfmt \<Rightarrow> alerting \<Rightarrow> wire" where
  "alerts_answer F c = page_wire (alert_wire F) (getAlertHistory_route F None None c)"

definition sent_answer :: "numfmt \<Rightarrow> alerting \<Rightarrow> wire" where
  "sent_answer F c = page_wire (sent_wire F) (notificationHistory_route F None None c)"

section \<open>Values in the markup\<close>

fun shown_text :: "numfmt \<Rightarrow> wire \<Rightarrow> string option" and shown_texts :: "numfmt \<Rightarrow> wire list \<Rightarrow> string option" where
  "shown_text F Wnull = Some []"
| "shown_text F (Wbool b) = Some []"
| "shown_text F (Wnum x) = Some (num_to_string F (Num x))"
| "shown_text F (Wstr s) = Some s"
| "shown_text F (Warr xs) = shown_texts F xs"
| "shown_text F (Wobj kvs) = None"
| "shown_texts F [] = Some []"
| "shown_texts F (x # xs) = (case (shown_text F x, shown_texts F xs) of (Some s, Some t) \<Rightarrow> Some (s @ t) | _ \<Rightarrow> None)"

definition child :: "numfmt \<Rightarrow> wire option \<Rightarrow> ('w, string) io" where
  "child F v =
     (case v of None \<Rightarrow> return []
      | Some x \<Rightarrow> (case shown_text F x of None \<Rightarrow> throw (JsError ''Objects are not valid as a React child'') | Some s \<Rightarrow> return s))"

text \<open>\<open>v?.join(', ')\<close> and \<open>v?.toUpperCase()\<close>; \<open>None\<close> is \<open>undefined\<close>.\<close>

fun join_comma :: "numfmt \<Rightarrow> wire list \<Rightarrow> string" where
  "join_comma F [] = []"
| "join_comma F [x] = (if x = Wnull then [] else wire_text F x)"
| "join_comma F (x # y # ys) = (if x = Wnull then [] else wire_text F x) @ '', '' @ join_comma F (y # ys)"

fun joined :: "numfmt \<Rightarrow> wire option \<Rightarrow> ('w, string option) io" where
  "joined F None = return None"
| "joined F (Some Wnull) = return None"
| "joined F (Some (Warr xs)) = return (Some (join_comma F xs))"
| "joined F (Some v) = throw (JsError ''join is not a function'')"

fun upper_text :: "wire option \<Rightarrow> ('w, string option) io" where
  "upper_text None = return None"
| "upper_text (Some Wnull) = return None"
| "upper_text (Some (Wstr s)) = return (Some (map to_upper s))"
| "upper_text (Some v) = throw (JsError ''toUpperCase is not a function'')"

section \<open>The tables\<close>

definition list_in :: "wire option \<Rightarrow> wire list" where
  "list_in answer = (case answer of None \<Rightarrow> [] | Some v \<Rightarrow> (case wget ''data'' v of Some (Warr xs) \<Rightarrow> xs | _ \<Rightarrow> []))"

record rule_view =
  rv_name :: string
  rv_condition :: string
  rv_threshold :: string
  rv_window :: string
  rv_badges :: "string list"
  rv_status :: string

definition rule_row :: "numfmt \<Rightarrow> wire \<Rightarrow> ('w, rule_view) io" where
  "rule_row F rule =
     await (member_of ''channels'' rule) (\<lambda>channels.
     await (case channels of None \<Rightarrow> throw (JsError ''Cannot read properties of undefined'') | Some c \<Rightarrow> await (member_of ''email'' c) (\<lambda>email. return (c, email)))
       (\<lambda>(c, email).
     await (child F (wget ''name'' rule)) (\<lambda>name.
     await (child F (wget ''condition'' rule)) (\<lambda>condition.
     await (child F (wget ''threshold'' rule)) (\<lambda>threshold.
     await (child F (wget ''window'' rule)) (\<lambda>window.
     return \<lparr>rv_name = name, rv_condition = condition, rv_threshold = threshold, rv_window = window @ ''m'',
       rv_badges = (if wtruthy email then [''Email''] else []) @ (if wtruthy (wget ''webhook'' c) then [''Webhook''] else [])
         @ (if wtruthy (wget ''slack'' c) then [''Slack''] else []),
       rv_status = (if wtruthy (wget ''enabled'' rule) then ''Enabled'' else ''Disabled'')\<rparr>))))))"

record alert_view =
  hv_time :: string
  hv_rule :: string
  hv_value :: string
  hv_status :: string
  hv_red :: bool
  hv_channels :: string

definition alert_row :: "numfmt \<Rightarrow> (int js \<Rightarrow> string) \<Rightarrow> wire \<Rightarrow> ('w, alert_view) io" where
  "alert_row F L hist =
     await (member_of ''timestamp'' hist) (\<lambda>timestamp.
     await (child F (wget ''ruleName'' hist)) (\<lambda>rule.
     await (child F (wget ''value'' hist)) (\<lambda>v.
     await (child F (wget ''threshold'' hist)) (\<lambda>threshold.
     await (upper_text (wget ''status'' hist)) (\<lambda>status.
     await (joined F (wget ''channels'' hist)) (\<lambda>channels.
     return \<lparr>hv_time = L (date_time F timestamp), hv_rule = rule, hv_value = v @ '' / '' @ threshold,
       hv_status = or_str status ''UNKNOWN'', hv_red = (wget ''status'' hist = Some (Wstr ''triggered'')),
       hv_channels = (case channels of None \<Rightarrow> [] | Some s \<Rightarrow> s)\<rparr>))))))"

record sent_view =
  sv_time :: string
  sv_channels :: string
  sv_status :: string
  sv_green :: bool
  sv_preview :: string

definition sent_row :: "numfmt \<Rightarrow> (int js \<Rightarrow> string) \<Rightarrow> wire \<Rightarrow> ('w, sent_view) io" where
  "sent_row F L notif =
     await (member_of ''timestamp'' notif) (\<lambda>timestamp.
     await (joined F (wget ''channels'' notif)) (\<lambda>channels.
     await (child F (wget ''status'' notif)) (\<lambda>status.
     await (child F (Some (wor (wget ''error'' notif) (Wstr ''Dispatched via configured channels'')))) (\<lambda>preview.
     return \<lparr>sv_time = L (date_time F timestamp), sv_channels = or_str channels ''N/A'', sv_status = status,
       sv_green = (wget ''status'' notif = Some (Wstr ''success'')), sv_preview = preview\<rparr>))))"

record alerts_view =
  vw_rules :: "rule_view list"
  vw_alerts :: "alert_view list"
  vw_sent :: "sent_view list"

definition AlertsPage :: "numfmt \<Rightarrow> (int js \<Rightarrow> string) \<Rightarrow> wire option \<Rightarrow> wire option \<Rightarrow> wire option \<Rightarrow> ('w, alerts_view) io" where
  "AlertsPage F L rulesData alertHistory notifHistory =
     await (map_io (rule_row F) (list_in rulesData)) (\<lambda>rules.
     await (map_io (alert_row F L) (list_in alertHistory)) (\<lambda>alerts.
     await (map_io (sent_row F L) (list_in notifHistory)) (\<lambda>sent.
     return \<lparr>vw_rules = rules, vw_alerts = alerts, vw_sent = sent\<rparr>)))"

section \<open>The tables of what the service answers\<close>

definition rule_shown :: "numfmt \<Rightarrow> alert_rule \<Rightarrow> rule_view" where
  "rule_shown F r =
     \<lparr>rv_name = ru_name r, rv_condition = condition_name (ru_condition r), rv_threshold = num_text F (ru_threshold r), rv_window = ''m'',
      rv_badges = map snd (filter (\<lambda>(f, badge). wtruthy (wget f (wire_of (ru_channels r)))) [(''email'', ''Email''), (''webhook'', ''Webhook''), (''slack'', ''Slack'')]),
      rv_status = (if ru_enabled r then ''Enabled'' else ''Disabled'')\<rparr>"

definition alert_shown :: "numfmt \<Rightarrow> (int js \<Rightarrow> string) \<Rightarrow> alert_record \<Rightarrow> alert_view" where
  "alert_shown F L a =
     \<lparr>hv_time = L (Num (al_timestamp a)), hv_rule = al_ruleName a, hv_value = '' / '' @ num_text F (alert_record.al_threshold a),
      hv_status = ''UNKNOWN'', hv_red = False, hv_channels = []\<rparr>"

fun channel_names :: "numfmt \<Rightarrow> json \<Rightarrow> string" where
  "channel_names F (JArr xs) = join_comma F (map wire_of xs)"
| "channel_names F j = []"

definition sent_shown :: "numfmt \<Rightarrow> (int js \<Rightarrow> string) \<Rightarrow> notification_record \<Rightarrow> sent_view" where
  "sent_shown F L n =
     \<lparr>sv_time = L (Num (nr_timestamp n)), sv_channels = or_str (Some (channel_names F (nr_channels n))) ''N/A'', sv_status = nr_status n,
      sv_green = (nr_status n = ''success''), sv_preview = or_str (nr_error n) ''Dispatched via configured channels''\<rparr>"

definition joinable :: "json \<Rightarrow> bool" where
  "joinable j \<longleftrightarrow> j = JNull \<or> (\<exists>xs. j = JArr xs)"

lemma wire_of_null [simp]: "wire_of j = Wnull \<longleftrightarrow> j = JNull"
  by (cases j) simp_all

lemma date_iso: "numfmt_ok F \<Longrightarrow> date_time F (Some (Wstr (iso_string F t))) = Num t"
  by (simp add: numfmt_ok_def)

lemma rule_row_run:
  "ru_channels r \<noteq> JNull \<Longrightarrow> rule_row F (rule_wire r) w = (Inr (rule_shown F r), w)"
  "ru_channels r = JNull \<Longrightarrow> \<exists>m. rule_row F (rule_wire r) w = (Inl (JsError m), w)"
  by (simp_all add: rule_row_def rule_wire_def wobject_def member_of_def child_def await_def return_def rule_shown_def num_text_def)

lemma alert_row_run: "numfmt_ok F \<Longrightarrow> alert_row F L (alert_wire F a) w = (Inr (alert_shown F L a), w)"
  by (simp add: alert_row_def alert_wire_def wobject_def member_of_def child_def await_def return_def alert_shown_def num_text_def date_iso
      or_str_def del: date_time.simps)

lemma sent_row_run:
  assumes "numfmt_ok F"
  shows "joinable (nr_channels n) \<Longrightarrow> sent_row F L (sent_wire F n) w = (Inr (sent_shown F L n), w)"
    and "\<not> joinable (nr_channels n) \<Longrightarrow> \<exists>m. sent_row F L (sent_wire F n) w = (Inl (JsError m), w)"
proof -
  have get: "wget ''timestamp'' (sent_wire F n) = Some (Wstr (iso_string F (nr_timestamp n)))"
    "wget ''channels'' (sent_wire F n) = Some (wire_of (nr_channels n))" "wget ''status'' (sent_wire F n) = Some (Wstr (nr_status n))"
    "wget ''error'' (sent_wire F n) = map_option Wstr (nr_error n)" "sent_wire F n \<noteq> Wnull"
    by (cases "nr_error n"; simp add: sent_wire_def wobject_def)+
  show "sent_row F L (sent_wire F n) w = (Inr (sent_shown F L n), w)" if "joinable (nr_channels n)"
    using that assms
    by (cases "nr_error n"; cases "nr_channels n")
       (auto simp: sent_row_def get member_of_def child_def await_def return_def sent_shown_def date_iso joinable_def wor_def or_str_def
         simp del: date_time.simps)
  show "\<exists>m. sent_row F L (sent_wire F n) w = (Inl (JsError m), w)" if "\<not> joinable (nr_channels n)"
    using that by (cases "nr_channels n") (auto simp: sent_row_def get member_of_def await_def return_def throw_def joinable_def)
qed

lemma rows_settle:
  "(\<exists>y. rule_row F (rule_wire r) w = (Inr y, w)) \<or> (\<exists>m. rule_row F (rule_wire r) w = (Inl (JsError m), w))"
  "numfmt_ok F \<Longrightarrow> (\<exists>y. sent_row F L (sent_wire F n) w = (Inr y, w)) \<or> (\<exists>m. sent_row F L (sent_wire F n) w = (Inl (JsError m), w))"
  using rule_row_run(1) [of r F w] rule_row_run(2) [of r F w] sent_row_run(1) [of F n L w] sent_row_run(2) [of F n L w] by blast+

lemma map_io_run: "(\<And>x. x \<in> set xs \<Longrightarrow> f (enc x) w = (Inr (g x), w)) \<Longrightarrow> map_io f (map enc xs) w = (Inr (map g xs), w)"
  by (induction xs) (simp_all add: await_def)

lemma list_in_page [simp]: "list_in (Some (page_wire enc p)) = map enc (pg_data p)"
  by (simp add: list_in_def page_wire_def wobject_def wlist_def)

lemma first_page: "pg_data (page_of F (arg_or None 1) (arg_or None 20) xs) = take 20 xs"
proof -
  have "fmul (fsub 1 1) 20 = of_nat 0" "fadd (of_nat 0) 20 = of_nat 20"
    using dbl.fl_int [of 0] dbl.fl_int [of 20] by (simp_all add: fmul_def fsub_def fadd_def)
  then show ?thesis
    using js_slice_nat [of 0 20 xs] by (simp add: page_of_def arg_or_def Let_def)
qed

lemma answers:
  "list_in (Some (rules_answer F c)) = map rule_wire (take 20 (at_rules c))"
  "list_in (Some (alerts_answer F c)) = map (alert_wire F) (take 20 (at_history c))"
  "list_in (Some (sent_answer F c)) = map (sent_wire F) (take 20 (at_sent c))"
  by (simp_all add: rules_answer_def alerts_answer_def sent_answer_def listRules_route_def listRules_def getAlertHistory_route_def
      getAlertHistory_def notificationHistory_route_def getHistory_def first_page)

lemma alerts_page_run:
  fixes F :: numfmt and L :: "int js \<Rightarrow> string" and c :: alerting and w :: 'w
  assumes F: "numfmt_ok F"
  defines "rules \<equiv> take 20 (at_rules c)" and "deliveries \<equiv> take 20 (at_sent c)"
  shows "\<forall>r \<in> set rules. ru_channels r \<noteq> JNull \<Longrightarrow> \<forall>n \<in> set deliveries. joinable (nr_channels n) \<Longrightarrow>
      AlertsPage F L (Some (rules_answer F c)) (Some (alerts_answer F c)) (Some (sent_answer F c)) w =
        (Inr \<lparr>vw_rules = map (rule_shown F) rules, vw_alerts = map (alert_shown F L) (take 20 (at_history c)),
              vw_sent = map (sent_shown F L) deliveries\<rparr>, w)"
    and "\<not> ((\<forall>r \<in> set rules. ru_channels r \<noteq> JNull) \<and> (\<forall>n \<in> set deliveries. joinable (nr_channels n))) \<Longrightarrow>
      \<exists>m. AlertsPage F L (Some (rules_answer F c)) (Some (alerts_answer F c)) (Some (sent_answer F c)) w = (Inl (JsError m), w)"
proof -
  let ?page = "AlertsPage F L (Some (rules_answer F c)) (Some (alerts_answer F c)) (Some (sent_answer F c)) w"
  have alerts: "map_io (alert_row F L) (map (alert_wire F) (take 20 (at_history c))) w = (Inr (map (alert_shown F L) (take 20 (at_history c))), w)"
    by (rule map_io_run) (rule alert_row_run [OF F])
  show "?page = (Inr \<lparr>vw_rules = map (rule_shown F) rules, vw_alerts = map (alert_shown F L) (take 20 (at_history c)),
      vw_sent = map (sent_shown F L) deliveries\<rparr>, w)" if "\<forall>r \<in> set rules. ru_channels r \<noteq> JNull" "\<forall>n \<in> set deliveries. joinable (nr_channels n)"
  proof -
    have r: "map_io (rule_row F) (map rule_wire rules) w = (Inr (map (rule_shown F) rules), w)"
      by (rule map_io_run, rule rule_row_run(1)) (use that(1) in blast)
    have n: "map_io (sent_row F L) (map (sent_wire F) deliveries) w = (Inr (map (sent_shown F L) deliveries), w)"
      by (rule map_io_run, rule sent_row_run(1) [OF F]) (use that(2) in blast)
    show ?thesis
      unfolding AlertsPage_def answers rules_def [symmetric] deliveries_def [symmetric] await_def
      by (simp only: r alerts n prod.case sum.case return_apply)
  qed
  show "\<exists>m. ?page = (Inl (JsError m), w)" if bad: "\<not> ((\<forall>r \<in> set rules. ru_channels r \<noteq> JNull) \<and> (\<forall>n \<in> set deliveries. joinable (nr_channels n)))"
  proof (cases "\<forall>r \<in> set rules. ru_channels r \<noteq> JNull")
    case True
    have r: "map_io (rule_row F) (map rule_wire rules) w = (Inr (map (rule_shown F) rules), w)"
      by (rule map_io_run, rule rule_row_run(1)) (use True in blast)
    obtain n where n: "n \<in> set deliveries" "\<not> joinable (nr_channels n)" using bad True by blast
    have "\<exists>m. map_io (sent_row F L) (map (sent_wire F) deliveries) w = (Inl (JsError m), w)" (is "\<exists>m. ?failed m")
    proof (rule map_io_fails [where x = "sent_wire F n"])
      show "\<nexists>y. sent_row F L (sent_wire F n) w = (Inr y, w)" using sent_row_run(2) [OF F n(2), of L w] by auto
      show "(\<exists>y. sent_row F L x w = (Inr y, w)) \<or> (\<exists>s. sent_row F L x w = (Inl (JsError s), w))" if "x \<in> set (map (sent_wire F) deliveries)" for x
        using that unfolding set_map by (elim imageE, hypsubst, intro rows_settle(2) [OF F])
    qed (use n in simp)
    then obtain m where m: "?failed m" by blast
    show ?thesis
      unfolding AlertsPage_def answers rules_def [symmetric] deliveries_def [symmetric] await_def
      by (simp only: r alerts m prod.case sum.case) (rule exI, rule refl)
  next
    case False
    then obtain r where r: "r \<in> set rules" "ru_channels r = JNull" by blast
    have "\<exists>m. map_io (rule_row F) (map rule_wire rules) w = (Inl (JsError m), w)" (is "\<exists>m. ?failed m")
    proof (rule map_io_fails [where x = "rule_wire r"])
      show "\<nexists>y. rule_row F (rule_wire r) w = (Inr y, w)" using rule_row_run(2) [OF r(2), of F w] by auto
      show "(\<exists>y. rule_row F x w = (Inr y, w)) \<or> (\<exists>s. rule_row F x w = (Inl (JsError s), w))" if "x \<in> set (map rule_wire rules)" for x
        using that unfolding set_map by (elim imageE, hypsubst, intro rows_settle(1))
    qed (use r in simp)
    then obtain m where m: "?failed m" by blast
    show ?thesis
      unfolding AlertsPage_def answers rules_def [symmetric] await_def
      by (simp only: m prod.case sum.case) (rule exI, rule refl)
  qed
qed

text \<open>
  C40. When the alerts page comes up. Over the answers of the notification service it shows the first twenty rules, alerts and
  deliveries, if each of the rules has channels and the channels of each of the deliveries are a list or \<open>null\<close>; else
  rendering throws, and nothing of the page is left. What it shows of an alert has neither its value nor its status: the value is
  blank before the threshold, and the status is \<open>UNKNOWN\<close>, in green.
\<close>

theorem alerts_page_comes_up:
  fixes F :: numfmt and L :: "int js \<Rightarrow> string" and c :: alerting and w :: 'w
  assumes "numfmt_ok F"
  defines "page \<equiv> AlertsPage F L (Some (rules_answer F c)) (Some (alerts_answer F c)) (Some (sent_answer F c)) w"
    and "ok \<equiv> (\<forall>r \<in> set (take 20 (at_rules c)). ru_channels r \<noteq> JNull) \<and> (\<forall>n \<in> set (take 20 (at_sent c)). joinable (nr_channels n))"
  shows "(ok \<longrightarrow> page = (Inr \<lparr>vw_rules = map (rule_shown F) (take 20 (at_rules c)), vw_alerts = map (alert_shown F L) (take 20 (at_history c)),
      vw_sent = map (sent_shown F L) (take 20 (at_sent c))\<rparr>, w)) \<and>
    (\<not> ok \<longrightarrow> (\<exists>m. page = (Inl (JsError m), w))) \<and>
    (\<forall>a. hv_status (alert_shown F L a) = ''UNKNOWN'' \<and> \<not> hv_red (alert_shown F L a) \<and>
       hv_value (alert_shown F L a) = '' / '' @ num_text F (alert_record.al_threshold a))"
proof (intro conjI impI allI)
  assume o: ok
  show "page = (Inr \<lparr>vw_rules = map (rule_shown F) (take 20 (at_rules c)), vw_alerts = map (alert_shown F L) (take 20 (at_history c)),
      vw_sent = map (sent_shown F L) (take 20 (at_sent c))\<rparr>, w)"
    using o unfolding page_def ok_def by (elim conjE) (rule alerts_page_run(1) [OF assms(1)])
next
  assume "\<not> ok"
  then show "\<exists>m. page = (Inl (JsError m), w)"
    unfolding page_def ok_def by (rule alerts_page_run(2) [OF assms(1)])
qed (simp_all add: alert_shown_def)

section \<open>A rule that was made on the page\<close>

text \<open>The clients that a check uses, apart from the ones that send, which may do anything.\<close>

definition checks_run :: "'w notify_deps \<Rightarrow> bool" where
  "checks_run D \<longleftrightarrow> returns (uuid_v4 (nd_sys D)) \<and> returns (date_now (nd_sys D)) \<and> returns (nd_random_id D) \<and>
     (\<forall>n ls k. returns (prom_inc (nd_prom D) n ls k))"

lemma checks_runD:
  assumes "checks_run D"
  shows "returns (uuid_v4 (nd_sys D))" "returns (date_now (nd_sys D))" "returns (nd_random_id D)" "returns (prom_inc (nd_prom D) n ls k)"
  using assms by (simp_all add: checks_run_def)

lemma on_world_returnsE:
  assumes "returns m"
  obtains a w' where "on_world m (w, c) = (Inr a, (w', c))"
proof -
  obtain a w' where "m w = (Inr a, w')" using assms by (rule returnsE)
  then show thesis by (intro that [of a w']) (simp add: on_world_def)
qed

lemma dispatch_unsent:
  assumes D: "checks_run D" and ch: "iterated channels = None"
  shows "\<exists>w' n. dispatch D (Some alert) channels (w, c) = (Inl (JsError ''channels is not iterable''), (w', push_sent n c)) \<and>
    nr_channels n = channels \<and> nr_status n = ''success'' \<and> nr_error n = None"
proof -
  obtain rid w1 where rid: "on_world (nd_random_id D) (w, c) = (Inr rid, (w1, c))"
    by (rule on_world_returnsE [OF checks_runD(3) [OF D]])
  obtain now w2 where now: "on_world (date_now (nd_sys D)) (w1, c) = (Inr now, (w2, c))"
    by (rule on_world_returnsE [OF checks_runD(2) [OF D]])
  define n where "n = \<lparr>nr_id = rid, nr_alertId = (if dtruthy (map_of alert ''id'') then dtext (nd_fmt D) (map_of alert ''id'') else ''unknown''),
      nr_channels = channels, nr_status = ''success'', nr_timestamp = now, nr_error = None\<rparr>"
  have "dispatch D (Some alert) channels (w, c) = (Inl (JsError ''channels is not iterable''), (w2, push_sent n c))"
    by (simp add: dispatch_def await_def rid now ch Let_def mod_ctx_def n_def)
  then show ?thesis by (auto simp: n_def)
qed

lemma raise_alert_unsent:
  assumes D: "checks_run D" and ch: "iterated (ru_channels rule) = None"
  shows "\<exists>e w' c' n. raise_alert D now rule v msg (w, c) = (Inl e, (w', c')) \<and> at_sent c' = unshift_capped 100 n (at_sent c) \<and>
    nr_channels n = ru_channels rule \<and> nr_status n = ''success'' \<and> nr_error n = None"
proof -
  obtain u w1 where u: "on_world (uuid_v4 (nd_sys D)) (w, c) = (Inr u, (w1, c))"
    by (rule on_world_returnsE [OF checks_runD(1) [OF D]])
  obtain t w2 where t: "on_world (date_now (nd_sys D)) (w1, c) = (Inr t, (w2, c))"
    by (rule on_world_returnsE [OF checks_runD(2) [OF D]])
  define a where "a = \<lparr>alert_record.al_id = u, al_ruleId = ru_id rule, al_ruleName = ru_name rule, al_condition = ru_condition rule,
      al_threshold = ru_threshold rule, al_currentValue = v, al_message = msg, al_timestamp = t\<rparr>"
  define c1 where "c1 = (push_alert a c)\<lparr>at_lastTriggered := AList.update (ru_id rule) now (at_lastTriggered (push_alert a c))\<rparr>"
  obtain w3 where p: "on_world (prom_inc (nd_prom D) ''alerts_triggered_total'' [ru_name rule, condition_name (ru_condition rule)] 1) (w2, c1)
      = (Inr (), (w3, c1))"
    by (rule on_world_returnsE [OF checks_runD(4) [OF D]]) simp
  obtain w4 n where d: "dispatch D (Some (alert_fields a)) (ru_channels rule) (w3, c1) =
      (Inl (JsError ''channels is not iterable''), (w4, push_sent n c1))"
    and n: "nr_channels n = ru_channels rule" "nr_status n = ''success''" "nr_error n = None"
    using dispatch_unsent [OF D ch] by blast
  have "raise_alert D now rule v msg (w, c) = (Inl (JsError ''channels is not iterable''), (w4, push_sent n c1))"
    unfolding raise_alert_def Let_def await_def
    by (simp add: u t mod_ctx_def a_def [symmetric] c1_def [symmetric] p d)
  moreover have "at_sent (push_sent n c1) = unshift_capped 100 n (at_sent c)"
    by (simp add: push_sent_def c1_def push_alert_def)
  ultimately show ?thesis using n by blast
qed

text \<open>
  C39. A rule made on the page takes the page down. The form posts its channels as an object, and the service keeps it. When such a
  rule raises an alert, no channel is tried, the delivery is recorded as a success with that object for channels, and the
  error is dropped. From then on, as long as fewer than twenty deliveries are newer, the alerts page cannot be rendered, on any
  browser and whatever else the service holds.
\<close>

theorem page_rule_takes_page_down:
  fixes F :: numfmt and L :: "int js \<Rightarrow> string" and D :: "'w notify_deps"
  assumes F: "numfmt_ok F" and D: "checks_run D"
    and created: "createRule_route D posted (w0, c0) = (Inr rule, (w1, c1))" "pa_channels posted = jget ''channels'' (alert_form form)"
    and due: "ru_enabled rule" "\<not> debounced D now (last_time c (ru_id rule))"
    and stats: "nd_get D (summary_url D rule) w = (Inr stats, w2)" "evaluateCondition (nd_fmt D) rule stats = (True, v, msg)"
  shows "\<exists>w' c' n. check_rule D now rule (w, c) = (Inr (), (w', c')) \<and> at_sent c' = unshift_capped 100 n (at_sent c) \<and>
    nr_status n = ''success'' \<and> nr_error n = None \<and>
    (\<forall>later newer older (u :: 'u). at_sent later = newer @ n # older \<and> length newer < 20 \<longrightarrow>
       (\<exists>m. AlertsPage F L (Some (rules_answer F later)) (Some (alerts_answer F later)) (Some (sent_answer F later)) u = (Inl (JsError m), u)))"
proof -
  have form: "jget ''channels'' (alert_form form) =
      Some (JObj [(''email'', JBool (al_email form)), (''webhook'', JBool (al_webhook form)), (''slack'', JBool (al_slack form))])"
    by (simp add: alert_form_def)
  have ch: "ru_channels rule = JObj [(''email'', JBool (al_email form)), (''webhook'', JBool (al_webhook form)), (''slack'', JBool (al_slack form))]"
    using created(1) by (auto simp: createRule_route_def createRule_def await_eq_Inr_iff Let_def created(2) form)
  then have "iterated (ru_channels rule) = None" by simp
  from raise_alert_unsent [OF D this] obtain e w' c' n where r: "raise_alert D now rule v msg (w2, c) = (Inl e, (w', c'))"
    and n: "at_sent c' = unshift_capped 100 n (at_sent c)" "nr_channels n = ru_channels rule" "nr_status n = ''success''" "nr_error n = None"
    by blast
  have "check_rule D now rule (w, c) = (Inr (), (w', c'))"
    using due stats r by (simp add: check_rule_def await_def get_ctx_def on_world_def try_catch_def)
  moreover have "\<exists>m. AlertsPage F L (Some (rules_answer F later)) (Some (alerts_answer F later)) (Some (sent_answer F later)) u = (Inl (JsError m), u)"
    if "at_sent later = newer @ n # older \<and> length newer < 20" for later newer older and u :: 'u
  proof (rule alerts_page_run(2) [OF F])
    have "n \<in> set (take 20 (at_sent later))" using that by (cases "20 - length newer") auto
    moreover have "\<not> joinable (nr_channels n)" using n(2) ch by (simp add: joinable_def)
    ultimately show "\<not> ((\<forall>r \<in> set (take 20 (at_rules later)). ru_channels r \<noteq> JNull) \<and> (\<forall>n \<in> set (take 20 (at_sent later)). joinable (nr_channels n)))"
      by blast
  qed
  ultimately show ?thesis using n by blast
qed

section \<open>Both on a service that runs\<close>

definition delivered :: notification_record where
  "delivered = \<lparr>nr_id = ''r'', nr_alertId = ''a'', nr_channels = JArr [JStr ''email'', JStr ''slack''], nr_status = ''success'', nr_timestamp = 5, nr_error = None\<rparr>"

theorem alerts_page_comes_up_witness:
  "\<exists>view. AlertsPage world_numfmt (\<lambda>t. ''noon'') (Some (rules_answer world_numfmt (fresh_alerting\<lparr>at_sent := [delivered]\<rparr>)))
      (Some (alerts_answer world_numfmt (fresh_alerting\<lparr>at_sent := [delivered]\<rparr>)))
      (Some (sent_answer world_numfmt (fresh_alerting\<lparr>at_sent := [delivered]\<rparr>))) () = (Inr view, ()) \<and>
    map rv_badges (vw_rules view) = [[]] \<and> map sv_channels (vw_sent view) = [''email, slack'']"
proof -
  have "(\<forall>r \<in> set (take 20 (at_rules (fresh_alerting\<lparr>at_sent := [delivered]\<rparr>))). ru_channels r \<noteq> JNull) \<and>
      (\<forall>n \<in> set (take 20 (at_sent (fresh_alerting\<lparr>at_sent := [delivered]\<rparr>))). joinable (nr_channels n))"
    by (simp add: fresh_alerting_def DEFAULT_ALERT_RULES_def delivered_def joinable_def)
  moreover have "map rv_badges (map (rule_shown world_numfmt) (take 20 (at_rules (fresh_alerting\<lparr>at_sent := [delivered]\<rparr>)))) = [[]]"
    "map sv_channels (map (sent_shown world_numfmt (\<lambda>t. ''noon'')) (take 20 (at_sent (fresh_alerting\<lparr>at_sent := [delivered]\<rparr>)))) = [''email, slack'']"
    by (simp_all add: fresh_alerting_def DEFAULT_ALERT_RULES_def rule_shown_def sent_shown_def delivered_def or_str_def)
  ultimately show ?thesis
    using alerts_page_comes_up [OF world_numfmt_ok, of "fresh_alerting\<lparr>at_sent := [delivered]\<rparr>" "\<lambda>t. ''noon''" "()"] by simp
qed

definition filled_form :: alerts_page where
  "filled_form = \<lparr>al_isModalOpen = True, al_name = ''Errors'', al_condition = ''error_rate_above'', al_threshold = JNum 5, al_window = JNum 5,
     al_email = True, al_webhook = False, al_slack = False, al_ruleToDelete = None\<rparr>"

definition posted_rule :: partial_rule where
  "posted_rule = \<lparr>pa_id = None, pa_name = Some ''Errors'', pa_condition = Some Error_rate_above, pa_threshold = Some 5, pa_windowMinutes = None,
     pa_channels = jget ''channels'' (alert_form filled_form), pa_enabled = None\<rparr>"

theorem page_rule_takes_page_down_witness:
  "\<exists>rule w1 c1 w' c' n. createRule_route world_notify posted_rule (world_at 1000000, fresh_alerting) = (Inr rule, (w1, c1)) \<and>
     check_rule world_notify 1000000 rule (w1, c1) = (Inr (), (w', c')) \<and> at_sent c' = [n] \<and> nr_status n = ''success'' \<and>
     (\<exists>m. AlertsPage world_numfmt (\<lambda>t. ''noon'') (Some (rules_answer world_numfmt c')) (Some (alerts_answer world_numfmt c'))
        (Some (sent_answer world_numfmt c')) () = (Inl (JsError m), ()))"
proof -
  define res where "res = createRule_route world_notify posted_rule (world_at 1000000, fresh_alerting)"
  have "\<exists>rule w1 c1. res = (Inr rule, (w1, c1)) \<and> ru_enabled rule \<and> ru_condition rule = Error_rate_above \<and> ru_threshold rule = 5 \<and>
      at_lastTriggered c1 = [] \<and> at_sent c1 = []"
    by (simp add: res_def createRule_route_def createRule_def posted_rule_def world_notify_def world_sys_def await_def on_world_def mod_ctx_def
        Let_def fresh_alerting_def next_uuid_def world_at_def or_num_def)
  then obtain rule w1 c1 where made: "createRule_route world_notify posted_rule (world_at 1000000, fresh_alerting) = (Inr rule, (w1, c1))"
    and r: "ru_enabled rule" "ru_condition rule = Error_rate_above" "ru_threshold rule = 5" and c1: "at_lastTriggered c1 = []" "at_sent c1 = []"
    unfolding res_def by blast
  have D: "checks_run world_notify" by (simp add: checks_run_def world_notify_def returns_def world_sys_def world_prom_def)
  have due: "\<not> debounced world_notify 1000000 (last_time c1 (ru_id rule))"
    using dbl.fl_int [of 600] dbl.fl_int [of 600000] by (simp add: debounced_def world_notify_def fmul_def last_time_def c1)
  have stats: "nd_get world_notify (summary_url world_notify rule) w1 = (Inr [''errorRate'' \<mapsto> 10], w1)"
    by (simp add: world_notify_def)
  obtain v msg where fires: "evaluateCondition (nd_fmt world_notify) rule [''errorRate'' \<mapsto> 10] = (True, v, msg)"
    by (simp add: evaluateCondition_def r Let_def or_num_def)
  have "pa_channels posted_rule = jget ''channels'' (alert_form filled_form)" by (simp add: posted_rule_def)
  from page_rule_takes_page_down [OF world_numfmt_ok D made this r(1) due stats fires, where L = "\<lambda>t. ''noon''" and ?'u = unit]
  obtain w' c' n where run: "check_rule world_notify 1000000 rule (w1, c1) = (Inr (), (w', c'))" "at_sent c' = unshift_capped 100 n (at_sent c1)"
      "nr_status n = ''success''"
    and broken: "\<And>later newer older (u :: unit). at_sent later = newer @ n # older \<and> length newer < 20 \<Longrightarrow>
       \<exists>m. AlertsPage world_numfmt (\<lambda>t. ''noon'') (Some (rules_answer world_numfmt later)) (Some (alerts_answer world_numfmt later))
         (Some (sent_answer world_numfmt later)) u = (Inl (JsError m), u)"
    by blast
  have "at_sent c' = [n]" using run(2) c1(2) by (simp add: unshift_capped_def)
  then show ?thesis using made run(1,3) broken [of c' "[]" "[]" "()"] by auto
qed

end
