(* ===== verification/Spec2Isabelle.thy ===== *)
theory Spec2Isabelle
  imports Gateway_Events Auth_Properties Auth_Routes Storage_Properties Edge_Properties Analytics_Ingest Analytics_Reports Alerting
    Realtime Dashboard_Pages Shared_Helpers Platform_Sessions Wire_Formats Dead_Letters
    Metrics Session_Race Overview_Properties Dashboard_Layout Gateway_Pipeline Alerts_View
begin

text \<open>
  EdgeSphere, a self-hosted cloud platform: TypeScript services behind a gateway, and a dashboard. This
  library models the services and what the dashboard does with them, and proves what makes each part
  correct. Every definition follows the code it is named after; the places where the code does
  not do what it means to are stated by theorems as well.

  \<^bold>\<open>The program.\<close> Browsers and clients talk to the gateway (\<open>apps/gateway\<close>), which authenticates a
  request by bearer token or API key, limits its rate in Redis, and hands it to a service through a
  circuit breaker. The services are auth (\<open>apps/auth-service\<close>: accounts, sessions, API keys in Postgres and
  Redis), storage (\<open>apps/storage-service\<close>: buckets, files and uploads in parts over MinIO), the CDN
  edge (\<open>apps/cdn-service\<close>: files from the origin through two caches), cache invalidation
  (\<open>apps/cache-service\<close>), analytics (\<open>apps/analytics-service\<close>: events from Kafka into a table, and the
  reports), notifications (\<open>apps/notification-service\<close>: alert rules and their dispatch) and the
  websocket gateway (\<open>apps/websocket-gateway\<close>), which relays events to the dashboard
  (\<open>apps/dashboard\<close>). They interact by HTTP through the gateway, by Kafka topics (\<open>request.events\<close>,
  \<open>storage.events\<close>, \<open>alerts.triggered\<close> and their dead letters) and by Redis keys and channels.

  \<^bold>\<open>How it is modelled.\<close> A method is a function from the world to a thrown exception or a value, and the
  world after it (\<open>Prelude\<close>); the type of the world is a parameter. Clients of outside systems (Redis,
  repositories, MinIO, Kafka, \<open>fetch\<close>, \<open>jsonwebtoken\<close>, bcrypt, MD5, opossum, sharp, SWR, React) are
  records of operations, and what the code relies on of them is a named hypothesis of the theorems
  that need it; \<open>World\<close> and the witnesses run the same operations on concrete clients that satisfy them.
  State in memory (sessions of uploads, batches, rules, pages) is a second component of the world.
  Numbers that the code computes with fractions are doubles: \<open>Js_Number\<close> rounds every operation.

  \<^bold>\<open>The theories.\<close>
  \<^item> \<open>Prelude\<close>, \<open>Js_Text\<close>, \<open>Js_Number\<close>, \<open>Json\<close>, \<open>Js_Value\<close>, \<open>Codec\<close>: effects and their rules, strings, doubles,
    JSON with its parser and its round trip, the coercions of the language, base64.
  \<^item> \<open>Clients\<close>, \<open>Repo\<close>, \<open>World\<close>: the outside systems, the keyspace of Redis with the effect of each command, tables of rows,
    and a world in which their laws hold.
  \<^item> \<open>Gateway_RateLimit\<close>, \<open>Gateway_Config\<close>, \<open>Gateway_Auth\<close>, \<open>Gateway_Resilience\<close>, \<open>Gateway_Proxy\<close>, \<open>Gateway_Events\<close>:
    the gateway, one theory for each directory. The sliding window and the token bucket refine an abstract
    limiter; no request goes on to a service without a credential that vouches for it and a window that let it in, of the configured
    limit and for that user; dead letters are retried at most three times.
  \<^item> \<open>Dead_Letters\<close>: the consumer of the dead letters as a loop over the topics that it writes to itself, which ends.
  \<^item> \<open>Auth_Sessions\<close>, \<open>Auth_Service\<close>, \<open>Auth_Routes\<close>, \<open>Auth_Properties\<close>: accounts, token pairs and their rotation,
    API keys and the routes. At most five sessions, no token without one.
  \<^item> \<open>Storage_Service\<close>, \<open>Storage_Multipart\<close>, \<open>Storage_Uploads\<close>, \<open>Storage_Properties\<close>: buckets, files with versions,
    uploads in parts. One latest version of a key, parts in any order, reading back what was uploaded, access.
  \<^item> \<open>Cdn_Service\<close>, \<open>Cache_Invalidation\<close>, \<open>Edge_Properties\<close>: the edge and the purges.
  \<^item> \<open>Analytics\<close>, \<open>Analytics_Ingest\<close>, \<open>Analytics_Reports\<close>: the consumer hands every event that it accepted to exactly one insert,
    whatever the order of messages, ticks and answers; all are stored when the database takes every batch, and a batch that it
    refuses is gone without an error; the ratios and the search of the reports over a table of events.
  \<^item> \<open>Notifications\<close>, \<open>Alerting\<close>: rules, checks, dispatch; the debounce of the alerts and the bounded histories.
  \<^item> \<open>Realtime\<close>: the websocket gateway, the metrics of its window, the hooks of the dashboard.
  \<^item> \<open>Dashboard_Client\<close>, \<open>Dashboard_Pages\<close>: the session, the API client with the refresh of an expired session, the
    login, and the handlers of the pages, which settle whatever the API answers; a form closes only when its request went through.
  \<^item> \<open>Dashboard_Overview\<close>, \<open>Overview_Properties\<close>: the overview and the analytics page over the reports as JSON; what the cards
    show of the table of requests, and when the analytics page comes up at all.
  \<^item> \<open>Alerts_View\<close>: the tables of the alerts page over the answers of the notification service, and how a rule made on that
    page takes it down.
  \<^item> \<open>Session_Race\<close>: requests of the dashboard in flight together, as a step relation from one \<open>await\<close> to the next; two
    refreshes with one token cost the session, in every order. The request of \<open>Dashboard_Client\<close>, between the steps of the
    others, runs along this relation; the answers of the auth service are of the kinds it asks for.
  \<^item> \<open>Live_Updates\<close>: the connection of a tab to the websocket gateway, with the mounting of the hooks; a mounted hook hears
    every event while its connection lasts, and none after it was lost and came back.
  \<^item> \<open>Dashboard_Layout\<close>: the frame around the pages: navigation, the guard of the session, the palette.
  \<^item> \<open>Metrics\<close>: the collectors that the services register; no count can fail for its collector.
  \<^item> \<open>Shared_Helpers\<close>: the functions of \<open>packages/shared\<close>; the parts of an upload are the file.
  \<^item> \<open>Platform_Sessions\<close>: identities across services. A key that the auth service created makes the storage service
    work for its owner, through the gateway; an expired session of the dashboard is renewed by the rotation of
    the auth service, unless another request was first.
  \<^item> \<open>Gateway_Pipeline\<close>: the middleware and the routes of the gateway as one function of a request; what it lets through, and
    that it never lets the refresh of a session through.
  \<^item> \<open>Wire_Formats\<close>: the interfaces declared for the messages as data, and which fields of what the services send
    are missing or of another type.
  \<^item> This theory: what crosses services. The event of a request reaches the reports and the live metrics
    unchanged; the monitoring page shows what the gateway's health check found.

  \<^bold>\<open>Interfaces.\<close> Each contract between parts is a locale, interpreted on the model's own definitions: \<open>redis_server\<close>
  (a keyspace behind the commands), \<open>repository\<close> (rows behind the methods of a repository), \<open>object_store\<close> (objects
  behind MinIO), \<open>auth_platform\<close>, \<open>storage_platform\<close> and \<open>edge_platform\<close> (the clients of a service that work on one world),
  \<open>codec\<close> (encode and decode), \<open>js_rounding\<close> (rounding to doubles), \<open>event_table\<close> (rows a query selects from)
  and \<open>bounded_log\<close> (histories with the newest entry first).

  \<^bold>\<open>Bounds and fuel.\<close> \<open>scan_keys\<close> and \<open>scan_loop\<close> have as fuel the pages of a scan; a server promises to end it, and the
    hypotheses \<open>scan_ok\<close> say that the fuel covers it. The recursions of the JSON parser are bounded by the length
    of the text, which \<open>json_parse_show\<close> shows to be enough. The loop over the dead letters has no fuel: it is a
    \<open>while_option\<close>, and \<open>dead_letters_run_out\<close> shows that it returns. Sizes of files are below \<open>2 ^ 30\<close> parts of 5 MB,
    where the division of doubles still rounds up to the right count; other integers are within
    \<open>2 ^ 53\<close>, where doubles are exact; pages of lists are at most 1000.

  \<^bold>\<open>Not modelled.\<close> Module wiring, but for the gateway's, and \<open>main.ts\<close> files, connecting to brokers and databases at start, the text
    that Prometheus reads, the logger's configuration, React markup, charts, polling and styling,
    validation by declared types where a route states it only as a type, the Go edge server, the
    infrastructure and the tests. \<open>formatBytes\<close> of three pages is left out: it takes logarithms
    of doubles, whose last bit the language does not fix.
\<close>

section \<open>From a request to its report\<close>

text \<open>
  C32. What a request did reaches the reports and the live metrics unchanged. The text the gateway publishes
  for a finished request is accepted by the analytics service, which puts the event into its batch;
  its row has the time, the service, the method, the path, the status, the latency, the user, the address
  and the region of the request, whether the cache answered, the size of the response with 0 for
  none, and an id of its own. The websocket gateway sends the same event to its room and counts the
  same latency, status and cache hit in its window.
\<close>

theorem request_reaches_reports:
  assumes F: "numfmt_ok F" and iso: "iso_string F time \<noteq> []"
    and A: "an_fmt A = F" "sys_ok (an_sys A) clk gen v"
    and W: "\<And>u. date_now (ws_sys W) u = (Inr (now u), u)"
    and c: "length (co_batch c) < 999"
    and emit: "ws_emit W (Room ''events'') ''request_event'' (Event (request_event F r time latency region)) u = (Inr (), u')"
  defines "event \<equiv> request_event F r time latency region"
  shows "an_eachMessage ''request.events'' (Some (show_json event)) c = (None, c\<lparr>co_batch := co_batch c @ [event]\<rparr>) \<and>
    (\<exists>w'. entity_of A event w =
       (Inr \<lparr>ee_time = Some (Time (Num time)), ee_service = Some (Plain (JStr (service_of_path (fin_url r)))),
             ee_method = Some (Plain (JStr (fin_method r))), ee_path = Some (Plain (JStr (fin_url r))),
             ee_status = Some (Plain (JNum (int (fin_status r)))), ee_latencyMs = Some (Plain (JNum latency)),
             ee_userId = map_option Plain (user_of r), ee_ip = Some (Plain (JStr (or_str (fin_ip r) ''unknown''))), ee_country = None,
             ee_cacheHit = Some (Plain (JBool (served_from_cache r))), ee_bytes = Some (Plain (JNum (content_bytes r))),
             ee_edgeRegion = Some (Plain (JStr (or_str region ''global''))), ee_requestId = Some (Plain (JStr (gen w)))\<rparr>, w')) \<and>
    ws_eachMessage W ''request.events'' (Some (show_json event)) (u, recent) =
      (Inr (), (u', recent @ [\<lparr>sa_receivedAt = now u', sa_latencyMs = latency, sa_cacheHit = served_from_cache r,
                               sa_status = int (fin_status r)\<rparr>]))"
proof (intro conjI)
  show "an_eachMessage ''request.events'' (Some (show_json event)) c = (None, c\<lparr>co_batch := co_batch c @ [event]\<rparr>)"
    using c by (simp add: an_eachMessage_def Let_def)
  obtain w' where w': "uuid_v4 (an_sys A) w = (Inr (gen w), w')" by (rule sys_ok_uuid [OF A(2)])
  have time: "date_parse F (iso_string F time) = Num time" using F by (simp add: numfmt_ok_def)
  show "\<exists>w'. entity_of A event w =
       (Inr \<lparr>ee_time = Some (Time (Num time)), ee_service = Some (Plain (JStr (service_of_path (fin_url r)))),
             ee_method = Some (Plain (JStr (fin_method r))), ee_path = Some (Plain (JStr (fin_url r))),
             ee_status = Some (Plain (JNum (int (fin_status r)))), ee_latencyMs = Some (Plain (JNum latency)),
             ee_userId = map_option Plain (user_of r), ee_ip = Some (Plain (JStr (or_str (fin_ip r) ''unknown''))), ee_country = None,
             ee_cacheHit = Some (Plain (JBool (served_from_cache r))), ee_bytes = Some (Plain (JNum (content_bytes r))),
             ee_edgeRegion = Some (Plain (JStr (or_str region ''global''))), ee_requestId = Some (Plain (JStr (gen w)))\<rparr>, w')"
    using bytes_value_plain [of r] by (intro exI [of _ w'])
       (simp add: entity_of_def event_def read_of_def request_event_object request_event_get iso A(1) time plain_of_def
         await_Inr [where m = "uuid_v4 (an_sys A)", OF w'] split: if_splits)
  show "ws_eachMessage W ''request.events'' (Some (show_json event)) (u, recent) =
      (Inr (), (u', recent @ [\<lparr>sa_receivedAt = now u', sa_latencyMs = latency, sa_cacheHit = served_from_cache r,
                               sa_status = int (fin_status r)\<rparr>]))"
    using emit by (simp add: ws_eachMessage_def emitRequestEvent_def event_def try_catch_def await_def on_world_def W read_of_def
        request_event_object request_event_get sample_of_def num_or_zero_def)
qed

text \<open>A request served by the CDN, its event in a world with a clock and a broker.\<close>

definition cdn_request :: finished where
  "cdn_request = \<lparr>fin_method = ''GET'', fin_url = ''/v1/cdn/b/k'', fin_ip = Some ''10.0.0.1'', fin_user = None, fin_status = 200,
     fin_headers = [(''x-cache'', ''HIT''), (''content-length'', ''42'')]\<rparr>"

definition report_deps :: "world analytics_deps" where
  "report_deps = \<lparr>an_query = (\<lambda>q ps. return []), an_insert = (\<lambda>es. return ()), an_sys = world_sys, an_fmt = world_numfmt\<rparr>"

theorem request_reaches_reports_witness:
  "\<exists>w' e. entity_of report_deps (request_event world_numfmt cdn_request 100 7 None) (world_at 0) = (Inr e, w') \<and>
     ee_status e = Some (Plain (JNum 200)) \<and> ee_latencyMs e = Some (Plain (JNum 7)) \<and> ee_cacheHit e = Some (Plain (JBool True)) \<and>
     ee_bytes e = Some (Plain (JNum 42))"
proof -
  have iso: "iso_string world_numfmt 100 \<noteq> []" and A: "an_fmt report_deps = world_numfmt"
    and sys: "sys_ok (an_sys report_deps) w_now next_uuid w_db"
    by (simp_all add: world_numfmt_def report_deps_def)
  have W: "\<And>u. date_now (ws_sys world_ws) u = (Inr (w_now u), u)" by (simp add: world_ws_def world_sys_def)
  obtain u' where emit: "ws_emit world_ws (Room ''events'') ''request_event''
      (Event (request_event world_numfmt cdn_request 100 7 None)) (world_at 0) = (Inr (), u')"
    by (simp add: world_ws_def)
  have c: "length (co_batch \<lparr>co_batch = [], co_isProcessing = False\<rparr>) < 999" by simp
  from conjunct1 [OF conjunct2 [OF request_reaches_reports [OF world_numfmt_ok iso A sys W c emit, where w = "world_at 0"]]]
  obtain w' where "entity_of report_deps (request_event world_numfmt cdn_request 100 7 None) (world_at 0) =
       (Inr \<lparr>ee_time = Some (Time (Num 100)), ee_service = Some (Plain (JStr (service_of_path (fin_url cdn_request)))),
             ee_method = Some (Plain (JStr (fin_method cdn_request))), ee_path = Some (Plain (JStr (fin_url cdn_request))),
             ee_status = Some (Plain (JNum (int (fin_status cdn_request)))), ee_latencyMs = Some (Plain (JNum 7)),
             ee_userId = map_option Plain (user_of cdn_request), ee_ip = Some (Plain (JStr (or_str (fin_ip cdn_request) ''unknown''))),
             ee_country = None, ee_cacheHit = Some (Plain (JBool (served_from_cache cdn_request))),
             ee_bytes = Some (Plain (JNum (content_bytes cdn_request))), ee_edgeRegion = Some (Plain (JStr (or_str None ''global''))),
             ee_requestId = Some (Plain (JStr (next_uuid (world_at 0))))\<rparr>, w')" by blast
  moreover have "served_from_cache cdn_request" "content_bytes cdn_request = 42" "fin_status cdn_request = 200"
    by code_simp+
  ultimately show ?thesis by simp
qed

section \<open>From the health of the services to the monitoring page\<close>

lemma check_services_each:
  assumes "sys_ok S clk gen (\<lambda>w. w)" and "answers get up"
  shows "\<exists>infos. check_services CB S cfg get i services wc = (Inr (zip services infos), wc) \<and> length infos = length services \<and>
    (\<forall>k < length services. (si_status (infos ! k) = Up) = service_up CB up cfg wc (i + k) (services ! k))"
proof (induction services arbitrary: i)
  case (Cons service rest)
  obtain info where info: "check_service CB S cfg get i service wc = (Inr info, wc)"
    "si_status info = Up \<longleftrightarrow> service_up CB up cfg wc i service"
    using check_service_run [OF assms] by blast
  obtain infos where infos: "check_services CB S cfg get (i + 1) rest wc = (Inr (zip rest infos), wc)" "length infos = length rest"
    "\<forall>k < length rest. (si_status (infos ! k) = Up) = service_up CB up cfg wc (i + 1 + k) (rest ! k)"
    using Cons.IH [of "i + 1"] by blast
  show ?case
    using info infos by (intro exI [of _ "info # infos"]) (auto simp: await_def nth_Cons' less_Suc_eq_0_disj)
qed simp

lemma status_name_up [simp]: "status_name st = ''up'' \<longleftrightarrow> st = Up"
  by (cases st) simp_all

text \<open>
  The monitoring page shows what the gateway found. Fed with the gateway's report as it comes over the
  wire, the card of each upstream service is \<open>Healthy\<close> exactly when its probe succeeded and its breaker
  is closed, and \<open>Down\<close> otherwise. The card of the gateway itself is always \<open>Healthy\<close>, with
  every service down as well.
\<close>

theorem monitoring_cards:
  assumes "sys_ok S clk gen (\<lambda>w. w)" and "answers get up"
  shows "\<exists>rep. check_health CB S cfg get startTime wc = (Inr rep, wc) \<and>
    gateway_card (json_parse (show_json (report_json F rep))) = Some True \<and>
    service_card ''auth-service'' (json_parse (show_json (report_json F rep))) = Some (service_up CB up cfg wc 0 ''auth-service'') \<and>
    service_card ''storage-service'' (json_parse (show_json (report_json F rep))) = Some (service_up CB up cfg wc 1 ''storage-service'') \<and>
    service_card ''analytics-service'' (json_parse (show_json (report_json F rep))) = Some (service_up CB up cfg wc 2 ''analytics-service'')"
proof -
  obtain infos where infos: "check_services CB S cfg get 0 health_services wc = (Inr (zip health_services infos), wc)"
    "length infos = length health_services"
    "\<forall>k < length health_services. (si_status (infos ! k) = Up) = service_up CB up cfg wc (0 + k) (health_services ! k)"
    using check_services_each [OF assms] by blast
  then obtain a b c where abc: "infos = [a, b, c]"
    by (auto simp: health_services_def length_Suc_conv)
  have up: "(si_status a = Up) = service_up CB up cfg wc 0 ''auth-service''"
    "(si_status b = Up) = service_up CB up cfg wc 1 ''storage-service''"
    "(si_status c = Up) = service_up CB up cfg wc 2 ''analytics-service''"
    using infos(3) [rule_format, of 0] infos(3) [rule_format, of 1] infos(3) [rule_format, of 2]
    by (simp_all add: abc health_services_def flip: numeral_2_eq_2)
  obtain rep where rep: "check_health CB S cfg get startTime wc = (Inr rep, wc)" "hr_services rep = zip health_services infos"
      "hr_status rep \<noteq> Unhealthy"
    using infos(1) by (cases wc) (auto simp: check_health_def Let_def await_def on_world_def sys_ok_now [OF assms(1)])
  have "health_name (hr_status rep) \<noteq> ''unhealthy''" using rep(3) by (cases "hr_status rep") simp_all
  then show ?thesis
    unfolding json_parse_show using rep(1,2) up
    by (intro exI [of _ rep]) (simp add: gateway_card_def service_card_def report_json_def opt_get_def info_json_def abc health_services_def)
qed

theorem monitoring_cards_witness:
  "\<exists>rep. check_health world_breaker (world_sys\<lparr>uuid_v4 := return ''id''\<rparr>) (\<lambda>_. None) (\<lambda>_. return False) 0 (world_at 0, []) =
      (Inr rep, (world_at 0, [])) \<and>
    gateway_card (json_parse (show_json (report_json world_numfmt rep))) = Some True \<and>
    service_card ''auth-service'' (json_parse (show_json (report_json world_numfmt rep))) = Some False"
proof -
  have sys: "sys_ok (world_sys\<lparr>uuid_v4 := return ''id''\<rparr>) w_now (\<lambda>_. ''id'') (\<lambda>w. w)"
    by (simp add: sys_ok_def world_sys_def)
  have "answers (\<lambda>_. return False) (\<lambda>_. Some False)" by (simp add: answers_def)
  from monitoring_cards [OF sys this, of world_breaker "\<lambda>_. None" 0 "(world_at 0, [])" world_numfmt] show ?thesis
    by (auto simp: service_up_def)
qed

end
